(* ===== verification/Base.thy ===== *)
theory Base
  imports Complex_Main "HOL-Library.Multiset" "HOL-Library.List_Lexorder" "HOL-Library.Char_ord" "HOL-Library.Word"
begin

text \<open>
  The prelude of the development: the collections its proofs share, Go's fixed-width
  integers, and the row tables on which the database model is built.

  A Go function that returns \<^verbatim>\<open>(value, error)\<close> is a function into a sum type: \<open>Inl\<close> carries
  the error and \<open>Inr\<close> the value. A Go string or byte slice is a HOL \<open>string\<close>, one character
  per byte. A Go \<^verbatim>\<open>int\<close> is an integer, wrapped to 64 bits wherever the code computes with it.
\<close>

named_theorems inv_intros \<open>preservation of a predicate by the statements and the operations\<close>
named_theorems world_simps \<open>how the operations act on the parts of the world they do not own\<close>

section \<open>Go integers\<close>

definition max_int64 :: int where
  "max_int64 = 9223372036854775807"

definition min_int64 :: int where
  "min_int64 = -9223372036854775808"

definition wrap64 :: "int \<Rightarrow> int" where
  \<comment> \<open>two's complement: what an arithmetic operation on Go's \<^verbatim>\<open>int\<close> leaves\<close>
  "wrap64 x = signed_take_bit 63 x"

definition int64_ok :: "int \<Rightarrow> bool" where
  "int64_ok x \<longleftrightarrow> min_int64 \<le> x \<and> x \<le> max_int64"

lemma wrap64_id: "int64_ok x \<Longrightarrow> wrap64 x = x"
  unfolding wrap64_def int64_ok_def min_int64_def max_int64_def
  by (rule signed_take_bit_int_eq_self) simp_all

lemma wrap64_mult: "wrap64 (wrap64 a * b) = wrap64 (a * b)"
  by (metis wrap64_def signed_take_bit_mult signed_take_bit_signed_take_bit min.idem)

lemma wrap64_ok: "int64_ok (wrap64 x)"
  using signed_take_bit_int_greater_eq_minus_exp [of 63 x] signed_take_bit_int_less_exp [of 63 x]
  by (simp add: wrap64_def int64_ok_def min_int64_def max_int64_def)

section \<open>Results\<close>

abbreviation is_ok :: "'e + 'a \<Rightarrow> bool" where
  "is_ok r \<equiv> \<not> isl r"

lemma is_ok_Inr [simp]: "is_ok (Inr x)" and not_is_ok_Inl [simp]: "\<not> is_ok (Inl e)"
  by simp_all

lemma is_okE: "is_ok r \<Longrightarrow> (\<And>x. r = Inr x \<Longrightarrow> P) \<Longrightarrow> P"
  by (cases r) auto

section \<open>Rows found, changed and deleted by their key\<close>

definition find_by :: "('r \<Rightarrow> 'k) \<Rightarrow> 'k \<Rightarrow> 'r list \<Rightarrow> 'r option" where
  "find_by key k rows = List.find (\<lambda>r. key r = k) rows"

definition upd_by :: "('r \<Rightarrow> 'k) \<Rightarrow> 'k \<Rightarrow> ('r \<Rightarrow> 'r) \<Rightarrow> 'r list \<Rightarrow> 'r list" where
  "upd_by key k f rows = map (\<lambda>r. if key r = k then f r else r) rows"

lemma upd_by_upd_by:
  "(\<And>r. key r = k \<Longrightarrow> key (f r) = k) \<Longrightarrow> upd_by key k g (upd_by key k f rows) = upd_by key k (\<lambda>r. g (f r)) rows"
  by (auto simp: upd_by_def)

definition del_by :: "('r \<Rightarrow> 'k) \<Rightarrow> 'k \<Rightarrow> 'r list \<Rightarrow> 'r list" where
  "del_by key k rows = filter (\<lambda>r. key r \<noteq> k) rows"

definition add_row :: "'r \<Rightarrow> 'r list \<Rightarrow> 'r list" where
  "add_row r rows = rows @ [r]"

definition keys_ok :: "('r \<Rightarrow> 'k) \<Rightarrow> 'r list \<Rightarrow> bool" where
  "keys_ok key rows \<longleftrightarrow> distinct (map key rows)"

lemma find_SomeD: "List.find P xs = Some x \<Longrightarrow> x \<in> set xs \<and> P x"
  by (induction xs) (auto split: if_splits)

lemma find_None_D: "List.find P xs = None \<Longrightarrow> x \<in> set xs \<Longrightarrow> \<not> P x"
  by (induction xs) (auto split: if_splits)

lemma find_by_Nil [simp]: "find_by key k [] = None"
  by (simp add: find_by_def)

lemma find_by_Cons [simp]:
  "find_by key k (r # rows) = (if key r = k then Some r else find_by key k rows)"
  by (simp add: find_by_def)

lemma find_by_append:
  "find_by key k (xs @ ys) = (case find_by key k xs of Some r \<Rightarrow> Some r | None \<Rightarrow> find_by key k ys)"
  by (induction xs) simp_all

lemma find_by_SomeD: "find_by key k rows = Some r \<Longrightarrow> r \<in> set rows \<and> key r = k"
  by (induction rows) (auto split: if_splits)

lemma find_by_None_iff: "find_by key k rows = None \<longleftrightarrow> k \<notin> key ` set rows"
  by (induction rows) auto

lemma find_by_Some_iff:
  "keys_ok key rows \<Longrightarrow> find_by key k rows = Some r \<longleftrightarrow> r \<in> set rows \<and> key r = k"
  by (induction rows) (auto simp: keys_ok_def rev_image_eqI)

lemma find_by_upd_by:
  assumes "\<And>r. key (f r) = key r"
  shows "find_by key k' (upd_by key k f rows)
    = (if k' = k then map_option f (find_by key k rows) else find_by key k' rows)"
  by (induction rows) (auto simp: upd_by_def assms)

lemma map_upd_by:
  assumes "\<And>r. g (f r) = g r"
  shows "map g (upd_by key k f rows) = map g rows"
  by (simp add: upd_by_def assms)

lemma find_by_add_row:
  "find_by key (key r) rows = None \<Longrightarrow>
    find_by key k (add_row r rows) = (if k = key r then Some r else find_by key k rows)"
  by (auto simp: add_row_def find_by_append split: option.splits)

lemma set_upd_byE:
  assumes "r \<in> set (upd_by key k f rows)"
  obtains "r \<in> set rows" "key r \<noteq> k" | r0 where "r0 \<in> set rows" "key r0 = k" "r = f r0"
  using assms by (auto simp: upd_by_def split: if_splits)

lemma find_by_del_by: "find_by key k' (del_by key k rows) = (if k' = k then None else find_by key k' rows)"
  by (induction rows) (auto simp: del_by_def)

lemma set_del_by [simp]: "set (del_by key k rows) = {r \<in> set rows. key r \<noteq> k}"
  by (auto simp: del_by_def)

lemma set_add_row [simp]: "set (add_row r rows) = insert r (set rows)"
  by (simp add: add_row_def)

lemma keys_ok_upd_by: "(\<And>r. key (f r) = key r) \<Longrightarrow> keys_ok key rows \<Longrightarrow> keys_ok key (upd_by key k f rows)"
  by (simp add: keys_ok_def map_upd_by)

lemma keys_ok_del_by: "keys_ok key rows \<Longrightarrow> keys_ok key (del_by key' k rows)"
  by (simp add: keys_ok_def del_by_def distinct_map_filter)

lemma keys_ok_add_row:
  "keys_ok key rows \<Longrightarrow> find_by key (key r) rows = None \<Longrightarrow> keys_ok key (add_row r rows)"
  by (simp add: keys_ok_def add_row_def find_by_None_iff)

subsection \<open>The interface of a table\<close>

text \<open>
  What the queries of the program rely on when they address a table by its primary key: a
  lookup sees exactly the last write to its key, and an operation on one key leaves the others
  alone. \<open>row_table\<close> states it for any carrier; the tables of the store interpret it.
\<close>

locale row_table =
  fixes key :: "'r \<Rightarrow> 'k"
    and get :: "'k \<Rightarrow> 't \<Rightarrow> 'r option"
    and add :: "'r \<Rightarrow> 't \<Rightarrow> 't"
    and modify :: "'k \<Rightarrow> ('r \<Rightarrow> 'r) \<Rightarrow> 't \<Rightarrow> 't"
    and remove :: "'k \<Rightarrow> 't \<Rightarrow> 't"
    and ok :: "'t \<Rightarrow> bool"
  assumes get_key: "get k t = Some r \<Longrightarrow> key r = k"
    and get_add: "get (key r) t = None \<Longrightarrow> get k (add r t) = (if k = key r then Some r else get k t)"
    and get_modify: "(\<And>r. key (f r) = key r) \<Longrightarrow>
      get k' (modify k f t) = (if k' = k then map_option f (get k t) else get k' t)"
    and get_remove: "get k' (remove k t) = (if k' = k then None else get k' t)"
    and ok_add: "ok t \<Longrightarrow> get (key r) t = None \<Longrightarrow> ok (add r t)"
    and ok_modify: "(\<And>r. key (f r) = key r) \<Longrightarrow> ok t \<Longrightarrow> ok (modify k f t)"
    and ok_remove: "ok t \<Longrightarrow> ok (remove k t)"
begin

lemma get_modify_same:
  "(\<And>r. key (f r) = key r) \<Longrightarrow> get k t = Some r \<Longrightarrow> get k (modify k f t) = Some (f r)"
  by (simp add: get_modify)

lemma get_modify_other:
  "(\<And>r. key (f r) = key r) \<Longrightarrow> k' \<noteq> k \<Longrightarrow> get k' (modify k f t) = get k' t"
  by (simp add: get_modify)

lemma get_modify_modify:
  "(\<And>r. key (f r) = key r) \<Longrightarrow> (\<And>r. key (g r) = key r) \<Longrightarrow> get k t = Some r \<Longrightarrow>
    get k (modify k g (modify k f t)) = Some (g (f r))"
  by (simp add: get_modify)

lemma get_add_same: "get (key r) t = None \<Longrightarrow> get (key r) (add r t) = Some r"
  by (simp add: get_add)

lemma get_add_keeps: "get (key r) t = None \<Longrightarrow> get k t = Some s \<Longrightarrow> get k (add r t) = Some s"
  by (auto simp: get_add)

lemma get_remove_same: "get k (remove k t) = None"
  by (simp add: get_remove)

end

lemma row_table_list:
  "row_table key (find_by key) add_row (upd_by key) (del_by key) (keys_ok key)"
  by unfold_locales
    (blast dest: find_by_SomeD, erule find_by_add_row, erule find_by_upd_by, rule find_by_del_by,
      erule keys_ok_add_row, assumption, erule keys_ok_upd_by, assumption, erule keys_ok_del_by)

end
