(* ===== verification/Go_Strings.thy ===== *)
theory Go_Strings
  imports Base
begin

text \<open>
  The parts of Go's \<^verbatim>\<open>strings\<close>, \<^verbatim>\<open>strconv\<close> and \<^verbatim>\<open>unicode/utf8\<close> packages the program uses, on byte
  strings: one step of UTF-8 decoding, the encoding of a code point, \<^verbatim>\<open>TrimPrefix\<close>, \<^verbatim>\<open>TrimSpace\<close>,
  \<^verbatim>\<open>Atoi\<close> and the decimal rendering of an \<^verbatim>\<open>int\<close>.
\<close>

abbreviation code :: "char \<Rightarrow> nat" where
  "code c \<equiv> of_char c"

abbreviation byte :: "nat \<Rightarrow> char" where
  "byte n \<equiv> char_of n"

section \<open>UTF-8\<close>

definition in_range :: "nat \<Rightarrow> nat \<Rightarrow> char \<Rightarrow> bool" where
  "in_range lo hi c \<longleftrightarrow> lo \<le> code c \<and> code c \<le> hi"

definition cont_byte :: "char \<Rightarrow> bool" where
  "cont_byte = in_range 128 191"

definition second_ok :: "char \<Rightarrow> char \<Rightarrow> bool" where
  \<comment> \<open>the range the first byte accepts for the second one: no overlong form, no surrogate,
     nothing beyond U+10FFFF\<close>
  "second_ok b0 b1 =
    (if code b0 = 224 then in_range 160 191 b1
     else if code b0 = 237 then in_range 128 159 b1
     else if code b0 = 240 then in_range 144 191 b1
     else if code b0 = 244 then in_range 128 143 b1
     else cont_byte b1)"

text \<open>
  \<open>utf8_take\<close> splits the first well-formed code point off a byte string, as
  \<^verbatim>\<open>utf8.DecodeRune\<close> does; \<open>None\<close> is \<^verbatim>\<open>(RuneError, 1)\<close>, or \<^verbatim>\<open>(RuneError, 0)\<close> for the empty string.
\<close>

fun utf8_take :: "string \<Rightarrow> (string \<times> string) option" where
  "utf8_take [] = None"
| "utf8_take (b0 # s) =
    (if code b0 < 128 then Some ([b0], s)
     else if in_range 194 223 b0 then
       (case s of b1 # s1 \<Rightarrow> if cont_byte b1 then Some ([b0, b1], s1) else None | [] \<Rightarrow> None)
     else if in_range 224 239 b0 then
       (case s of b1 # b2 # s2 \<Rightarrow>
          if second_ok b0 b1 \<and> cont_byte b2 then Some ([b0, b1, b2], s2) else None
        | _ \<Rightarrow> None)
     else if in_range 240 244 b0 then
       (case s of b1 # b2 # b3 # s3 \<Rightarrow>
          if second_ok b0 b1 \<and> cont_byte b2 \<and> cont_byte b3 then Some ([b0, b1, b2, b3], s3) else None
        | _ \<Rightarrow> None)
     else None)"

lemma utf8_take_SomeD: "utf8_take s = Some (r, t) \<Longrightarrow> s = r @ t \<and> r \<noteq> []"
  by (cases s) (auto split: if_splits list.splits)

lemma utf8_take_length: "utf8_take s = Some (r, t) \<Longrightarrow> length t < length s"
  by (drule utf8_take_SomeD) auto

lemma utf8_take_append: "utf8_take s = Some (r, t) \<Longrightarrow> utf8_take (r @ u) = Some (r, u)"
  by (cases s) (auto split: if_splits list.splits)

lemma utf8_take_high: "utf8_take (b0 # s) = Some (r, t) \<Longrightarrow> 128 \<le> code b0 \<Longrightarrow> \<forall>b \<in> set r. 128 \<le> code b"
  by (auto simp: second_ok_def cont_byte_def in_range_def split: if_splits list.splits)

function utf8_ok :: "string \<Rightarrow> bool" where
  "utf8_ok s = (s = [] \<or> (case utf8_take s of None \<Rightarrow> False | Some (_, t) \<Rightarrow> utf8_ok t))"
  by pat_completeness auto
termination
  by (relation "measure length") (auto dest: utf8_take_length)

declare utf8_ok.simps [simp del]

lemma utf8_ok_Nil [simp]: "utf8_ok []"
  by (simp add: utf8_ok.simps [of "[]"])

lemma utf8_ok_ascii: "code c < 128 \<Longrightarrow> utf8_ok (c # s) = utf8_ok s"
  by (simp add: utf8_ok.simps [of "c # s"])

lemma utf8_ok_all_ascii: "\<forall>c \<in> set s. code c < 128 \<Longrightarrow> utf8_ok s"
  by (induction s) (simp_all add: utf8_ok_ascii)

text \<open>The bytes of a code point; a surrogate or an out-of-range number becomes U+FFFD.\<close>

definition rune_error :: string where
  "rune_error = [byte 239, byte 191, byte 189]"

definition utf8_encode :: "nat \<Rightarrow> string" where
  "utf8_encode n =
    (if n < 128 then [byte n]
     else if n < 2048 then [byte (192 + n div 64), byte (128 + n mod 64)]
     else if 55296 \<le> n \<and> n < 57344 \<or> 1114111 < n then rune_error
     else if n < 65536 then
       [byte (224 + n div 4096), byte (128 + n div 64 mod 64), byte (128 + n mod 64)]
     else
       [byte (240 + n div 262144), byte (128 + n div 4096 mod 64),
        byte (128 + n div 64 mod 64), byte (128 + n mod 64)])"

section \<open>Trimming\<close>

fun has_prefix :: "string \<Rightarrow> string \<Rightarrow> bool" where
  "has_prefix [] s = True"
| "has_prefix (p # ps) [] = False"
| "has_prefix (p # ps) (c # s) = (p = c \<and> has_prefix ps s)"

lemma has_prefix_iff: "has_prefix p s \<longleftrightarrow> (\<exists>t. s = p @ t)"
  by (induction p s rule: has_prefix.induct) auto

definition TrimPrefix :: "string \<Rightarrow> string \<Rightarrow> string" where
  "TrimPrefix s p = (if has_prefix p s then drop (length p) s else s)"

definition spaces :: "string list" where
  \<comment> \<open>the encodings of the code points \<^verbatim>\<open>unicode.IsSpace\<close> accepts\<close>
  "spaces = map (map byte)
    ([[9], [10], [11], [12], [13], [32], [194, 133], [194, 160], [225, 154, 128]]
     @ map (\<lambda>b. [226, 128, b]) [128 ..< 139]
     @ [[226, 128, 168], [226, 128, 169], [226, 128, 175], [226, 129, 159], [227, 128, 128]])"

lemma spaces_nonempty: "p \<in> set spaces \<Longrightarrow> p \<noteq> []"
  by (auto simp: spaces_def)

function strip_any :: "string list \<Rightarrow> string \<Rightarrow> string" where
  "strip_any ps s =
    (case List.find (\<lambda>p. p \<noteq> [] \<and> has_prefix p s) ps of
       None \<Rightarrow> s
     | Some p \<Rightarrow> strip_any ps (drop (length p) s))"
  by pat_completeness auto
termination
  by (relation "measure (length \<circ> snd)")
    (auto simp: find_Some_iff has_prefix_iff)

declare strip_any.simps [simp del]

definition TrimSpace :: "string \<Rightarrow> string" where
  "TrimSpace s = rev (strip_any (map rev spaces) (rev (strip_any spaces s)))"

section \<open>Decimal numbers\<close>

definition digit :: "nat \<Rightarrow> char" where
  "digit n = byte (48 + n)"

definition is_digit :: "char \<Rightarrow> bool" where
  "is_digit = in_range 48 57"

lemma code_digit: "n < 10 \<Longrightarrow> code (digit n) = 48 + n"
  by (simp add: digit_def of_char_of)

lemma is_digit_digit [simp]: "n < 10 \<Longrightarrow> is_digit (digit n)"
  by (simp add: is_digit_def in_range_def code_digit)

fun dec :: "nat \<Rightarrow> string" where
  "dec n = (if n < 10 then [digit n] else dec (n div 10) @ [digit (n mod 10)])"

declare dec.simps [simp del]

lemma dec_nonempty [simp]: "dec n \<noteq> []"
  by (subst dec.simps) simp

lemma dec_digits: "\<forall>c \<in> set (dec n). is_digit c"
proof (induction n rule: dec.induct)
  case (1 n)
  then show ?case by (subst dec.simps) auto
qed

definition itoa :: "int \<Rightarrow> string" where
  "itoa i = (if i < 0 then CHR ''-'' # dec (nat (- i)) else dec (nat i))"

datatype numerr = ErrSyntax | ErrRange64

fun parse_uint :: "int \<Rightarrow> string \<Rightarrow> numerr + int" where
  \<comment> \<open>\<^verbatim>\<open>strconv.ParseUint\<close> in base 10, after the check for the empty string\<close>
  "parse_uint n [] = Inr n"
| "parse_uint n (c # s) =
    (if \<not> is_digit c then Inl ErrSyntax
     else let m = 10 * n + (int (code c) - 48)
          in if 18446744073709551615 < m then Inl ErrRange64 else parse_uint m s)"

text \<open>
  \<^verbatim>\<open>strconv.Atoi\<close>: the value Go returns next to the error is kept, because the code ignores the
  error and uses the value (0 after a syntax error, the nearest bound after a range error).
\<close>

definition atoi :: "string \<Rightarrow> int \<times> numerr option" where
  "atoi s =
    (let neg = (case s of c # _ \<Rightarrow> c = CHR ''-'' | [] \<Rightarrow> False);
         body = (case s of c # t \<Rightarrow> if c = CHR ''-'' \<or> c = CHR ''+'' then t else s | [] \<Rightarrow> s)
     in if body = [] then (0, Some ErrSyntax)
        else case parse_uint 0 body of
          Inl ErrSyntax \<Rightarrow> (0, Some ErrSyntax)
        | Inl ErrRange64 \<Rightarrow> (if neg then min_int64 else max_int64, Some ErrRange64)
        | Inr n \<Rightarrow>
            if \<not> neg \<and> max_int64 < n then (max_int64, Some ErrRange64)
            else if neg \<and> - n < min_int64 then (min_int64, Some ErrRange64)
            else (if neg then - n else n, None))"

lemma parse_uint_append:
  "parse_uint n (s @ t) = (case parse_uint n s of Inl e \<Rightarrow> Inl e | Inr m \<Rightarrow> parse_uint m t)"
  by (induction n s rule: parse_uint.induct) (simp_all add: Let_def)

lemma parse_uint_dec: "int n \<le> 18446744073709551615 \<Longrightarrow> parse_uint 0 (dec n) = Inr (int n)"
proof (induction n rule: dec.induct)
  case (1 n)
  show ?case
  proof (cases "n < 10")
    case True
    then show ?thesis by (subst dec.simps) (simp add: code_digit)
  next
    case False
    with 1 have "parse_uint 0 (dec (n div 10)) = Inr (int (n div 10))" by simp
    moreover have "10 * int (n div 10) + int (n mod 10) = int n"
      by (simp add: zdiv_int zmod_int)
    ultimately show ?thesis
      using False 1(2) by (subst dec.simps) (simp add: parse_uint_append code_digit Let_def)
  qed
qed

lemma parse_uint_nonneg: "parse_uint n s = Inr m \<Longrightarrow> 0 \<le> n \<Longrightarrow> 0 \<le> m"
  by (induction n s rule: parse_uint.induct)
    (auto simp: Let_def is_digit_def in_range_def split: if_splits)

lemma digit_not_sign: "is_digit c \<Longrightarrow> c \<noteq> CHR ''-'' \<and> c \<noteq> CHR ''+''"
  by (auto simp: is_digit_def in_range_def)

lemma dec_Cons: "\<exists>c s. dec n = c # s \<and> is_digit c"
  using dec_digits [of n] by (cases "dec n") auto

lemma atoi_itoa:
  assumes "int64_ok i"
  shows "atoi (itoa i) = (i, None)"
proof (cases "i < 0")
  case True
  have "parse_uint 0 (dec (nat (- i))) = Inr (int (nat (- i)))"
    using assms by (intro parse_uint_dec) (simp add: int64_ok_def min_int64_def)
  then show ?thesis
    using True assms by (simp add: atoi_def itoa_def int64_ok_def)
next
  case False
  have "parse_uint 0 (dec (nat i)) = Inr (int (nat i))"
    using assms by (intro parse_uint_dec) (simp add: int64_ok_def max_int64_def)
  moreover obtain c s where "dec (nat i) = c # s" "is_digit c" using dec_Cons by blast
  ultimately show ?thesis
    using False assms digit_not_sign [of c] by (auto simp: atoi_def itoa_def int64_ok_def)
qed

lemma atoi_int64: "int64_ok (fst (atoi s))"
  by (auto simp: atoi_def int64_ok_def min_int64_def max_int64_def Let_def
      simp del: parse_uint.simps dest!: parse_uint_nonneg split: sum.splits numerr.splits list.splits)

end
