(* ===== verification/Json_String.thy ===== *)
theory Json_String
  imports Go_Strings
begin

text \<open>
  JSON string literals as \<^verbatim>\<open>encoding/json\<close> writes and reads them: \<open>quote\<close> is \<^verbatim>\<open>appendString\<close> with
  HTML escaping on (the default of \<^verbatim>\<open>json.Marshal\<close>), \<open>unquote\<close> the scanner and \<^verbatim>\<open>unquoteBytes\<close> of the
  decoder. The main fact is \<open>unquote_quote\<close>: reading back what was written gives the string,
  for every well-formed UTF-8 string, whatever follows the closing quote.
\<close>

abbreviation dquote :: char where "dquote \<equiv> CHR 0x22"
abbreviation backslash :: char where "backslash \<equiv> CHR 0x5C"

section \<open>Writing\<close>

definition hexdigit :: "nat \<Rightarrow> char" where
  "hexdigit n = (if n < 10 then byte (48 + n) else byte (87 + n))"

definition html_char :: "char \<Rightarrow> bool" where
  "html_char c \<longleftrightarrow> c = CHR ''<'' \<or> c = CHR ''>'' \<or> c = CHR ''&''"

definition esc_ascii :: "char \<Rightarrow> string" where
  "esc_ascii c =
    (if c = dquote \<or> c = backslash then [backslash, c]
     else if code c = 8 then [backslash, CHR ''b'']
     else if code c = 12 then [backslash, CHR ''f'']
     else if code c = 10 then [backslash, CHR ''n'']
     else if code c = 13 then [backslash, CHR ''r'']
     else if code c = 9 then [backslash, CHR ''t'']
     else if code c < 32 \<or> html_char c then
       [backslash, CHR ''u'', CHR ''0'', CHR ''0'', hexdigit (code c div 16), hexdigit (code c mod 16)]
     else [c])"

definition line_sep :: string where "line_sep = [byte 226, byte 128, byte 168]"
definition para_sep :: string where "para_sep = [byte 226, byte 128, byte 169]"

definition esc_rune :: "string \<Rightarrow> string" where
  \<comment> \<open>U+2028 and U+2029 are escaped, every other code point is copied\<close>
  "esc_rune r =
    (if r = line_sep then backslash # ''u2028''
     else if r = para_sep then backslash # ''u2029''
     else r)"

function quote_body :: "string \<Rightarrow> string" where
  "quote_body [] = []"
| "quote_body (c # s) =
    (if code c < 128 then esc_ascii c @ quote_body s
     else case utf8_take (c # s) of
       None \<Rightarrow> (backslash # ''ufffd'') @ quote_body s
     | Some (r, t) \<Rightarrow> esc_rune r @ quote_body t)"
  by pat_completeness auto
termination
  by (relation "measure length") (auto dest: utf8_take_length simp del: utf8_take.simps)

definition quote :: "string \<Rightarrow> string" where
  "quote s = dquote # quote_body s @ [dquote]"

section \<open>Reading\<close>

definition hexval :: "char \<Rightarrow> nat option" where
  "hexval c =
    (if in_range 48 57 c then Some (code c - 48)
     else if in_range 97 102 c then Some (code c - 87)
     else if in_range 65 70 c then Some (code c - 55)
     else None)"

definition hex4 :: "string \<Rightarrow> (nat \<times> string) option" where
  "hex4 s =
    (case s of
       a # b # c # d # t \<Rightarrow>
         (case (hexval a, hexval b, hexval c, hexval d) of
            (Some a', Some b', Some c', Some d') \<Rightarrow>
              Some (((a' * 16 + b') * 16 + c') * 16 + d', t)
          | _ \<Rightarrow> None)
     | _ \<Rightarrow> None)"

definition surrogate :: "nat \<Rightarrow> bool" where
  "surrogate n \<longleftrightarrow> 55296 \<le> n \<and> n < 57344"

definition surrogate_pair :: "nat \<Rightarrow> nat \<Rightarrow> nat option" where
  \<comment> \<open>\<^verbatim>\<open>utf16.DecodeRune\<close>\<close>
  "surrogate_pair hi lo =
    (if 55296 \<le> hi \<and> hi < 56320 \<and> 56320 \<le> lo \<and> lo < 57344
     then Some ((hi - 55296) * 1024 + (lo - 56320) + 65536) else None)"

definition unicode_escape :: "string \<Rightarrow> (string \<times> string) option" where
  "unicode_escape s =
    (case hex4 s of
       None \<Rightarrow> None
     | Some (rr, t) \<Rightarrow>
         if \<not> surrogate rr then Some (utf8_encode rr, t)
         else (case t of
             b # u # t2 \<Rightarrow>
               if b = backslash \<and> u = CHR ''u'' then
                 (case hex4 t2 of
                    None \<Rightarrow> Some (rune_error, t)
                  | Some (rr1, t3) \<Rightarrow>
                      (case surrogate_pair rr rr1 of
                         None \<Rightarrow> Some (rune_error, t)
                       | Some n \<Rightarrow> Some (utf8_encode n, t3)))
               else Some (rune_error, t)
           | _ \<Rightarrow> Some (rune_error, t)))"

definition escape :: "string \<Rightarrow> (string \<times> string) option" where
  \<comment> \<open>what follows a backslash: the bytes it stands for and the rest of the input\<close>
  "escape s =
    (case s of
       [] \<Rightarrow> None
     | c # t \<Rightarrow>
         if c = dquote \<or> c = backslash \<or> c = CHR ''/'' then Some ([c], t)
         else if c = CHR ''b'' then Some ([byte 8], t)
         else if c = CHR ''f'' then Some ([byte 12], t)
         else if c = CHR ''n'' then Some ([byte 10], t)
         else if c = CHR ''r'' then Some ([byte 13], t)
         else if c = CHR ''t'' then Some ([byte 9], t)
         else if c = CHR ''u'' then unicode_escape t
         else None)"

lemma hex4_length: "hex4 s = Some (n, t) \<Longrightarrow> length t < length s"
  by (auto simp: hex4_def split: list.splits option.splits prod.splits)

lemma unicode_escape_length: "unicode_escape s = Some (r, t) \<Longrightarrow> length t < length s"
  by (auto simp: unicode_escape_def split: list.splits option.splits prod.splits if_splits
      dest!: hex4_length)

lemma escape_length: "escape s = Some (r, t) \<Longrightarrow> length t < length s"
  by (auto simp: escape_def split: list.splits if_splits dest!: unicode_escape_length)

definition prepend :: "string \<Rightarrow> (string \<times> string) option \<Rightarrow> (string \<times> string) option" where
  "prepend r x = (case x of None \<Rightarrow> None | Some (s, t) \<Rightarrow> Some (r @ s, t))"

lemma prepend_simps [simp]:
  "prepend r None = None" "prepend r (Some (s, t)) = Some (r @ s, t)"
  by (simp_all add: prepend_def)

text \<open>\<open>unquote\<close> starts after the opening quote and returns what follows the closing one.\<close>

function unquote :: "string \<Rightarrow> (string \<times> string) option" where
  "unquote [] = None"
| "unquote (c # s) =
    (if c = dquote then Some ([], s)
     else if c = backslash then
       (case escape s of None \<Rightarrow> None | Some (r, t) \<Rightarrow> prepend r (unquote t))
     else if code c < 32 then None
     else if code c < 128 then prepend [c] (unquote s)
     else case utf8_take (c # s) of
       None \<Rightarrow> prepend rune_error (unquote s)
     | Some (r, t) \<Rightarrow> prepend r (unquote t))"
  by pat_completeness auto
termination
  by (relation "measure length")
    (auto dest: utf8_take_length escape_length simp del: utf8_take.simps)

section \<open>Reading what was written\<close>

lemma hexval_hexdigit: "n < 16 \<Longrightarrow> hexval (hexdigit n) = Some n"
  by (simp add: hexval_def hexdigit_def in_range_def of_char_of)

lemma hex4_byte:
  assumes "n < 256"
  shows "hex4 (CHR ''0'' # CHR ''0'' # hexdigit (n div 16) # hexdigit (n mod 16) # u) = Some (n, u)"
proof -
  have "hexval (hexdigit (n div 16)) = Some (n div 16)"
    and "hexval (hexdigit (n mod 16)) = Some (n mod 16)"
    using assms by (simp_all add: hexval_hexdigit)
  moreover have "hexval (CHR ''0'') = Some 0" by (simp add: hexval_def in_range_def)
  ultimately show ?thesis by (simp add: hex4_def)
qed

lemma unquote_esc_ascii:
  assumes "code c < 128"
  shows "unquote (esc_ascii c @ u) = prepend [c] (unquote u)"
proof -
  have ctl: "code c < 32 \<or> html_char c \<Longrightarrow>
      escape (CHR ''u'' # CHR ''0'' # CHR ''0'' # hexdigit (code c div 16) # hexdigit (code c mod 16) # u)
        = Some ([c], u)"
    using assms hex4_byte [of "code c" u]
    by (simp add: escape_def unicode_escape_def surrogate_def utf8_encode_def)
  have byteI: "code c = n \<Longrightarrow> byte n = c" for n by auto
  show ?thesis
    using assms ctl
    by (auto simp: esc_ascii_def escape_def byteI)
qed

lemma unquote_high:
  assumes "utf8_take (c # s) = Some (r, t)" and "128 \<le> code c"
  shows "unquote (r @ u) = prepend r (unquote u)"
proof -
  from assms(1) obtain r' where r: "r = c # r'"
    using utf8_take_SomeD by (cases r) fastforce+
  moreover have "utf8_take (c # r' @ u) = Some (r, u)"
    using utf8_take_append [OF assms(1), of u] r by simp
  moreover have "c \<noteq> dquote" "c \<noteq> backslash" using assms(2) by auto
  ultimately show ?thesis using assms(2) by (simp del: utf8_take.simps)
qed

lemma unquote_separator:
  "unquote (backslash # ''u2028'' @ u) = prepend line_sep (unquote u)"
  "unquote (backslash # ''u2029'' @ u) = prepend para_sep (unquote u)"
  by (simp_all add: escape_def unicode_escape_def hex4_def hexval_def in_range_def surrogate_def
      utf8_encode_def line_sep_def para_sep_def)

lemma unquote_esc_rune:
  assumes "utf8_take (c # s) = Some (r, t)" and "128 \<le> code c"
  shows "unquote (esc_rune r @ u) = prepend r (unquote u)"
proof -
  consider "r = line_sep" | "r = para_sep" | "r \<noteq> line_sep" "r \<noteq> para_sep" by blast
  then show ?thesis
  proof cases
    case 1
    then show ?thesis using unquote_separator(1) [of u] by (simp add: esc_rune_def del: unquote.simps)
  next
    case 2
    then show ?thesis
      using unquote_separator(2) [of u]
      by (simp add: esc_rune_def line_sep_def para_sep_def del: unquote.simps)
  next
    case 3
    then show ?thesis using unquote_high [OF assms] by (simp add: esc_rune_def)
  qed
qed

lemma unquote_quote_body: "utf8_ok s \<Longrightarrow> unquote (quote_body s @ dquote # rest) = Some (s, rest)"
proof (induction s rule: quote_body.induct)
  case 1
  then show ?case by simp
next
  case (2 c s)
  show ?case
  proof (cases "code c < 128")
    case True
    then show ?thesis
      using 2 by (simp add: unquote_esc_ascii utf8_ok_ascii del: unquote.simps)
  next
    case False
    with "2.prems" obtain r t where t: "utf8_take (c # s) = Some (r, t)" and ok: "utf8_ok t"
      by (subst (asm) utf8_ok.simps) (auto split: option.splits simp del: utf8_take.simps)
    have "unquote (esc_rune r @ quote_body t @ dquote # rest) = Some (r @ t, rest)"
      using False t ok "2.IH"(3) by (simp add: unquote_esc_rune del: unquote.simps utf8_take.simps)
    moreover have "quote_body (c # s) = esc_rune r @ quote_body t"
      using False t by (simp del: utf8_take.simps)
    moreover have "c # s = r @ t" using utf8_take_SomeD [OF t] by simp
    ultimately show ?thesis by simp
  qed
qed

lemma unquote_quote:
  "utf8_ok s \<Longrightarrow> \<exists>body. quote s = dquote # body \<and> unquote (body @ rest) = Some (s, rest)"
  using unquote_quote_body by (simp add: quote_def)

end
