(* ===== verification/Json.thy ===== *)
theory Json
  imports Json_String
begin

text \<open>
  \<^verbatim>\<open>encoding/json\<close>, as far as the program uses it: JSON texts as trees (\<open>json\<close>, numbers kept as
  their literal text), the scanner and parser behind \<^verbatim>\<open>json.Unmarshal\<close> and \<^verbatim>\<open>Decoder.Decode\<close>
  (\<open>pvalue\<close>, with Go's nesting limit of 10000), the printer, and \<^verbatim>\<open>json.Marshal\<close> on the Go values
  the program builds (\<open>gval\<close>). The round trip \<open>unmarshal_print\<close> is what makes an encoding
  injective.

  \<open>pvalue\<close> takes fuel. \<open>unmarshal\<close> and \<open>decode_stream\<close> give it one unit more than the input is
  long; \<open>pvalue_fuel\<close> shows that no larger amount ever changes an answer.
\<close>

datatype json =
    JNull
  | JBool bool
  | JNum string
  | JStr string
  | JArr "json list"
  | JObj "(string \<times> json) list"

section \<open>The parser\<close>

definition is_ws :: "char \<Rightarrow> bool" where
  "is_ws c \<longleftrightarrow> code c = 32 \<or> code c = 9 \<or> code c = 10 \<or> code c = 13"

definition skip_ws :: "string \<Rightarrow> string" where
  "skip_ws s = dropWhile is_ws s"

definition p_frac :: "string \<Rightarrow> (string \<times> string) option" where
  "p_frac s =
    (case s of
       [] \<Rightarrow> Some ([], [])
     | c # t \<Rightarrow>
         if c = CHR ''.'' then
           (if takeWhile is_digit t = [] then None
            else Some (c # takeWhile is_digit t, dropWhile is_digit t))
         else Some ([], s))"

definition p_sign :: "string \<Rightarrow> string \<times> string" where
  "p_sign s =
    (case s of
       [] \<Rightarrow> ([], [])
     | c # t \<Rightarrow> if c = CHR ''-'' \<or> c = CHR ''+'' then ([c], t) else ([], s))"

definition p_expo :: "string \<Rightarrow> (string \<times> string) option" where
  "p_expo s =
    (case s of
       [] \<Rightarrow> Some ([], [])
     | c # t \<Rightarrow>
         if c = CHR ''e'' \<or> c = CHR ''E'' then
           (case p_sign t of (sg, u) \<Rightarrow>
              if takeWhile is_digit u = [] then None
              else Some (c # sg @ takeWhile is_digit u, dropWhile is_digit u))
         else Some ([], s))"

definition p_uint :: "string \<Rightarrow> (string \<times> string) option" where
  "p_uint s =
    (case s of
       [] \<Rightarrow> None
     | c # t \<Rightarrow>
         if \<not> is_digit c then None
         else if c = CHR ''0'' then Some ([c], t)
         else Some (takeWhile is_digit s, dropWhile is_digit s))"

definition p_minus :: "string \<Rightarrow> string \<times> string" where
  "p_minus s = (case s of [] \<Rightarrow> ([], []) | c # t \<Rightarrow> if c = CHR ''-'' then ([c], t) else ([], s))"

definition parse_number :: "string \<Rightarrow> (string \<times> string) option" where
  \<comment> \<open>the literal text of a number and the rest of the input\<close>
  "parse_number s =
    (case p_minus s of (sg, s1) \<Rightarrow>
     case p_uint s1 of None \<Rightarrow> None | Some (ip, s2) \<Rightarrow>
     case p_frac s2 of None \<Rightarrow> None | Some (fp, s3) \<Rightarrow>
     case p_expo s3 of None \<Rightarrow> None | Some (ep, s4) \<Rightarrow>
       Some (sg @ ip @ fp @ ep, s4))"

definition max_depth :: nat where
  "max_depth = 10000"

definition parse_literal :: "string \<Rightarrow> (json \<times> string) option" where
  "parse_literal s =
    (if has_prefix ''null'' s then Some (JNull, drop 4 s)
     else if has_prefix ''true'' s then Some (JBool True, drop 4 s)
     else if has_prefix ''false'' s then Some (JBool False, drop 5 s)
     else None)"

text \<open>
  One level of each of the three mutually recursive scanners, given the scanners for what is
  nested in it: a value, the elements of an array after its first bracket, the members of an
  object after its first brace.
\<close>

definition value_step ::
  "(nat \<Rightarrow> string \<Rightarrow> (json list \<times> string) option) \<Rightarrow>
   (nat \<Rightarrow> string \<Rightarrow> ((string \<times> json) list \<times> string) option) \<Rightarrow>
   nat \<Rightarrow> string \<Rightarrow> (json \<times> string) option" where
  "value_step elems members d s =
    (case skip_ws s of
       [] \<Rightarrow> None
     | c # t \<Rightarrow>
         if c = CHR ''{'' then
           (if max_depth \<le> d then None
            else case skip_ws t of
              [] \<Rightarrow> None
            | c1 # u \<Rightarrow>
                if c1 = CHR ''}'' then Some (JObj [], u)
                else map_option (apfst JObj) (members (Suc d) (c1 # u)))
         else if c = CHR ''['' then
           (if max_depth \<le> d then None
            else case skip_ws t of
              [] \<Rightarrow> None
            | c1 # u \<Rightarrow>
                if c1 = CHR '']'' then Some (JArr [], u)
                else map_option (apfst JArr) (elems (Suc d) (c1 # u)))
         else if c = dquote then map_option (apfst JStr) (unquote t)
         else if c = CHR ''-'' \<or> is_digit c then map_option (apfst JNum) (parse_number (c # t))
         else parse_literal (c # t))"

definition elems_step ::
  "(nat \<Rightarrow> string \<Rightarrow> (json \<times> string) option) \<Rightarrow>
   (nat \<Rightarrow> string \<Rightarrow> (json list \<times> string) option) \<Rightarrow>
   nat \<Rightarrow> string \<Rightarrow> (json list \<times> string) option" where
  "elems_step val elems d s =
    (case val d s of
       None \<Rightarrow> None
     | Some (v, r) \<Rightarrow>
         (case skip_ws r of
            [] \<Rightarrow> None
          | c # t \<Rightarrow>
              if c = CHR '']'' then Some ([v], t)
              else if c = CHR '','' then map_option (apfst (Cons v)) (elems d t)
              else None))"

definition member_name :: "string \<Rightarrow> (string \<times> string) option" where
  \<comment> \<open>the key of a member and what follows its colon\<close>
  "member_name s =
    (case skip_ws s of
       [] \<Rightarrow> None
     | c # t \<Rightarrow>
         if c \<noteq> dquote then None
         else (case unquote t of
             None \<Rightarrow> None
           | Some (k, r) \<Rightarrow>
               (case skip_ws r of
                  [] \<Rightarrow> None
                | c1 # r1 \<Rightarrow> if c1 = CHR '':'' then Some (k, r1) else None)))"

definition members_step ::
  "(nat \<Rightarrow> string \<Rightarrow> (json \<times> string) option) \<Rightarrow>
   (nat \<Rightarrow> string \<Rightarrow> ((string \<times> json) list \<times> string) option) \<Rightarrow>
   nat \<Rightarrow> string \<Rightarrow> ((string \<times> json) list \<times> string) option" where
  "members_step val members d s =
    (case member_name s of
       None \<Rightarrow> None
     | Some (k, r) \<Rightarrow>
         (case val d r of
            None \<Rightarrow> None
          | Some (v, r1) \<Rightarrow>
              (case skip_ws r1 of
                 [] \<Rightarrow> None
               | c # t \<Rightarrow>
                   if c = CHR ''}'' then Some ([(k, v)], t)
                   else if c = CHR '','' then map_option (apfst (Cons (k, v))) (members d t)
                   else None)))"

fun pvalue :: "nat \<Rightarrow> nat \<Rightarrow> string \<Rightarrow> (json \<times> string) option"
and pelems :: "nat \<Rightarrow> nat \<Rightarrow> string \<Rightarrow> (json list \<times> string) option"
and pmembers :: "nat \<Rightarrow> nat \<Rightarrow> string \<Rightarrow> ((string \<times> json) list \<times> string) option" where
  "pvalue 0 d s = None"
| "pvalue (Suc n) d s = value_step (pelems n) (pmembers n) d s"
| "pelems 0 d s = None"
| "pelems (Suc n) d s = elems_step (pvalue n) (pelems n) d s"
| "pmembers 0 d s = None"
| "pmembers (Suc n) d s = members_step (pvalue n) (pmembers n) d s"

declare pvalue.simps(2) [simp del] pelems.simps(2) [simp del] pmembers.simps(2) [simp del]

lemmas scan_simps = pvalue.simps(2) value_step_def pelems.simps(2) elems_step_def
  pmembers.simps(2) members_step_def

definition scan_value :: "string \<Rightarrow> (json \<times> string) option" where
  "scan_value s = pvalue (Suc (length s)) 0 s"

definition decode_stream :: "string \<Rightarrow> json option" where
  \<comment> \<open>\<^verbatim>\<open>Decoder.Decode\<close> reads the first value of its input and leaves the rest\<close>
  "decode_stream s = map_option fst (scan_value s)"

definition unmarshal :: "string \<Rightarrow> json option" where
  \<comment> \<open>\<^verbatim>\<open>json.Unmarshal\<close> accepts nothing but white space after the value\<close>
  "unmarshal s =
    (case scan_value s of
       None \<Rightarrow> None
     | Some (j, r) \<Rightarrow> if skip_ws r = [] then Some j else None)"

section \<open>The printer\<close>

fun commas :: "string list \<Rightarrow> string" where
  "commas [] = []"
| "commas [x] = x"
| "commas (x # y # zs) = x @ CHR '','' # commas (y # zs)"

definition render_elems :: "string list \<Rightarrow> string" where
  "render_elems xs = CHR ''['' # commas xs @ [CHR '']'']"

definition render_member :: "string \<times> string \<Rightarrow> string" where
  "render_member kv = quote (fst kv) @ CHR '':'' # snd kv"

definition render_members :: "(string \<times> string) list \<Rightarrow> string" where
  "render_members kvs = CHR ''{'' # commas (map render_member kvs) @ [CHR ''}'']"

fun print_json :: "json \<Rightarrow> string" where
  "print_json JNull = ''null''"
| "print_json (JBool b) = (if b then ''true'' else ''false'')"
| "print_json (JNum t) = t"
| "print_json (JStr s) = quote s"
| "print_json (JArr js) = render_elems (map print_json js)"
| "print_json (JObj kvs) = render_members (map (\<lambda>(k, v). (k, print_json v)) kvs)"

fun json_size :: "json \<Rightarrow> nat" where
  "json_size (JArr js) = Suc (sum_list (map (\<lambda>j. Suc (json_size j)) js))"
| "json_size (JObj kvs) = Suc (sum_list (map (\<lambda>(k, v). Suc (json_size v)) kvs))"
| "json_size _ = 1"

fun json_depth :: "json \<Rightarrow> nat" where
  "json_depth (JArr js) = Suc (Max (set (0 # map json_depth js)))"
| "json_depth (JObj kvs) = Suc (Max (set (0 # map (\<lambda>(k, v). json_depth v) kvs)))"
| "json_depth _ = 0"

definition num_text :: "string \<Rightarrow> bool" where
  "num_text t \<longleftrightarrow> parse_number t = Some (t, [])"

fun json_ok :: "json \<Rightarrow> bool" where
  "json_ok (JNum t) = num_text t"
| "json_ok (JStr s) = utf8_ok s"
| "json_ok (JArr js) = (\<forall>j \<in> set js. json_ok j)"
| "json_ok (JObj kvs) = (\<forall>(k, v) \<in> set kvs. utf8_ok k \<and> json_ok v)"
| "json_ok _ = True"

section \<open>Reading what was printed\<close>

definition num_stop :: "string \<Rightarrow> bool" where
  \<comment> \<open>what may follow a number literal without becoming part of it\<close>
  "num_stop s =
    (case s of [] \<Rightarrow> True
     | c # _ \<Rightarrow> \<not> is_digit c \<and> c \<noteq> CHR ''.'' \<and> c \<noteq> CHR ''e'' \<and> c \<noteq> CHR ''E'')"

lemma digits_append:
  assumes "num_stop rest"
  shows "takeWhile is_digit (s @ rest) = takeWhile is_digit s"
    and "dropWhile is_digit (s @ rest) = dropWhile is_digit s @ rest"
  using assms
  by (induction s) (auto simp: num_stop_def split: list.splits)

lemma p_uint_append:
  "p_uint s = Some (x, r) \<Longrightarrow> num_stop rest \<Longrightarrow> p_uint (s @ rest) = Some (x, r @ rest)"
  using digits_append [of rest s]
  by (auto simp: p_uint_def split: list.splits if_splits)

lemma p_frac_append:
  "p_frac s = Some (x, r) \<Longrightarrow> num_stop rest \<Longrightarrow> p_frac (s @ rest) = Some (x, r @ rest)"
  using digits_append [of rest "tl s"]
  by (auto simp: p_frac_def num_stop_def split: list.splits if_splits)

lemma p_expo_append:
  assumes "p_expo s = Some (x, r)" and stop: "num_stop rest"
  shows "p_expo (s @ rest) = Some (x, r @ rest)"
proof (cases s)
  case Nil
  then show ?thesis using assms by (auto simp: p_expo_def num_stop_def split: list.splits)
next
  case (Cons c t)
  show ?thesis
  proof (cases "c = CHR ''e'' \<or> c = CHR ''E''")
    case False
    then show ?thesis using assms Cons by (auto simp: p_expo_def)
  next
    case True
    obtain sg u where sg: "p_sign t = (sg, u)" by (cases "p_sign t")
    with assms(1) Cons True have u: "takeWhile is_digit u \<noteq> []"
      and x: "x = c # sg @ takeWhile is_digit u" and r: "r = dropWhile is_digit u"
      by (auto simp: p_expo_def split: if_splits)
    from u have "u \<noteq> []" by auto
    with sg have "p_sign (t @ rest) = (sg, u @ rest)"
      by (auto simp: p_sign_def split: list.splits if_splits)
    then show ?thesis
      using True Cons u x r digits_append [OF stop, of u] by (simp add: p_expo_def)
  qed
qed

lemma parse_number_append:
  assumes "parse_number s = Some (t, r)" and stop: "num_stop rest"
  shows "parse_number (s @ rest) = Some (t, r @ rest)"
proof -
  obtain sg s1 where m: "p_minus s = (sg, s1)" by (cases "p_minus s")
  with assms(1) obtain ip s2 fp s3 ep where
    p: "p_uint s1 = Some (ip, s2)" "p_frac s2 = Some (fp, s3)" "p_expo s3 = Some (ep, r)"
    and t: "t = sg @ ip @ fp @ ep"
    by (auto simp: parse_number_def split: option.splits)
  from p(1) have "s1 \<noteq> []" by (auto simp: p_uint_def)
  with m have "p_minus (s @ rest) = (sg, s1 @ rest)"
    by (auto simp: p_minus_def split: list.splits if_splits)
  with p t stop show ?thesis
    by (simp add: parse_number_def p_uint_append p_frac_append p_expo_append)
qed

lemma num_text_append: "num_text t \<Longrightarrow> num_stop rest \<Longrightarrow> parse_number (t @ rest) = Some (t, rest)"
  using parse_number_append [of t t "[]" rest] by (simp add: num_text_def)

lemma num_text_head:
  assumes "num_text t"
  obtains c u where "t = c # u" "c = CHR ''-'' \<or> is_digit c"
proof (cases t)
  case Nil
  then show thesis using assms by (simp add: num_text_def parse_number_def p_minus_def p_uint_def)
next
  case (Cons c u)
  then have "c = CHR ''-'' \<or> is_digit c"
    using assms
    by (auto simp: num_text_def parse_number_def p_minus_def p_uint_def split: if_splits)
  with Cons show thesis by (rule that)
qed

lemma num_text_dec: "num_text (dec n)" and num_text_neg_dec: "0 < n \<Longrightarrow> num_text (CHR ''-'' # dec n)"
proof -
  have zero: "dec n = CHR ''0'' # s \<Longrightarrow> s = []" for s
  proof (induction n arbitrary: s rule: dec.induct)
    case (1 n)
    show ?case
    proof (cases "n < 10")
      case True
      then show ?thesis using 1(2) by (subst (asm) dec.simps) simp
    next
      case False
      obtain c u where c: "dec (n div 10) = c # u" using dec_Cons by blast
      have "c = CHR ''0''" using 1(2) False c by (subst (asm) dec.simps) simp
      with 1(1) False c have "dec (n div 10) = [CHR ''0'']" by simp
      moreover have "dec (n div 10) \<noteq> [CHR ''0'']"
      proof
        assume "dec (n div 10) = [CHR ''0'']"
        then have "n div 10 < 10 \<and> digit (n div 10) = CHR ''0''"
          by (subst (asm) dec.simps) (auto split: if_splits)
        then have "code (digit (n div 10)) = 48" by simp
        with False code_digit [of "n div 10"] \<open>n div 10 < 10 \<and> _\<close> show False by simp
      qed
      ultimately show ?thesis by blast
    qed
  qed
  have tw: "takeWhile is_digit (dec n) = dec n" "dropWhile is_digit (dec n) = []"
    using dec_digits [of n] by (simp_all add: takeWhile_eq_all_conv)
  obtain c u where c: "dec n = c # u" "is_digit c" using dec_Cons by blast
  have "p_uint (dec n) = Some (dec n, [])"
    using c tw zero [of u] by (auto simp: p_uint_def)
  moreover have "c \<noteq> CHR ''-''" using digit_not_sign [OF c(2)] by simp
  ultimately show "num_text (dec n)" and "0 < n \<Longrightarrow> num_text (CHR ''-'' # dec n)"
    using c by (simp_all add: num_text_def parse_number_def p_minus_def p_frac_def p_expo_def)
qed

lemma num_text_itoa [simp]: "num_text (itoa i)"
  by (simp add: itoa_def num_text_dec num_text_neg_dec)

lemma skip_ws_Cons [simp]: "skip_ws (c # s) = (if is_ws c then skip_ws s else c # s)"
  by (simp add: skip_ws_def)

lemma skip_ws_Nil [simp]: "skip_ws [] = []"
  by (simp add: skip_ws_def)

lemma is_ws_chars [simp]:
  "\<not> is_ws (CHR ''{'')" "\<not> is_ws (CHR ''}'')" "\<not> is_ws (CHR ''['')" "\<not> is_ws (CHR '']'')"
  "\<not> is_ws (CHR '','')" "\<not> is_ws (CHR '':'')" "\<not> is_ws dquote" "\<not> is_ws (CHR ''-'')"
  "\<not> is_ws (CHR ''n'')" "\<not> is_ws (CHR ''t'')" "\<not> is_ws (CHR ''f'')"
  by (simp_all add: is_ws_def)

lemma is_digit_facts:
  "is_digit c \<Longrightarrow> \<not> is_ws c \<and> c \<noteq> CHR ''{'' \<and> c \<noteq> CHR ''['' \<and> c \<noteq> CHR '']'' \<and> c \<noteq> dquote"
  by (auto simp: is_digit_def in_range_def is_ws_def)

lemma num_stop_chars [simp]:
  "num_stop []" "num_stop (CHR '','' # s)" "num_stop (CHR '']'' # s)" "num_stop (CHR ''}'' # s)"
  by (simp_all add: num_stop_def is_digit_def in_range_def)

text \<open>The text of a well-formed value starts with a character that is no space and no bracket
  that closes an array.\<close>

lemma print_json_head:
  assumes "json_ok j"
  obtains c s where "print_json j = c # s" "\<not> is_ws c" "c \<noteq> CHR '']''"
proof (cases j)
  case (JBool b)
  then show thesis by (cases b) (auto intro: that)
next
  case (JNum t)
  with assms have "num_text t" by simp
  then obtain c u where "t = c # u" and c: "c = CHR ''-'' \<or> is_digit c" by (rule num_text_head)
  moreover from c is_digit_facts have "\<not> is_ws c" "c \<noteq> CHR '']''" by auto
  ultimately show thesis using JNum by (intro that) auto
qed (auto simp: quote_def render_elems_def render_members_def intro: that)

lemma pvalue_scalar:
  assumes "json_ok j" and "json_depth j = 0" and "num_stop rest"
    and "json_size j \<le> m"
  shows "pvalue m d (print_json j @ rest) = Some (j, rest)"
proof -
  obtain n where m: "m = Suc n" using assms(4) by (cases m) (cases j; simp)+
  show ?thesis
  proof (cases j)
    case (JBool b)
    then show ?thesis
      by (cases b) (simp_all add: scan_simps m parse_literal_def is_digit_def in_range_def)
  next
    case (JNum t)
    with assms(1) have ok: "num_text t" by simp
    then obtain c u where t: "t = c # u" and c: "c = CHR ''-'' \<or> is_digit c" by (rule num_text_head)
    have "parse_number (c # u @ rest) = Some (t, rest)"
      using num_text_append [OF ok assms(3)] t by simp
    moreover have "\<not> is_ws c \<and> c \<noteq> CHR ''{'' \<and> c \<noteq> CHR ''['' \<and> c \<noteq> dquote"
      using c is_digit_facts [of c] by auto
    ultimately show ?thesis using JNum t c by (simp add: scan_simps m)
  next
    case (JStr s)
    then show ?thesis
      using assms(1) by (simp add: scan_simps m quote_def unquote_quote_body)
  qed (use assms in \<open>simp_all add: scan_simps m parse_literal_def is_digit_def in_range_def\<close>)
qed

lemma member_name_quote:
  "utf8_ok k \<Longrightarrow> member_name (quote k @ CHR '':'' # s) = Some (k, s)"
  by (simp add: member_name_def quote_def unquote_quote_body)

lemma pelems_print:
  assumes "\<And>j rest n d. j \<in> set js \<Longrightarrow> json_size j \<le> n \<Longrightarrow> d + json_depth j \<le> max_depth \<Longrightarrow>
      num_stop rest \<Longrightarrow> pvalue n d (print_json j @ rest) = Some (j, rest)"
    and "js \<noteq> []" and "sum_list (map (\<lambda>j. Suc (json_size j)) js) \<le> n"
    and "\<And>j. j \<in> set js \<Longrightarrow> d + json_depth j \<le> max_depth"
  shows "pelems n d (commas (map print_json js) @ CHR '']'' # rest) = Some (js, rest)"
  using assms
proof (induction js arbitrary: n)
  case Nil
  then show ?case by simp
next
  case (Cons j js)
  then obtain m where n: "n = Suc m" by (cases n) auto
  show ?case
  proof (cases js)
    case Nil
    have "pvalue m d (print_json j @ CHR '']'' # rest) = Some (j, CHR '']'' # rest)"
      using Cons.prems n by (intro Cons.prems(1)) auto
    with Nil n show ?thesis by (simp add: scan_simps)
  next
    case (Cons k ks)
    have "pvalue m d (print_json j @ CHR '','' # s) = Some (j, CHR '','' # s)" for s
      using Cons.prems n by (intro Cons.prems(1)) auto
    moreover have "pelems m d (commas (map print_json js) @ CHR '']'' # rest) = Some (js, rest)"
      using Cons.prems n Cons by (intro Cons.IH) auto
    ultimately show ?thesis using Cons n by (simp add: scan_simps)
  qed
qed

lemma render_member_pair [simp]: "render_member (k, v) = quote k @ CHR '':'' # v"
  by (simp add: render_member_def)

definition members_text :: "(string \<times> json) list \<Rightarrow> string" where
  "members_text kvs = commas (map (\<lambda>(k, v). render_member (k, print_json v)) kvs)"

lemma print_json_obj: "print_json (JObj kvs) = CHR ''{'' # members_text kvs @ [CHR ''}'']"
  by (simp add: render_members_def members_text_def comp_def case_prod_unfold)

lemma members_text_Cons:
  "members_text ((k, v) # kvs) = quote k @ CHR '':'' # print_json v
    @ (if kvs = [] then [] else CHR '','' # members_text kvs)"
  by (cases kvs) (simp_all add: members_text_def del: render_member_pair, simp_all)

lemma pmembers_print:
  assumes "\<And>k j rest n d. (k, j) \<in> set kvs \<Longrightarrow> json_size j \<le> n \<Longrightarrow> d + json_depth j \<le> max_depth \<Longrightarrow>
      num_stop rest \<Longrightarrow> pvalue n d (print_json j @ rest) = Some (j, rest)"
    and "kvs \<noteq> []" and "sum_list (map (\<lambda>(k, j). Suc (json_size j)) kvs) \<le> n"
    and "\<And>k j. (k, j) \<in> set kvs \<Longrightarrow> utf8_ok k \<and> d + json_depth j \<le> max_depth"
  shows "pmembers n d (members_text kvs @ CHR ''}'' # rest) = Some (kvs, rest)"
  using assms
proof (induction kvs arbitrary: n)
  case Nil
  then show ?case by simp
next
  case (Cons kv kvs)
  obtain k j where kv: "kv = (k, j)" by (cases kv)
  from Cons.prems(3) obtain m where n: "n = Suc m" by (cases n) (auto simp: kv)
  have "utf8_ok k" and dep: "d + json_depth j \<le> max_depth"
    using Cons.prems(4) [of k j] kv by simp_all
  note name = member_name_quote [OF this(1)]
  show ?case
  proof (cases kvs)
    case Nil
    have "pvalue m d (print_json j @ CHR ''}'' # rest) = Some (j, CHR ''}'' # rest)"
      using Cons.prems(3) n kv dep by (intro Cons.prems(1) [of k]) simp_all
    with Nil n kv name show ?thesis by (simp add: scan_simps members_text_Cons)
  next
    case (Cons kv' kvs')
    have "pvalue m d (print_json j @ CHR '','' # s) = Some (j, CHR '','' # s)" for s
      using Cons.prems(3) n kv dep by (intro Cons.prems(1) [of k]) simp_all
    moreover have "pmembers m d (members_text kvs @ CHR ''}'' # rest) = Some (kvs, rest)"
    proof (rule Cons.IH)
      show "pvalue n d (print_json j @ rest) = Some (j, rest)"
        if "(k, j) \<in> set kvs" "json_size j \<le> n" "d + json_depth j \<le> max_depth" "num_stop rest"
        for k j rest n d
        using that by (intro Cons.prems(1) [of k]) simp_all
      show "utf8_ok k \<and> d + json_depth j \<le> max_depth" if "(k, j) \<in> set kvs" for k j
        using that by (intro Cons.prems(4)) simp
    qed (use Cons.prems(3) n kv \<open>kvs = kv' # kvs'\<close> in simp_all)
    ultimately show ?thesis
      using \<open>kvs = kv' # kvs'\<close> n kv name by (simp add: scan_simps members_text_Cons [of k j])
  qed
qed

lemma json_depth_elem: "j \<in> set js \<Longrightarrow> Suc (json_depth j) \<le> json_depth (JArr js)"
  by simp

lemma json_depth_member: "(k, j) \<in> set kvs \<Longrightarrow> Suc (json_depth j) \<le> json_depth (JObj kvs)"
  by (force intro!: Max_ge)

lemma pvalue_obj:
  assumes "pmembers n (Suc d) (members_text kvs @ CHR ''}'' # rest) = Some (kvs, rest)"
    and "members_text kvs = dquote # u" and "d < max_depth"
  shows "pvalue (Suc n) d (print_json (JObj kvs) @ rest) = Some (JObj kvs, rest)"
proof -
  have "print_json (JObj kvs) @ rest = CHR ''{'' # dquote # u @ CHR ''}'' # rest"
    by (simp only: print_json_obj assms(2)) simp
  then show ?thesis
    using assms by (simp add: scan_simps)
qed

lemma pvalue_arr:
  assumes "pelems n (Suc d) (commas (map print_json js) @ CHR '']'' # rest) = Some (js, rest)"
    and "commas (map print_json js) = c # u" and "\<not> is_ws c" and "c \<noteq> CHR '']''" and "d < max_depth"
  shows "pvalue (Suc n) d (print_json (JArr js) @ rest) = Some (JArr js, rest)"
proof -
  have "print_json (JArr js) @ rest = CHR ''['' # c # u @ CHR '']'' # rest"
    by (simp only: print_json.simps render_elems_def assms(2)) simp
  then show ?thesis
    using assms by (simp add: scan_simps)
qed

theorem pvalue_print:
  "json_ok j \<Longrightarrow> json_size j \<le> n \<Longrightarrow> d + json_depth j \<le> max_depth \<Longrightarrow> num_stop rest \<Longrightarrow>
    pvalue n d (print_json j @ rest) = Some (j, rest)"
proof (induction j arbitrary: n d rest)
  case (JArr js)
  from JArr.prems(2) obtain m where n: "n = Suc m" by (cases n) auto
  show ?case
  proof (cases "js = []")
    case True
    then show ?thesis using JArr.prems n by (simp add: render_elems_def scan_simps)
  next
    case False
    have dep: "Suc d + json_depth j \<le> max_depth" if "j \<in> set js" for j
      using JArr.prems(3) json_depth_elem [OF that] by linarith
    have pe: "pelems m (Suc d) (commas (map print_json js) @ CHR '']'' # rest) = Some (js, rest)"
      using JArr False n dep by (intro pelems_print) auto
    obtain j js' where js: "js = j # js'" using False by (cases js) auto
    from js JArr.prems(1) obtain c u where "print_json j = c # u" "\<not> is_ws c" "c \<noteq> CHR '']''"
      by (auto intro: print_json_head)
    moreover from this(1) js obtain u' where "commas (map print_json js) = c # u'"
      by (cases js') simp_all
    moreover have "d < max_depth" using dep [of j] js by simp
    ultimately show ?thesis
      unfolding n using pe \<open>\<not> is_ws c\<close> \<open>c \<noteq> CHR '']''\<close> by (intro pvalue_arr)
  qed
next
  case (JObj kvs)
  from JObj.prems(2) obtain m where n: "n = Suc m" by (cases n) auto
  show ?case
  proof (cases "kvs = []")
    case True
    then show ?thesis using JObj.prems n by (simp add: render_members_def scan_simps)
  next
    case False
    have dep: "Suc d + json_depth j \<le> max_depth" if "(k, j) \<in> set kvs" for k j
      using JObj.prems(3) json_depth_member [OF that] by linarith
    have pm: "pmembers m (Suc d) (members_text kvs @ CHR ''}'' # rest) = Some (kvs, rest)"
    proof (rule pmembers_print)
      show "pvalue n d (print_json j @ rest) = Some (j, rest)"
        if "(k, j) \<in> set kvs" "json_size j \<le> n" "d + json_depth j \<le> max_depth" "num_stop rest"
        for k j rest n d
        using that JObj.prems(1) by (intro JObj.IH [of "(k, j)"]) auto
      show "utf8_ok k \<and> Suc d + json_depth j \<le> max_depth" if "(k, j) \<in> set kvs" for k j
        using that JObj.prems(1) dep by auto
    qed (use JObj.prems(2) n False in simp_all)
    obtain k j kvs' where kvs: "kvs = (k, j) # kvs'" using False by (cases kvs) auto
    then obtain u where "members_text kvs = dquote # u"
      by (simp add: members_text_Cons quote_def)
    moreover have "d < max_depth" using dep [of k j] kvs by simp
    ultimately show ?thesis unfolding n using pm by (intro pvalue_obj)
  qed
qed (rule pvalue_scalar; simp)+

section \<open>Enough fuel\<close>

definition elems_size :: "json list \<Rightarrow> nat" where
  "elems_size js = sum_list (map (\<lambda>j. Suc (json_size j)) js)"

definition members_size :: "(string \<times> json) list \<Rightarrow> nat" where
  "members_size kvs = sum_list (map (\<lambda>(k, j). Suc (json_size j)) kvs)"

lemma size_simps [simp]:
  "elems_size [] = 0" "elems_size (j # js) = Suc (json_size j) + elems_size js"
  "members_size [] = 0" "members_size ((k, j) # kvs) = Suc (json_size j) + members_size kvs"
  "json_size (JArr js) = Suc (elems_size js)" "json_size (JObj kvs) = Suc (members_size kvs)"
  by (simp_all add: elems_size_def members_size_def)

declare json_size.simps(1,2) [simp del]

lemma skip_ws_length: "skip_ws s = t \<Longrightarrow> length t \<le> length s"
  unfolding skip_ws_def using length_dropWhile_le by blast

lemma prepend_SomeE:
  assumes "prepend r x = Some (s, t)"
  obtains s' where "x = Some (s', t)" "s = r @ s'"
  using assms by (auto simp: prepend_def split: option.splits)

lemma unquote_length: "unquote s = Some (x, r) \<Longrightarrow> length r < length s"
proof (induction s arbitrary: x rule: unquote.induct)
  case (2 c s)
  consider "c = dquote" | "c \<noteq> dquote" "c = backslash" | "c \<noteq> dquote" "c \<noteq> backslash" "code c < 128"
    | "c \<noteq> dquote" "c \<noteq> backslash" "\<not> code c < 128" by blast
  then show ?case
  proof cases
    case 1
    then show ?thesis using 2 by simp
  next
    case two: 2
    with "2.prems" obtain q t where "escape s = Some (q, t)" "prepend q (unquote t) = Some (x, r)"
      by (auto split: option.splits)
    with 2(1) [OF two, of "(q, t)" q t] escape_length [of s q t] show ?thesis
      by (auto elim!: prepend_SomeE simp del: unquote.simps)
  next
    case 3
    with "2.prems" have "\<not> code c < 32" "prepend [c] (unquote s) = Some (x, r)"
      by (auto split: if_splits)
    with 3 2(2) show ?thesis by (auto elim!: prepend_SomeE intro: less_SucI simp del: unquote.simps)
  next
    case 4
    then have "\<not> code c < 32" by simp
    show ?thesis
    proof (cases "utf8_take (c # s)")
      case None
      with 4 "2.prems" have "prepend rune_error (unquote s) = Some (x, r)"
        by (simp del: utf8_take.simps)
      then obtain x' where "unquote s = Some (x', r)" by (rule prepend_SomeE)
      with None 4 2(3) [of x'] \<open>\<not> code c < 32\<close> show ?thesis by (simp del: utf8_take.simps)
    next
      case (Some a)
      obtain q t where a: "a = (q, t)" by (cases a)
      with Some 4 "2.prems" have "prepend q (unquote t) = Some (x, r)"
        by (simp del: utf8_take.simps)
      then obtain x' where "unquote t = Some (x', r)" by (rule prepend_SomeE)
      with 4 Some a 2(4) [of "(q, t)" q t x'] utf8_take_length [of "c # s" q t] \<open>\<not> code c < 32\<close>
      show ?thesis by (simp del: utf8_take.simps)
    qed
  qed
qed simp

lemma parse_number_length: "parse_number s = Some (x, r) \<Longrightarrow> length r < length s"
proof -
  have len: "length (dropWhile P t) \<le> length t" for P and t :: string
    by (rule length_dropWhile_le)
  have tw: "takeWhile P t \<noteq> [] \<Longrightarrow> length (dropWhile P t) < length t" for P and t :: string
    by (cases t) (auto simp: less_Suc_eq_le len split: if_splits)
  have fr: "p_frac t = Some (y, u) \<Longrightarrow> length u \<le> length t" for t y u
    by (auto simp: p_frac_def le_SucI len split: list.splits if_splits)
  have sg: "p_sign t = (y, u) \<Longrightarrow> length u \<le> length t" for t y u
    by (auto simp: p_sign_def split: list.splits if_splits)
  have ex: "p_expo t = Some (y, u) \<Longrightarrow> length u \<le> length t" for t y u
    using sg len by (fastforce simp: p_expo_def intro: le_SucI order_trans split: list.splits if_splits prod.splits)
  have ui: "p_uint t = Some (y, u) \<Longrightarrow> length u < length t" for t y u
    by (auto simp: p_uint_def less_Suc_eq_le len split: list.splits if_splits)
  have mi: "p_minus t = (y, u) \<Longrightarrow> length u \<le> length t" for t y u
    by (auto simp: p_minus_def split: list.splits if_splits)
  assume "parse_number s = Some (x, r)"
  then show ?thesis
    by (auto simp: parse_number_def split: option.splits prod.splits
        dest!: fr ex ui mi)
qed

lemma parse_literal_length:
  "parse_literal s = Some (j, r) \<Longrightarrow> json_size j = 1 \<and> length r < length s"
  by (auto simp: parse_literal_def has_prefix_iff split: if_splits)

lemma member_name_length: "member_name s = Some (k, r) \<Longrightarrow> length r < length s"
  by (auto simp: member_name_def split: list.splits option.splits if_splits
      dest!: skip_ws_length unquote_length)

text \<open>
  A successful scan consumes at least as many characters as the value has nodes, and that many
  units of fuel are enough to repeat it.
\<close>

lemma scan_consumes:
  "pvalue n d s = Some (j, r) \<Longrightarrow> length r + json_size j \<le> length s"
  "pelems n d s = Some (js, r) \<Longrightarrow> length r + elems_size js \<le> length s"
  "pmembers n d s = Some (kvs, r) \<Longrightarrow> length r + members_size kvs \<le> length s"
proof (induction n d s and n d s and n d s arbitrary: j r and js r and kvs r
    rule: pvalue_pelems_pmembers.induct)
  case (2 n d s)
  then show ?case
    by (auto simp: scan_simps split: list.splits if_splits
        dest!: skip_ws_length unquote_length parse_number_length parse_literal_length)
      fastforce+
next
  case (4 n d s)
  then show ?case
    by (fastforce simp: scan_simps split: option.splits list.splits if_splits dest!: skip_ws_length)
next
  case (6 n d s)
  then show ?case
    by (fastforce simp: scan_simps split: option.splits list.splits if_splits
        dest!: skip_ws_length member_name_length)
qed simp_all

text \<open>A step keeps its answer when the nested scanners keep theirs on smaller values.\<close>

lemma value_step_mono:
  assumes "value_step e m d s = Some (j, r)"
    and e: "\<And>d s js r. e d s = Some (js, r) \<Longrightarrow> elems_size js < json_size j \<Longrightarrow> e' d s = Some (js, r)"
    and m: "\<And>d s kvs r. m d s = Some (kvs, r) \<Longrightarrow> members_size kvs < json_size j \<Longrightarrow> m' d s = Some (kvs, r)"
  shows "value_step e' m' d s = Some (j, r)"
proof (cases "skip_ws s")
  case Nil
  then show ?thesis using assms(1) by (simp add: value_step_def)
next
  case (Cons c t)
  consider "c = CHR ''{''" | "c = CHR ''[''" | "c \<noteq> CHR ''{''" "c \<noteq> CHR ''[''" by blast
  then show ?thesis
  proof cases
    case 1
    then show ?thesis
      using assms(1) Cons m
      by (auto simp: value_step_def split: if_splits list.splits)
  next
    case 2
    then show ?thesis
      using assms(1) Cons e
      by (auto simp: value_step_def split: if_splits list.splits)
  next
    case 3
    then show ?thesis using assms(1) Cons by (simp add: value_step_def)
  qed
qed

lemma elems_step_mono:
  assumes "elems_step v e d s = Some (js, r)"
    and v: "\<And>d s j r. v d s = Some (j, r) \<Longrightarrow> json_size j < elems_size js \<Longrightarrow> v' d s = Some (j, r)"
    and e: "\<And>d s ks r. e d s = Some (ks, r) \<Longrightarrow> elems_size ks < elems_size js \<Longrightarrow> e' d s = Some (ks, r)"
  shows "elems_step v' e' d s = Some (js, r)"
proof -
  from assms(1) obtain j t where j: "v d s = Some (j, t)"
    by (auto simp: elems_step_def split: option.splits)
  with assms(1) obtain ks where ks: "js = j # ks"
    by (auto simp: elems_step_def split: list.splits if_splits)
  with j v have "v' d s = Some (j, t)" by simp
  then show ?thesis
    using assms(1) j ks e by (auto simp: elems_step_def split: list.splits if_splits)
qed

lemma members_step_mono:
  assumes "members_step v e d s = Some (kvs, r)"
    and v: "\<And>d s j r. v d s = Some (j, r) \<Longrightarrow> json_size j < members_size kvs \<Longrightarrow> v' d s = Some (j, r)"
    and e: "\<And>d s ks r. e d s = Some (ks, r) \<Longrightarrow> members_size ks < members_size kvs \<Longrightarrow> e' d s = Some (ks, r)"
  shows "members_step v' e' d s = Some (kvs, r)"
proof -
  from assms(1) obtain k s' j t where k: "member_name s = Some (k, s')" and j: "v d s' = Some (j, t)"
    by (auto simp: members_step_def split: option.splits)
  with assms(1) obtain ks where ks: "kvs = (k, j) # ks"
    by (auto simp: members_step_def split: list.splits if_splits)
  with j v have "v' d s' = Some (j, t)" by simp
  then show ?thesis
    using assms(1) k j ks e by (auto simp: members_step_def split: list.splits if_splits)
qed

lemma scan_fuel:
  "pvalue n d s = Some (j, r) \<Longrightarrow> json_size j \<le> m \<Longrightarrow> pvalue m d s = Some (j, r)"
  "pelems n d s = Some (js, r) \<Longrightarrow> elems_size js \<le> m \<Longrightarrow> pelems m d s = Some (js, r)"
  "pmembers n d s = Some (kvs, r) \<Longrightarrow> members_size kvs \<le> m \<Longrightarrow> pmembers m d s = Some (kvs, r)"
proof (induction n d s and n d s and n d s arbitrary: j r m and js r m and kvs r m
    rule: pvalue_pelems_pmembers.induct)
  case (2 n d s)
  obtain m' where m: "m = Suc m'" using 2(4) by (cases m) (cases j; simp)+
  show ?case
    using 2(3,4) unfolding m pvalue.simps(2)
    by (elim value_step_mono) (auto intro: 2(1,2))
next
  case (4 n d s)
  have "js \<noteq> []" using 4(3) by (auto simp: scan_simps split: option.splits list.splits if_splits)
  then obtain m' where m: "m = Suc m'" using 4(4) by (cases m; cases js) auto
  show ?case
    using 4(3,4) unfolding m pelems.simps(2)
    by (elim elems_step_mono) (auto intro: 4(1,2))
next
  case (6 n d s)
  have "kvs \<noteq> []" using 6(3) by (auto simp: scan_simps split: option.splits list.splits if_splits)
  then obtain m' where m: "m = Suc m'" using 6(4) by (cases m; cases kvs) auto
  show ?case
    using 6(3,4) unfolding m pmembers.simps(2)
    by (elim members_step_mono) (auto intro: 6(1,2))
qed simp_all

lemma pvalue_fuel:
  assumes "pvalue n 0 s = Some (j, r)"
  shows "scan_value s = Some (j, r)"
proof -
  have "json_size j \<le> Suc (length s)" using scan_consumes(1) [OF assms] by simp
  with assms show ?thesis unfolding scan_value_def by (rule scan_fuel(1))
qed

section \<open>Codes\<close>

text \<open>
  What the encodings of this development have in common: \<open>dec\<close> reads an encoded object off
  the front of a text, whatever follows. An encoding with such a reader is injective, and two
  encodings that start equal texts encode the same object.
\<close>

locale text_code =
  fixes enc :: "'a \<Rightarrow> string"
    and dec :: "string \<Rightarrow> ('a \<times> string) option"
    and ok :: "'a \<Rightarrow> bool"
    and stop :: "string \<Rightarrow> bool"
  assumes dec_enc: "ok x \<Longrightarrow> stop rest \<Longrightarrow> dec (enc x @ rest) = Some (x, rest)"
    and stop_Nil: "stop []"
begin

lemma dec_enc_Nil: "ok x \<Longrightarrow> dec (enc x) = Some (x, [])"
  using dec_enc [of x "[]"] stop_Nil by simp

lemma enc_append_inj:
  "ok x \<Longrightarrow> ok y \<Longrightarrow> stop s \<Longrightarrow> stop t \<Longrightarrow> enc x @ s = enc y @ t \<Longrightarrow> x = y \<and> s = t"
  by (metis dec_enc option.inject prod.inject)

lemma enc_inj: "ok x \<Longrightarrow> ok y \<Longrightarrow> enc x = enc y \<Longrightarrow> x = y"
  by (metis dec_enc_Nil option.inject prod.inject)

end

definition scan_quoted :: "string \<Rightarrow> (string \<times> string) option" where
  "scan_quoted s = (case s of [] \<Rightarrow> None | c # t \<Rightarrow> if c = dquote then unquote t else None)"

interpretation json_string: text_code quote scan_quoted utf8_ok "\<lambda>_. True"
  by unfold_locales (simp_all add: scan_quoted_def quote_def unquote_quote_body)

definition json_fits :: "json \<Rightarrow> bool" where
  "json_fits j \<longleftrightarrow> json_ok j \<and> json_depth j \<le> max_depth"

lemma scan_value_print:
  "json_fits j \<Longrightarrow> num_stop rest \<Longrightarrow> scan_value (print_json j @ rest) = Some (j, rest)"
  by (rule pvalue_fuel [of "json_size j"], rule pvalue_print) (simp_all add: json_fits_def)

interpretation json_text: text_code print_json scan_value json_fits num_stop
  by unfold_locales (simp_all add: scan_value_print)

lemma unmarshal_print: "json_fits j \<Longrightarrow> unmarshal (print_json j) = Some j"
  by (simp add: unmarshal_def json_text.dec_enc_Nil)

lemma decode_stream_print: "json_fits j \<Longrightarrow> num_stop rest \<Longrightarrow> decode_stream (print_json j @ rest) = Some j"
  by (simp add: decode_stream_def scan_value_print)

end
