(* ===== verification/Go_Values.thy ===== *)
theory Go_Values
  imports Json "HOL-Library.AList"
begin

text \<open>
  The Go values the program hands to \<^verbatim>\<open>json.Marshal\<close> and gets from \<^verbatim>\<open>json.Unmarshal\<close> into an
  \<^verbatim>\<open>interface{}\<close>. A \<^verbatim>\<open>map[string]interface{}\<close> is a list of entries in the order of some iteration,
  which Go leaves open: what the code computes from it must not depend on that order. A
  \<^verbatim>\<open>float64\<close> is represented by the text \<^verbatim>\<open>encoding/json\<close> prints for it; the conversion from a
  number literal to that text (\<^verbatim>\<open>strconv.ParseFloat\<close>, then the encoder's formatting) is the
  parameter \<open>ft\<close> of \<open>from_json\<close>, \<open>None\<close> where Go reports the literal out of range. A struct is the
  list of its fields under their JSON names, in declaration order, after \<^verbatim>\<open>omitempty\<close>.
\<close>

datatype gval =
    GNull
  | GBool bool
  | GInt int
  | GFloat string
  | GStr string
  | GRaw "string option"
  | GMap "(string \<times> gval) list"
  | GSlice "gval list"
  | GStruct "(string \<times> gval) list"

section \<open>Compacting a raw message\<close>

datatype scan_pos = Outside | InString | Escaped

definition next_pos :: "scan_pos \<Rightarrow> char \<Rightarrow> scan_pos" where
  "next_pos p c =
    (case p of
       Outside \<Rightarrow> if c = dquote then InString else Outside
     | InString \<Rightarrow> if c = backslash then Escaped else if c = dquote then Outside else InString
     | Escaped \<Rightarrow> InString)"

fun strip_spaces :: "scan_pos \<Rightarrow> string \<Rightarrow> string" where
  \<comment> \<open>\<^verbatim>\<open>appendCompact\<close> with HTML escaping: white space between tokens goes, the three HTML
     characters and the two separators are escaped\<close>
  "strip_spaces p [] = []"
| "strip_spaces p (c # s) =
    (let out =
       (if p = Outside \<and> is_ws c then []
        else if html_char c then
          [backslash, CHR ''u'', CHR ''0'', CHR ''0'', hexdigit (code c div 16), hexdigit (code c mod 16)]
        else [c])
     in out @ strip_spaces (next_pos p c) s)"

fun esc_separators :: "string \<Rightarrow> string" where
  "esc_separators (a # b # c # s) =
    (if [a, b, c] = line_sep \<or> [a, b, c] = para_sep
     then esc_rune [a, b, c] @ esc_separators s
     else a # esc_separators (b # c # s))"
| "esc_separators s = s"

definition compact :: "string \<Rightarrow> string option" where
  "compact raw = (if unmarshal raw = None then None else Some (esc_separators (strip_spaces Outside raw)))"

section \<open>json.Marshal\<close>

definition all_members :: "(string \<times> string option) list \<Rightarrow> (string \<times> string) list option" where
  "all_members kvs = those (map (\<lambda>(k, x). map_option (Pair k) x) kvs)"

fun marshal :: "gval \<Rightarrow> string option" where
  "marshal GNull = Some ''null''"
| "marshal (GBool b) = Some (if b then ''true'' else ''false'')"
| "marshal (GInt i) = Some (itoa i)"
| "marshal (GFloat t) = Some t"
| "marshal (GStr s) = Some (quote s)"
| "marshal (GRaw r) = (case r of None \<Rightarrow> Some ''null'' | Some raw \<Rightarrow> compact raw)"
| "marshal (GMap kvs) =
    map_option render_members (all_members (sort_key fst (map (\<lambda>(k, v). (k, marshal v)) kvs)))"
| "marshal (GSlice vs) = map_option render_elems (those (map marshal vs))"
| "marshal (GStruct kvs) =
    map_option render_members (all_members (map (\<lambda>(k, v). (k, marshal v)) kvs))"

section \<open>json.Unmarshal into an interface\<close>

fun from_json :: "(string \<Rightarrow> string option) \<Rightarrow> json \<Rightarrow> gval option" where
  "from_json ft JNull = Some GNull"
| "from_json ft (JBool b) = Some (GBool b)"
| "from_json ft (JNum t) = map_option GFloat (ft t)"
| "from_json ft (JStr s) = Some (GStr s)"
| "from_json ft (JArr js) = map_option GSlice (those (map (from_json ft) js))"
| "from_json ft (JObj kvs) =
    map_option (\<lambda>ms. GMap (fold (\<lambda>(k, v). AList.update k v) ms []))
      (those (map (\<lambda>(k, j). map_option (Pair k) (from_json ft j)) kvs))"

section \<open>Values without raw messages\<close>

text \<open>
  A value that holds no raw message marshals to the text of a JSON tree, so that the round trip
  of the parser applies to it.
\<close>

fun raw_free :: "gval \<Rightarrow> bool" where
  "raw_free (GRaw r) = False"
| "raw_free (GMap kvs) = (\<forall>(k, v) \<in> set kvs. raw_free v)"
| "raw_free (GSlice vs) = (\<forall>v \<in> set vs. raw_free v)"
| "raw_free (GStruct kvs) = (\<forall>(k, v) \<in> set kvs. raw_free v)"
| "raw_free _ = True"

fun to_json :: "gval \<Rightarrow> json" where
  "to_json GNull = JNull"
| "to_json (GBool b) = JBool b"
| "to_json (GInt i) = JNum (itoa i)"
| "to_json (GFloat t) = JNum t"
| "to_json (GStr s) = JStr s"
| "to_json (GRaw r) = JNull"
| "to_json (GMap kvs) = JObj (sort_key fst (map (\<lambda>(k, v). (k, to_json v)) kvs))"
| "to_json (GSlice vs) = JArr (map to_json vs)"
| "to_json (GStruct kvs) = JObj (map (\<lambda>(k, v). (k, to_json v)) kvs)"

lemma insort_key_map_snd:
  "insort_key fst (k, f v) (map (\<lambda>(k, v). (k, f v)) kvs)
    = map (\<lambda>(k, v). (k, f v)) (insort_key fst (k, v) kvs)"
  by (induction kvs) auto

lemma sort_key_map_snd:
  "sort_key fst (map (\<lambda>(k, v). (k, f v)) kvs) = map (\<lambda>(k, v). (k, f v)) (sort_key fst kvs)"
  by (induction kvs) (auto simp: insort_key_map_snd)

lemma map_snd_comp [simp]:
  "map (\<lambda>(k, v). (k, f v)) (map (\<lambda>(k, v). (k, g v)) kvs) = map (\<lambda>(k, v). (k, f (g v))) kvs"
  by (induction kvs) auto

lemma those_SomeD: "those (map f xs) = Some ys \<Longrightarrow> y \<in> set ys \<Longrightarrow> \<exists>x \<in> set xs. f x = Some y"
  by (induction xs arbitrary: ys) (auto split: option.splits)

lemma those_map_Some [simp]: "those (map (\<lambda>x. Some (f x)) xs) = Some (map f xs)"
  by (induction xs) simp_all

lemma those_cong_Some:
  "(\<And>x. x \<in> set xs \<Longrightarrow> f x = Some (g x)) \<Longrightarrow> those (map f xs) = Some (map g xs)"
  by (induction xs) simp_all

lemma all_members_Some:
  assumes "\<And>k v. (k, v) \<in> set kvs \<Longrightarrow> f v = Some (g v)"
  shows "all_members (map (\<lambda>(k, v). (k, f v)) kvs) = Some (map (\<lambda>(k, v). (k, g v)) kvs)"
  unfolding all_members_def map_map
  by (rule those_cong_Some) (use assms in auto)

lemma marshal_print: "raw_free v \<Longrightarrow> marshal v = Some (print_json (to_json v))"
proof (induction v)
  case (GMap kvs)
  have "all_members (map (\<lambda>(k, v). (k, marshal v)) (sort_key fst kvs))
      = Some (map (\<lambda>(k, v). (k, print_json (to_json v))) (sort_key fst kvs))"
  proof (rule all_members_Some)
    show "marshal v = Some (print_json (to_json v))" if "(k, v) \<in> set (sort_key fst kvs)" for k v
      using that GMap.prems by (intro GMap.IH [of "(k, v)"]) auto
  qed
  then show ?case by (simp add: sort_key_map_snd del: map_map)
next
  case (GSlice vs)
  then show ?case by (simp add: comp_def those_cong_Some [where g = "\<lambda>v. print_json (to_json v)"])
next
  case (GStruct kvs)
  have "all_members (map (\<lambda>(k, v). (k, marshal v)) kvs)
      = Some (map (\<lambda>(k, v). (k, print_json (to_json v))) kvs)"
  proof (rule all_members_Some)
    show "marshal v = Some (print_json (to_json v))" if "(k, v) \<in> set kvs" for k v
      using that GStruct.prems by (intro GStruct.IH [of "(k, v)"]) auto
  qed
  then show ?case by (simp del: map_map)
qed auto

lemma from_json_raw_free: "from_json ft j = Some v \<Longrightarrow> raw_free v"
proof (induction j arbitrary: v)
  case (JArr js)
  then obtain vs where vs: "those (map (from_json ft) js) = Some vs" "v = GSlice vs" by auto
  with JArr.IH show ?case by (auto dest: those_SomeD [OF vs(1)])
next
  case (JObj kvs)
  then obtain ms where ms: "those (map (\<lambda>(k, j). map_option (Pair k) (from_json ft j)) kvs) = Some ms"
    and v: "v = GMap (fold (\<lambda>(k, v). AList.update k v) ms [])" by auto
  have free: "raw_free w" if w: "(k, w) \<in> set ms" for k w
  proof -
    obtain j where "(k, j) \<in> set kvs" "from_json ft j = Some w"
      using those_SomeD [OF ms w] by auto
    then show ?thesis by (intro JObj.IH [of "(k, j)" j]) auto
  qed
  have "set (fold (\<lambda>(k, v). AList.update k v) ms acc) \<subseteq> set ms \<union> set acc" for acc
  proof (induction ms arbitrary: acc)
    case (Cons m ms)
    have "set (AList.update k w acc) \<subseteq> insert (k, w) (set acc)" for k w
      by (induction acc) auto
    with Cons [of "AList.update (fst m) (snd m) acc"] show ?case by (cases m) fastforce
  qed simp
  from this [of "[]"] free v show ?case by auto
qed auto

end
