(* ===== verification/Go_Decode.thy ===== *)
theory Go_Decode
  imports Go_Values
begin

text \<open>
  \<^verbatim>\<open>encoding/json\<close> decoding into a struct. A field is its JSON name and a setter; a setter that
  fails stands for the \<^verbatim>\<open>UnmarshalTypeError\<close> Go records and returns at the end, when the struct is no
  longer used. Member names match exactly or under case folding, and a later member overwrites
  an earlier one.
\<close>

fun fold_name :: "string \<Rightarrow> string" where
  \<comment> \<open>the simple case folds that can end in an ASCII letter: A to Z, the long s, the Kelvin sign\<close>
  "fold_name [] = []"
| "fold_name (c # s) =
    (if in_range 65 90 c then byte (code c + 32) # fold_name s
     else case s of
       d # t \<Rightarrow>
         if code c = 197 \<and> code d = 191 then CHR ''s'' # fold_name t
         else (case t of
             e # u \<Rightarrow>
               if code c = 226 \<and> code d = 132 \<and> code e = 170 then CHR ''k'' # fold_name u
               else c # fold_name s
           | [] \<Rightarrow> c # fold_name s)
     | [] \<Rightarrow> [c])"

type_synonym 'r setter = "json \<Rightarrow> 'r \<Rightarrow> 'r option"

definition set_string :: "(string \<Rightarrow> 'r \<Rightarrow> 'r) \<Rightarrow> 'r setter" where
  "set_string upd j r =
    (case j of JStr s \<Rightarrow> Some (upd s r) | JNull \<Rightarrow> Some r | _ \<Rightarrow> None)"

definition set_string_ptr :: "(string option \<Rightarrow> 'r \<Rightarrow> 'r) \<Rightarrow> 'r setter" where
  "set_string_ptr upd j r =
    (case j of JStr s \<Rightarrow> Some (upd (Some s) r) | JNull \<Rightarrow> Some (upd None r) | _ \<Rightarrow> None)"

definition set_int_ptr :: "(int option \<Rightarrow> 'r \<Rightarrow> 'r) \<Rightarrow> 'r setter" where
  "set_int_ptr upd j r =
    (case j of
       JNum t \<Rightarrow> (case atoi t of (i, None) \<Rightarrow> Some (upd (Some i) r) | (_, Some _) \<Rightarrow> None)
     | JNull \<Rightarrow> Some (upd None r)
     | _ \<Rightarrow> None)"

fun decode_members ::
  "bool \<Rightarrow> (string \<times> 'r setter) list \<Rightarrow> (string \<times> json) list \<Rightarrow> 'r \<Rightarrow> 'r option" where
  \<comment> \<open>the flag is \<^verbatim>\<open>DisallowUnknownFields\<close>\<close>
  "decode_members strict fields [] r = Some r"
| "decode_members strict fields ((k, j) # kvs) r =
    (case map_of fields (fold_name k) of
       None \<Rightarrow> if strict then None else decode_members strict fields kvs r
     | Some set_field \<Rightarrow>
         (case set_field j r of
            None \<Rightarrow> None
          | Some r' \<Rightarrow> decode_members strict fields kvs r'))"

definition decode_struct :: "bool \<Rightarrow> (string \<times> 'r setter) list \<Rightarrow> json \<Rightarrow> 'r \<Rightarrow> 'r option" where
  "decode_struct strict fields j r =
    (case j of
       JObj kvs \<Rightarrow> decode_members strict fields kvs r
     | JNull \<Rightarrow> Some r
     | _ \<Rightarrow> None)"

lemma set_simps [simp]:
  "set_string upd (JStr s) r = Some (upd s r)"
  "set_string_ptr upd2 (JStr s) r = Some (upd2 (Some s) r)"
  "int64_ok i \<Longrightarrow> set_int_ptr upd3 (JNum (itoa i)) r = Some (upd3 (Some i) r)"
  by (simp_all add: set_string_def set_string_ptr_def set_int_ptr_def atoi_itoa)

lemma set_int_ptr_range: "set_int_ptr (\<lambda>i _. i) j r = Some (Some i) \<Longrightarrow> int64_ok i"
  using atoi_int64 by (auto simp: set_int_ptr_def split: json.splits option.splits prod.splits)
    (metis fst_conv)

text \<open>The member names the program knows fold to themselves.\<close>

lemma field_names: "fold_name ''name'' = ''name''" "fold_name ''type'' = ''type''"
  "fold_name ''webhook_url'' = ''webhook_url''" "fold_name ''version'' = ''version''"
  "fold_name ''max_retries'' = ''max_retries''" "fold_name ''timeout_seconds'' = ''timeout_seconds''"
  "fold_name ''email'' = ''email''" "fold_name ''password'' = ''password''" "fold_name ''username'' = ''username''"
  by (simp_all add: in_range_def)

end
