(* ===== verification/Token.thy ===== *)
theory Token
  imports Go_Strings
begin

text \<open>
  \<^verbatim>\<open>service/token.go\<close> and \<^verbatim>\<open>service/auth.go\<close>: the access and refresh tokens, their validation,
  and the password hashes. The JWT and bcrypt libraries are not part of the repository: they are
  the fields of \<open>libs\<close>, and \<open>libs_ok\<close> states what their documentation says and the code relies on.
  Times are in nanoseconds; a \<^verbatim>\<open>NumericDate\<close> is in seconds.
\<close>

section \<open>The libraries\<close>

record LocalClaims =
  lc_Subject :: string
  lc_ExpiresAt :: "int option"
  lc_IssuedAt :: "int option"
  lc_Email :: string

datatype token_error = MissingToken | UnexpectedMethod | ParseError | InvalidToken

text \<open>
  \<open>jwt_Sign\<close> is \<^verbatim>\<open>SignedString\<close> of a token with method HS256. \<open>jwt_Parse now t kf\<close> is
  \<^verbatim>\<open>ParseWithClaims\<close> at time \<open>now\<close> with the key function \<open>kf\<close>, which maps the algorithm named in the
  token's header to the key or an error; the result has the claims and the \<^verbatim>\<open>Valid\<close> flag.
  \<open>bc_Generate n\<close> is \<^verbatim>\<open>GenerateFromPassword\<close> with the salt drawn at the \<open>n\<close>th interaction,
  \<open>bc_Compare\<close> says whether \<^verbatim>\<open>CompareHashAndPassword\<close> returns nil.
\<close>

record libs =
  jwt_Sign :: "string \<Rightarrow> LocalClaims \<Rightarrow> string option"
  jwt_Parse :: "int \<Rightarrow> string \<Rightarrow> (string \<Rightarrow> token_error + string) \<Rightarrow> token_error + (LocalClaims \<times> bool)"
  bc_Generate :: "nat \<Rightarrow> string \<Rightarrow> string option"
  bc_Compare :: "string \<Rightarrow> string \<Rightarrow> bool"

definition second :: int where
  "second = 1000000000"

definition claims_text_ok :: "LocalClaims \<Rightarrow> bool" where
  \<comment> \<open>strings that survive their JSON encoding\<close>
  "claims_text_ok c \<longleftrightarrow> utf8_ok (lc_Subject c) \<and> utf8_ok (lc_Email c)"

definition expired :: "LocalClaims \<Rightarrow> int \<Rightarrow> bool" where
  "expired c now \<longleftrightarrow> (case lc_ExpiresAt c of None \<Rightarrow> False | Some e \<Rightarrow> e * second \<le> now)"

definition libs_ok :: "libs \<Rightarrow> bool" where
  \<comment> \<open>signing with an HMAC key succeeds; a signed token is compact text with no \<^verbatim>\<open>Bearer\<close> in front and no white space around it; it
     parses under its own key exactly until it expires; a token is accepted only under a key the
     key function gave; a hash compares equal to its password and is plain ASCII text, and there is
     none for a password longer than 72 bytes\<close>
  "libs_ok L \<longleftrightarrow>
    (\<forall>s c. jwt_Sign L s c \<noteq> None) \<and>
    (\<forall>s c t. jwt_Sign L s c = Some t \<longrightarrow> t \<noteq> [] \<and> TrimSpace t = t \<and> \<not> has_prefix ''Bearer'' t) \<and>
    (\<forall>s c t now kf. jwt_Sign L s c = Some t \<and> claims_text_ok c \<and> kf ''HS256'' = Inr s \<longrightarrow>
      (if expired c now then isl (jwt_Parse L now t kf) else jwt_Parse L now t kf = Inr (c, True))) \<and>
    (\<forall>now t kf c. jwt_Parse L now t kf = Inr (c, True) \<longrightarrow> (\<exists>alg key. kf alg = Inr key) \<and> \<not> expired c now) \<and>
    (\<forall>n p h. bc_Generate L n p = Some h \<longrightarrow>
      bc_Compare L h p \<and> utf8_ok h \<and> CHR 0x00 \<notin> set h) \<and>
    (\<forall>n p. 72 < length p \<longrightarrow> bc_Generate L n p = None)"

lemma libs_okD:
  assumes "libs_ok L"
  shows "jwt_Sign L s c = Some t \<Longrightarrow> t \<noteq> [] \<and> TrimSpace t = t \<and> \<not> has_prefix ''Bearer'' t"
    and "jwt_Sign L s c = Some t \<Longrightarrow> claims_text_ok c \<Longrightarrow> kf ''HS256'' = Inr s \<Longrightarrow> \<not> expired c now \<Longrightarrow>
      jwt_Parse L now t kf = Inr (c, True)"
    and "jwt_Sign L s c = Some t \<Longrightarrow> claims_text_ok c \<Longrightarrow> kf ''HS256'' = Inr s \<Longrightarrow> expired c now \<Longrightarrow>
      isl (jwt_Parse L now t kf)"
    and "jwt_Parse L now t kf = Inr (c, True) \<Longrightarrow> \<not> expired c now"
    and "bc_Generate L n p = Some h \<Longrightarrow> bc_Compare L h p \<and> utf8_ok h \<and> CHR 0x00 \<notin> set h"
    and "72 < length p \<Longrightarrow> bc_Generate L n p = None"
    and "\<exists>t. jwt_Sign L s c = Some t"
proof -
  note laws = assms [unfolded libs_ok_def]
  show "jwt_Sign L s c = Some t \<Longrightarrow> t \<noteq> [] \<and> TrimSpace t = t \<and> \<not> has_prefix ''Bearer'' t"
    using laws [THEN conjunct2, THEN conjunct1] by blast
  note parse = laws [THEN conjunct2, THEN conjunct2, THEN conjunct1, rule_format, of s c t kf now]
  show "jwt_Sign L s c = Some t \<Longrightarrow> claims_text_ok c \<Longrightarrow> kf ''HS256'' = Inr s \<Longrightarrow> \<not> expired c now \<Longrightarrow>
      jwt_Parse L now t kf = Inr (c, True)"
    using parse by simp
  show "jwt_Sign L s c = Some t \<Longrightarrow> claims_text_ok c \<Longrightarrow> kf ''HS256'' = Inr s \<Longrightarrow> expired c now \<Longrightarrow>
      isl (jwt_Parse L now t kf)"
    using parse by simp
  show "jwt_Parse L now t kf = Inr (c, True) \<Longrightarrow> \<not> expired c now"
    using laws [THEN conjunct2, THEN conjunct2, THEN conjunct2, THEN conjunct1] by blast
  show "bc_Generate L n p = Some h \<Longrightarrow> bc_Compare L h p \<and> utf8_ok h \<and> CHR 0x00 \<notin> set h"
    using laws [THEN conjunct2, THEN conjunct2, THEN conjunct2, THEN conjunct2, THEN conjunct1] by blast
  show "72 < length p \<Longrightarrow> bc_Generate L n p = None"
    using laws [THEN conjunct2, THEN conjunct2, THEN conjunct2, THEN conjunct2, THEN conjunct2] by blast
  show "\<exists>t. jwt_Sign L s c = Some t"
    using laws [THEN conjunct1] by blast
qed

section \<open>Tokens\<close>

definition NewNumericDate :: "int \<Rightarrow> int" where
  "NewNumericDate t = t div second"

definition GenerateAccessToken ::
  "libs \<Rightarrow> string \<Rightarrow> string \<Rightarrow> string \<Rightarrow> int \<Rightarrow> int \<Rightarrow> int \<Rightarrow> string option" where
  \<comment> \<open>the two clocks are the two calls of \<^verbatim>\<open>time.Now()\<close>\<close>
  "GenerateAccessToken L secret subject email ttl now1 now2 =
    jwt_Sign L secret \<lparr>lc_Subject = subject, lc_ExpiresAt = Some (NewNumericDate (now1 + ttl)),
      lc_IssuedAt = Some (NewNumericDate now2), lc_Email = email\<rparr>"

definition GenerateRefreshToken ::
  "libs \<Rightarrow> string \<Rightarrow> string \<Rightarrow> int \<Rightarrow> int \<Rightarrow> int \<Rightarrow> string option" where
  "GenerateRefreshToken L secret subject ttl now1 now2 =
    jwt_Sign L secret \<lparr>lc_Subject = subject, lc_ExpiresAt = Some (NewNumericDate (now1 + ttl)),
      lc_IssuedAt = Some (NewNumericDate now2), lc_Email = []\<rparr>"

definition token_key :: "string \<Rightarrow> string \<Rightarrow> token_error + string" where
  \<comment> \<open>the key function of the parser\<close>
  "token_key secret alg = (if alg \<noteq> ''HS256'' then Inl UnexpectedMethod else Inr secret)"

definition ValidateAccessToken :: "libs \<Rightarrow> string \<Rightarrow> string \<Rightarrow> int \<Rightarrow> token_error + LocalClaims" where
  "ValidateAccessToken L secret tokenString now =
    (if tokenString = [] then Inl MissingToken
     else let tokenString = TrimSpace (TrimPrefix tokenString ''Bearer'')
          in case jwt_Parse L now tokenString (token_key secret) of
               Inl e \<Rightarrow> Inl e
             | Inr (claims, valid) \<Rightarrow> if \<not> valid then Inl InvalidToken else Inr claims)"

section \<open>Passwords\<close>

definition HashPassword :: "libs \<Rightarrow> nat \<Rightarrow> string \<Rightarrow> string option" where
  "HashPassword L n password = bc_Generate L n password"

definition ComparePassword :: "libs \<Rightarrow> string \<Rightarrow> string \<Rightarrow> bool" where
  "ComparePassword L hashedPassword password = bc_Compare L hashedPassword password"

section \<open>Headers\<close>

lemma bearer_header: "TrimPrefix (''Bearer '' @ t) ''Bearer'' = CHR '' '' # t"
  by (simp add: TrimPrefix_def)

lemma TrimSpace_space: "TrimSpace (CHR '' '' # t) = TrimSpace t"
proof -
  have "List.find (\<lambda>p. p \<noteq> [] \<and> has_prefix p (CHR '' '' # t)) spaces = Some [byte 32]"
    by (simp add: spaces_def char_of_eq_iff)
  then have "strip_any spaces (CHR '' '' # t) = strip_any spaces t"
    by (subst strip_any.simps) simp
  then show ?thesis by (simp add: TrimSpace_def)
qed

text \<open>The two forms of the header that reach the parser with the bare token.\<close>

definition bearer :: "string \<Rightarrow> string" where
  "bearer t = ''Bearer '' @ t"

lemma header_token:
  assumes "libs_ok L" and "jwt_Sign L s c = Some t" and "header = t \<or> header = bearer t"
  shows "header \<noteq> []" and "TrimSpace (TrimPrefix header ''Bearer'') = t"
proof -
  note t = libs_okD(1) [OF assms(1,2)]
  show "header \<noteq> []" using assms(3) t by (auto simp: bearer_def)
  from assms(3) show "TrimSpace (TrimPrefix header ''Bearer'') = t"
  proof
    assume "header = t"
    with t show ?thesis by (simp add: TrimPrefix_def)
  next
    assume "header = bearer t"
    then have "TrimPrefix header ''Bearer'' = CHR '' '' # t"
      by (simp add: bearer_def TrimPrefix_def)
    with t show ?thesis by (simp add: TrimSpace_space)
  qed
qed

lemma token_key_HS256: "token_key secret ''HS256'' = Inr secret"
  by (simp add: token_key_def)

section \<open>Properties\<close>

lemma validate_signed:
  assumes "libs_ok L" and "jwt_Sign L secret c = Some t" and "claims_text_ok c"
    and "header = t \<or> header = bearer t"
  shows "ValidateAccessToken L secret header now =
    (if expired c now then Inl (projl (jwt_Parse L now t (token_key secret))) else Inr c)"
proof -
  note h = header_token [OF assms(1,2,4)]
    and key = token_key_HS256 [of secret]
  show ?thesis
  proof (cases "expired c now")
    case True
    from libs_okD(3) [where kf = "token_key secret", OF assms(1-3) key True] obtain e
      where "jwt_Parse L now t (token_key secret) = Inl e" by (auto simp: isl_def)
    with h True show ?thesis by (simp add: ValidateAccessToken_def)
  next
    case False
    from libs_okD(2) [where kf = "token_key secret", OF assms(1-3) key False] h False show ?thesis
      by (simp add: ValidateAccessToken_def)
  qed
qed

lemma expired_date:
  "lc_ExpiresAt c = Some (NewNumericDate (now1 + ttl)) \<Longrightarrow> now1 + ttl \<le> now \<Longrightarrow> expired c now"
  "lc_ExpiresAt c = Some (NewNumericDate (now1 + ttl)) \<Longrightarrow> now + second \<le> now1 + ttl \<Longrightarrow> \<not> expired c now"
  using div_mult_mod_eq [of "now1 + ttl" second] pos_mod_bound [of second "now1 + ttl"]
    pos_mod_sign [of second "now1 + ttl"]
  by (auto simp: expired_def NewNumericDate_def second_def)

lemma access_token_valid:
  assumes "libs_ok L" and "GenerateAccessToken L secret subject email ttl now1 now2 = Some t"
    and "utf8_ok subject" and "header = t \<or> header = bearer t" and "utf8_ok email"
  shows "now + second \<le> now1 + ttl \<Longrightarrow> \<exists>c. ValidateAccessToken L secret header now = Inr c \<and>
      lc_Subject c = subject \<and> lc_Email c = email"
    and "now1 + ttl \<le> now \<Longrightarrow> isl (ValidateAccessToken L secret header now)"
proof -
  let ?c = "\<lparr>lc_Subject = subject, lc_ExpiresAt = Some (NewNumericDate (now1 + ttl)),
    lc_IssuedAt = Some (NewNumericDate now2), lc_Email = email\<rparr>"
  have sign: "jwt_Sign L secret ?c = Some t" using assms(2) by (simp add: GenerateAccessToken_def)
  have "claims_text_ok ?c" using assms(3,5) by (simp add: claims_text_ok_def)
  note v = validate_signed [OF assms(1) sign this assms(4), of now]
  show "now + second \<le> now1 + ttl \<Longrightarrow> \<exists>c. ValidateAccessToken L secret header now = Inr c \<and>
      lc_Subject c = subject \<and> lc_Email c = email"
    using v expired_date(2) [of ?c now1 ttl now] by auto
  show "now1 + ttl \<le> now \<Longrightarrow> isl (ValidateAccessToken L secret header now)"
    using v expired_date(1) [of ?c now1 ttl now] by auto
qed

text \<open>C34: An access token generated for a subject validates under the same secret and yields that subject
  and email, until its lifetime is over: it is accepted up to one second before the end and refused
  from the end on. The code treats the \<open>Bearer\<close> prefix as optional, although the README and the API
  document require it: a header that is the bare token is judged the same way.\<close>

theorem access_token_lifetime:
  assumes "libs_ok L" and "GenerateAccessToken L secret subject email ttl now1 now2 = Some t"
    and "utf8_ok subject" and "utf8_ok email" and "header = t \<or> header = bearer t"
  shows "(now + second \<le> now1 + ttl \<longrightarrow> (\<exists>c. ValidateAccessToken L secret header now = Inr c \<and>
      lc_Subject c = subject \<and> lc_Email c = email)) \<and>
    (now1 + ttl \<le> now \<longrightarrow> isl (ValidateAccessToken L secret header now))"
  using access_token_valid [OF assms(1-3,5,4)] by blast

text \<open>C35: A refresh token is accepted as an access token: nothing in the claims tells the two apart, so
  the protected routes take it for the whole of its lifetime.\<close>

theorem refresh_token_accepted:
  assumes "libs_ok L" and "GenerateRefreshToken L secret subject ttl now1 now2 = Some t"
    and "utf8_ok subject" and "now + second \<le> now1 + ttl"
  shows "\<exists>c. ValidateAccessToken L secret (bearer t) now = Inr c \<and> lc_Subject c = subject"
proof -
  let ?c = "\<lparr>lc_Subject = subject, lc_ExpiresAt = Some (NewNumericDate (now1 + ttl)),
    lc_IssuedAt = Some (NewNumericDate now2), lc_Email = []\<rparr>"
  have sign: "jwt_Sign L secret ?c = Some t" using assms(2) by (simp add: GenerateRefreshToken_def)
  have "claims_text_ok ?c" using assms(3) by (simp add: claims_text_ok_def)
  from validate_signed [OF assms(1) sign this, of "bearer t" now] expired_date(2) [of ?c now1 ttl now] assms(4)
  show ?thesis by simp
qed

lemma validate_not_expired:
  assumes "libs_ok L" and "ValidateAccessToken L secret header now = Inr c"
  shows "\<not> expired c now"
  using assms(2) libs_okD(4) [OF assms(1)]
  by (auto simp: ValidateAccessToken_def Let_def split: if_splits sum.splits)

end
