(* ===== verification/Http.thy ===== *)
theory Http
  imports Go_Decode Token
begin

text \<open>
  Requests and responses as the handlers see them, \<^verbatim>\<open>writeJSON\<close>, and the JWT middleware of
  \<^verbatim>\<open>middleware/jwt_auth.go\<close>. A request holds the header, the body, the query parameters
  (\<^verbatim>\<open>URL.Query().Get\<close>) and the path parameter the router has taken from the path; the claims
  and the logger are what the two middlewares store in its context, under the two keys of
  \<^verbatim>\<open>middleware/context.go\<close>. A logger is the list of its fields; what it prints is not modelled.
\<close>

datatype logger = NopLogger | Logger "(string \<times> string) list"

record request =
  rq_Method :: string
  rq_Path :: string
  rq_RemoteAddr :: string
  rq_Authorization :: string
  rq_Body :: string
  rq_Query :: "string \<Rightarrow> string"
  rq_jobID :: string
  rq_claims :: "LocalClaims option"
  rq_logger :: "logger option"

record response =
  rs_Status :: int
  rs_ContentType :: string
  rs_Body :: string

record jsonResponse =
  jr_Message :: string
  jr_Data :: "gval option"

definition response_value :: "jsonResponse \<Rightarrow> gval" where
  \<comment> \<open>the struct under its JSON tags; \<^verbatim>\<open>data\<close> is left out when it is nil\<close>
  "response_value p = GStruct ((''message'', GStr (jr_Message p)) #
     (case jr_Data p of None \<Rightarrow> [] | Some v \<Rightarrow> [(''data'', v)]))"

definition writeJSON :: "int \<Rightarrow> jsonResponse \<Rightarrow> response" where
  \<comment> \<open>the status is sent before the body is encoded; an encoding error leaves the body empty\<close>
  "writeJSON status payload = \<lparr>rs_Status = status, rs_ContentType = ''application/json'',
     rs_Body = (case marshal (response_value payload) of None \<Rightarrow> [] | Some body \<Rightarrow> body @ [char_of (10 :: nat)])\<rparr>"

definition message :: "int \<Rightarrow> string \<Rightarrow> response" where
  "message status msg = writeJSON status \<lparr>jr_Message = msg, jr_Data = None\<rparr>"

definition with_data :: "int \<Rightarrow> string \<Rightarrow> gval \<Rightarrow> response" where
  "with_data status msg v = writeJSON status \<lparr>jr_Message = msg, jr_Data = Some v\<rparr>"

definition http_Error :: "string \<Rightarrow> int \<Rightarrow> response" where
  \<comment> \<open>\<^verbatim>\<open>http.Error\<close>\<close>
  "http_Error msg status = \<lparr>rs_Status = status, rs_ContentType = ''text/plain; charset=utf-8'',
     rs_Body = msg @ [char_of (10 :: nat)]\<rparr>"

lemma response_simps [simp]:
  "rs_Status (message status msg) = status" "rs_Status (with_data status msg v) = status"
  "rs_Status (http_Error msg status) = status"
  by (simp_all add: message_def with_data_def writeJSON_def http_Error_def)

section \<open>The middleware\<close>

definition NewJWTAuth ::
  "libs \<Rightarrow> string \<Rightarrow> (request \<Rightarrow> 'w \<Rightarrow> response \<times> 'w) \<Rightarrow> int \<Rightarrow> request \<Rightarrow> 'w \<Rightarrow> response \<times> 'w" where
  "NewJWTAuth L secret next_handler now r w =
    (case ValidateAccessToken L secret (rq_Authorization r) now of
       Inl _ \<Rightarrow> (http_Error ''invalid access token'' 401, w)
     | Inr claims \<Rightarrow> next_handler (r\<lparr>rq_claims := Some claims\<rparr>) w)"

definition GetJWTClaims :: "request \<Rightarrow> LocalClaims option" where
  "GetJWTClaims r = rq_claims r"

definition getUserID :: "request \<Rightarrow> string" where
  "getUserID r = (case GetJWTClaims r of Some claims \<Rightarrow> lc_Subject claims | None \<Rightarrow> [])"

section \<open>Logging\<close>

fun logger_with :: "logger \<Rightarrow> (string \<times> string) list \<Rightarrow> logger" where
  \<comment> \<open>\<^verbatim>\<open>zap.Logger.With\<close>\<close>
  "logger_with NopLogger fs = NopLogger"
| "logger_with (Logger known) fs = Logger (known @ fs)"

definition RequestLogger :: "logger \<Rightarrow> (request \<Rightarrow> 'w \<Rightarrow> 'a) \<Rightarrow> request \<Rightarrow> 'w \<Rightarrow> 'a" where
  "RequestLogger base next_handler r w =
    (let logger = logger_with base
       [(''method'', rq_Method r), (''path'', rq_Path r), (''remote_addr'', rq_RemoteAddr r)]
     in next_handler (r\<lparr>rq_logger := Some logger\<rparr>) w)"

definition GetLogger :: "request \<Rightarrow> logger" where
  "GetLogger r = (case rq_logger r of Some logger \<Rightarrow> logger | None \<Rightarrow> NopLogger)"

end
