(* ===== verification/Task.thy ===== *)
theory Task
  imports Go_Decode
begin

text \<open>
  \<^verbatim>\<open>service/task.go\<close>: the Asynq task that names the job to process and the outbox event it came
  from, its construction and its parsing, and the form it has in the queue.
\<close>

record asynq_task =
  task_type :: string
  task_payload :: string

text \<open>A task in the queue carries the option it was enqueued with: \<open>qt_MaxRetry\<close> is how often Asynq may
  carry it out again after its handler has returned an error.\<close>

record queued_task = asynq_task +
  qt_MaxRetry :: nat

definition queued :: "nat \<Rightarrow> asynq_task \<Rightarrow> queued_task" where
  "queued maxRetry task =
    \<lparr>task_type = task_type task, task_payload = task_payload task, qt_MaxRetry = maxRetry\<rparr>"

lemma queued_simps [simp]:
  "task_type (queued n task) = task_type task" "task_payload (queued n task) = task_payload task"
  "qt_MaxRetry (queued n task) = n"
  by (simp_all add: queued_def)

definition TypeJobProcess :: string where
  "TypeJobProcess = ''job:process''"

record JobProcessPayload =
  jpp_JobID :: string
  jpp_OutboxID :: string

definition task_value :: "JobProcessPayload \<Rightarrow> gval" where
  "task_value p = GStruct [(''job_id'', GStr (jpp_JobID p)), (''outbox_id'', GStr (jpp_OutboxID p))]"

definition NewJobProcessTask :: "string \<Rightarrow> string \<Rightarrow> asynq_task option" where
  "NewJobProcessTask jobID outboxID =
    (case marshal (task_value \<lparr>jpp_JobID = jobID, jpp_OutboxID = outboxID\<rparr>) of
       None \<Rightarrow> None
     | Some payload \<Rightarrow> Some \<lparr>task_type = TypeJobProcess, task_payload = payload\<rparr>)"

definition task_fields :: "(string \<times> JobProcessPayload setter) list" where
  "task_fields =
    [(''job_id'', set_string (\<lambda>s r. r\<lparr>jpp_JobID := s\<rparr>)),
     (''outbox_id'', set_string (\<lambda>s r. r\<lparr>jpp_OutboxID := s\<rparr>))]"

definition ParseJobProcessPayload :: "'a asynq_task_scheme \<Rightarrow> JobProcessPayload option" where
  "ParseJobProcessPayload task =
    (case unmarshal (task_payload task) of
       None \<Rightarrow> None
     | Some j \<Rightarrow> decode_struct False task_fields j \<lparr>jpp_JobID = [], jpp_OutboxID = []\<rparr>)"

lemma Parse_queued [simp]: "ParseJobProcessPayload (queued n task) = ParseJobProcessPayload task"
  by (simp add: ParseJobProcessPayload_def)

lemma NewJobProcessTask_total:
  "\<exists>payload. NewJobProcessTask jobID outboxID = Some \<lparr>task_type = TypeJobProcess, task_payload = payload\<rparr>"
  by (simp add: NewJobProcessTask_def task_value_def marshal_print del: marshal.simps)

lemma task_fold_names: "fold_name ''job_id'' = ''job_id''" "fold_name ''outbox_id'' = ''outbox_id''"
  by (simp_all add: in_range_def)

lemma Parse_New:
  assumes "utf8_ok jobID" and "utf8_ok outboxID"
    and new: "NewJobProcessTask jobID outboxID = Some task"
  shows "ParseJobProcessPayload task = Some \<lparr>jpp_JobID = jobID, jpp_OutboxID = outboxID\<rparr>"
proof -
  let ?v = "task_value \<lparr>jpp_JobID = jobID, jpp_OutboxID = outboxID\<rparr>"
  have "raw_free ?v" by (simp add: task_value_def)
  then have "task_payload task = print_json (to_json ?v)"
    using new by (auto simp: NewJobProcessTask_def marshal_print)
  moreover have "json_fits (to_json ?v)"
    using assms(1,2) by (simp add: json_fits_def task_value_def max_depth_def utf8_ok_ascii)
  ultimately have "unmarshal (task_payload task) = Some (to_json ?v)"
    by (simp add: unmarshal_print)
  then show ?thesis
    by (simp add: ParseJobProcessPayload_def task_value_def decode_struct_def task_fields_def
        task_fold_names del: fold_name.simps)
qed

end
