(* ===== verification/World.thy ===== *)
theory World
  imports Task
begin

text \<open>
  The state the program acts on and the parties it talks to.

  \<open>tables\<close> is the content of the four PostgreSQL tables of the migrations, \<open>world\<close> adds the Asynq
  queue in Redis, each task with the number of retries it was given, and the log of the webhook requests sent. \<open>tick\<close> counts the interactions with
  the outside; an \<open>env\<close> answers the interaction that happens at each tick: whether a database
  round trip fails, which UUID \<^verbatim>\<open>gen_random_uuid()\<close> draws, the clocks, the random numbers, the
  webhook's reply. Theorems hold for every \<open>env\<close>, so for every schedule of failures.

  A round trip fails in two ways: \<open>FailBefore\<close>, the statement had no effect; \<open>LostReply\<close>, the
  server executed it and the client was told it failed.
\<close>

record StoreUser =
  user_ID :: string
  user_Email :: string
  user_Username :: string
  user_PasswordHash :: string
  user_CreatedAt :: int
  user_UpdatedAt :: int

record StoreJob =
  job_ID :: string
  job_UserID :: string
  job_Type :: string
  job_Name :: string
  job_WebhookURL :: string
  job_Payload :: string
  job_Version :: int
  job_MaxRetries :: int
  job_TimeoutSeconds :: int
  job_State :: string
  job_Attempts :: int
  job_ScheduledAt :: int
  job_LastError :: "string option"
  job_Result :: "string option"
  job_CreatedAt :: int
  job_UpdatedAt :: int

record StoreIdempotencyKey =
  ik_ID :: string
  ik_UserID :: string
  ik_RequestHash :: string
  ik_JobID :: "string option"
  ik_Method :: string
  ik_Path :: string
  ik_StatusCode :: "int option"
  ik_CreatedAt :: int
  ik_ExpiresAt :: int

record StoreOutboxEvent =
  ev_ID :: string
  ev_AggregateType :: string
  ev_AggregateID :: string
  ev_EventType :: string
  ev_Payload :: string
  ev_Published :: bool
  ev_PublishedAt :: "int option"
  ev_CreatedAt :: int
  ev_UpdatedAt :: int

record StoreCreateJobParams =
  cp_UserID :: string
  cp_Type :: string
  cp_Name :: string
  cp_WebhookURL :: string
  cp_Payload :: string
  cp_MaxRetries :: int
  cp_TimeoutSeconds :: int
  cp_Version :: int

record StoreCreateOutboxEventParams =
  op_AggregateType :: string
  op_AggregateID :: string
  op_EventType :: string
  op_Payload :: string
  op_Published :: bool

record tables =
  users :: "StoreUser list"
  jobs :: "StoreJob list"
  idempotency_keys :: "StoreIdempotencyKey list"
  outbox :: "StoreOutboxEvent list"

record world =
  pg :: tables
  redis :: "queued_task list"
  posts :: "(string \<times> string) list"
  tick :: nat

datatype dberr =
    ErrNoRows
  | ErrConn
  | ErrInput string
  | ErrOutOfRange string
  | ErrUnique string
  | ErrForeignKey string
  | ErrScan string
  | ErrMarshal

datatype fault = NoFault | FailBefore | LostReply

datatype http_reply = PostFailed string | Replied int "string + string"

record env =
  e_fault :: "nat \<Rightarrow> fault"
  e_uuid :: "nat \<Rightarrow> string"
  e_pgnow :: "nat \<Rightarrow> int"
  e_gonow :: "nat \<Rightarrow> int"
  e_uuid_in :: "string \<Rightarrow> string option"
  e_jsonb_in :: "string \<Rightarrow> string option"
  e_text_ok :: "string \<Rightarrow> bool"
  e_locked :: "nat \<Rightarrow> string list"
  e_scan :: "nat \<Rightarrow> string \<Rightarrow> nat"
  e_enqueue :: "nat \<Rightarrow> fault"
  e_rand_float :: "nat \<Rightarrow> rat"
  e_ctx_done :: "nat \<Rightarrow> bool"
  e_post :: "nat \<Rightarrow> string \<Rightarrow> string \<Rightarrow> http_reply"

text \<open>
  What the fields stand for: \<open>e_uuid_in\<close>, \<open>e_jsonb_in\<close> and \<open>e_text_ok\<close> are PostgreSQL's input
  functions for \<^verbatim>\<open>uuid\<close> (canonical text form), \<^verbatim>\<open>jsonb\<close> (stored text form) and \<^verbatim>\<open>text\<close>; \<open>e_locked\<close>
  lists the outbox rows other transactions hold locked; \<open>e_scan\<close> is the order in which an execution
  of a query meets the rows, by their identifiers, on which the order of the rows that \<^verbatim>\<open>ORDER BY\<close>
  leaves tied depends; \<open>e_enqueue\<close> is the outcome of
  \<^verbatim>\<open>asynq.Client.Enqueue\<close>; \<open>e_rand_float\<close> are the draws of \<^verbatim>\<open>rand.Float32()\<close>; \<open>e_ctx_done\<close>
  says whether the context is cancelled before the timer fires; a reply of \<open>e_post\<close> has a status
  and either the error met while reading the body (\<open>Inl\<close>) or the body (\<open>Inr\<close>). Times are in
  nanoseconds.
\<close>

definition bump :: "world \<Rightarrow> world" where
  "bump w = w\<lparr>tick := Suc (tick w)\<rparr>"

lemma bump_simps [simp]:
  "pg (bump w) = pg w" "redis (bump w) = redis w" "posts (bump w) = posts w"
  "tick (bump w) = Suc (tick w)" "bump (w\<lparr>pg := t\<rparr>) = (bump w)\<lparr>pg := t\<rparr>"
  by (simp_all add: bump_def)

definition int4_ok :: "int \<Rightarrow> bool" where
  \<comment> \<open>the range of a PostgreSQL \<^verbatim>\<open>int\<close> column\<close>
  "int4_ok i \<longleftrightarrow> -2147483648 \<le> i \<and> i \<le> 2147483647"

text \<open>The tables are tables in the sense of the interface of the prelude.\<close>

interpretation job_rows:
  row_table job_ID "find_by job_ID" add_row "upd_by job_ID" "del_by job_ID" "keys_ok job_ID"
  by (rule row_table_list)

interpretation event_rows:
  row_table ev_ID "find_by ev_ID" add_row "upd_by ev_ID" "del_by ev_ID" "keys_ok ev_ID"
  by (rule row_table_list)

interpretation user_rows:
  row_table user_ID "find_by user_ID" add_row "upd_by user_ID" "del_by user_ID" "keys_ok user_ID"
  by (rule row_table_list)

end
