(* ===== verification/Store.thy ===== *)
theory Store
  imports World
begin

text \<open>
  \<^verbatim>\<open>db/store.go\<close> over the schema of \<^verbatim>\<open>migrations/\<close>. Each SQL statement is a function on the tables
  (\<open>sql_*\<close>) that fails as PostgreSQL does: malformed input, a column out of range, a violated
  unique or foreign key constraint. \<open>auto_stmt\<close> runs one in its own transaction, \<open>tx_stmt\<close> inside an
  open one. An open transaction is the tables it sees, with its start time, which is what
  \<^verbatim>\<open>now()\<close> returns in it; \<open>Commit\<close> publishes them and leaving without it is the deferred
  \<^verbatim>\<open>Rollback\<close>.
\<close>

section \<open>Statements and transactions\<close>

record txn =
  tx_tables :: tables
  tx_now :: int

definition auto_stmt ::
  "env \<Rightarrow> (tables \<Rightarrow> dberr + ('a \<times> tables)) \<Rightarrow> world \<Rightarrow> (dberr + 'a) \<times> world" where
  "auto_stmt env f w =
    (case e_fault env (tick w) of
       FailBefore \<Rightarrow> (Inl ErrConn, bump w)
     | NoFault \<Rightarrow>
         (case f (pg w) of
            Inl e \<Rightarrow> (Inl e, bump w)
          | Inr (x, t) \<Rightarrow> (Inr x, bump (w\<lparr>pg := t\<rparr>)))
     | LostReply \<Rightarrow>
         (case f (pg w) of
            Inl e \<Rightarrow> (Inl ErrConn, bump w)
          | Inr (x, t) \<Rightarrow> (Inl ErrConn, bump (w\<lparr>pg := t\<rparr>))))"

definition BeginTx :: "env \<Rightarrow> world \<Rightarrow> (dberr + txn) \<times> world" where
  "BeginTx env w =
    (case e_fault env (tick w) of
       NoFault \<Rightarrow> (Inr \<lparr>tx_tables = pg w, tx_now = e_pgnow env (tick w)\<rparr>, bump w)
     | _ \<Rightarrow> (Inl ErrConn, bump w))"

definition tx_stmt ::
  "env \<Rightarrow> (tables \<Rightarrow> dberr + ('a \<times> tables)) \<Rightarrow> txn \<Rightarrow> world \<Rightarrow> (dberr + 'a) \<times> txn \<times> world" where
  "tx_stmt env f tx w =
    (case e_fault env (tick w) of
       NoFault \<Rightarrow>
         (case f (tx_tables tx) of
            Inl e \<Rightarrow> (Inl e, tx, bump w)
          | Inr (x, t) \<Rightarrow> (Inr x, tx\<lparr>tx_tables := t\<rparr>, bump w))
     | _ \<Rightarrow> (Inl ErrConn, tx, bump w))"

definition Commit :: "env \<Rightarrow> txn \<Rightarrow> world \<Rightarrow> (dberr + unit) \<times> world" where
  "Commit env tx w =
    (case e_fault env (tick w) of
       NoFault \<Rightarrow> (Inr (), bump (w\<lparr>pg := tx_tables tx\<rparr>))
     | FailBefore \<Rightarrow> (Inl ErrConn, bump w)
     | LostReply \<Rightarrow> (Inl ErrConn, bump (w\<lparr>pg := tx_tables tx\<rparr>)))"

section \<open>Users\<close>

definition sql_insert_user ::
  "env \<Rightarrow> string \<Rightarrow> int \<Rightarrow> string \<Rightarrow> string \<Rightarrow> string \<Rightarrow> tables \<Rightarrow> dberr + (string \<times> tables)" where
  "sql_insert_user env uid now email username passwordHash t =
    (if \<not> e_text_ok env email \<or> \<not> e_text_ok env username \<or> \<not> e_text_ok env passwordHash
     then Inl (ErrInput ''text'')
     else if find_by user_ID uid (users t) \<noteq> None then Inl (ErrUnique ''users_pkey'')
     else if username \<in> user_Username ` set (users t) then Inl (ErrUnique ''users_username_key'')
     else if email \<in> user_Email ` set (users t) then Inl (ErrUnique ''users_email_key'')
     else Inr (uid, t\<lparr>users := add_row
       \<lparr>user_ID = uid, user_Email = email, user_Username = username, user_PasswordHash = passwordHash,
        user_CreatedAt = now, user_UpdatedAt = now\<rparr> (users t)\<rparr>))"

definition CreateUser ::
  "env \<Rightarrow> string \<Rightarrow> string \<Rightarrow> string \<Rightarrow> world \<Rightarrow> (dberr + string) \<times> world" where
  "CreateUser env email username passwordHash w =
    auto_stmt env
      (sql_insert_user env (e_uuid env (tick w)) (e_pgnow env (tick w)) email username passwordHash) w"

definition sql_user_by_email :: "env \<Rightarrow> string \<Rightarrow> tables \<Rightarrow> dberr + (StoreUser \<times> tables)" where
  "sql_user_by_email env email t =
    (if \<not> e_text_ok env email then Inl (ErrInput ''text'')
     else case find_by user_Email email (users t) of
         None \<Rightarrow> Inl ErrNoRows
       | Some u \<Rightarrow> Inr (u, t))"

definition GetUserByEmail :: "env \<Rightarrow> string \<Rightarrow> world \<Rightarrow> (dberr + StoreUser) \<times> world" where
  "GetUserByEmail env email w = auto_stmt env (sql_user_by_email env email) w"

section \<open>Jobs\<close>

definition sql_job_by_id :: "env \<Rightarrow> string \<Rightarrow> tables \<Rightarrow> dberr + (StoreJob \<times> tables)" where
  "sql_job_by_id env jobID t =
    (case e_uuid_in env jobID of
       None \<Rightarrow> Inl (ErrInput ''uuid'')
     | Some k \<Rightarrow>
         (case find_by job_ID k (jobs t) of
            None \<Rightarrow> Inl ErrNoRows
          | Some j \<Rightarrow> Inr (j, t)))"

definition queryRow ::
  "env \<Rightarrow> txn option \<Rightarrow> (tables \<Rightarrow> dberr + ('a \<times> tables)) \<Rightarrow> world \<Rightarrow>
   (dberr + 'a) \<times> txn option \<times> world" where
  "queryRow env tx query w =
    (case tx of
       Some t \<Rightarrow> (case tx_stmt env query t w of (r, t', w') \<Rightarrow> (r, Some t', w'))
     | None \<Rightarrow> (case auto_stmt env query w of (r, w') \<Rightarrow> (r, None, w')))"

definition GetJobByIDTx ::
  "env \<Rightarrow> txn option \<Rightarrow> string \<Rightarrow> world \<Rightarrow> (dberr + StoreJob) \<times> txn option \<times> world" where
  "GetJobByIDTx env tx jobID w = queryRow env tx (sql_job_by_id env jobID) w"

definition GetJobByID :: "env \<Rightarrow> string \<Rightarrow> world \<Rightarrow> (dberr + StoreJob) \<times> world" where
  "GetJobByID env jobID w =
    (case GetJobByIDTx env None jobID w of (r, _, w') \<Rightarrow> (r, w'))"

definition GetJobByIDForUpdateTx ::
  "env \<Rightarrow> txn \<Rightarrow> string \<Rightarrow> world \<Rightarrow> (dberr + StoreJob) \<times> txn \<times> world" where
  "GetJobByIDForUpdateTx env tx jobID w = tx_stmt env (sql_job_by_id env jobID) tx w"

text \<open>
  \<^verbatim>\<open>ORDER BY\<close> leaves the order of rows with equal keys to the execution: \<open>scanned\<close> is the order in which
  the execution at tick \<open>n\<close> meets the rows, and a stable sort of it keeps that order among ties.
\<close>

definition scanned :: "env \<Rightarrow> nat \<Rightarrow> ('a \<Rightarrow> string) \<Rightarrow> 'a list \<Rightarrow> 'a list" where
  "scanned env n key rows = sort_key (\<lambda>r. e_scan env n (key r)) rows"

lemma scanned_rows [simp]:
  "set (scanned env n key rows) = set rows" "mset (scanned env n key rows) = mset rows"
  "length (scanned env n key rows) = length rows" "scanned env n key [] = []" "scanned env n key [r] = [r]"
  by (simp_all add: scanned_def)

definition sql_list_jobs ::
  "env \<Rightarrow> nat \<Rightarrow> string \<Rightarrow> int \<Rightarrow> int \<Rightarrow> tables \<Rightarrow> dberr + (StoreJob list \<times> tables)" where
  "sql_list_jobs env n userID cap off t =
    (case e_uuid_in env userID of
       None \<Rightarrow> Inl (ErrInput ''uuid'')
     | Some u \<Rightarrow>
         if cap < 0 then Inl (ErrOutOfRange ''LIMIT'')
         else if off < 0 then Inl (ErrOutOfRange ''OFFSET'')
         else Inr (take (nat cap) (drop (nat off)
             (sort_key (\<lambda>j. - job_CreatedAt j)
               (scanned env n job_ID (filter (\<lambda>j. job_UserID j = u) (jobs t))))), t))"

definition ListJobsByUser ::
  "env \<Rightarrow> string \<Rightarrow> int \<Rightarrow> int \<Rightarrow> world \<Rightarrow> (dberr + StoreJob list) \<times> world" where
  "ListJobsByUser env userID limit offset w =
    (let limit = (if limit \<le> 0 then 20 else limit)
     in auto_stmt env (sql_list_jobs env (tick w) userID limit offset) w)"

definition sql_update_job ::
  "env \<Rightarrow> int \<Rightarrow> string \<Rightarrow> string \<Rightarrow> string \<Rightarrow> string \<Rightarrow> int \<Rightarrow> int \<Rightarrow> int \<Rightarrow> tables \<Rightarrow> dberr + (unit \<times> tables)" where
  "sql_update_job env now jobID userID name webhookURL maxRetries timeoutSeconds version t =
    (case (e_uuid_in env jobID, e_uuid_in env userID) of
       (Some k, Some u) \<Rightarrow>
         if \<not> e_text_ok env name \<or> \<not> e_text_ok env webhookURL then Inl (ErrInput ''text'')
         else if \<not> int4_ok maxRetries \<or> \<not> int4_ok timeoutSeconds \<or> \<not> int4_ok version
         then Inl (ErrOutOfRange ''int4'')
         else Inr ((), t\<lparr>jobs := upd_by job_ID k
           (\<lambda>j. if job_UserID j = u
                 then j\<lparr>job_Name := name, job_WebhookURL := webhookURL, job_MaxRetries := maxRetries,
                        job_TimeoutSeconds := timeoutSeconds, job_Version := version,
                        job_UpdatedAt := now\<rparr>
                 else j) (jobs t)\<rparr>)
     | _ \<Rightarrow> Inl (ErrInput ''uuid''))"

definition UpdateJobDetails ::
  "env \<Rightarrow> string \<Rightarrow> string \<Rightarrow> string \<Rightarrow> string \<Rightarrow> int \<Rightarrow> int \<Rightarrow> int \<Rightarrow> world \<Rightarrow> (dberr + unit) \<times> world" where
  "UpdateJobDetails env jobID userID name webhookURL maxRetries timeoutSeconds version w =
    auto_stmt env
      (sql_update_job env (e_pgnow env (tick w)) jobID userID name webhookURL maxRetries timeoutSeconds version) w"

definition sql_delete_job :: "env \<Rightarrow> string \<Rightarrow> string \<Rightarrow> tables \<Rightarrow> dberr + (unit \<times> tables)" where
  \<comment> \<open>the foreign key of \<^verbatim>\<open>idempotency_keys\<close> is \<^verbatim>\<open>ON DELETE CASCADE\<close>; the outbox has none\<close>
  "sql_delete_job env jobID userID t =
    (case (e_uuid_in env jobID, e_uuid_in env userID) of
       (Some k, Some u) \<Rightarrow>
         let gone = map job_ID (filter (\<lambda>j. job_ID j = k \<and> job_UserID j = u) (jobs t))
         in Inr ((), t\<lparr>
              jobs := filter (\<lambda>j. \<not> (job_ID j = k \<and> job_UserID j = u)) (jobs t),
              idempotency_keys := filter
                (\<lambda>i. case ik_JobID i of None \<Rightarrow> True | Some j \<Rightarrow> j \<notin> set gone) (idempotency_keys t)\<rparr>)
     | _ \<Rightarrow> Inl (ErrInput ''uuid''))"

definition DeleteJob :: "env \<Rightarrow> string \<Rightarrow> string \<Rightarrow> world \<Rightarrow> (dberr + unit) \<times> world" where
  "DeleteJob env jobID userID w = auto_stmt env (sql_delete_job env jobID userID) w"

definition sql_increment_attempts :: "env \<Rightarrow> int \<Rightarrow> string \<Rightarrow> tables \<Rightarrow> dberr + (int option \<times> tables)" where
  \<comment> \<open>\<open>None\<close> when no row matches\<close>
  "sql_increment_attempts env now jobID t =
    (case e_uuid_in env jobID of
       None \<Rightarrow> Inl (ErrInput ''uuid'')
     | Some k \<Rightarrow>
         (case find_by job_ID k (jobs t) of
            None \<Rightarrow> Inr (None, t)
          | Some j \<Rightarrow>
              if \<not> int4_ok (job_Attempts j + 1) then Inl (ErrOutOfRange ''int4'')
              else Inr (Some (job_Attempts j + 1), t\<lparr>jobs := upd_by job_ID k
                (\<lambda>j. j\<lparr>job_Attempts := job_Attempts j + 1, job_UpdatedAt := now\<rparr>) (jobs t)\<rparr>)))"

definition IncrementJobAttemptsTx ::
  "env \<Rightarrow> txn \<Rightarrow> string \<Rightarrow> world \<Rightarrow> (dberr + int) \<times> txn \<times> world" where
  "IncrementJobAttemptsTx env tx jobID w =
    (case tx_stmt env (sql_increment_attempts env (tx_now tx) jobID) tx w of
       (Inl e, tx', w') \<Rightarrow> (Inl e, tx', w')
     | (Inr None, tx', w') \<Rightarrow> (Inl ErrNoRows, tx', w')
     | (Inr (Some attempts), tx', w') \<Rightarrow> (Inr attempts, tx', w'))"

definition IncrementJobAttempts :: "env \<Rightarrow> string \<Rightarrow> world \<Rightarrow> (dberr + unit) \<times> world" where
  "IncrementJobAttempts env jobID w =
    (case auto_stmt env (sql_increment_attempts env (e_pgnow env (tick w)) jobID) w of
       (Inl e, w') \<Rightarrow> (Inl e, w')
     | (Inr _, w') \<Rightarrow> (Inr (), w'))"

definition sql_update_state ::
  "env \<Rightarrow> int \<Rightarrow> string \<Rightarrow> string \<Rightarrow> string option \<Rightarrow> string option \<Rightarrow> int \<Rightarrow> tables \<Rightarrow> dberr + (unit \<times> tables)" where
  \<comment> \<open>a nil \<^verbatim>\<open>[]byte\<close> is NULL; any other result must be valid \<^verbatim>\<open>jsonb\<close> input\<close>
  "sql_update_state env now jobID state lastError result attempts t =
    (case e_uuid_in env jobID of
       None \<Rightarrow> Inl (ErrInput ''uuid'')
     | Some k \<Rightarrow>
         if \<not> e_text_ok env state \<or> (case lastError of None \<Rightarrow> False | Some e \<Rightarrow> \<not> e_text_ok env e)
         then Inl (ErrInput ''text'')
         else if \<not> int4_ok attempts then Inl (ErrOutOfRange ''int4'')
         else (let upd = (\<lambda>res. t\<lparr>jobs := upd_by job_ID k
                 (\<lambda>j. j\<lparr>job_State := state, job_LastError := lastError, job_Result := res,
                        job_Attempts := attempts, job_UpdatedAt := now\<rparr>) (jobs t)\<rparr>)
               in case result of
                   None \<Rightarrow> Inr ((), upd None)
                 | Some body \<Rightarrow>
                     (case e_jsonb_in env body of
                        None \<Rightarrow> Inl (ErrInput ''jsonb'')
                      | Some b \<Rightarrow> Inr ((), upd (Some b)))))"

definition UpdateJobStateTx ::
  "env \<Rightarrow> txn \<Rightarrow> string \<Rightarrow> string \<Rightarrow> string option \<Rightarrow> string option \<Rightarrow> int \<Rightarrow> world \<Rightarrow>
   (dberr + unit) \<times> txn \<times> world" where
  "UpdateJobStateTx env tx jobID state lastError result attempts w =
    tx_stmt env (sql_update_state env (tx_now tx) jobID state lastError result attempts) tx w"

definition UpdateJobState ::
  "env \<Rightarrow> string \<Rightarrow> string \<Rightarrow> string option \<Rightarrow> string option \<Rightarrow> int \<Rightarrow> world \<Rightarrow> (dberr + unit) \<times> world" where
  "UpdateJobState env jobID state lastError result attempts w =
    auto_stmt env
      (sql_update_state env (e_pgnow env (tick w)) jobID state lastError result attempts) w"

section \<open>Idempotency keys and job creation\<close>

definition sql_job_of_key :: "env \<Rightarrow> string \<Rightarrow> string \<Rightarrow> tables \<Rightarrow> dberr + (string \<times> tables)" where
  \<comment> \<open>the select and the \<^verbatim>\<open>Scan\<close> into a \<^verbatim>\<open>string\<close>, which refuses NULL\<close>
  "sql_job_of_key env userID requestHash t =
    (case e_uuid_in env userID of
       None \<Rightarrow> Inl (ErrInput ''uuid'')
     | Some u \<Rightarrow>
         if \<not> e_text_ok env requestHash then Inl (ErrInput ''text'')
         else (case List.find (\<lambda>i. ik_UserID i = u \<and> ik_RequestHash i = requestHash) (idempotency_keys t) of
            None \<Rightarrow> Inl ErrNoRows
          | Some i \<Rightarrow>
              (case ik_JobID i of
                 None \<Rightarrow> Inl (ErrScan ''job_id'')
               | Some j \<Rightarrow> Inr (j, t))))"

definition sql_insert_job ::
  "env \<Rightarrow> string \<Rightarrow> int \<Rightarrow> StoreJob \<Rightarrow> tables \<Rightarrow> dberr + (string \<times> tables)" where
  \<comment> \<open>the row given holds the parameters of the insert; the identifier and the two time stamps
     are the defaults of the columns, the user and the payload are stored in their column's form\<close>
  "sql_insert_job env jid now r t =
    (case (e_uuid_in env (job_UserID r), e_jsonb_in env (job_Payload r)) of
       (Some u, Some p) \<Rightarrow>
         if \<not> e_text_ok env (job_Type r) \<or> \<not> e_text_ok env (job_Name r) \<or> \<not> e_text_ok env (job_WebhookURL r)
           \<or> \<not> e_text_ok env (job_State r)
         then Inl (ErrInput ''text'')
         else if \<not> int4_ok (job_Version r) \<or> \<not> int4_ok (job_MaxRetries r)
           \<or> \<not> int4_ok (job_TimeoutSeconds r) \<or> \<not> int4_ok (job_Attempts r)
         then Inl (ErrOutOfRange ''int4'')
         else if find_by job_ID jid (jobs t) \<noteq> None then Inl (ErrUnique ''jobs_pkey'')
         else if find_by user_ID u (users t) = None then Inl (ErrForeignKey ''jobs_user_id_fkey'')
         else Inr (jid, t\<lparr>jobs := add_row
           (r\<lparr>job_ID := jid, job_UserID := u, job_Payload := p, job_LastError := None,
              job_Result := None, job_CreatedAt := now, job_UpdatedAt := now\<rparr>) (jobs t)\<rparr>)
     | (None, _) \<Rightarrow> Inl (ErrInput ''uuid'')
     | (_, None) \<Rightarrow> Inl (ErrInput ''jsonb''))"

definition sql_insert_key ::
  "env \<Rightarrow> string \<Rightarrow> int \<Rightarrow> string \<Rightarrow> string \<Rightarrow> string \<Rightarrow> string \<Rightarrow> string \<Rightarrow> int \<Rightarrow> tables \<Rightarrow>
   dberr + (unit \<times> tables)" where
  "sql_insert_key env kid now userID requestHash jobID meth path expires t =
    (case (e_uuid_in env userID, e_uuid_in env jobID) of
       (Some u, Some j) \<Rightarrow>
         if \<not> e_text_ok env requestHash \<or> \<not> e_text_ok env meth \<or> \<not> e_text_ok env path
         then Inl (ErrInput ''text'')
         else if kid \<in> ik_ID ` set (idempotency_keys t) then Inl (ErrUnique ''idempotency_keys_pkey'')
         else if (u, requestHash) \<in> (\<lambda>i. (ik_UserID i, ik_RequestHash i)) ` set (idempotency_keys t)
         then Inl (ErrUnique ''idempotency_keys_user_id_request_hash_key'')
         else if find_by user_ID u (users t) = None
         then Inl (ErrForeignKey ''idempotency_keys_user_id_fkey'')
         else if find_by job_ID j (jobs t) = None
         then Inl (ErrForeignKey ''idempotency_keys_job_id_fkey'')
         else Inr ((), t\<lparr>idempotency_keys := add_row
           \<lparr>ik_ID = kid, ik_UserID = u, ik_RequestHash = requestHash, ik_JobID = Some j,
            ik_Method = meth, ik_Path = path, ik_StatusCode = None, ik_CreatedAt = now,
            ik_ExpiresAt = expires\<rparr> (idempotency_keys t)\<rparr>)
     | _ \<Rightarrow> Inl (ErrInput ''uuid''))"

definition sql_insert_event ::
  "env \<Rightarrow> string \<Rightarrow> int \<Rightarrow> StoreCreateOutboxEventParams \<Rightarrow> tables \<Rightarrow> dberr + (string \<times> tables)" where
  "sql_insert_event env eid now p t =
    (case (e_uuid_in env (op_AggregateID p), e_jsonb_in env (op_Payload p)) of
       (Some a, Some payload) \<Rightarrow>
         if \<not> e_text_ok env (op_AggregateType p) \<or> \<not> e_text_ok env (op_EventType p)
         then Inl (ErrInput ''text'')
         else if find_by ev_ID eid (outbox t) \<noteq> None then Inl (ErrUnique ''outbox_pkey'')
         else Inr (eid, t\<lparr>outbox := add_row
           \<lparr>ev_ID = eid, ev_AggregateType = op_AggregateType p, ev_AggregateID = a,
            ev_EventType = op_EventType p, ev_Payload = payload, ev_Published = op_Published p,
            ev_PublishedAt = None, ev_CreatedAt = now, ev_UpdatedAt = now\<rparr> (outbox t)\<rparr>)
     | (None, _) \<Rightarrow> Inl (ErrInput ''uuid'')
     | (_, None) \<Rightarrow> Inl (ErrInput ''jsonb''))"

definition event_payload :: "string \<Rightarrow> string \<Rightarrow> string \<Rightarrow> string \<Rightarrow> string \<Rightarrow> gval" where
  \<comment> \<open>the map both kinds of outbox event carry\<close>
  "event_payload jobID typ name webhookURL payload = GMap
    [(''job_id'', GStr jobID), (''type'', GStr typ), (''name'', GStr name),
     (''webhook_url'', GStr webhookURL), (''payload'', GRaw (Some payload))]"

definition new_job_row :: "env \<Rightarrow> nat \<Rightarrow> StoreCreateJobParams \<Rightarrow> StoreJob" where
  \<comment> \<open>the parameters of the insert, after the defaults\<close>
  "new_job_row env n params =
    (let maxRetries = (if cp_MaxRetries params \<le> 0 then 5 else cp_MaxRetries params);
         timeoutSeconds = (if cp_TimeoutSeconds params \<le> 0 then 15 else cp_TimeoutSeconds params);
         version = (if cp_Version params \<le> 0 then 1 else cp_Version params)
     in \<lparr>job_ID = [], job_UserID = cp_UserID params, job_Type = cp_Type params,
         job_Name = cp_Name params, job_WebhookURL = cp_WebhookURL params,
         job_Payload = cp_Payload params, job_Version = version, job_MaxRetries = maxRetries,
         job_TimeoutSeconds = timeoutSeconds, job_State = ''pending'', job_Attempts = 0,
         job_ScheduledAt = e_gonow env n, job_LastError = None, job_Result = None,
         job_CreatedAt = 0, job_UpdatedAt = 0\<rparr>)"

definition day_ns :: int where
  "day_ns = 24 * 3600 * 1000000000"

text \<open>
  The creation is written as its two halves: the lookup of the key, which returns the open
  transaction when there is none, and the insertion, so that the interleaving of two requests
  can be described with the same code.
\<close>

datatype lookup_result = Existing StoreJob | Absent txn

definition create_lookup ::
  "env \<Rightarrow> string \<Rightarrow> string \<Rightarrow> world \<Rightarrow> (dberr + lookup_result) \<times> world" where
  "create_lookup env userID requestHash w =
    (case BeginTx env w of
       (Inl e, w1) \<Rightarrow> (Inl e, w1)
     | (Inr tx, w1) \<Rightarrow>
         (case tx_stmt env (sql_job_of_key env userID requestHash) tx w1 of
            (Inr existingJobID, tx2, w2) \<Rightarrow>
              (case GetJobByIDTx env (Some tx2) existingJobID w2 of
                 (Inl e, _, w3) \<Rightarrow> (Inl e, w3)
               | (Inr job, _, w3) \<Rightarrow>
                   (case Commit env tx2 w3 of
                      (Inl e, w4) \<Rightarrow> (Inl e, w4)
                    | (Inr _, w4) \<Rightarrow> (Inr (Existing job), w4)))
          | (Inl e, tx2, w2) \<Rightarrow>
              if e \<noteq> ErrNoRows then (Inl e, w2) else (Inr (Absent tx2), w2)))"

definition create_insert ::
  "env \<Rightarrow> string \<Rightarrow> string \<Rightarrow> string \<Rightarrow> string \<Rightarrow> StoreCreateJobParams \<Rightarrow> txn \<Rightarrow> world \<Rightarrow>
   (dberr + StoreJob) \<times> world" where
  "create_insert env userID requestHash meth path params tx w =
    (case tx_stmt env
        (sql_insert_job env (e_uuid env (tick w)) (tx_now tx) (new_job_row env (tick w) params)) tx w of
       (Inl e, _, w1) \<Rightarrow> (Inl e, w1)
     | (Inr jobID, tx1, w1) \<Rightarrow>
     (case tx_stmt env
        (sql_insert_key env (e_uuid env (tick w1)) (tx_now tx1) userID requestHash jobID meth path
          (e_gonow env (tick w1) + day_ns)) tx1 w1 of
       (Inl e, _, w2) \<Rightarrow> (Inl e, w2)
     | (Inr _, tx2, w2) \<Rightarrow>
     (case marshal (event_payload jobID (cp_Type params) (cp_Name params) (cp_WebhookURL params)
        (cp_Payload params)) of
       None \<Rightarrow> (Inl ErrMarshal, w2)
     | Some outboxPayload \<Rightarrow>
     (case tx_stmt env
        (sql_insert_event env (e_uuid env (tick w2)) (tx_now tx2)
          \<lparr>op_AggregateType = ''job'', op_AggregateID = jobID, op_EventType = ''job_created'',
           op_Payload = outboxPayload, op_Published = False\<rparr>) tx2 w2 of
       (Inl e, _, w3) \<Rightarrow> (Inl e, w3)
     | (Inr _, tx3, w3) \<Rightarrow>
     (case GetJobByIDTx env (Some tx3) jobID w3 of
       (Inl e, _, w4) \<Rightarrow> (Inl e, w4)
     | (Inr job, _, w4) \<Rightarrow>
     (case Commit env tx3 w4 of
       (Inl e, w5) \<Rightarrow> (Inl e, w5)
     | (Inr _, w5) \<Rightarrow> (Inr job, w5)))))))"

definition CreateJobWithIdempotency ::
  "env \<Rightarrow> string \<Rightarrow> string \<Rightarrow> string \<Rightarrow> string \<Rightarrow> StoreCreateJobParams \<Rightarrow> world \<Rightarrow>
   (dberr + (StoreJob \<times> bool)) \<times> world" where
  "CreateJobWithIdempotency env userID requestHash meth path params w =
    (case create_lookup env userID requestHash w of
       (Inl e, w1) \<Rightarrow> (Inl e, w1)
     | (Inr (Existing job), w1) \<Rightarrow> (Inr (job, True), w1)
     | (Inr (Absent tx), w1) \<Rightarrow>
         (case create_insert env userID requestHash meth path params tx w1 of
            (Inl e, w2) \<Rightarrow> (Inl e, w2)
          | (Inr job, w2) \<Rightarrow> (Inr (job, False), w2)))"

section \<open>The outbox\<close>

definition scan_event :: "StoreOutboxEvent \<Rightarrow> StoreOutboxEvent" where
  \<comment> \<open>the query does not select \<^verbatim>\<open>published_at\<close>\<close>
  "scan_event v = v\<lparr>ev_PublishedAt := None\<rparr>"

definition sql_unpublished ::
  "env \<Rightarrow> nat \<Rightarrow> int \<Rightarrow> tables \<Rightarrow> dberr + (StoreOutboxEvent list \<times> tables)" where
  \<comment> \<open>\<^verbatim>\<open>FOR UPDATE SKIP LOCKED\<close> leaves out the rows other transactions have locked\<close>
  "sql_unpublished env n cap t =
    (if cap < 0 then Inl (ErrOutOfRange ''LIMIT'')
     else Inr (map scan_event (take (nat cap) (sort_key ev_CreatedAt (scanned env n ev_ID
       (filter (\<lambda>v. \<not> ev_Published v \<and> ev_ID v \<notin> set (e_locked env n)) (outbox t))))), t))"

definition GetUnpublishedOutboxEventsTx ::
  "env \<Rightarrow> txn \<Rightarrow> int \<Rightarrow> world \<Rightarrow> (dberr + StoreOutboxEvent list) \<times> txn \<times> world" where
  "GetUnpublishedOutboxEventsTx env tx limit w = tx_stmt env (sql_unpublished env (tick w) limit) tx w"

definition sql_mark :: "env \<Rightarrow> bool \<Rightarrow> int \<Rightarrow> string \<Rightarrow> tables \<Rightarrow> dberr + (unit \<times> tables)" where
  "sql_mark env published now outboxID t =
    (case e_uuid_in env outboxID of
       None \<Rightarrow> Inl (ErrInput ''uuid'')
     | Some k \<Rightarrow> Inr ((), t\<lparr>outbox := upd_by ev_ID k
         (\<lambda>v. if published
               then v\<lparr>ev_Published := True, ev_PublishedAt := Some now, ev_UpdatedAt := now\<rparr>
               else v\<lparr>ev_Published := False, ev_UpdatedAt := now\<rparr>) (outbox t)\<rparr>))"

definition MarkOutboxEventPublishedTx ::
  "env \<Rightarrow> txn \<Rightarrow> string \<Rightarrow> world \<Rightarrow> (dberr + unit) \<times> txn \<times> world" where
  "MarkOutboxEventPublishedTx env tx outboxID w = tx_stmt env (sql_mark env True (tx_now tx) outboxID) tx w"

definition MarkOutboxEventUnpublished :: "env \<Rightarrow> string \<Rightarrow> world \<Rightarrow> (dberr + unit) \<times> world" where
  "MarkOutboxEventUnpublished env outboxID w =
    auto_stmt env (sql_mark env False (e_pgnow env (tick w)) outboxID) w"

definition CreateOutboxEvent ::
  "env \<Rightarrow> StoreCreateOutboxEventParams \<Rightarrow> world \<Rightarrow> (dberr + string) \<times> world" where
  "CreateOutboxEvent env params w =
    auto_stmt env (sql_insert_event env (e_uuid env (tick w)) (e_pgnow env (tick w)) params) w"

definition CreateOutboxEventTx ::
  "env \<Rightarrow> txn \<Rightarrow> StoreCreateOutboxEventParams \<Rightarrow> world \<Rightarrow> (dberr + string) \<times> txn \<times> world" where
  "CreateOutboxEventTx env tx params w =
    tx_stmt env (sql_insert_event env (e_uuid env (tick w)) (tx_now tx) params) tx w"

end
