(* ===== verification/Sha256.thy ===== *)
theory Sha256
  imports Base
begin

unbundle bit_operations_syntax

text \<open>
  Go's \<^verbatim>\<open>crypto/sha256.Sum256\<close> (FIPS 180-4) on byte strings, over 32-bit words, and
  \<^verbatim>\<open>hex.EncodeToString\<close>.
\<close>

type_synonym w32 = "32 word"

definition rotr :: "nat \<Rightarrow> w32 \<Rightarrow> w32" where
  "rotr n x = drop_bit n x OR push_bit (32 - n) x"

definition ch :: "w32 \<Rightarrow> w32 \<Rightarrow> w32 \<Rightarrow> w32" where
  "ch x y z = (x AND y) XOR (NOT x AND z)"

definition maj :: "w32 \<Rightarrow> w32 \<Rightarrow> w32 \<Rightarrow> w32" where
  "maj x y z = (x AND y) XOR (x AND z) XOR (y AND z)"

definition big_sigma0 :: "w32 \<Rightarrow> w32" where
  "big_sigma0 x = rotr 2 x XOR rotr 13 x XOR rotr 22 x"

definition big_sigma1 :: "w32 \<Rightarrow> w32" where
  "big_sigma1 x = rotr 6 x XOR rotr 11 x XOR rotr 25 x"

definition small_sigma0 :: "w32 \<Rightarrow> w32" where
  "small_sigma0 x = rotr 7 x XOR rotr 18 x XOR drop_bit 3 x"

definition small_sigma1 :: "w32 \<Rightarrow> w32" where
  "small_sigma1 x = rotr 17 x XOR rotr 19 x XOR drop_bit 10 x"

definition eight_words :: "int \<Rightarrow> w32 list" where
  \<comment> \<open>a 256-bit constant, cut into words from the most significant end\<close>
  "eight_words n = map (\<lambda>k. word_of_int (n div 2 ^ (32 * k))) (rev [0..<8])"

definition round_constants :: "w32 list" where
  \<comment> \<open>eight of the 64 constants to a line\<close>
  "round_constants = concat (map eight_words
    [0x428a2f9871374491b5c0fbcfe9b5dba53956c25b59f111f1923f82a4ab1c5ed5,
     0xd807aa9812835b01243185be550c7dc372be5d7480deb1fe9bdc06a7c19bf174,
     0xe49b69c1efbe47860fc19dc6240ca1cc2de92c6f4a7484aa5cb0a9dc76f988da,
     0x983e5152a831c66db00327c8bf597fc7c6e00bf3d5a7914706ca635114292967,
     0x27b70a852e1b21384d2c6dfc53380d13650a7354766a0abb81c2c92e92722c85,
     0xa2bfe8a1a81a664bc24b8b70c76c51a3d192e819d6990624f40e3585106aa070,
     0x19a4c1161e376c082748774c34b0bcb5391c0cb34ed8aa4a5b9cca4f682e6ff3,
     0x748f82ee78a5636f84c878148cc7020890befffaa4506cebbef9a3f7c67178f2])"

definition initial_hash :: "w32 list" where
  "initial_hash = eight_words 0x6a09e667bb67ae853c6ef372a54ff53a510e527f9b05688c1f83d9ab5be0cd19"

definition word_of_bytes :: "char \<Rightarrow> char \<Rightarrow> char \<Rightarrow> char \<Rightarrow> w32" where
  "word_of_bytes a b c d =
    word_of_int (((of_char a * 256 + of_char b) * 256 + of_char c) * 256 + of_char d)"

fun words_of_bytes :: "string \<Rightarrow> w32 list" where
  "words_of_bytes (a # b # c # d # s) = word_of_bytes a b c d # words_of_bytes s"
| "words_of_bytes _ = []"

definition bytes_of_int :: "nat \<Rightarrow> int \<Rightarrow> string" where
  \<comment> \<open>big-endian, in \<open>n\<close> bytes\<close>
  "bytes_of_int n i = map (\<lambda>k. char_of (i div 2 ^ (8 * k) mod 256)) (rev [0..<n])"

definition sha_pad :: "string \<Rightarrow> string" where
  "sha_pad m = m @ char_of (128 :: int)
     # replicate ((119 - length m mod 64) mod 64) (char_of (0 :: int))
     @ bytes_of_int 8 (8 * int (length m))"

fun extend :: "nat \<Rightarrow> w32 list \<Rightarrow> w32 list" where
  \<comment> \<open>the message schedule, newest word first\<close>
  "extend 0 ws = ws"
| "extend (Suc n) ws =
    extend n ((small_sigma1 (ws ! 1) + ws ! 6 + small_sigma0 (ws ! 14) + ws ! 15) # ws)"

definition sha_round :: "w32 list \<Rightarrow> w32 \<times> w32 \<Rightarrow> w32 list" where
  "sha_round v kw =
    (case v of
       [a, b, c, d, e, f, g, h] \<Rightarrow>
         let t1 = h + big_sigma1 e + ch e f g + fst kw + snd kw;
             t2 = big_sigma0 a + maj a b c
         in [t1 + t2, a, b, c, d + t1, e, f, g]
     | _ \<Rightarrow> v)"

definition sha_block :: "w32 list \<Rightarrow> w32 list \<Rightarrow> w32 list" where
  "sha_block h ws =
    map2 (+) h (foldl sha_round h (zip round_constants (rev (extend 48 (rev ws)))))"

fun sha_blocks :: "nat \<Rightarrow> w32 list \<Rightarrow> w32 list \<Rightarrow> w32 list" where
  "sha_blocks 0 h ws = h"
| "sha_blocks (Suc n) h ws = sha_blocks n (sha_block h (take 16 ws)) (drop 16 ws)"

definition Sum256 :: "string \<Rightarrow> string" where
  "Sum256 m =
    (let ws = words_of_bytes (sha_pad m)
     in concat (map (\<lambda>w. bytes_of_int 4 (uint w)) (sha_blocks (length ws div 16) initial_hash ws)))"

section \<open>Hexadecimal\<close>

definition hex_char :: "nat \<Rightarrow> char" where
  "hex_char n = char_of (if n < 10 then 48 + n else 87 + n)"

definition EncodeToString :: "string \<Rightarrow> string" where
  "EncodeToString s = concat (map (\<lambda>c. [hex_char (of_char c div 16), hex_char (of_char c mod 16)]) s)"

section \<open>Facts\<close>

lemma length_bytes_of_int [simp]: "length (bytes_of_int n i) = n"
  by (simp add: bytes_of_int_def)

lemma length_sha_round: "length v = 8 \<Longrightarrow> length (sha_round v kw) = 8"
  by (auto simp: sha_round_def Let_def split: list.splits)

lemma length_sha_block: "length h = 8 \<Longrightarrow> length (sha_block h ws) = 8"
proof -
  assume h: "length h = 8"
  have "length (foldl sha_round v kws) = 8" if "length v = 8" for v kws
    using that by (induction kws arbitrary: v) (auto simp: length_sha_round)
  with h show ?thesis by (simp add: sha_block_def)
qed

lemma length_sha_blocks: "length h = 8 \<Longrightarrow> length (sha_blocks n h ws) = 8"
  by (induction n arbitrary: h ws) (simp_all add: length_sha_block)

lemma length_Sum256: "length (Sum256 m) = 32"
proof -
  have "length (concat (map (\<lambda>w. bytes_of_int 4 (uint w)) hs)) = 4 * length hs" for hs :: "w32 list"
    by (induction hs) simp_all
  then show ?thesis
    by (simp add: Sum256_def Let_def length_sha_blocks initial_hash_def eight_words_def)
qed

lemma length_EncodeToString: "length (EncodeToString s) = 2 * length s"
  by (induction s) (simp_all add: EncodeToString_def)

lemma hex_char_inj: "m < 16 \<Longrightarrow> n < 16 \<Longrightarrow> hex_char m = hex_char n \<Longrightarrow> m = n"
  by (auto simp: hex_char_def split: if_splits)

lemma EncodeToString_inj: "EncodeToString s = EncodeToString t \<Longrightarrow> s = t"
proof (induction s arbitrary: t)
  case Nil
  then show ?case by (cases t) (simp_all add: EncodeToString_def)
next
  case (Cons c s)
  then obtain d u where t: "t = d # u" by (cases t) (simp_all add: EncodeToString_def)
  with Cons.prems have eq: "hex_char (of_char c div 16) = hex_char (of_char d div 16)"
    "hex_char (of_char c mod 16) = hex_char (of_char d mod 16)"
    and rest: "EncodeToString s = EncodeToString u"
    by (simp_all add: EncodeToString_def)
  have lt: "of_char x div 16 < (16 :: nat)" for x :: char
    using nat_of_char_less_256 [of x] by linarith
  have "of_char c div 16 = (of_char d div 16 :: nat)" and "of_char c mod 16 = (of_char d mod 16 :: nat)"
    using eq by (auto intro: hex_char_inj lt)
  then have "of_char c = (of_char d :: nat)" by (metis div_mult_mod_eq)
  then show ?case using t Cons.IH [OF rest] by simp
qed

lemma EncodeToString_hex: "x \<in> set (EncodeToString s) \<Longrightarrow> x \<in> set ''0123456789abcdef''"
proof -
  have "\<forall>n < 16. hex_char n \<in> set ''0123456789abcdef''" by code_simp
  moreover have "of_char c div 16 < (16 :: nat)" for c :: char
    using nat_of_char_less_256 [of c] by linarith
  moreover assume "x \<in> set (EncodeToString s)"
  then obtain c where "x = hex_char (of_char c div 16) \<or> x = hex_char (of_char c mod 16)"
    by (auto simp: EncodeToString_def)
  moreover have "of_char c mod 16 < (16 :: nat)" by simp
  ultimately show ?thesis by blast
qed

end
