(* ===== verification/Idempotency.thy ===== *)
theory Idempotency
  imports Go_Values Sha256
begin

text \<open>
  \<^verbatim>\<open>service/idempotency.go\<close> and \<^verbatim>\<open>service/job_payload.go\<close>: the canonical JSON of a value, the
  idempotency hash computed from it, and the job payload with its defaults.

  The facts: canonical JSON does not depend on the iteration order of any map in the value, it
  is what \<^verbatim>\<open>json.Marshal\<close> prints for a value without raw messages, and on job payloads it is
  injective, so that two payloads share a hash only if they are equal or SHA-256 collides.
\<close>

section \<open>Canonical JSON\<close>

fun raw_count :: "gval \<Rightarrow> nat" where
  "raw_count (GRaw r) = 1"
| "raw_count (GMap kvs) = sum_list (map (\<lambda>(k, v). raw_count v) kvs)"
| "raw_count (GSlice vs) = sum_list (map raw_count vs)"
| "raw_count (GStruct kvs) = sum_list (map (\<lambda>(k, v). raw_count v) kvs)"
| "raw_count _ = 0"

fun gsize :: "gval \<Rightarrow> nat" where
  "gsize (GMap kvs) = 2 + sum_list (map (\<lambda>(k, v). gsize v) kvs)"
| "gsize (GSlice vs) = 2 + sum_list (map gsize vs)"
| "gsize _ = 1"

lemma raw_free_count: "raw_free v \<Longrightarrow> raw_count v = 0"
  by (induction v) (auto simp: sum_list_eq_0_iff)

lemma from_json_raw_count: "from_json ft j = Some v \<Longrightarrow> raw_count v = 0"
  by (rule raw_free_count, rule from_json_raw_free)

lemma member_le_sum_list_snd: "(k, v) \<in> set kvs \<Longrightarrow> (f v :: nat) \<le> (\<Sum>(k, v)\<leftarrow>kvs. f v)"
  by (induction kvs) auto

function (sequential) CanonicalJSON :: "(string \<Rightarrow> string option) \<Rightarrow> gval \<Rightarrow> string option"
and canonicalizeMap :: "(string \<Rightarrow> string option) \<Rightarrow> (string \<times> gval) list \<Rightarrow> string option"
and canonicalizeArray :: "(string \<Rightarrow> string option) \<Rightarrow> gval list \<Rightarrow> string option" where
  "CanonicalJSON ft (GRaw r) =
    (case r of
       None \<Rightarrow> Some ''null''
     | Some raw \<Rightarrow>
         if raw = [] then Some ''null''
         else case unmarshal raw of
             None \<Rightarrow> None
           | Some j \<Rightarrow>
               (case from_json ft j of None \<Rightarrow> None | Some decoded \<Rightarrow> CanonicalJSON ft decoded))"
| "CanonicalJSON ft (GMap m) = canonicalizeMap ft m"
| "CanonicalJSON ft (GSlice arr) = canonicalizeArray ft arr"
| "CanonicalJSON ft v = marshal v"
| "canonicalizeMap ft m =
    map_option render_members
      (all_members (sort_key fst (map (\<lambda>(k, v). (k, CanonicalJSON ft v)) m)))"
| "canonicalizeArray ft arr = map_option render_elems (those (map (CanonicalJSON ft) arr))"
  by pat_completeness auto
termination
proof (relation "measures
    [\<lambda>x. case x of Inl (ft, v) \<Rightarrow> raw_count v
       | Inr (Inl (ft, m)) \<Rightarrow> sum_list (map (\<lambda>(k, v). raw_count v) m)
       | Inr (Inr (ft, arr)) \<Rightarrow> sum_list (map raw_count arr),
     \<lambda>x. case x of Inl (ft, v) \<Rightarrow> gsize v
       | Inr (Inl (ft, m)) \<Rightarrow> 1 + sum_list (map (\<lambda>(k, v). gsize v) m)
       | Inr (Inr (ft, arr)) \<Rightarrow> 1 + sum_list (map gsize arr)]", goal_cases)
  case (5 ft m x k v)
  then have "raw_count v \<le> (\<Sum>(k, v)\<leftarrow>m. raw_count v)" "gsize v \<le> (\<Sum>(k, v)\<leftarrow>m. gsize v)"
    using member_le_sum_list_snd [of k v m raw_count] member_le_sum_list_snd [of k v m gsize] by auto
  then show ?case by auto
next
  case (6 ft arr v)
  then have "raw_count v \<le> sum_list (map raw_count arr)" "gsize v \<le> sum_list (map gsize arr)"
    by (auto intro!: member_le_sum_list)
  then show ?case by auto
qed (auto simp: from_json_raw_count)

definition ComputeIdempotencyHash :: "(string \<Rightarrow> string option) \<Rightarrow> gval \<Rightarrow> string option" where
  "ComputeIdempotencyHash ft v =
    (case CanonicalJSON ft v of
       None \<Rightarrow> None
     | Some payload \<Rightarrow> Some (EncodeToString (Sum256 payload)))"

section \<open>The job payload\<close>

record JobPayload =
  jp_Type :: string
  jp_Name :: string
  jp_WebhookURL :: string
  jp_Version :: int
  jp_MaxRetries :: int
  jp_TimeoutSeconds :: int

definition NewJobPayload ::
  "string \<Rightarrow> string \<Rightarrow> string \<Rightarrow> int option \<Rightarrow> int option \<Rightarrow> int option \<Rightarrow> JobPayload" where
  "NewJobPayload jobType name webhookURL version maxRetries timeoutSeconds =
    (let payload = \<lparr>jp_Type = jobType, jp_Name = name, jp_WebhookURL = webhookURL,
           jp_Version = 1, jp_MaxRetries = 5, jp_TimeoutSeconds = 15\<rparr>;
         payload = (case version of
           Some n \<Rightarrow> if n > 0 then payload\<lparr>jp_Version := n\<rparr> else payload | None \<Rightarrow> payload);
         payload = (case maxRetries of
           Some n \<Rightarrow> if n > 0 then payload\<lparr>jp_MaxRetries := n\<rparr> else payload | None \<Rightarrow> payload);
         payload = (case timeoutSeconds of
           Some n \<Rightarrow> if n > 0 then payload\<lparr>jp_TimeoutSeconds := n\<rparr> else payload | None \<Rightarrow> payload)
     in payload)"

definition payload_value :: "JobPayload \<Rightarrow> gval" where
  \<comment> \<open>the struct under its JSON tags\<close>
  "payload_value p = GStruct
    [(''type'', GStr (jp_Type p)), (''name'', GStr (jp_Name p)),
     (''webhook_url'', GStr (jp_WebhookURL p)), (''version'', GInt (jp_Version p)),
     (''max_retries'', GInt (jp_MaxRetries p)), (''timeout_seconds'', GInt (jp_TimeoutSeconds p))]"

definition payload_canonical :: "(string \<Rightarrow> string option) \<Rightarrow> JobPayload \<Rightarrow> string option" where
  \<comment> \<open>the method \<^verbatim>\<open>JobPayload.CanonicalJSON\<close>\<close>
  "payload_canonical ft p = CanonicalJSON ft (payload_value p)"

section \<open>Map order does not matter\<close>

text \<open>
  Two Go values are the same for the program when they differ only in the order in which some
  iteration lists the entries of their maps.
\<close>

inductive same_value :: "gval \<Rightarrow> gval \<Rightarrow> bool" where
  same_refl: "same_value v v"
| same_slice: "list_all2 same_value vs ws \<Longrightarrow> same_value (GSlice vs) (GSlice ws)"
| same_struct: "list_all2 (\<lambda>x y. fst x = fst y \<and> same_value (snd x) (snd y)) m m' \<Longrightarrow>
    same_value (GStruct m) (GStruct m')"
| same_map: "distinct (map fst m) \<Longrightarrow>
    list_all2 (\<lambda>x y. fst x = fst y \<and> same_value (snd x) (snd y)) m m' \<Longrightarrow>
    mset m'' = mset m' \<Longrightarrow> same_value (GMap m) (GMap m'')"

lemma map_entries_eq:
  "list_all2 (\<lambda>x y. fst x = fst y \<and> f (snd x) = f (snd y)) m m' \<Longrightarrow>
    map (\<lambda>(k, v). (k, f v)) m = map (\<lambda>(k, v). (k, f v)) m'"
  by (induction rule: list_all2_induct) auto

lemma map_entries_keys:
  "list_all2 (\<lambda>x y. fst x = fst y \<and> P x y) m m' \<Longrightarrow> map fst m = map fst m'"
  by (induction rule: list_all2_induct) auto

lemma sort_entries_eq:
  assumes "distinct (map fst m)"
    and "list_all2 (\<lambda>x y. fst x = fst y \<and> f (snd x) = f (snd y)) m m'" and "mset m'' = mset m'"
  shows "sort_key fst (map (\<lambda>(k, v). (k, f v)) m) = sort_key fst (map (\<lambda>(k, v). (k, f v)) m'')"
proof -
  have "inj_on fst (set m')"
    using assms(1) map_entries_keys [OF assms(2)] by (simp add: distinct_map)
  then have "sort_key fst m' = sort_key fst m''"
    using assms(3) by (intro sort_key_inj_key_eq) simp_all
  then show ?thesis
    using map_entries_eq [OF assms(2)] by (simp add: sort_key_map_snd)
qed

lemma marshal_same: "same_value v w \<Longrightarrow> marshal v = marshal w"
proof (induction rule: same_value.induct)
  case (same_slice vs ws)
  then have "map marshal vs = map marshal ws"
    by (induction rule: list_all2_induct) auto
  then show ?case by simp
next
  case (same_struct m m')
  then have "list_all2 (\<lambda>x y. fst x = fst y \<and> marshal (snd x) = marshal (snd y)) m m'"
    by (elim list_all2_mono) auto
  then show ?case by (simp add: map_entries_eq)
next
  case (same_map m m' m'')
  then have "list_all2 (\<lambda>x y. fst x = fst y \<and> marshal (snd x) = marshal (snd y)) m m'"
    by (elim list_all2_mono) auto
  note eq = sort_entries_eq [OF same_map(1) this same_map(2)]
  show ?case by (simp only: marshal.simps eq)
qed simp

lemma CanonicalJSON_same: "same_value v w \<Longrightarrow> CanonicalJSON ft v = CanonicalJSON ft w"
proof (induction rule: same_value.induct)
  case (same_slice vs ws)
  then have "map (CanonicalJSON ft) vs = map (CanonicalJSON ft) ws"
    by (induction rule: list_all2_induct) auto
  then show ?case by simp
next
  case (same_struct m m')
  have "same_value (GStruct m) (GStruct m')"
    using same_struct by (intro same_value.same_struct) (elim list_all2_mono, simp)
  then show ?case using marshal_same by (simp del: marshal.simps)
next
  case (same_map m m' m'')
  then have "list_all2 (\<lambda>x y. fst x = fst y \<and> CanonicalJSON ft (snd x) = CanonicalJSON ft (snd y)) m m'"
    by (elim list_all2_mono) auto
  note eq = sort_entries_eq [OF same_map(1) this same_map(2)]
  show ?case by (simp only: CanonicalJSON.simps canonicalizeMap.simps eq)
qed simp

section \<open>Canonical JSON and json.Marshal\<close>

lemma CanonicalJSON_marshal: "raw_free v \<Longrightarrow> CanonicalJSON ft v = marshal v"
proof (induction v)
  case (GMap m)
  have "map (\<lambda>(k, v). (k, CanonicalJSON ft v)) m = map (\<lambda>(k, v). (k, marshal v)) m"
    using GMap by auto
  then show ?case by (simp only: CanonicalJSON.simps canonicalizeMap.simps marshal.simps)
next
  case (GSlice vs)
  then have "map (CanonicalJSON ft) vs = map marshal vs" by auto
  then show ?case by (simp del: map_eq_conv)
qed simp_all

lemma CanonicalJSON_raw:
  assumes "raw \<noteq> []" and "unmarshal raw = Some j" and "from_json ft j = Some v"
  shows "CanonicalJSON ft (GRaw (Some raw)) = Some (print_json (to_json v))"
  using assms CanonicalJSON_marshal [of v ft] from_json_raw_free [OF assms(3)]
  by (simp add: marshal_print)

section \<open>Job payloads\<close>

definition payload_ok :: "JobPayload \<Rightarrow> bool" where
  \<comment> \<open>well-formed UTF-8, as every string decoded from JSON is\<close>
  "payload_ok p \<longleftrightarrow> utf8_ok (jp_Type p) \<and> utf8_ok (jp_Name p) \<and> utf8_ok (jp_WebhookURL p)"

lemma payload_canonical_eq: "payload_canonical ft p = Some (print_json (to_json (payload_value p)))"
  unfolding payload_canonical_def
  by (subst CanonicalJSON_marshal) (simp_all add: payload_value_def marshal_print del: marshal.simps to_json.simps)

lemma utf8_ok_literals:
  "utf8_ok ''type''" "utf8_ok ''name''" "utf8_ok ''webhook_url''" "utf8_ok ''version''"
  "utf8_ok ''max_retries''" "utf8_ok ''timeout_seconds''"
  by (simp_all add: utf8_ok_ascii)

lemma payload_fits: "payload_ok p \<Longrightarrow> json_fits (to_json (payload_value p))"
  by (simp add: json_fits_def payload_ok_def payload_value_def utf8_ok_literals max_depth_def)

lemma itoa_inj: "int64_ok i \<Longrightarrow> int64_ok j \<Longrightarrow> itoa i = itoa j \<Longrightarrow> i = j"
  by (metis atoi_itoa prod.inject)

definition payload_ints_ok :: "JobPayload \<Rightarrow> bool" where
  "payload_ints_ok p \<longleftrightarrow>
    int64_ok (jp_Version p) \<and> int64_ok (jp_MaxRetries p) \<and> int64_ok (jp_TimeoutSeconds p)"

lemma to_json_payload_inj:
  assumes "payload_ints_ok p" and "payload_ints_ok q"
    and "to_json (payload_value p) = to_json (payload_value q)"
  shows "p = q"
  using assms
  by (intro JobPayload.equality)
    (auto simp: payload_value_def payload_ints_ok_def intro: itoa_inj)

lemma payload_canonical_inj:
  assumes "payload_ok p" "payload_ok q" "payload_ints_ok p" "payload_ints_ok q"
    and "payload_canonical ft p = payload_canonical ft q"
  shows "p = q"
proof (rule to_json_payload_inj [OF assms(3,4)])
  show "to_json (payload_value p) = to_json (payload_value q)"
    using assms(5) json_text.enc_inj [OF payload_fits payload_fits, OF assms(1,2)]
    by (simp add: payload_canonical_eq)
qed

end
