(* ===== verification/Handlers.thy ===== *)
theory Handlers
  imports Http Store Idempotency
begin

text \<open>
  \<^verbatim>\<open>handler/routes.go\<close>: the request types, the handlers and the routes. A handler takes the
  libraries, the environment, the request and the world, and gives the response with the world
  it leaves; \<open>secret\<close> is what \<^verbatim>\<open>os.Getenv("JWT_SECRET")\<close> returns. Logging is left out.
  \<open>ft\<close> and \<open>tj\<close> are the float and time formatting of \<^verbatim>\<open>encoding/json\<close>: \<open>tj\<close> depends on the time zone
  of the process.
\<close>

section \<open>Requests\<close>

record authRequest =
  ar_Email :: string
  ar_Password :: string
  ar_Username :: string

definition auth_fields :: "(string \<times> authRequest setter) list" where
  "auth_fields =
    [(''email'', set_string (\<lambda>s r. r\<lparr>ar_Email := s\<rparr>)),
     (''password'', set_string (\<lambda>s r. r\<lparr>ar_Password := s\<rparr>)),
     (''username'', set_string (\<lambda>s r. r\<lparr>ar_Username := s\<rparr>))]"

definition no_auth :: authRequest where
  "no_auth = \<lparr>ar_Email = [], ar_Password = [], ar_Username = []\<rparr>"

record registerJobRequest =
  rj_Type :: string
  rj_Name :: string
  rj_WebhookURL :: string
  rj_Version :: "int option"
  rj_MaxRetries :: "int option"
  rj_TimeoutSeconds :: "int option"

definition register_job_fields :: "(string \<times> registerJobRequest setter) list" where
  "register_job_fields =
    [(''type'', set_string (\<lambda>s r. r\<lparr>rj_Type := s\<rparr>)),
     (''name'', set_string (\<lambda>s r. r\<lparr>rj_Name := s\<rparr>)),
     (''webhook_url'', set_string (\<lambda>s r. r\<lparr>rj_WebhookURL := s\<rparr>)),
     (''version'', set_int_ptr (\<lambda>i r. r\<lparr>rj_Version := i\<rparr>)),
     (''max_retries'', set_int_ptr (\<lambda>i r. r\<lparr>rj_MaxRetries := i\<rparr>)),
     (''timeout_seconds'', set_int_ptr (\<lambda>i r. r\<lparr>rj_TimeoutSeconds := i\<rparr>))]"

definition no_register_job :: registerJobRequest where
  "no_register_job = \<lparr>rj_Type = [], rj_Name = [], rj_WebhookURL = [], rj_Version = None,
     rj_MaxRetries = None, rj_TimeoutSeconds = None\<rparr>"

record updateJobRequest =
  uj_Name :: "string option"
  uj_WebhookURL :: "string option"
  uj_Version :: "int option"
  uj_MaxRetries :: "int option"
  uj_TimeoutSeconds :: "int option"

definition update_job_fields :: "(string \<times> updateJobRequest setter) list" where
  "update_job_fields =
    [(''name'', set_string_ptr (\<lambda>s r. r\<lparr>uj_Name := s\<rparr>)),
     (''webhook_url'', set_string_ptr (\<lambda>s r. r\<lparr>uj_WebhookURL := s\<rparr>)),
     (''version'', set_int_ptr (\<lambda>i r. r\<lparr>uj_Version := i\<rparr>)),
     (''max_retries'', set_int_ptr (\<lambda>i r. r\<lparr>uj_MaxRetries := i\<rparr>)),
     (''timeout_seconds'', set_int_ptr (\<lambda>i r. r\<lparr>uj_TimeoutSeconds := i\<rparr>))]"

definition no_update_job :: updateJobRequest where
  "no_update_job = \<lparr>uj_Name = None, uj_WebhookURL = None, uj_Version = None, uj_MaxRetries = None,
     uj_TimeoutSeconds = None\<rparr>"

definition decode_body :: "bool \<Rightarrow> (string \<times> 'r setter) list \<Rightarrow> 'r \<Rightarrow> request \<Rightarrow> 'r option" where
  \<comment> \<open>\<^verbatim>\<open>json.NewDecoder(r.Body).Decode\<close>, with \<^verbatim>\<open>DisallowUnknownFields\<close> when the flag is set\<close>
  "decode_body strict fs zero r =
    (case decode_stream (rq_Body r) of
       None \<Rightarrow> None
     | Some j \<Rightarrow> decode_struct strict fs j zero)"

section \<open>Health, registration and login\<close>

type_synonym handler = "request \<Rightarrow> world \<Rightarrow> response \<times> world"

definition healthHandler :: handler where
  "healthHandler r w = (message 200 ''ok'', w)"

definition minute :: int where
  "minute = 60 * second"

definition issue_tokens :: "libs \<Rightarrow> env \<Rightarrow> string \<Rightarrow> string \<Rightarrow> string \<Rightarrow> world \<Rightarrow> (string \<times> string) option \<times> world" where
  \<comment> \<open>the two tokens both handlers generate; \<open>None\<close> when one of them fails\<close>
  "issue_tokens L env secret userID email w =
    (let t = tick w
     in case GenerateAccessToken L secret userID email (15 * minute) (e_gonow env t) (e_gonow env (t + 1)) of
          None \<Rightarrow> (None, bump (bump w))
        | Some accessToken \<Rightarrow>
            (case GenerateRefreshToken L secret userID (7 * 24 * 60 * minute)
                (e_gonow env (t + 2)) (e_gonow env (t + 3)) of
               None \<Rightarrow> (None, bump (bump (bump (bump w))))
             | Some refreshToken \<Rightarrow> (Some (accessToken, refreshToken), bump (bump (bump (bump w))))))"

definition token_data :: "string \<Rightarrow> string \<Rightarrow> string \<Rightarrow> gval" where
  "token_data userID accessToken refreshToken = GMap
    [(''user_id'', GStr userID), (''access_token'', GStr accessToken), (''refresh_token'', GStr refreshToken)]"

definition registerHandler :: "libs \<Rightarrow> env \<Rightarrow> string \<Rightarrow> handler" where
  "registerHandler L env secret r w =
    (case decode_body False auth_fields no_auth r of
       None \<Rightarrow> (message 400 ''invalid request payload'', w)
     | Some req \<Rightarrow>
     if ar_Email req = [] \<or> ar_Password req = []
     then (message 400 ''email and password are required'', w)
     else
       let username = (if ar_Username req = [] then ar_Email req else ar_Username req)
       in case HashPassword L (tick w) (ar_Password req) of
            None \<Rightarrow> (message 500 ''failed to create user'', bump w)
          | Some hashedPassword \<Rightarrow>
          (case CreateUser env (ar_Email req) username hashedPassword (bump w) of
             (Inl _, w1) \<Rightarrow> (message 500 ''failed to create user'', w1)
           | (Inr userID, w1) \<Rightarrow>
          (case issue_tokens L env secret userID (ar_Email req) w1 of
             (None, w2) \<Rightarrow> (message 500 ''failed to create user'', w2)
           | (Some (accessToken, refreshToken), w2) \<Rightarrow>
               (with_data 201 ''registration successful'' (token_data userID accessToken refreshToken), w2))))"

definition loginHandler :: "libs \<Rightarrow> env \<Rightarrow> string \<Rightarrow> handler" where
  "loginHandler L env secret r w =
    (case decode_body False auth_fields no_auth r of
       None \<Rightarrow> (message 400 ''invalid request payload'', w)
     | Some req \<Rightarrow>
     if ar_Email req = [] \<or> ar_Password req = []
     then (message 400 ''email and password are required'', w)
     else
       (case GetUserByEmail env (ar_Email req) w of
          (Inl _, w1) \<Rightarrow> (message 401 ''invalid credentials'', w1)
        | (Inr user, w1) \<Rightarrow>
          if \<not> ComparePassword L (user_PasswordHash user) (ar_Password req)
          then (message 401 ''invalid credentials'', w1)
          else
            (case issue_tokens L env secret (user_ID user) (ar_Email req) w1 of
               (None, w2) \<Rightarrow> (message 500 ''failed to login'', w2)
             | (Some (accessToken, refreshToken), w2) \<Rightarrow>
                 (with_data 200 ''login successful'' (token_data (user_ID user) accessToken refreshToken), w2))))"

section \<open>Jobs\<close>

definition createJobHandler :: "(string \<Rightarrow> string option) \<Rightarrow> env \<Rightarrow> handler" where
  "createJobHandler ft env r w =
    (let userID = getUserID r
     in if userID = [] then (message 401 ''unauthorized'', w)
     else
       (case decode_body True register_job_fields no_register_job r of
          None \<Rightarrow> (message 400 ''invalid request payload'', w)
        | Some req \<Rightarrow>
        if rj_Type req = [] \<or> rj_Name req = [] \<or> rj_WebhookURL req = []
        then (message 400 ''type, name, and webhook_url are required'', w)
        else
          let jobPayload = NewJobPayload (rj_Type req) (rj_Name req) (rj_WebhookURL req)
                (rj_Version req) (rj_MaxRetries req) (rj_TimeoutSeconds req)
          in case ComputeIdempotencyHash ft (payload_value jobPayload) of
               None \<Rightarrow> (message 500 ''failed to register job'', w)
             | Some requestHash \<Rightarrow>
             (case marshal (payload_value jobPayload) of
                None \<Rightarrow> (message 500 ''failed to register job'', w)
              | Some payloadBytes \<Rightarrow>
             (case CreateJobWithIdempotency env userID requestHash ''POST'' ''/jobs''
                 \<lparr>cp_UserID = userID, cp_Type = rj_Type req, cp_Name = rj_Name req,
                  cp_WebhookURL = rj_WebhookURL req, cp_Payload = payloadBytes,
                  cp_MaxRetries = jp_MaxRetries jobPayload,
                  cp_TimeoutSeconds = jp_TimeoutSeconds jobPayload,
                  cp_Version = jp_Version jobPayload\<rparr> w of
                (Inl _, w1) \<Rightarrow> (message 500 ''failed to register job'', w1)
              | (Inr (job, existing), w1) \<Rightarrow>
                  (with_data (if existing then 200 else 202)
                     (if existing then ''job already registered'' else ''job registration accepted'')
                     (GMap [(''job_id'', GStr (job_ID job)), (''state'', GStr (job_State job))]), w1)))))"

definition job_value :: "(int \<Rightarrow> gval) \<Rightarrow> StoreJob \<Rightarrow> gval" where
  \<comment> \<open>the map both read handlers build from a job\<close>
  "job_value tj job = GMap
    [(''id'', GStr (job_ID job)), (''type'', GStr (job_Type job)), (''name'', GStr (job_Name job)),
     (''webhook_url'', GStr (job_WebhookURL job)), (''version'', GInt (job_Version job)),
     (''max_retries'', GInt (job_MaxRetries job)), (''timeout_seconds'', GInt (job_TimeoutSeconds job)),
     (''state'', GStr (job_State job)), (''attempts'', GInt (job_Attempts job)),
     (''scheduled_at'', tj (job_ScheduledAt job)), (''payload'', GRaw (Some (job_Payload job))),
     (''last_error'', GStr (case job_LastError job of None \<Rightarrow> [] | Some e \<Rightarrow> e)),
     (''result'', GRaw (job_Result job))]"

definition page_of :: "request \<Rightarrow> int" where
  "page_of r = (let page = fst (atoi (rq_Query r ''page'')) in if page < 1 then 1 else page)"

definition page_size_of :: "request \<Rightarrow> int" where
  "page_size_of r =
    (let pageSize = fst (atoi (rq_Query r ''page_size'')) in if pageSize < 1 then 20 else pageSize)"

definition listJobsHandler :: "(int \<Rightarrow> gval) \<Rightarrow> env \<Rightarrow> handler" where
  "listJobsHandler tj env r w =
    (let userID = getUserID r
     in if userID = [] then (message 401 ''unauthorized'', w)
     else
       let offset = wrap64 (wrap64 (page_of r - 1) * page_size_of r)
       in case ListJobsByUser env userID (page_size_of r) offset w of
            (Inl _, w1) \<Rightarrow> (message 500 ''failed to list jobs'', w1)
          | (Inr js, w1) \<Rightarrow> (with_data 200 ''jobs listed'' (GSlice (map (job_value tj) js)), w1))"

definition getJobHandler :: "(int \<Rightarrow> gval) \<Rightarrow> env \<Rightarrow> handler" where
  "getJobHandler tj env r w =
    (let userID = getUserID r
     in if userID = [] then (message 401 ''unauthorized'', w)
     else
       (case GetJobByID env (rq_jobID r) w of
          (Inl _, w1) \<Rightarrow> (message 404 ''job not found'', w1)
        | (Inr job, w1) \<Rightarrow>
            if job_UserID job \<noteq> userID then (message 403 ''forbidden'', w1)
            else (with_data 200 ''job fetched'' (job_value tj job), w1)))"

definition apply_update :: "updateJobRequest \<Rightarrow> StoreJob \<Rightarrow> StoreJob" where
  \<comment> \<open>the five assignments to the fetched job\<close>
  "apply_update req job =
    (let job = (case uj_Name req of Some n \<Rightarrow> job\<lparr>job_Name := n\<rparr> | None \<Rightarrow> job);
         job = (case uj_WebhookURL req of Some u \<Rightarrow> job\<lparr>job_WebhookURL := u\<rparr> | None \<Rightarrow> job);
         job = (case uj_Version req of Some v \<Rightarrow> if v > 0 then job\<lparr>job_Version := v\<rparr> else job | None \<Rightarrow> job);
         job = (case uj_MaxRetries req of
           Some m \<Rightarrow> if m > 0 then job\<lparr>job_MaxRetries := m\<rparr> else job | None \<Rightarrow> job);
         job = (case uj_TimeoutSeconds req of
           Some s \<Rightarrow> if s > 0 then job\<lparr>job_TimeoutSeconds := s\<rparr> else job | None \<Rightarrow> job)
     in job)"

definition nothing_to_update :: "updateJobRequest \<Rightarrow> bool" where
  "nothing_to_update req \<longleftrightarrow> uj_Name req = None \<and> uj_WebhookURL req = None \<and> uj_Version req = None \<and>
     uj_MaxRetries req = None \<and> uj_TimeoutSeconds req = None"

definition write_update :: "env \<Rightarrow> updateJobRequest \<Rightarrow> StoreJob \<Rightarrow> world \<Rightarrow> (dberr + unit) \<times> world" where
  \<comment> \<open>the assignments to the fetched job and the call that writes it\<close>
  "write_update env req job w =
    (let job = apply_update req job
     in UpdateJobDetails env (job_ID job) (job_UserID job) (job_Name job) (job_WebhookURL job)
       (job_MaxRetries job) (job_TimeoutSeconds job) (job_Version job) w)"

definition updateJobHandler :: "env \<Rightarrow> handler" where
  "updateJobHandler env r w =
    (let userID = getUserID r
     in if userID = [] then (message 401 ''unauthorized'', w)
     else
       (case decode_body True update_job_fields no_update_job r of
          None \<Rightarrow> (message 400 ''invalid request payload'', w)
        | Some req \<Rightarrow>
        if nothing_to_update req then (message 400 ''no fields to update'', w)
        else
          (case GetJobByID env (rq_jobID r) w of
             (Inl _, w1) \<Rightarrow> (message 404 ''job not found'', w1)
           | (Inr job, w1) \<Rightarrow>
             if job_UserID job \<noteq> userID then (message 403 ''forbidden'', w1)
             else
               (case write_update env req job w1 of
                  (Inl _, w2) \<Rightarrow> (message 500 ''failed to update job'', w2)
                | (Inr _, w2) \<Rightarrow> (message 200 ''job updated'', w2)))))"

definition deleteJobHandler :: "env \<Rightarrow> handler" where
  "deleteJobHandler env r w =
    (let userID = getUserID r
     in if userID = [] then (message 401 ''unauthorized'', w)
     else
       (case GetJobByID env (rq_jobID r) w of
          (Inl _, w1) \<Rightarrow> (message 404 ''job not found'', w1)
        | (Inr job, w1) \<Rightarrow>
          if job_UserID job \<noteq> userID then (message 403 ''forbidden'', w1)
          else
            (case DeleteJob env (rq_jobID r) userID w1 of
               (Inl _, w2) \<Rightarrow> (message 500 ''failed to delete job'', w2)
             | (Inr _, w2) \<Rightarrow> (message 200 ''job deleted'', w2))))"

section \<open>Routes\<close>

text \<open>
  The routes in the order they are registered. Matching a path to a pattern is the router's work:
  \<open>serve\<close> takes the pattern it has found; a request that matches none never reaches the program.
\<close>

datatype endpoint = Health | Register | Login | CreateJob | ListJobs | GetJob | UpdateJob | RemoveJob

definition RegisterRoutes :: "((string \<times> string) \<times> (endpoint \<times> bool)) list" where
  \<comment> \<open>method, pattern, handler and whether the JWT middleware is in front\<close>
  "RegisterRoutes =
    [((''GET'', ''/health''), (Health, False)),
     ((''POST'', ''/register''), (Register, False)),
     ((''POST'', ''/login''), (Login, False)),
     ((''POST'', ''/jobs/''), (CreateJob, True)),
     ((''GET'', ''/jobs/''), (ListJobs, True)),
     ((''GET'', ''/jobs/{jobID}''), (GetJob, True)),
     ((''PUT'', ''/jobs/{jobID}''), (UpdateJob, True)),
     ((''DELETE'', ''/jobs/{jobID}''), (RemoveJob, True))]"

record config =
  cf_libs :: libs
  cf_secret :: string
  cf_float :: "string \<Rightarrow> string option"
  cf_time :: "int \<Rightarrow> gval"

fun endpoint_handler :: "config \<Rightarrow> env \<Rightarrow> endpoint \<Rightarrow> handler" where
  "endpoint_handler cf env Health = healthHandler"
| "endpoint_handler cf env Register = registerHandler (cf_libs cf) env (cf_secret cf)"
| "endpoint_handler cf env Login = loginHandler (cf_libs cf) env (cf_secret cf)"
| "endpoint_handler cf env CreateJob = createJobHandler (cf_float cf) env"
| "endpoint_handler cf env ListJobs = listJobsHandler (cf_time cf) env"
| "endpoint_handler cf env GetJob = getJobHandler (cf_time cf) env"
| "endpoint_handler cf env UpdateJob = updateJobHandler env"
| "endpoint_handler cf env RemoveJob = deleteJobHandler env"

definition serve :: "config \<Rightarrow> env \<Rightarrow> string \<times> string \<Rightarrow> request \<Rightarrow> world \<Rightarrow> (response \<times> world) option" where
  "serve cf env route r w =
    (case map_of RegisterRoutes route of
       None \<Rightarrow> None
     | Some (h, protected) \<Rightarrow>
         Some (if protected
           then NewJWTAuth (cf_libs cf) (cf_secret cf) (endpoint_handler cf env h)
             (e_gonow env (tick w)) (r\<lparr>rq_claims := None\<rparr>) (bump w)
           else endpoint_handler cf env h (r\<lparr>rq_claims := None\<rparr>) w))"

end
