(* ===== verification/Store_Facts.thy ===== *)
theory Store_Facts
  imports Store
begin

text \<open>
  What the statements of the store do when they succeed, and how statements, transactions and
  commits act on the world. These are the facts every proof about an operation starts from.
\<close>

section \<open>Statements that succeed\<close>

lemma sql_insert_userE:
  assumes "sql_insert_user env uid now email username ph t = Inr (x, t')"
  obtains "x = uid" "find_by user_ID uid (users t) = None"
    "username \<notin> user_Username ` set (users t)" "email \<notin> user_Email ` set (users t)"
    "t' = t\<lparr>users := add_row
       \<lparr>user_ID = uid, user_Email = email, user_Username = username, user_PasswordHash = ph,
        user_CreatedAt = now, user_UpdatedAt = now\<rparr> (users t)\<rparr>"
  using assms by (auto simp: sql_insert_user_def split: if_splits)

lemma sql_job_by_idE:
  assumes "sql_job_by_id env jobID t = Inr (j, t')"
  obtains k where "e_uuid_in env jobID = Some k" "find_by job_ID k (jobs t) = Some j" "t' = t"
  using assms by (auto simp: sql_job_by_id_def split: option.splits)

lemma sql_update_jobE:
  assumes "sql_update_job env now jobID userID name url mr ts v t = Inr (x, t')"
  obtains k u where "e_uuid_in env jobID = Some k" "e_uuid_in env userID = Some u"
    "int4_ok mr" "int4_ok ts" "int4_ok v"
    "t' = t\<lparr>jobs := upd_by job_ID k
       (\<lambda>j. if job_UserID j = u
             then j\<lparr>job_Name := name, job_WebhookURL := url, job_MaxRetries := mr,
                    job_TimeoutSeconds := ts, job_Version := v, job_UpdatedAt := now\<rparr>
             else j) (jobs t)\<rparr>"
  using assms by (auto simp: sql_update_job_def split: option.splits if_splits)

lemma sql_delete_jobE:
  assumes "sql_delete_job env jobID userID t = Inr (x, t')"
  obtains k u where "e_uuid_in env jobID = Some k" "e_uuid_in env userID = Some u"
    "t' = t\<lparr>jobs := filter (\<lambda>j. \<not> (job_ID j = k \<and> job_UserID j = u)) (jobs t),
            idempotency_keys := filter
              (\<lambda>i. case ik_JobID i of None \<Rightarrow> True
                 | Some j \<Rightarrow> j \<notin> job_ID ` {j \<in> set (jobs t). job_ID j = k \<and> job_UserID j = u})
              (idempotency_keys t)\<rparr>"
  using assms by (auto simp: sql_delete_job_def Let_def split: option.splits)

lemma sql_delete_job_eq:
  assumes "e_uuid_in env jobID = Some k" and "e_uuid_in env userID = Some u"
  shows "sql_delete_job env jobID userID t = Inr ((), t\<lparr>
      jobs := filter (\<lambda>j. \<not> (job_ID j = k \<and> job_UserID j = u)) (jobs t),
      idempotency_keys := filter
        (\<lambda>i. case ik_JobID i of None \<Rightarrow> True
           | Some j \<Rightarrow> j \<notin> job_ID ` {j \<in> set (jobs t). job_ID j = k \<and> job_UserID j = u})
        (idempotency_keys t)\<rparr>)"
proof (cases "sql_delete_job env jobID userID t")
  case (Inl e)
  with assms show ?thesis by (simp add: sql_delete_job_def Let_def)
next
  case (Inr r)
  then show ?thesis by (cases r) (use assms in \<open>auto elim!: sql_delete_jobE\<close>)
qed

lemma sql_increment_attemptsE:
  assumes "sql_increment_attempts env now jobID t = Inr (Some a, t')"
  obtains k j where "e_uuid_in env jobID = Some k" "find_by job_ID k (jobs t) = Some j"
    "a = job_Attempts j + 1" "int4_ok a"
    "t' = t\<lparr>jobs := upd_by job_ID k
       (\<lambda>j. j\<lparr>job_Attempts := job_Attempts j + 1, job_UpdatedAt := now\<rparr>) (jobs t)\<rparr>"
  using assms by (auto simp: sql_increment_attempts_def split: option.splits if_splits)

lemma sql_update_stateE:
  assumes "sql_update_state env now jobID st err res a t = Inr (x, t')"
  obtains k stored where "e_uuid_in env jobID = Some k" "int4_ok a"
    "stored = Option.bind res (e_jsonb_in env)" "stored = None \<longleftrightarrow> res = None"
    "t' = t\<lparr>jobs := upd_by job_ID k
       (\<lambda>j. j\<lparr>job_State := st, job_LastError := err, job_Result := stored,
              job_Attempts := a, job_UpdatedAt := now\<rparr>) (jobs t)\<rparr>"
  using assms
  by (auto simp: sql_update_state_def Let_def split: option.splits if_splits)

lemma sql_job_of_keyE:
  assumes "sql_job_of_key env userID requestHash t = Inr (jobID, t')"
  obtains u i where "e_uuid_in env userID = Some u" "i \<in> set (idempotency_keys t)"
    "ik_UserID i = u" "ik_RequestHash i = requestHash" "ik_JobID i = Some jobID" "t' = t"
proof -
  obtain u where u: "e_uuid_in env userID = Some u"
    using assms by (cases "e_uuid_in env userID") (simp_all add: sql_job_of_key_def)
  let ?row = "List.find (\<lambda>i. ik_UserID i = u \<and> ik_RequestHash i = requestHash) (idempotency_keys t)"
  obtain i where i: "?row = Some i"
    using assms u by (cases ?row) (simp_all add: sql_job_of_key_def split: if_splits)
  with assms u have j: "ik_JobID i = Some jobID" "t' = t"
    by (cases "ik_JobID i"; simp add: sql_job_of_key_def split: if_splits)+
  from i have "i \<in> set (idempotency_keys t) \<and> ik_UserID i = u \<and> ik_RequestHash i = requestHash"
    using find_SomeD by fastforce
  then show thesis using that [of u i] u j by blast
qed

lemma sql_insert_jobE:
  assumes "sql_insert_job env jid now r t = Inr (x, t')"
  obtains u p where "x = jid" "e_uuid_in env (job_UserID r) = Some u" "e_jsonb_in env (job_Payload r) = Some p"
    "find_by job_ID jid (jobs t) = None" "find_by user_ID u (users t) \<noteq> None"
    "int4_ok (job_Version r)" "int4_ok (job_MaxRetries r)" "int4_ok (job_TimeoutSeconds r)"
    "int4_ok (job_Attempts r)"
    "t' = t\<lparr>jobs := add_row (r\<lparr>job_ID := jid, job_UserID := u, job_Payload := p,
        job_LastError := None, job_Result := None, job_CreatedAt := now, job_UpdatedAt := now\<rparr>) (jobs t)\<rparr>"
  using assms by (auto simp: sql_insert_job_def split: option.splits if_splits)

lemma sql_insert_keyE:
  assumes "sql_insert_key env kid now userID requestHash jobID meth path expires t = Inr (x, t')"
  obtains u j where "e_uuid_in env userID = Some u" "e_uuid_in env jobID = Some j"
    "kid \<notin> ik_ID ` set (idempotency_keys t)"
    "(u, requestHash) \<notin> (\<lambda>i. (ik_UserID i, ik_RequestHash i)) ` set (idempotency_keys t)"
    "find_by user_ID u (users t) \<noteq> None" "find_by job_ID j (jobs t) \<noteq> None"
    "t' = t\<lparr>idempotency_keys := add_row
       \<lparr>ik_ID = kid, ik_UserID = u, ik_RequestHash = requestHash, ik_JobID = Some j,
        ik_Method = meth, ik_Path = path, ik_StatusCode = None, ik_CreatedAt = now,
        ik_ExpiresAt = expires\<rparr> (idempotency_keys t)\<rparr>"
  using assms by (auto simp: sql_insert_key_def split: option.splits if_splits)

lemma sql_insert_eventE:
  assumes "sql_insert_event env eid now p t = Inr (x, t')"
  obtains a payload where "x = eid" "e_uuid_in env (op_AggregateID p) = Some a"
    "e_jsonb_in env (op_Payload p) = Some payload" "find_by ev_ID eid (outbox t) = None"
    "t' = t\<lparr>outbox := add_row
       \<lparr>ev_ID = eid, ev_AggregateType = op_AggregateType p, ev_AggregateID = a,
        ev_EventType = op_EventType p, ev_Payload = payload, ev_Published = op_Published p,
        ev_PublishedAt = None, ev_CreatedAt = now, ev_UpdatedAt = now\<rparr> (outbox t)\<rparr>"
  using assms by (auto simp: sql_insert_event_def split: option.splits if_splits)

lemma sql_markE:
  assumes "sql_mark env published now outboxID t = Inr (x, t')"
  obtains k where "e_uuid_in env outboxID = Some k"
    "t' = t\<lparr>outbox := upd_by ev_ID k
       (\<lambda>v. if published then v\<lparr>ev_Published := True, ev_PublishedAt := Some now, ev_UpdatedAt := now\<rparr>
             else v\<lparr>ev_Published := False, ev_UpdatedAt := now\<rparr>) (outbox t)\<rparr>"
  using assms by (auto simp: sql_mark_def split: option.splits)

section \<open>Statements on the world\<close>

lemma auto_stmt_cases:
  assumes "auto_stmt env f w = (r, w')"
  obtains (failed) e where "r = Inl e" "w' = bump w"
  | (lost) x t where "r = Inl ErrConn" "f (pg w) = Inr (x, t)" "w' = bump (w\<lparr>pg := t\<rparr>)"
  | (success) x t where "r = Inr x" "f (pg w) = Inr (x, t)" "w' = bump (w\<lparr>pg := t\<rparr>)"
    "e_fault env (tick w) = NoFault"
  using assms by (auto simp: auto_stmt_def split: fault.splits sum.splits prod.splits)

lemma tx_stmt_cases:
  assumes "tx_stmt env f tx w = (r, tx', w')"
  obtains (failed) e where "r = Inl e" "w' = bump w" "tx' = tx"
  | (success) x t where "r = Inr x" "f (tx_tables tx) = Inr (x, t)" "tx' = tx\<lparr>tx_tables := t\<rparr>"
    "w' = bump w" "e_fault env (tick w) = NoFault"
  using assms by (auto simp: tx_stmt_def split: fault.splits sum.splits prod.splits)

lemma tx_stmt_pg [world_simps]: "snd (snd (tx_stmt env f tx w)) = bump w"
  by (auto simp: tx_stmt_def split: fault.splits sum.splits prod.splits)

lemma tx_stmt_now [world_simps]: "tx_now (fst (snd (tx_stmt env f tx w))) = tx_now tx"
  by (auto simp: tx_stmt_def split: fault.splits sum.splits prod.splits)

lemma BeginTx_cases:
  assumes "BeginTx env w = (r, w')"
  obtains (failed) "r = Inl ErrConn" "w' = bump w"
  | (success) "r = Inr \<lparr>tx_tables = pg w, tx_now = e_pgnow env (tick w)\<rparr>" "w' = bump w"
    "e_fault env (tick w) = NoFault"
  using assms by (auto simp: BeginTx_def split: fault.splits)

lemma Commit_cases:
  assumes "Commit env tx w = (r, w')"
  obtains (failed) "r = Inl ErrConn" "w' = bump w"
  | (lost) "r = Inl ErrConn" "w' = bump (w\<lparr>pg := tx_tables tx\<rparr>)"
  | (success) "r = Inr ()" "w' = bump (w\<lparr>pg := tx_tables tx\<rparr>)" "e_fault env (tick w) = NoFault"
  using assms by (auto simp: Commit_def split: fault.splits)

text \<open>Every round trip takes one tick, whatever comes of it.\<close>

lemma round_trip_tick:
  "BeginTx env w = (r, w') \<Longrightarrow> tick w' = Suc (tick w)"
  "tx_stmt env f tx w = (x, tx', w') \<Longrightarrow> tick w' = Suc (tick w)"
  "auto_stmt env g w = (y, w') \<Longrightarrow> tick w' = Suc (tick w)"
  "Commit env tx w = (z, w') \<Longrightarrow> tick w' = Suc (tick w)"
  by (auto elim: BeginTx_cases tx_stmt_cases auto_stmt_cases Commit_cases)

lemma sql_job_by_id_tables: "sql_job_by_id env jobID t = Inr (j, t') \<Longrightarrow> t' = t"
  by (erule sql_job_by_idE)

lemma sql_read_only:
  "sql_user_by_email env email t = Inr (u, t') \<Longrightarrow> t' = t"
  "sql_list_jobs env n userID cap off t = Inr (js, t') \<Longrightarrow> t' = t"
  "sql_job_of_key env userID requestHash t = Inr (jobID, t') \<Longrightarrow> t' = t"
  "sql_unpublished env n cap t = Inr (evs, t') \<Longrightarrow> t' = t"
  by (auto simp: sql_user_by_email_def sql_list_jobs_def sql_job_of_key_def sql_unpublished_def
      split: option.splits if_splits)

lemma auto_stmt_read_only:
  assumes "\<And>x t t'. f t = Inr (x, t') \<Longrightarrow> t' = t"
  shows "pg (snd (auto_stmt env f w)) = pg w"
  using assms by (auto simp: auto_stmt_def split: fault.splits sum.splits prod.splits dest: assms)

lemma GetJobByID_pg [world_simps]: "pg (snd (GetJobByID env jobID w)) = pg w"
  using auto_stmt_read_only [of "sql_job_by_id env jobID" env w] sql_job_by_id_tables
  by (auto simp: GetJobByID_def GetJobByIDTx_def queryRow_def split: prod.splits)

lemma GetJobByID_found:
  assumes "GetJobByID env jobID w = (Inr j, w')"
  obtains k where "e_uuid_in env jobID = Some k" "find_by job_ID k (jobs (pg w)) = Some j"
    "w' = bump w"
  using assms
  by (auto simp: GetJobByID_def GetJobByIDTx_def queryRow_def split: prod.splits
      elim!: auto_stmt_cases sql_job_by_idE)

lemma GetJobByIDTx_tx:
  assumes "GetJobByIDTx env (Some tx) jobID w = (r, tx', w')"
  shows "tx' = Some tx \<and> w' = bump w \<and> (\<forall>j. r = Inr j \<longrightarrow>
    (\<exists>k. e_uuid_in env jobID = Some k \<and> find_by job_ID k (jobs (tx_tables tx)) = Some j))"
  using assms
  by (auto simp: GetJobByIDTx_def queryRow_def split: prod.splits
      elim!: tx_stmt_cases sql_job_by_idE)

end
