(* ===== verification/Db_Steps.thy ===== *)
theory Db_Steps
  imports Store_Facts
begin

text \<open>
  The abstract specification of the database: \<open>db_step\<close> has one rule for each unit of work the
  program commits, a registration, a job creation, an edit, a deletion, the start of an
  execution and its three outcomes, and the marking of outbox events. Every operation of the
  program is later shown to take the tables through zero or more of these steps, under every
  schedule of failures; so what the steps preserve holds at any time, whatever the interleaving
  of requests, pollers and workers.

  \<open>db_invariant\<close> is the interface of an invariant: preserved by one step. The invariants here are
  the constraints of the schema (\<open>schema_ok\<close>) and the shape of a job row in each state
  (\<open>jobs_ok\<close>); \<open>Db_Links\<close> adds the ones that relate tables.
\<close>

fun sql_mark_list :: "env \<Rightarrow> int \<Rightarrow> string list \<Rightarrow> tables \<Rightarrow> dberr + (unit \<times> tables)" where
  "sql_mark_list env now [] t = Inr ((), t)"
| "sql_mark_list env now (v # vs) t =
    (case sql_mark env True now v t of
       Inl e \<Rightarrow> Inl e
     | Inr (_, t') \<Rightarrow> sql_mark_list env now vs t')"

definition canonical :: "env \<Rightarrow> string \<Rightarrow> bool" where
  \<comment> \<open>the text of a \<^verbatim>\<open>uuid\<close> as PostgreSQL prints it\<close>
  "canonical env s \<longleftrightarrow> e_uuid_in env s = Some s \<and> utf8_ok s"

inductive db_step :: "env \<Rightarrow> tables \<Rightarrow> tables \<Rightarrow> bool" for env where
  register: "canonical env uid \<Longrightarrow> sql_insert_user env uid now email username ph t = Inr (x, t') \<Longrightarrow> db_step env t t'"
| create: "canonical env jid \<Longrightarrow> canonical env eid \<Longrightarrow>
    sql_insert_job env jid now (new_job_row env n params) t = Inr (j, t1) \<Longrightarrow>
    sql_insert_key env kid now (cp_UserID params) requestHash j meth path expires t1 = Inr (y, t2) \<Longrightarrow>
    sql_insert_event env eid now
      \<lparr>op_AggregateType = ''job'', op_AggregateID = j, op_EventType = ''job_created'',
       op_Payload = payload, op_Published = False\<rparr> t2 = Inr (e, t3) \<Longrightarrow>
    db_step env t t3"
| edit: "0 < mr \<Longrightarrow> 0 < ts \<Longrightarrow> 0 < v \<Longrightarrow>
    sql_update_job env now jobID userID name url mr ts v t = Inr (x, t') \<Longrightarrow> db_step env t t'"
| delete: "sql_delete_job env jobID userID t = Inr (x, t') \<Longrightarrow> db_step env t t'"
| start: "sql_increment_attempts env now jobID t = Inr (Some a, t1) \<Longrightarrow>
    sql_update_state env now jobID ''running'' None None a t1 = Inr (x, t2) \<Longrightarrow> db_step env t t2"
| complete: "0 < a \<Longrightarrow>
    sql_update_state env now jobID ''completed'' None (Some body) a t = Inr (x, t') \<Longrightarrow> db_step env t t'"
| fail: "0 < a \<Longrightarrow>
    sql_update_state env now jobID ''failed'' (Some err) None a t = Inr (x, t') \<Longrightarrow> db_step env t t'"
| retry: "0 < a \<Longrightarrow> canonical env eid \<Longrightarrow> canonical env jobID \<Longrightarrow>
    sql_update_state env now jobID ''queued'' (Some err) None a t = Inr (x, t1) \<Longrightarrow>
    sql_insert_event env eid now
      \<lparr>op_AggregateType = ''job'', op_AggregateID = jobID, op_EventType = ''job_retry'',
       op_Payload = payload, op_Published = False\<rparr> t1 = Inr (e, t2) \<Longrightarrow>
    db_step env t t2"
| publish: "sql_mark_list env now vs t = Inr (x, t') \<Longrightarrow> db_step env t t'"
| unpublish: "sql_mark env False now v t = Inr (x, t') \<Longrightarrow> db_step env t t'"

abbreviation db_steps :: "env \<Rightarrow> tables \<Rightarrow> tables \<Rightarrow> bool" where
  "db_steps env \<equiv> (db_step env)\<^sup>*\<^sup>*"

lemma db_steps_one: "db_step env t t' \<Longrightarrow> db_steps env t t'"
  by blast

locale db_invariant =
  fixes env :: env
    and I :: "tables \<Rightarrow> bool"
  assumes step: "db_step env t t' \<Longrightarrow> I t \<Longrightarrow> I t'"
begin

lemma steps: "db_steps env t t' \<Longrightarrow> I t \<Longrightarrow> I t'"
  by (induction rule: rtranclp_induct) (auto intro: step)

end

section \<open>The constraints of the schema\<close>

definition key_of :: "StoreIdempotencyKey \<Rightarrow> string \<times> string" where
  "key_of i = (ik_UserID i, ik_RequestHash i)"

definition schema_ok :: "tables \<Rightarrow> bool" where
  "schema_ok t \<longleftrightarrow>
    keys_ok user_ID (users t) \<and> keys_ok user_Email (users t) \<and> keys_ok user_Username (users t) \<and>
    keys_ok job_ID (jobs t) \<and> keys_ok ev_ID (outbox t) \<and>
    keys_ok ik_ID (idempotency_keys t) \<and> keys_ok key_of (idempotency_keys t) \<and>
    job_UserID ` set (jobs t) \<subseteq> user_ID ` set (users t) \<and>
    ik_UserID ` set (idempotency_keys t) \<subseteq> user_ID ` set (users t) \<and>
    (\<forall>i \<in> set (idempotency_keys t). \<forall>j. ik_JobID i = Some j \<longrightarrow> j \<in> job_ID ` set (jobs t))"

lemma keys_ok_add_row': "keys_ok key rows \<Longrightarrow> key r \<notin> key ` set rows \<Longrightarrow> keys_ok key (add_row r rows)"
  by (simp add: keys_ok_def add_row_def)

lemma keys_ok_filter: "keys_ok key rows \<Longrightarrow> keys_ok key (filter P rows)"
  by (simp add: keys_ok_def distinct_map_filter)

lemma image_upd_by: "(\<And>r. g (f r) = g r) \<Longrightarrow> g ` set (upd_by key k f rows) = g ` set rows"
  using map_upd_by [of g f key k rows] by (metis set_map)

text \<open>An update that keeps the owner and the identifier of every job keeps the schema.\<close>

lemma schema_ok_update_jobs:
  assumes "schema_ok t" and "\<And>j. job_ID (f j) = job_ID j" and "\<And>j. job_UserID (f j) = job_UserID j"
  shows "schema_ok (t\<lparr>jobs := upd_by job_ID k f (jobs t)\<rparr>)"
  using assms by (simp add: schema_ok_def keys_ok_upd_by image_upd_by)

lemma schema_ok_update_outbox:
  assumes "schema_ok t" and "\<And>v. ev_ID (f v) = ev_ID v"
  shows "schema_ok (t\<lparr>outbox := upd_by ev_ID k f (outbox t)\<rparr>)"
  using assms by (simp add: schema_ok_def keys_ok_upd_by)

lemma schema_insert_user: "sql_insert_user env uid now email un ph t = Inr (x, t') \<Longrightarrow> schema_ok t \<Longrightarrow> schema_ok t'"
  by (erule sql_insert_userE) (auto simp: schema_ok_def find_by_None_iff intro!: keys_ok_add_row')

lemma schema_insert_job: "sql_insert_job env jid now r t = Inr (x, t') \<Longrightarrow> schema_ok t \<Longrightarrow> schema_ok t'"
  by (erule sql_insert_jobE) (auto simp: schema_ok_def find_by_None_iff intro!: keys_ok_add_row')

lemma schema_insert_key:
  "sql_insert_key env kid now u h j meth path ex t = Inr (x, t') \<Longrightarrow> schema_ok t \<Longrightarrow> schema_ok t'"
  by (erule sql_insert_keyE)
    (auto simp: schema_ok_def find_by_None_iff key_of_def [abs_def] intro!: keys_ok_add_row')

lemma schema_insert_event: "sql_insert_event env eid now p t = Inr (x, t') \<Longrightarrow> schema_ok t \<Longrightarrow> schema_ok t'"
  by (erule sql_insert_eventE) (auto simp: schema_ok_def find_by_None_iff intro!: keys_ok_add_row')

lemma schema_update_job: "sql_update_job env now k u nm url mr ts v t = Inr (x, t') \<Longrightarrow> schema_ok t \<Longrightarrow> schema_ok t'"
  by (erule sql_update_jobE) (auto intro!: schema_ok_update_jobs)

lemma schema_delete_job: "sql_delete_job env k u t = Inr (x, t') \<Longrightarrow> schema_ok t \<Longrightarrow> schema_ok t'"
  by (erule sql_delete_jobE) (auto simp: schema_ok_def intro!: keys_ok_filter, fastforce)

lemma schema_increment: "sql_increment_attempts env now k t = Inr (Some a, t') \<Longrightarrow> schema_ok t \<Longrightarrow> schema_ok t'"
  by (erule sql_increment_attemptsE) (auto intro!: schema_ok_update_jobs)

lemma schema_update_state: "sql_update_state env now k st e r a t = Inr (x, t') \<Longrightarrow> schema_ok t \<Longrightarrow> schema_ok t'"
  by (erule sql_update_stateE) (auto intro!: schema_ok_update_jobs)

lemma schema_mark: "sql_mark env p now v t = Inr (x, t') \<Longrightarrow> schema_ok t \<Longrightarrow> schema_ok t'"
  by (erule sql_markE) (auto intro!: schema_ok_update_outbox)

lemma sql_mark_list_inv:
  assumes "\<And>v x t t'. sql_mark env True now v t = Inr (x, t') \<Longrightarrow> I t \<Longrightarrow> I t'"
  shows "sql_mark_list env now vs t = Inr (x, t') \<Longrightarrow> I t \<Longrightarrow> I t'"
  by (induction vs arbitrary: t) (auto split: sum.splits intro: assms)

lemmas schema_intros = schema_insert_user schema_insert_job schema_insert_key schema_insert_event
  schema_update_job schema_delete_job schema_increment schema_update_state schema_mark

lemma db_step_schema: "db_step env t t' \<Longrightarrow> schema_ok t \<Longrightarrow> schema_ok t'"
  by (induction rule: db_step.induct)
    (blast intro: schema_intros sql_mark_list_inv [where I = schema_ok])+

interpretation schema: db_invariant env schema_ok for env
  by unfold_locales (rule db_step_schema)

section \<open>Job rows\<close>

definition job_ok :: "StoreJob \<Rightarrow> bool" where
  "job_ok j \<longleftrightarrow>
    0 < job_Version j \<and> 0 < job_MaxRetries j \<and> 0 < job_TimeoutSeconds j \<and>
    int4_ok (job_Version j) \<and> int4_ok (job_MaxRetries j) \<and> int4_ok (job_TimeoutSeconds j) \<and>
    int4_ok (job_Attempts j) \<and>
    (job_State j = ''pending'' \<and> job_Attempts j = 0 \<and> job_LastError j = None \<and> job_Result j = None
     \<or> 0 < job_Attempts j \<and>
       (job_State j = ''running'' \<and> job_LastError j = None \<and> job_Result j = None
        \<or> job_State j = ''queued'' \<and> job_LastError j \<noteq> None \<and> job_Result j = None
        \<or> job_State j = ''failed'' \<and> job_LastError j \<noteq> None \<and> job_Result j = None
        \<or> job_State j = ''completed'' \<and> job_LastError j = None \<and> job_Result j \<noteq> None))"

definition jobs_ok :: "tables \<Rightarrow> bool" where
  "jobs_ok t \<longleftrightarrow> (\<forall>j \<in> set (jobs t). job_ok j)"

lemma job_ok_attempts: "job_ok j \<Longrightarrow> 0 \<le> job_Attempts j"
  by (auto simp: job_ok_def)

lemma jobs_ok_upd_by:
  assumes "jobs_ok t" and "\<And>j. job_ok j \<Longrightarrow> job_ID j = k \<Longrightarrow> j \<in> set (jobs t) \<Longrightarrow> job_ok (f j)"
  shows "jobs_ok (t\<lparr>jobs := upd_by job_ID k f (jobs t)\<rparr>)"
  using assms by (auto simp: jobs_ok_def elim!: set_upd_byE)

lemma jobs_ok_state:
  assumes "sql_update_state env now jobID st err res a t = Inr (x, t')" and "jobs_ok t" and "0 < a"
    and "(st, err \<noteq> None, res \<noteq> None) \<in>
      {(''running'', False, False), (''queued'', True, False), (''failed'', True, False),
       (''completed'', False, True)}"
  shows "jobs_ok t'"
  using assms(1)
proof (rule sql_update_stateE)
  fix k stored
  assume a4: "int4_ok a" and "stored = None \<longleftrightarrow> res = None"
    and t': "t' = t\<lparr>jobs := upd_by job_ID k
       (\<lambda>j. j\<lparr>job_State := st, job_LastError := err, job_Result := stored,
              job_Attempts := a, job_UpdatedAt := now\<rparr>) (jobs t)\<rparr>"
  then show ?thesis
    using assms(2-4) unfolding t'
    by (intro jobs_ok_upd_by) (auto simp: job_ok_def)
qed

lemma jobs_ok_start:
  assumes "sql_increment_attempts env now jobID t = Inr (Some a, t1)"
    and "sql_update_state env now jobID ''running'' None None a t1 = Inr (x, t2)"
    and "jobs_ok t" and "schema_ok t"
  shows "jobs_ok t2" and "0 < a"
proof -
  from assms(1) obtain k j where k: "e_uuid_in env jobID = Some k" "find_by job_ID k (jobs t) = Some j"
    and a: "a = job_Attempts j + 1" "int4_ok a"
    and t1: "t1 = t\<lparr>jobs := upd_by job_ID k
       (\<lambda>j. j\<lparr>job_Attempts := job_Attempts j + 1, job_UpdatedAt := now\<rparr>) (jobs t)\<rparr>"
    by (rule sql_increment_attemptsE)
  have j: "j \<in> set (jobs t)" "job_ID j = k" using find_by_SomeD [OF k(2)] by auto
  then have ok: "job_ok j" using assms(3) by (simp add: jobs_ok_def)
  then show "0 < a" using a job_ok_attempts by simp
  have only: "i = j" if "i \<in> set (jobs t)" "job_ID i = k" for i
    using find_by_Some_iff [of job_ID "jobs t" k i] assms(4) k(2) that by (simp add: schema_ok_def)
  from assms(2) obtain k' where k': "e_uuid_in env jobID = Some k'"
    and t2: "t2 = t1\<lparr>jobs := upd_by job_ID k'
       (\<lambda>j. j\<lparr>job_State := ''running'', job_LastError := None, job_Result := None,
              job_Attempts := a, job_UpdatedAt := now\<rparr>) (jobs t1)\<rparr>"
    by (rule sql_update_stateE) auto
  show "jobs_ok t2"
    unfolding jobs_ok_def
  proof
    fix i
    assume "i \<in> set (jobs t2)"
    then have "i \<in> set (upd_by job_ID k (\<lambda>j. j\<lparr>job_State := ''running'', job_LastError := None,
        job_Result := None, job_Attempts := a, job_UpdatedAt := now\<rparr>) (jobs t1))"
      using t2 k' k by simp
    then show "job_ok i"
    proof (rule set_upd_byE)
      assume "i \<in> set (jobs t1)" "job_ID i \<noteq> k"
      then show "job_ok i" using assms(3) unfolding t1
        by (auto simp: jobs_ok_def elim!: set_upd_byE)
    next
      fix i0
      assume "i0 \<in> set (jobs t1)" "job_ID i0 = k"
        and i: "i = i0\<lparr>job_State := ''running'', job_LastError := None, job_Result := None,
          job_Attempts := a, job_UpdatedAt := now\<rparr>"
      then obtain i1 where "i1 \<in> set (jobs t)" "job_ID i1 = k"
        "i0 = i1\<lparr>job_Attempts := job_Attempts i1 + 1, job_UpdatedAt := now\<rparr>"
        unfolding t1 by (auto elim!: set_upd_byE)
      with only ok i \<open>0 < a\<close> a(2) show "job_ok i" by (auto simp: job_ok_def)
    qed
  qed
qed

lemma new_job_row_facts:
  "0 < job_Version (new_job_row env n p)" "0 < job_MaxRetries (new_job_row env n p)"
  "0 < job_TimeoutSeconds (new_job_row env n p)" "job_State (new_job_row env n p) = ''pending''"
  "job_Attempts (new_job_row env n p) = 0" "job_UserID (new_job_row env n p) = cp_UserID p"
  by (simp_all add: new_job_row_def Let_def)

lemma jobs_ok_insert:
  "sql_insert_job env jid now (new_job_row env n p) t = Inr (x, t') \<Longrightarrow> jobs_ok t \<Longrightarrow> jobs_ok t'"
  by (erule sql_insert_jobE) (auto simp: jobs_ok_def job_ok_def new_job_row_facts)

lemma jobs_ok_edit:
  "sql_update_job env now k u nm url mr ts v t = Inr (x, t') \<Longrightarrow> 0 < mr \<Longrightarrow> 0 < ts \<Longrightarrow> 0 < v \<Longrightarrow>
    jobs_ok t \<Longrightarrow> jobs_ok t'"
  by (erule sql_update_jobE) (auto intro!: jobs_ok_upd_by simp: job_ok_def)

lemma jobs_same:
  "sql_insert_user env uid now email un ph t = Inr (x, t') \<Longrightarrow> jobs t' = jobs t"
  "sql_insert_key env kid now usr h jb meth path ex t = Inr (y, t') \<Longrightarrow> jobs t' = jobs t"
  "sql_insert_event env eid now p t = Inr (z, t') \<Longrightarrow> jobs t' = jobs t"
  "sql_mark env pub now v t = Inr (y, t') \<Longrightarrow> jobs t' = jobs t"
  by (auto elim!: sql_insert_userE sql_insert_keyE sql_insert_eventE sql_markE)

lemma jobs_ok_delete: "sql_delete_job env k u t = Inr (x, t') \<Longrightarrow> jobs_ok t \<Longrightarrow> jobs_ok t'"
  by (erule sql_delete_jobE) (auto simp: jobs_ok_def)

lemma jobs_ok_same: "jobs t' = jobs t \<Longrightarrow> jobs_ok t \<Longrightarrow> jobs_ok t'"
  by (simp add: jobs_ok_def)

lemmas jobs_ok_unrelated = jobs_ok_same [OF jobs_same(1)] jobs_ok_same [OF jobs_same(2)]
  jobs_ok_same [OF jobs_same(3)] jobs_ok_same [OF jobs_same(4)]

lemma db_step_jobs: "db_step env t t' \<Longrightarrow> schema_ok t \<Longrightarrow> jobs_ok t \<Longrightarrow> jobs_ok t'"
proof (induction rule: db_step.induct)
  case register
  then show ?case by (blast intro: jobs_ok_unrelated)
next
  case create
  then show ?case by (blast intro: jobs_ok_insert jobs_ok_unrelated)
next
  case edit
  then show ?case by (blast intro: jobs_ok_edit)
next
  case delete
  then show ?case by (blast intro: jobs_ok_delete)
next
  case start
  then show ?case by (blast intro: jobs_ok_start(1))
next
  case (complete a now jobID body t x t')
  then show ?case by (intro jobs_ok_state [OF complete(2)]) simp_all
next
  case (fail a now jobID err t x t')
  then show ?case by (intro jobs_ok_state [OF fail(2)]) simp_all
next
  case (retry a eid jobID now err t x t1 payload e t2)
  then have "jobs_ok t1" by (intro jobs_ok_state [OF retry(4)]) simp_all
  with retry(5) show ?case by (rule jobs_ok_unrelated(3))
next
  case (publish now vs t x t')
  then show ?case by (blast intro: jobs_ok_unrelated sql_mark_list_inv [where I = jobs_ok])
next
  case unpublish
  then show ?case by (blast intro: jobs_ok_unrelated)
qed

end
