(* ===== verification/Db_Links.thy ===== *)
theory Db_Links
  imports Db_Steps
begin

text \<open>
  The invariants of the database that relate its tables: jobs and idempotency keys are one to
  one and belong to the same user (\<open>linked\<close>), and every job was announced in the outbox when it
  was created (\<open>announced\<close>). \<open>db_ok\<close> joins them with the schema and the shape of the job rows.
\<close>

definition job_ref :: "StoreJob \<Rightarrow> string \<times> string" where
  "job_ref j = (job_ID j, job_UserID j)"

definition event_ref :: "StoreOutboxEvent \<Rightarrow> string \<times> string" where
  "event_ref v = (ev_AggregateID v, ev_EventType v)"

lemma job_ref_updates [simp]:
  "job_ref (j\<lparr>job_Name := s\<rparr>) = job_ref j" "job_ref (j\<lparr>job_WebhookURL := s\<rparr>) = job_ref j"
  "job_ref (j\<lparr>job_State := s\<rparr>) = job_ref j" "job_ref (j\<lparr>job_LastError := x\<rparr>) = job_ref j"
  "job_ref (j\<lparr>job_Result := x\<rparr>) = job_ref j" "job_ref (j\<lparr>job_Attempts := n\<rparr>) = job_ref j"
  "job_ref (j\<lparr>job_MaxRetries := n\<rparr>) = job_ref j" "job_ref (j\<lparr>job_TimeoutSeconds := n\<rparr>) = job_ref j"
  "job_ref (j\<lparr>job_Version := n\<rparr>) = job_ref j" "job_ref (j\<lparr>job_UpdatedAt := n\<rparr>) = job_ref j"
  by (simp_all add: job_ref_def)

lemma event_ref_updates [simp]:
  "event_ref (v\<lparr>ev_Published := b\<rparr>) = event_ref v" "event_ref (v\<lparr>ev_PublishedAt := x\<rparr>) = event_ref v"
  "event_ref (v\<lparr>ev_UpdatedAt := n\<rparr>) = event_ref v"
  by (simp_all add: event_ref_def)

definition linked :: "tables \<Rightarrow> bool" where
  "linked t \<longleftrightarrow>
    (\<forall>i \<in> set (idempotency_keys t). \<exists>j. ik_JobID i = Some j \<and> (j, ik_UserID i) \<in> job_ref ` set (jobs t)) \<and>
    (\<forall>r \<in> job_ref ` set (jobs t). Some (fst r) \<in> ik_JobID ` set (idempotency_keys t)) \<and>
    keys_ok ik_JobID (idempotency_keys t)"

definition announced :: "tables \<Rightarrow> bool" where
  "announced t \<longleftrightarrow>
    (\<forall>r \<in> job_ref ` set (jobs t). (fst r, ''job_created'') \<in> event_ref ` set (outbox t))"

definition db_ok :: "tables \<Rightarrow> bool" where
  "db_ok t \<longleftrightarrow> schema_ok t \<and> jobs_ok t \<and> linked t \<and> announced t"

section \<open>Statements that do not touch the links\<close>

definition same_links :: "tables \<Rightarrow> tables \<Rightarrow> bool" where
  "same_links t t' \<longleftrightarrow> job_ref ` set (jobs t') = job_ref ` set (jobs t) \<and>
    idempotency_keys t' = idempotency_keys t \<and> event_ref ` set (outbox t) \<subseteq> event_ref ` set (outbox t')"

lemma same_links_linked: "same_links t t' \<Longrightarrow> linked t \<Longrightarrow> linked t'"
  by (simp add: same_links_def linked_def)

lemma same_links_announced: "same_links t t' \<Longrightarrow> announced t \<Longrightarrow> announced t'"
  unfolding same_links_def announced_def by blast

lemma same_links_trans: "same_links t t1 \<Longrightarrow> same_links t1 t2 \<Longrightarrow> same_links t t2"
  unfolding same_links_def by (elim conjE) (intro conjI; (simp | blast))

lemma same_links_refl: "same_links t t"
  by (simp add: same_links_def)

lemma same_links_statements:
  "sql_insert_user env uid now email un ph t = Inr (x, t') \<Longrightarrow> same_links t t'"
  "sql_update_job env now k u nm url mr ts v t = Inr (y, t') \<Longrightarrow> same_links t t'"
  "sql_increment_attempts env now k t = Inr (Some a, t') \<Longrightarrow> same_links t t'"
  "sql_update_state env now k st er rs a t = Inr (y, t') \<Longrightarrow> same_links t t'"
  "sql_insert_event env eid now p t = Inr (x, t') \<Longrightarrow> same_links t t'"
  "sql_mark env pub now k t = Inr (y, t') \<Longrightarrow> same_links t t'"
proof -
  show "sql_insert_user env uid now email un ph t = Inr (x, t') \<Longrightarrow> same_links t t'"
    by (erule sql_insert_userE) (simp add: same_links_def)
  show "sql_update_job env now k u nm url mr ts v t = Inr (y, t') \<Longrightarrow> same_links t t'"
    by (erule sql_update_jobE) (simp add: same_links_def image_upd_by)
  show "sql_increment_attempts env now k t = Inr (Some a, t') \<Longrightarrow> same_links t t'"
    by (erule sql_increment_attemptsE) (simp add: same_links_def image_upd_by)
  show "sql_update_state env now k st er rs a t = Inr (y, t') \<Longrightarrow> same_links t t'"
    by (erule sql_update_stateE) (simp add: same_links_def image_upd_by)
  show "sql_insert_event env eid now p t = Inr (x, t') \<Longrightarrow> same_links t t'"
    by (erule sql_insert_eventE) (auto simp: same_links_def)
  show "sql_mark env pub now k t = Inr (y, t') \<Longrightarrow> same_links t t'"
    by (erule sql_markE) (simp add: same_links_def image_upd_by)
qed

lemma same_links_mark_list: "sql_mark_list env now vs t = Inr (x, t') \<Longrightarrow> same_links t t'"
  by (rule sql_mark_list_inv [where I = "same_links t"])
    (blast intro: same_links_trans same_links_statements same_links_refl)+

section \<open>Creation and deletion\<close>

lemma linked_create:
  assumes "canonical env jid"
    and job: "sql_insert_job env jid now (new_job_row env n params) t = Inr (j, t1)"
    and key: "sql_insert_key env kid now (cp_UserID params) h j meth path ex t1 = Inr (y, t2)"
    and event: "sql_insert_event env eid now
      \<lparr>op_AggregateType = ''job'', op_AggregateID = j, op_EventType = ''job_created'',
       op_Payload = payload, op_Published = False\<rparr> t2 = Inr (e, t3)"
    and "schema_ok t" and "linked t"
  shows "linked t3" and "announced t \<Longrightarrow> announced t3"
proof -
  from job obtain u p where j: "j = jid" and u: "e_uuid_in env (cp_UserID params) = Some u"
    and new: "find_by job_ID jid (jobs t) = None"
    and t1: "t1 = t\<lparr>jobs := add_row ((new_job_row env n params)\<lparr>job_ID := jid, job_UserID := u,
        job_Payload := p, job_LastError := None, job_Result := None, job_CreatedAt := now,
        job_UpdatedAt := now\<rparr>) (jobs t)\<rparr>"
    by (rule sql_insert_jobE) (simp add: new_job_row_facts)
  from key have "\<exists>row. t2 = t1\<lparr>idempotency_keys := add_row row (idempotency_keys t1)\<rparr> \<and>
      ik_UserID row = u \<and> ik_JobID row = Some jid"
    by (rule sql_insert_keyE) (rule exI, rule conjI, assumption, use assms(1) u j in \<open>simp add: canonical_def\<close>)
  then obtain row where row: "ik_UserID row = u" "ik_JobID row = Some jid"
    and t2: "t2 = t1\<lparr>idempotency_keys := add_row row (idempotency_keys t1)\<rparr>"
    by blast
  from event have "\<exists>v. t3 = t2\<lparr>outbox := add_row v (outbox t2)\<rparr> \<and>
      ev_AggregateID v = jid \<and> ev_EventType v = ''job_created''"
    by (rule sql_insert_eventE) (rule exI, rule conjI, assumption, use assms(1) j in \<open>simp add: canonical_def\<close>)
  then obtain v where v: "ev_AggregateID v = jid" "ev_EventType v = ''job_created''"
    and t3: "t3 = t2\<lparr>outbox := add_row v (outbox t2)\<rparr>"
    by blast
  have "Some jid \<notin> ik_JobID ` set (idempotency_keys t)"
    using \<open>schema_ok t\<close> new by (fastforce simp: schema_ok_def find_by_None_iff)
  then have "keys_ok ik_JobID (add_row row (idempotency_keys t))"
    using \<open>linked t\<close> row by (intro keys_ok_add_row') (simp_all add: linked_def)
  then show "linked t3"
    using \<open>linked t\<close> row unfolding t3 t2 t1 by (auto simp: linked_def job_ref_def)
  show "announced t3" if "announced t"
    using that v unfolding t3 t2 t1 by (auto simp: announced_def job_ref_def event_ref_def)
qed

lemma linked_delete:
  assumes "sql_delete_job env jobID userID t = Inr (x, t')" and "schema_ok t" and "linked t"
  shows "linked t'"
proof -
  from assms(1) obtain k u where t': "t' = t\<lparr>
      jobs := filter (\<lambda>j. \<not> (job_ID j = k \<and> job_UserID j = u)) (jobs t),
      idempotency_keys := filter
        (\<lambda>i. case ik_JobID i of None \<Rightarrow> True
           | Some j \<Rightarrow> j \<notin> job_ID ` {j \<in> set (jobs t). job_ID j = k \<and> job_UserID j = u})
        (idempotency_keys t)\<rparr>"
    by (rule sql_delete_jobE)
  have "inj_on job_ID (set (jobs t))"
    using assms(2) by (simp add: schema_ok_def keys_ok_def distinct_map)
  then have same: "a = b" if "a \<in> set (jobs t)" "b \<in> set (jobs t)" "job_ID a = job_ID b" for a b
    using that by (simp add: inj_on_def)
  from assms(3) have fwd: "\<exists>r \<in> set (jobs t). ik_JobID i = Some (job_ID r) \<and> job_UserID r = ik_UserID i"
    if "i \<in> set (idempotency_keys t)" for i
    using that unfolding linked_def job_ref_def by fastforce
  from assms(3) have bwd: "\<exists>i \<in> set (idempotency_keys t). ik_JobID i = Some (job_ID r)"
    if "r \<in> set (jobs t)" for r
    using that unfolding linked_def job_ref_def by (metis (no_types, lifting) fst_conv image_iff)
  show ?thesis
    unfolding linked_def
  proof (intro conjI ballI)
    show "keys_ok ik_JobID (idempotency_keys t')"
      using assms(3) unfolding t' by (simp add: linked_def keys_ok_filter)
  next
    fix i
    assume "i \<in> set (idempotency_keys t')"
    then have i: "i \<in> set (idempotency_keys t)"
      and kept: "case ik_JobID i of None \<Rightarrow> True
        | Some j \<Rightarrow> j \<notin> job_ID ` {j \<in> set (jobs t). job_ID j = k \<and> job_UserID j = u}"
      unfolding t' by simp_all
    from fwd [OF i] obtain r where r: "ik_JobID i = Some (job_ID r)" "r \<in> set (jobs t)"
      "job_UserID r = ik_UserID i" by blast
    with kept have "r \<in> set (jobs t')" unfolding t' by auto
    then have "(job_ID r, job_UserID r) \<in> job_ref ` set (jobs t')"
      by (metis imageI job_ref_def)
    with r show "\<exists>j. ik_JobID i = Some j \<and> (j, ik_UserID i) \<in> job_ref ` set (jobs t')"
      by simp
  next
    fix p
    assume "p \<in> job_ref ` set (jobs t')"
    then obtain r where r: "p = job_ref r" "r \<in> set (jobs t)" "\<not> (job_ID r = k \<and> job_UserID r = u)"
      unfolding t' by auto
    from bwd [OF r(2)] obtain i where i: "i \<in> set (idempotency_keys t)" "ik_JobID i = Some (job_ID r)"
      by blast
    have "job_ID r \<notin> job_ID ` {j \<in> set (jobs t). job_ID j = k \<and> job_UserID j = u}"
    proof
      assume "job_ID r \<in> job_ID ` {j \<in> set (jobs t). job_ID j = k \<and> job_UserID j = u}"
      then obtain j where "j \<in> set (jobs t)" "job_ID j = k" "job_UserID j = u" "job_ID r = job_ID j"
        by blast
      with same [OF r(2)] r(3) show False by metis
    qed
    with i have "i \<in> set (idempotency_keys t')" unfolding t' by simp
    then have "ik_JobID i \<in> ik_JobID ` set (idempotency_keys t')" by (rule imageI)
    with i(2) r(1) show "Some (fst p) \<in> ik_JobID ` set (idempotency_keys t')"
      by (simp add: job_ref_def)
  qed
qed

lemma announced_delete: "sql_delete_job env jobID userID t = Inr (x, t') \<Longrightarrow> announced t \<Longrightarrow> announced t'"
  by (erule sql_delete_jobE) (auto simp: announced_def)

section \<open>The invariant of the database\<close>

inductive_cases db_stepE: "db_step env t t'"

lemma db_step_links:
  assumes "db_step env t t'" and "schema_ok t" and "linked t"
  shows "linked t' \<and> (announced t \<longrightarrow> announced t')"
proof (rule db_step.cases [OF assms(1)])
qed (use assms(2,3) in
    \<open>blast intro: linked_create linked_delete announced_delete same_links_linked same_links_announced
      same_links_statements same_links_trans same_links_mark_list\<close>)+

lemma db_step_ok: "db_step env t t' \<Longrightarrow> db_ok t \<Longrightarrow> db_ok t'"
  using db_step_schema db_step_jobs db_step_links unfolding db_ok_def by blast

interpretation db: db_invariant env db_ok for env
  by unfold_locales (rule db_step_ok)

lemma db_ok_empty: "db_ok \<lparr>users = [], jobs = [], idempotency_keys = [], outbox = []\<rparr>"
  by (simp add: db_ok_def schema_ok_def jobs_ok_def linked_def announced_def keys_ok_def)

section \<open>Identifiers\<close>

text \<open>
  Identifiers are stored in canonical form, so that a key the program has read finds the same row
  when it is passed to the next query.
\<close>

definition ids_ok :: "env \<Rightarrow> tables \<Rightarrow> bool" where
  "ids_ok env t \<longleftrightarrow>
    (\<forall>u \<in> user_ID ` set (users t). canonical env u) \<and>
    (\<forall>r \<in> job_ref ` set (jobs t). canonical env (fst r)) \<and>
    (\<forall>k \<in> ev_ID ` set (outbox t). canonical env k) \<and>
    (\<forall>k \<in> ev_AggregateID ` set (outbox t). canonical env k)"

lemma ids_ok_statements:
  "canonical env uid \<Longrightarrow> sql_insert_user env uid now email un ph t = Inr (x, t') \<Longrightarrow> ids_ok env t \<Longrightarrow> ids_ok env t'"
  "canonical env jid \<Longrightarrow> sql_insert_job env jid now r t = Inr (x, t') \<Longrightarrow> ids_ok env t \<Longrightarrow> ids_ok env t'"
  "sql_insert_key env kid now u h j meth path ex t = Inr (y, t') \<Longrightarrow> ids_ok env t \<Longrightarrow> ids_ok env t'"
  "canonical env eid \<Longrightarrow> canonical env (op_AggregateID p) \<Longrightarrow>
    sql_insert_event env eid now p t = Inr (x, t') \<Longrightarrow> ids_ok env t \<Longrightarrow> ids_ok env t'"
  by (auto simp: ids_ok_def job_ref_def canonical_def
      elim!: sql_insert_userE sql_insert_jobE sql_insert_keyE sql_insert_eventE)

lemma ids_ok_same:
  assumes "same_links t t'" and "users t' = users t" and "ev_ID ` set (outbox t') = ev_ID ` set (outbox t)"
    and "ev_AggregateID ` set (outbox t') = ev_AggregateID ` set (outbox t)"
    and "ids_ok env t"
  shows "ids_ok env t'"
  using assms by (simp add: same_links_def ids_ok_def)

lemma ids_ok_updates:
  "sql_update_job env now k u nm url mr ts v t = Inr (y, t') \<Longrightarrow> ids_ok env t \<Longrightarrow> ids_ok env t'"
  "sql_increment_attempts env now k t = Inr (Some a, t') \<Longrightarrow> ids_ok env t \<Longrightarrow> ids_ok env t'"
  "sql_update_state env now k st er rs a t = Inr (y, t') \<Longrightarrow> ids_ok env t \<Longrightarrow> ids_ok env t'"
proof -
  show "ids_ok env t'" if "sql_update_job env now k u nm url mr ts v t = Inr (y, t')" "ids_ok env t"
    by (rule ids_ok_same [OF same_links_statements(2) [OF that(1)] _ _ _ that(2)])
      (rule sql_update_jobE [OF that(1)], simp)+
  show "ids_ok env t'" if "sql_increment_attempts env now k t = Inr (Some a, t')" "ids_ok env t"
    by (rule ids_ok_same [OF same_links_statements(3) [OF that(1)] _ _ _ that(2)])
      (rule sql_increment_attemptsE [OF that(1)], simp)+
  show "ids_ok env t'" if "sql_update_state env now k st er rs a t = Inr (y, t')" "ids_ok env t"
    by (rule ids_ok_same [OF same_links_statements(4) [OF that(1)] _ _ _ that(2)])
      (rule sql_update_stateE [OF that(1)], simp)+
qed

lemma ids_ok_mark: "sql_mark env pub now k t = Inr (y, t') \<Longrightarrow> ids_ok env t \<Longrightarrow> ids_ok env t'"
  by (frule same_links_statements(6), erule sql_markE)
    (erule ids_ok_same; simp add: image_upd_by)

lemma ids_ok_delete: "sql_delete_job env k u t = Inr (y, t') \<Longrightarrow> ids_ok env t \<Longrightarrow> ids_ok env t'"
  by (erule sql_delete_jobE) (auto simp: ids_ok_def)

lemma db_step_ids: "db_step env t t' \<Longrightarrow> ids_ok env t \<Longrightarrow> ids_ok env t'"
proof (induction rule: db_step.induct)
  case (create jid eid now n params t j t1 kid h meth path ex y t2 payload e t3)
  from create have "ids_ok env t1" by (intro ids_ok_statements(2) [OF create(1,3)])
  then have "ids_ok env t2" by (rule ids_ok_statements(3) [OF create(4)])
  moreover have "canonical env j" using create(1) sql_insert_jobE [OF create(3)] by metis
  ultimately show ?case by (intro ids_ok_statements(4) [OF create(2) _ create(5)]) simp_all
next
  case (start now jobID t a t1 x t2)
  from start have "ids_ok env t1" by (intro ids_ok_updates(2) [OF start(1)])
  then show ?case by (rule ids_ok_updates(3) [OF start(2)])
next
  case (retry a eid jobID now err t x t1 payload e t2)
  from retry have "ids_ok env t1" by (intro ids_ok_updates(3) [OF retry(4)])
  with retry(3) show ?case by (intro ids_ok_statements(4) [OF retry(2) _ retry(5)]) simp_all
next
  case (publish now vs t x t')
  then show ?case by (blast intro: ids_ok_mark sql_mark_list_inv [where I = "ids_ok env"])
qed (blast intro: ids_ok_statements(1) ids_ok_updates ids_ok_delete ids_ok_mark)+

interpretation ids: db_invariant env "ids_ok env" for env
  by unfold_locales (rule db_step_ids)

lemma ids_okD:
  assumes "ids_ok env t"
  shows "u \<in> set (users t) \<Longrightarrow> e_uuid_in env (user_ID u) = Some (user_ID u)"
    and "j \<in> set (jobs t) \<Longrightarrow> e_uuid_in env (job_ID j) = Some (job_ID j)"
    and "v \<in> set (outbox t) \<Longrightarrow> e_uuid_in env (ev_ID v) = Some (ev_ID v)"
    and "v \<in> set (outbox t) \<Longrightarrow> utf8_ok (ev_ID v) \<and> utf8_ok (ev_AggregateID v)"
  using assms by (auto simp: ids_ok_def canonical_def job_ref_def)

end
