(* ===== verification/Refinement.thy ===== *)
theory Refinement
  imports Db_Links
begin

text \<open>
  The operations of the store implement the specification: under every schedule of failures
  each takes the tables through steps of \<open>db_step\<close>. The creation of a job has a \<open>_run\<close> rule that
  lists its outcomes, from which the refinement and the functional properties are proved; the
  worker and the poller get theirs in \<open>Worker_Runs\<close> and \<open>Poller_Runs\<close>.
\<close>

section \<open>What the model assumes of PostgreSQL's input functions\<close>

definition env_ok :: "env \<Rightarrow> bool" where
  \<comment> \<open>\<^verbatim>\<open>gen_random_uuid()\<close> yields canonical ASCII text; reading back a stored value gives the same
     value; \<^verbatim>\<open>text\<close> takes any well-formed UTF-8 without a zero byte\<close>
  "env_ok env \<longleftrightarrow>
    (\<forall>n. e_uuid_in env (e_uuid env n) = Some (e_uuid env n)) \<and>
    (\<forall>s k. e_uuid_in env s = Some k \<longrightarrow> e_uuid_in env k = Some k \<and> utf8_ok k) \<and>
    (\<forall>s b. e_jsonb_in env s = Some b \<longrightarrow> e_jsonb_in env b = Some b) \<and>
    (\<forall>s. utf8_ok s \<and> CHR 0x00 \<notin> set s \<longrightarrow> e_text_ok env s)"

lemma env_okD:
  assumes "env_ok env"
  shows "canonical env (e_uuid env n)"
    and "e_uuid_in env s = Some k \<Longrightarrow> e_uuid_in env k = Some k"
    and "e_jsonb_in env s = Some b \<Longrightarrow> e_jsonb_in env b = Some b"
    and "e_uuid_in env s = Some k \<Longrightarrow> canonical env k"
    and "utf8_ok s \<Longrightarrow> CHR 0x00 \<notin> set s \<Longrightarrow> e_text_ok env s"
  using assms by (auto simp: env_ok_def canonical_def)

definition healthy :: "env \<Rightarrow> bool" where
  \<comment> \<open>no database round trip fails; the queue, the webhook and the clocks are arbitrary\<close>
  "healthy env \<longleftrightarrow> (\<forall>n. e_fault env n = NoFault)"

lemma text_literals:
  assumes "env_ok env"
  shows "e_text_ok env ''running''" "e_text_ok env ''completed''" "e_text_ok env ''failed''"
    "e_text_ok env ''queued''" "e_text_ok env ''pending''" "e_text_ok env ''job''"
    "e_text_ok env ''job_created''" "e_text_ok env ''job_retry''"
  by (intro env_okD(5) [OF assms]; simp add: utf8_ok_ascii)+

lemma healthy_simps:
  assumes "healthy env"
  shows "BeginTx env w = (Inr \<lparr>tx_tables = pg w, tx_now = e_pgnow env (tick w)\<rparr>, bump w)"
    and "tx_stmt env f tx w = (case f (tx_tables tx) of
       Inl e \<Rightarrow> (Inl e, tx, bump w) | Inr (x, t) \<Rightarrow> (Inr x, tx\<lparr>tx_tables := t\<rparr>, bump w))"
    and "auto_stmt env f w = (case f (pg w) of
       Inl e \<Rightarrow> (Inl e, bump w) | Inr (x, t) \<Rightarrow> (Inr x, bump (w\<lparr>pg := t\<rparr>)))"
    and "Commit env tx w = (Inr (), bump (w\<lparr>pg := tx_tables tx\<rparr>))"
  using assms by (simp_all add: healthy_def BeginTx_def tx_stmt_def auto_stmt_def Commit_def)

section \<open>Single statements\<close>

lemma auto_stmt_steps:
  assumes "\<And>x t'. f (pg w) = Inr (x, t') \<Longrightarrow> db_step env (pg w) t'"
  shows "db_steps env (pg w) (pg (snd (auto_stmt env f w)))"
proof (cases "auto_stmt env f w")
  case (Pair r w')
  then show ?thesis
    by (rule auto_stmt_cases) (use Pair in \<open>auto dest: assms\<close>)
qed

lemma CreateUser_steps: "env_ok env \<Longrightarrow> db_steps env (pg w) (pg (snd (CreateUser env email un ph w)))"
  unfolding CreateUser_def by (rule auto_stmt_steps) (rule db_step.register [OF env_okD(1)])

lemma UpdateJobDetails_steps:
  assumes "0 < mr" and "0 < ts" and "0 < v"
  shows "db_steps env (pg w) (pg (snd (UpdateJobDetails env k u nm url mr ts v w)))"
  unfolding UpdateJobDetails_def by (rule auto_stmt_steps) (rule db_step.edit [OF assms])

lemma DeleteJob_steps: "db_steps env (pg w) (pg (snd (DeleteJob env k u w)))"
  unfolding DeleteJob_def by (rule auto_stmt_steps) (rule db_step.delete)

lemma MarkOutboxEventUnpublished_steps:
  "db_steps env (pg w) (pg (snd (MarkOutboxEventUnpublished env k w)))"
  unfolding MarkOutboxEventUnpublished_def by (rule auto_stmt_steps) (rule db_step.unpublish)

lemma UpdateJobState_completed_steps:
  assumes "0 < a"
  shows "db_steps env (pg w) (pg (snd (UpdateJobState env k ''completed'' None (Some body) a w)))"
  unfolding UpdateJobState_def by (rule auto_stmt_steps) (rule db_step.complete [OF assms])

lemma read_only [world_simps]:
  "pg (snd (GetUserByEmail env email w)) = pg w"
  "pg (snd (ListJobsByUser env k cap off w)) = pg w"
  unfolding GetUserByEmail_def ListJobsByUser_def Let_def
  by (rule auto_stmt_read_only, erule sql_read_only)+

section \<open>Job creation\<close>

lemma create_lookup_run:
  assumes "create_lookup env userID h w = (r, w')"
  obtains (failed) e where "r = Inl e" "pg w' = pg w"
  | (existing) u i job where "r = Inr (Existing job)" "pg w' = pg w" "e_uuid_in env userID = Some u"
      "i \<in> set (idempotency_keys (pg w))" "ik_UserID i = u" "ik_RequestHash i = h"
      "job \<in> set (jobs (pg w))"
      "\<exists>s. ik_JobID i = Some s \<and> e_uuid_in env s = Some (job_ID job)"
  | (absent) tx where "r = Inr (Absent tx)" "tx_tables tx = pg w" "pg w' = pg w"
      "sql_job_of_key env userID h (pg w) = Inl ErrNoRows"
proof (cases "BeginTx env w")
  case (Pair r1 w1)
  then show thesis
  proof (cases rule: BeginTx_cases)
    case failed
    with assms Pair have "r = Inl ErrConn" "pg w' = pg w" by (auto simp: create_lookup_def)
    then show thesis by (rule that(1))
  next
    case success
    let ?tx = "\<lparr>tx_tables = pg w, tx_now = e_pgnow env (tick w)\<rparr>"
    obtain r2 tx2 w2 where s2: "tx_stmt env (sql_job_of_key env userID h) ?tx w1 = (r2, tx2, w2)"
      by (metis prod_cases3)
    from s2 show thesis
    proof (cases rule: tx_stmt_cases)
      case (failed e)
      show thesis
      proof (cases "e = ErrNoRows")
        case True
        with failed s2 have "sql_job_of_key env userID h (pg w) = Inl ErrNoRows"
          by (auto simp: tx_stmt_def split: fault.splits sum.splits)
        moreover from True assms Pair success s2 failed have "r = Inr (Absent ?tx)" "w' = w2"
          by (simp_all add: create_lookup_def)
        ultimately show thesis using that(3) [of ?tx] failed success by simp
      next
        case False
        with assms Pair success s2 failed have "r = Inl e" "pg w' = pg w"
          by (auto simp: create_lookup_def)
        then show thesis by (rule that(1))
      qed
    next
      case success_stmt: (success jobID t)
      from sql_job_of_keyE [OF success_stmt(2)] obtain u i where u: "e_uuid_in env userID = Some u"
        and i: "i \<in> set (idempotency_keys (pg w))" "ik_UserID i = u" "ik_RequestHash i = h"
          "ik_JobID i = Some jobID" and t: "t = pg w"
        by auto
      have tx2: "tx_tables tx2 = pg w" using success_stmt t by simp
      obtain r3 x3 w3 where s3: "GetJobByIDTx env (Some tx2) jobID w2 = (r3, x3, w3)"
        by (metis prod_cases3)
      note g = GetJobByIDTx_tx [OF s3]
      have pg3: "pg w3 = pg w" using g success success_stmt by simp
      show thesis
      proof (cases r3)
        case (Inl e)
        with assms Pair success s2 success_stmt s3 pg3 have "r = Inl e" "pg w' = pg w"
          by (auto simp: create_lookup_def)
        then show thesis by (rule that(1))
      next
        case (Inr job)
        with g tx2 obtain k where k: "e_uuid_in env jobID = Some k" "find_by job_ID k (jobs (pg w)) = Some job"
          by auto
        from find_by_SomeD [OF k(2)] have job: "job \<in> set (jobs (pg w))" "job_ID job = k" by auto
        obtain r4 w4 where s4: "Commit env tx2 w3 = (r4, w4)" by (metis surj_pair)
        have run: "create_lookup env userID h w =
            (case r4 of Inl e \<Rightarrow> (Inl e, w4) | Inr _ \<Rightarrow> (Inr (Existing job), w4))"
          using Pair success s2 success_stmt s3 s4 Inr by (simp add: create_lookup_def)
        from s4 have pg4: "pg w4 = pg w" by (rule Commit_cases) (simp_all add: tx2 pg3)
        show thesis
        proof (cases r4)
          case (Inl e)
          with run assms pg4 that(1) show thesis by simp
        next
          case (Inr _)
          with run assms have "r = Inr (Existing job)" "w' = w4" by simp_all
          with pg4 u i job k that(2) show thesis by simp
        qed
      qed
    qed
  qed
qed

text \<open>
  \<open>created\<close> is what one successful creation does to the tables: the job, its key and its
  \<open>job_created\<close> event are inserted together, and the job read back is the new row.
\<close>

definition created ::
  "env \<Rightarrow> string \<Rightarrow> string \<Rightarrow> string \<Rightarrow> string \<Rightarrow> StoreCreateJobParams \<Rightarrow> tables \<Rightarrow> tables \<Rightarrow> StoreJob \<Rightarrow> bool" where
  "created env userID h meth path params t t3 job \<longleftrightarrow>
    (\<exists>m m1 m2 now ex payload t1 t2 k.
      sql_insert_job env (e_uuid env m) now (new_job_row env m params) t = Inr (e_uuid env m, t1) \<and>
      sql_insert_key env (e_uuid env m1) now userID h (e_uuid env m) meth path ex t1 = Inr ((), t2) \<and>
      marshal (event_payload (e_uuid env m) (cp_Type params) (cp_Name params) (cp_WebhookURL params)
        (cp_Payload params)) = Some payload \<and>
      sql_insert_event env (e_uuid env m2) now
        \<lparr>op_AggregateType = ''job'', op_AggregateID = e_uuid env m, op_EventType = ''job_created'',
         op_Payload = payload, op_Published = False\<rparr> t2 = Inr (e_uuid env m2, t3) \<and>
      e_uuid_in env (e_uuid env m) = Some k \<and> find_by job_ID k (jobs t3) = Some job)"

lemma sql_insert_job_id: "sql_insert_job env jid now r t = Inr (x, t') \<Longrightarrow> x = jid"
  by (erule sql_insert_jobE)

lemma sql_insert_event_id: "sql_insert_event env eid now p t = Inr (x, t') \<Longrightarrow> x = eid"
  by (erule sql_insert_eventE)

lemma create_insert_run:
  assumes "create_insert env userID h meth path params tx w = (r, w')"
  obtains (failed) e where "r = Inl e" "pg w' = pg w"
  | (lost) job where "r = Inl ErrConn" "created env userID h meth path params (tx_tables tx) (pg w') job"
  | (success) job where "r = Inr job" "created env userID h meth path params (tx_tables tx) (pg w') job"
proof -
  note d = create_insert_def
  obtain r1 tx1 w1 where s1: "tx_stmt env (sql_insert_job env (e_uuid env (tick w)) (tx_now tx)
      (new_job_row env (tick w) params)) tx w = (r1, tx1, w1)" by (metis prod_cases3)
  from s1 show thesis
  proof (cases rule: tx_stmt_cases)
    case (failed e)
    with assms s1 have "r = Inl e" "pg w' = pg w" by (auto simp: d)
    then show thesis by (rule that(1))
  next
    case j: (success jid t1)
    note id = sql_insert_job_id [OF j(2)]
    obtain r2 tx2 w2 where s2: "tx_stmt env (sql_insert_key env (e_uuid env (tick w1)) (tx_now tx1) userID
        h jid meth path (e_gonow env (tick w1) + day_ns)) tx1 w1 = (r2, tx2, w2)" by (metis prod_cases3)
    from s2 show thesis
    proof (cases rule: tx_stmt_cases)
      case (failed e)
      with assms s1 j s2 have "r = Inl e" "pg w' = pg w" by (auto simp: d)
      then show thesis by (rule that(1))
    next
      case k: (success y t2)
      show thesis
      proof (cases "marshal (event_payload jid (cp_Type params) (cp_Name params) (cp_WebhookURL params)
          (cp_Payload params))")
        case None
        with assms s1 j s2 k have "r = Inl ErrMarshal" "pg w' = pg w" by (auto simp: d)
        then show thesis by (rule that(1))
      next
        case m: (Some payload)
        obtain r3 tx3 w3 where s3: "tx_stmt env (sql_insert_event env (e_uuid env (tick w2)) (tx_now tx2)
            \<lparr>op_AggregateType = ''job'', op_AggregateID = jid, op_EventType = ''job_created'',
             op_Payload = payload, op_Published = False\<rparr>) tx2 w2 = (r3, tx3, w3)" by (metis prod_cases3)
        from s3 show thesis
        proof (cases rule: tx_stmt_cases)
          case (failed e)
          with assms s1 j s2 k m s3 have "r = Inl e" "pg w' = pg w" by (auto simp: d)
          then show thesis by (rule that(1))
        next
          case v: (success e t3)
          obtain r4 x4 w4 where s4: "GetJobByIDTx env (Some tx3) jid w3 = (r4, x4, w4)"
            by (metis prod_cases3)
          note g = GetJobByIDTx_tx [OF s4]
          show thesis
          proof (cases r4)
            case (Inl e)
            with assms s1 j s2 k m s3 v s4 g have "r = Inl e" "pg w' = pg w" by (auto simp: d)
            then show thesis by (rule that(1))
          next
            case (Inr job)
            with g v obtain kk where "e_uuid_in env jid = Some kk" "find_by job_ID kk (jobs t3) = Some job"
              by auto
            then have made: "created env userID h meth path params (tx_tables tx) t3 job"
              using j k m v id sql_insert_event_id [OF v(2)]
              unfolding created_def
              by (intro exI [of _ "tick w"] exI [of _ "tick w1"] exI [of _ "tick w2"] exI [of _ "tx_now tx"]
                  exI [of _ "e_gonow env (tick w1) + day_ns"] exI [of _ payload] exI [of _ t1]
                  exI [of _ t2] exI [of _ kk]) simp
            obtain r5 w5 where s5: "Commit env tx3 w4 = (r5, w5)" by (metis surj_pair)
            have run: "(r, w') = (case r5 of Inl e \<Rightarrow> (Inl e, w5) | Inr _ \<Rightarrow> (Inr job, w5))"
              using assms s1 j s2 k m s3 v s4 Inr s5 by (simp add: d)
            from s5 show thesis
            proof (cases rule: Commit_cases)
              case failed
              with run g v k j have "r = Inl ErrConn" "pg w' = pg w" by simp_all
              then show thesis by (rule that(1))
            next
              case lost
              with run v have "r = Inl ErrConn" "pg w' = t3" by simp_all
              with made show thesis using that(2) by simp
            next
              case success
              with run v have "r = Inr job" "pg w' = t3" by simp_all
              with made show thesis using that(3) by simp
            qed
          qed
        qed
      qed
    qed
  qed
qed

lemma created_step:
  assumes "env_ok env" and "cp_UserID params = userID"
    and "created env userID h meth path params t t' job"
  shows "db_step env t t'"
  using assms(3) unfolding created_def assms(2) [symmetric]
  by (elim exE conjE) (rule db_step.create [OF env_okD(1) env_okD(1), OF assms(1) assms(1)])

lemma CreateJob_run:
  assumes "CreateJobWithIdempotency env userID h meth path params w = (r, w')"
  obtains (failed) e where "r = Inl e" "pg w' = pg w"
  | (existing) u i job where "r = Inr (job, True)" "pg w' = pg w" "e_uuid_in env userID = Some u"
      "i \<in> set (idempotency_keys (pg w))" "ik_UserID i = u" "ik_RequestHash i = h"
      "job \<in> set (jobs (pg w))"
      "\<exists>s. ik_JobID i = Some s \<and> e_uuid_in env s = Some (job_ID job)"
  | (lost) job where "r = Inl ErrConn" "created env userID h meth path params (pg w) (pg w') job"
      "sql_job_of_key env userID h (pg w) = Inl ErrNoRows"
  | (created) job where "r = Inr (job, False)" "created env userID h meth path params (pg w) (pg w') job"
      "sql_job_of_key env userID h (pg w) = Inl ErrNoRows"
proof -
  note d = CreateJobWithIdempotency_def
  obtain r1 w1 where s1: "create_lookup env userID h w = (r1, w1)" by (metis surj_pair)
  from s1 show thesis
  proof (cases rule: create_lookup_run)
    case (failed e)
    with assms s1 have "r = Inl e" "pg w' = pg w" by (auto simp: d)
    then show thesis by (rule that(1))
  next
    case (existing u i job)
    with assms s1 have "r = Inr (job, True)" "pg w' = pg w" by (auto simp: d)
    with existing show thesis by (intro that(2)) simp_all
  next
    case (absent tx)
    obtain r2 w2 where s2: "create_insert env userID h meth path params tx w1 = (r2, w2)"
      by (metis surj_pair)
    have run: "(r, w') = (case r2 of Inl e \<Rightarrow> (Inl e, w2) | Inr job \<Rightarrow> (Inr (job, False), w2))"
      using assms s1 s2 absent by (simp add: d)
    from s2 show thesis
    proof (cases rule: create_insert_run)
      case (failed e)
      with run absent have "r = Inl e" "pg w' = pg w" by simp_all
      then show thesis by (rule that(1))
    next
      case (lost job)
      with run absent show thesis by (intro that(3) [of job]) simp_all
    next
      case (success job)
      with run absent show thesis by (intro that(4) [of job]) simp_all
    qed
  qed
qed

lemma CreateJob_steps:
  assumes "env_ok env" and "cp_UserID params = userID"
  shows "db_steps env (pg w) (pg (snd (CreateJobWithIdempotency env userID h meth path params w)))"
proof (cases "CreateJobWithIdempotency env userID h meth path params w")
  case (Pair r w')
  then show ?thesis
    by (rule CreateJob_run) (use Pair in \<open>auto intro: created_step [OF assms] db_steps_one\<close>)
qed

text \<open>
  \<open>announceable\<close> says that PostgreSQL takes the payload of an outbox event about a job: it can be
  printed, and is \<^verbatim>\<open>jsonb\<close> input. For stored job payloads, which are valid JSON, it only excludes
  text with zero bytes in it.
\<close>

definition announceable :: "env \<Rightarrow> string \<Rightarrow> string \<Rightarrow> string \<Rightarrow> string \<Rightarrow> string \<Rightarrow> bool" where
  "announceable env jobID typ name url payload \<longleftrightarrow>
    (case marshal (event_payload jobID typ name url payload) of
       None \<Rightarrow> False
     | Some p \<Rightarrow> e_jsonb_in env p \<noteq> None)"

lemma all_members_None: "all_members kvs = None \<longleftrightarrow> (\<exists>k. (k, None) \<in> set kvs)"
  by (induction kvs) (auto simp: all_members_def split: option.splits)

lemma event_payload_marshal:
  assumes "unmarshal payload \<noteq> None"
  shows "marshal (event_payload jobID typ name url payload) \<noteq> None"
proof -
  obtain x where "compact payload = Some x" using assms by (auto simp: compact_def)
  then show ?thesis by (simp add: event_payload_def all_members_None)
qed

lemma sql_insert_event_ok:
  assumes "env_ok env" and "e_uuid_in env (op_AggregateID p) = Some a" and "e_jsonb_in env (op_Payload p) = Some b"
    and "e_text_ok env (op_AggregateType p)" and "e_text_ok env (op_EventType p)"
    and "find_by ev_ID eid (outbox t) = None"
  shows "sql_insert_event env eid now p t = Inr (eid, t\<lparr>outbox := outbox t @
    [\<lparr>ev_ID = eid, ev_AggregateType = op_AggregateType p, ev_AggregateID = a, ev_EventType = op_EventType p,
      ev_Payload = b, ev_Published = op_Published p, ev_PublishedAt = None, ev_CreatedAt = now,
      ev_UpdatedAt = now\<rparr>]\<rparr>)"
  using assms by (simp add: sql_insert_event_def add_row_def)

end
