(* ===== verification/Handler_Runs.thy ===== *)
theory Handler_Runs
  imports Handlers Refinement
begin

text \<open>
  The outcomes of the request handlers. Each \<open>_run\<close> rule names the one operation of the store that
  can have changed the tables; refinement, the meaning of the client error codes and the
  protection of other users' rows all start from these rules.
\<close>

section \<open>Handlers that change no table\<close>

lemma issue_tokens_pg [world_simps]: "pg (snd (issue_tokens L env secret u email w)) = pg w"
  by (auto simp: issue_tokens_def Let_def split: option.splits)

lemma GetJobByID_same: "GetJobByID env k w = (r, w') \<Longrightarrow> pg w' = pg w"
  using GetJobByID_pg [of env k w] by simp

lemma loginHandler_pg [world_simps]: "pg (snd (loginHandler L env secret r w)) = pg w"
proof -
  have "pg w1 = pg w" if "GetUserByEmail env email w = (x, w1)" for email x w1
    using read_only(1) [of env email w] that by simp
  moreover have "pg w2 = pg w1" if "issue_tokens L env secret u email w1 = (x, w2)" for u email x w1 w2
    using issue_tokens_pg [of L env secret u email w1] that by simp
  ultimately show ?thesis
    by (simp add: loginHandler_def Let_def split: option.splits prod.splits sum.splits)
qed

lemma listJobsHandler_pg [world_simps]: "pg (snd (listJobsHandler tj env r w)) = pg w"
proof -
  have "pg w1 = pg w" if "ListJobsByUser env u n off w = (x, w1)" for u n off x w1
    using read_only(2) [of env u n off w] that by simp
  then show ?thesis
    by (auto simp: listJobsHandler_def Let_def split: prod.splits sum.splits)
qed

lemma getJobHandler_pg [world_simps]: "pg (snd (getJobHandler tj env r w)) = pg w"
  by (auto simp: getJobHandler_def Let_def dest: GetJobByID_same split: prod.splits sum.splits)

section \<open>Handlers that change tables\<close>

definition client_error :: "response \<Rightarrow> bool" where
  "client_error resp \<longleftrightarrow> 400 \<le> rs_Status resp \<and> rs_Status resp < 500"

lemma registerHandler_run:
  assumes "registerHandler L env secret r w = (resp, w')"
  obtains (refused) "pg w' = pg w" "400 \<le> rs_Status resp"
  | (run) email un ph where "pg w' = pg (snd (CreateUser env email un ph (bump w)))"
      "\<not> client_error resp"
proof (cases "decode_body False auth_fields no_auth r")
  case None
  with assms that(1) show thesis by (auto simp: registerHandler_def)
next
  case req: (Some req)
  show thesis
  proof (cases "ar_Email req = [] \<or> ar_Password req = []")
    case True
    with assms req that(1) show thesis by (auto simp: registerHandler_def)
  next
    case given: False
    show thesis
    proof (cases "HashPassword L (tick w) (ar_Password req)")
      case None
      with assms req given that(1) show thesis by (auto simp: registerHandler_def Let_def)
    next
      case (Some ph)
      let ?un = "if ar_Username req = [] then ar_Email req else ar_Username req"
      obtain x w1 where c: "CreateUser env (ar_Email req) ?un ph (bump w) = (x, w1)" by (metis surj_pair)
      have pg1: "pg w1 = pg (snd (CreateUser env (ar_Email req) ?un ph (bump w)))" using c by simp
      show thesis
      proof (cases x)
        case (Inl e)
        with assms req given Some c have "w' = w1" "rs_Status resp = 500"
          by (auto simp: registerHandler_def Let_def)
        with pg1 show thesis by (intro that(2)) (auto simp: client_error_def)
      next
        case (Inr uid)
        obtain y w2 where t: "issue_tokens L env secret uid (ar_Email req) w1 = (y, w2)" by (metis surj_pair)
        then have "pg w2 = pg w1" using issue_tokens_pg [of L env secret uid "ar_Email req" w1] by simp
        moreover have "w' = w2 \<and> rs_Status resp \<in> {500, 201}"
          using assms req given Some c Inr t
          by (auto simp: registerHandler_def Let_def split: option.splits)
        ultimately show thesis using pg1 by (intro that(2)) (auto simp: client_error_def)
      qed
    qed
  qed
qed

definition create_params :: "string \<Rightarrow> JobPayload \<Rightarrow> string \<Rightarrow> StoreCreateJobParams" where
  "create_params userID p payloadBytes =
    \<lparr>cp_UserID = userID, cp_Type = jp_Type p, cp_Name = jp_Name p, cp_WebhookURL = jp_WebhookURL p,
     cp_Payload = payloadBytes, cp_MaxRetries = jp_MaxRetries p, cp_TimeoutSeconds = jp_TimeoutSeconds p,
     cp_Version = jp_Version p\<rparr>"

definition requested_payload :: "request \<Rightarrow> JobPayload option" where
  \<comment> \<open>the payload of a request that passes the checks of the create handler\<close>
  "requested_payload r =
    (case decode_body True register_job_fields no_register_job r of
       None \<Rightarrow> None
     | Some req \<Rightarrow>
        if rj_Type req = [] \<or> rj_Name req = [] \<or> rj_WebhookURL req = [] then None
        else Some (NewJobPayload (rj_Type req) (rj_Name req) (rj_WebhookURL req)
          (rj_Version req) (rj_MaxRetries req) (rj_TimeoutSeconds req)))"

lemma NewJobPayload_fields:
  "jp_Type (NewJobPayload ty nm url v m t) = ty" "jp_Name (NewJobPayload ty nm url v m t) = nm"
  "jp_WebhookURL (NewJobPayload ty nm url v m t) = url"
  by (simp_all add: NewJobPayload_def Let_def split: option.splits)

definition payload_bytes :: "JobPayload \<Rightarrow> string" where
  "payload_bytes p = print_json (to_json (payload_value p))"

lemma payload_marshal: "marshal (payload_value p) = Some (payload_bytes p)"
  unfolding payload_bytes_def
  by (rule marshal_print) (simp add: payload_value_def)

definition payload_hash :: "JobPayload \<Rightarrow> string" where
  "payload_hash p = EncodeToString (Sum256 (payload_bytes p))"

lemma payload_hash_eq: "ComputeIdempotencyHash ft (payload_value p) = Some (payload_hash p)"
  using payload_canonical_eq [of ft p]
  by (simp add: ComputeIdempotencyHash_def payload_canonical_def payload_hash_def payload_bytes_def)

definition job_response :: "bool \<Rightarrow> StoreJob \<Rightarrow> response" where
  "job_response existing job = with_data (if existing then 200 else 202)
     (if existing then ''job already registered'' else ''job registration accepted'')
     (GMap [(''job_id'', GStr (job_ID job)), (''state'', GStr (job_State job))])"

text \<open>What the create handler does once the checks are passed.\<close>

lemma createJobHandler_eq:
  assumes "getUserID r \<noteq> []" and "requested_payload r = Some p"
  shows "createJobHandler ft env r w =
    (case CreateJobWithIdempotency env (getUserID r) (payload_hash p) ''POST'' ''/jobs''
        (create_params (getUserID r) p (payload_bytes p)) w of
       (Inl _, w1) \<Rightarrow> (message 500 ''failed to register job'', w1)
     | (Inr (job, existing), w1) \<Rightarrow> (job_response existing job, w1))"
proof -
  from assms(2) obtain req where req: "decode_body True register_job_fields no_register_job r = Some req"
    and given: "\<not> (rj_Type req = [] \<or> rj_Name req = [] \<or> rj_WebhookURL req = [])"
    and p: "p = NewJobPayload (rj_Type req) (rj_Name req) (rj_WebhookURL req)
          (rj_Version req) (rj_MaxRetries req) (rj_TimeoutSeconds req)"
    by (auto simp: requested_payload_def split: option.splits if_splits)
  show ?thesis
    unfolding p using assms(1) req given
    by (simp add: createJobHandler_def Let_def payload_hash_eq payload_marshal
        create_params_def job_response_def NewJobPayload_fields split: sum.splits prod.splits)
qed

lemma createJobHandler_refused:
  assumes "getUserID r = [] \<or> requested_payload r = None"
  shows "\<exists>msg. createJobHandler ft env r w = (message (if getUserID r = [] then 401 else 400) msg, w)"
  using assms
  by (auto simp: createJobHandler_def requested_payload_def Let_def split: option.splits if_splits)

lemma createJobHandler_run:
  assumes "createJobHandler ft env r w = (resp, w')"
  obtains (refused) "w' = w" "client_error resp"
  | (run) p params where "requested_payload r = Some p" "cp_UserID params = getUserID r"
      "pg w' = pg (snd (CreateJobWithIdempotency env (getUserID r) (payload_hash p) ''POST'' ''/jobs'' params w))"
      "\<not> client_error resp"
proof (cases "getUserID r = [] \<or> requested_payload r = None")
  case True
  from createJobHandler_refused [OF this, of ft env w] assms show thesis
    by (intro that(1)) (auto simp: client_error_def)
next
  case False
  then obtain p where p: "requested_payload r = Some p" and u: "getUserID r \<noteq> []" by auto
  show thesis
    using assms createJobHandler_eq [OF u p, of ft env w]
    by (intro that(2) [OF p, of "create_params (getUserID r) p (payload_bytes p)"])
      (auto simp: create_params_def job_response_def client_error_def split: prod.splits sum.splits if_splits)
qed

lemma updateJobHandler_run:
  assumes "updateJobHandler env r w = (resp, w')"
  obtains (refused) "pg w' = pg w" "client_error resp"
  | (run) req job k w1 where "decode_body True update_job_fields no_update_job r = Some req"
      "e_uuid_in env (rq_jobID r) = Some k" "find_by job_ID k (jobs (pg w)) = Some job"
      "job_UserID job = getUserID r" "pg w1 = pg w"
      "pg w' = pg (snd (UpdateJobDetails env (job_ID job) (job_UserID job) (job_Name (apply_update req job))
        (job_WebhookURL (apply_update req job)) (job_MaxRetries (apply_update req job))
        (job_TimeoutSeconds (apply_update req job)) (job_Version (apply_update req job)) w1))"
      "\<not> client_error resp"
proof (cases "getUserID r = []")
  case True
  with assms that(1) show thesis by (auto simp: updateJobHandler_def write_update_def client_error_def)
next
  case user: False
  show thesis
  proof (cases "decode_body True update_job_fields no_update_job r")
    case None
    with assms user that(1) show thesis by (auto simp: updateJobHandler_def write_update_def client_error_def Let_def)
  next
    case req: (Some req)
    obtain x w1 where g: "GetJobByID env (rq_jobID r) w = (x, w1)" by (metis surj_pair)
    note pg1 = GetJobByID_same [OF g]
    show thesis
    proof (cases "nothing_to_update req \<or> isl x")
      case True
      with assms user req g pg1 that(1) show thesis
        by (cases x) (auto simp: updateJobHandler_def write_update_def client_error_def Let_def split: if_splits)
    next
      case False
      then obtain job where x: "x = Inr job" and some: "\<not> nothing_to_update req" by (cases x) auto
      show thesis
      proof (cases "job_UserID job = getUserID r")
        case foreign: False
        with assms user req g pg1 some x that(1) show thesis
          by (auto simp: updateJobHandler_def write_update_def client_error_def Let_def split: if_splits)
      next
        case own: True
        let ?j = "apply_update req job"
        have ids: "job_ID ?j = job_ID job" "job_UserID ?j = job_UserID job"
          by (simp_all add: apply_update_def Let_def split: option.splits)
        from g x obtain k where k: "e_uuid_in env (rq_jobID r) = Some k" "find_by job_ID k (jobs (pg w)) = Some job"
          by (auto elim: GetJobByID_found)
        have "updateJobHandler env r w = (case UpdateJobDetails env (job_ID job) (job_UserID job) (job_Name ?j)
            (job_WebhookURL ?j) (job_MaxRetries ?j) (job_TimeoutSeconds ?j) (job_Version ?j) w1 of
            (Inl _, w2) \<Rightarrow> (message 500 ''failed to update job'', w2) | (Inr _, w2) \<Rightarrow> (message 200 ''job updated'', w2))"
          using user req g some x own ids by (simp add: updateJobHandler_def write_update_def Let_def)
        with assms that(2) [OF req k own pg1] show thesis
          by (auto simp: client_error_def split: prod.splits sum.splits)
      qed
    qed
  qed
qed

lemma deleteJobHandler_run:
  assumes "deleteJobHandler env r w = (resp, w')"
  obtains (refused) "pg w' = pg w" "client_error resp"
  | (run) job k w1 where "e_uuid_in env (rq_jobID r) = Some k" "find_by job_ID k (jobs (pg w)) = Some job"
      "job_UserID job = getUserID r" "pg w1 = pg w"
      "pg w' = pg (snd (DeleteJob env (rq_jobID r) (getUserID r) w1))" "\<not> client_error resp"
proof (cases "getUserID r = []")
  case True
  with assms that(1) show thesis by (auto simp: deleteJobHandler_def client_error_def)
next
  case user: False
  obtain x w1 where g: "GetJobByID env (rq_jobID r) w = (x, w1)" by (metis surj_pair)
  note pg1 = GetJobByID_same [OF g]
  show thesis
  proof (cases x)
    case (Inl e)
    with assms user g pg1 that(1) show thesis by (auto simp: deleteJobHandler_def client_error_def Let_def)
  next
    case x: (Inr job)
    show thesis
    proof (cases "job_UserID job = getUserID r")
      case False
      with assms user g pg1 x that(1) show thesis
        by (auto simp: deleteJobHandler_def client_error_def Let_def)
    next
      case own: True
      from g x obtain k where k: "e_uuid_in env (rq_jobID r) = Some k" "find_by job_ID k (jobs (pg w)) = Some job"
        by (auto elim: GetJobByID_found)
      have "deleteJobHandler env r w = (case DeleteJob env (rq_jobID r) (getUserID r) w1 of
          (Inl _, w2) \<Rightarrow> (message 500 ''failed to delete job'', w2) | (Inr _, w2) \<Rightarrow> (message 200 ''job deleted'', w2))"
        using user g x own by (simp add: deleteJobHandler_def Let_def)
      with assms that(2) [OF k own pg1] show thesis
        by (auto simp: client_error_def split: prod.splits sum.splits)
    qed
  qed
qed

end
