(* ===== verification/Demo.thy ===== *)
theory Demo
  imports Refinement
begin

text \<open>
  A concrete environment and a concrete world, on which the properties that have hypotheses are
  applied. \<open>demo_env\<close> never fails: identifiers and JSON texts are taken as they are, the webhook
  answers 200. \<open>demo_world\<close> holds one user, one pending job with its key and its event.
\<close>

definition demo_env :: env where
  "demo_env = \<lparr>e_fault = (\<lambda>_. NoFault), e_uuid = (\<lambda>n. replicate n CHR ''n''), e_pgnow = int, e_gonow = int,
    e_uuid_in = (\<lambda>s. if utf8_ok s then Some s else None), e_jsonb_in = Some,
    e_text_ok = (\<lambda>_. True), e_locked = (\<lambda>_. []), e_scan = (\<lambda>_ _. 0), e_enqueue = (\<lambda>_. NoFault),
    e_rand_float = (\<lambda>_. 1 / 2), e_ctx_done = (\<lambda>_. False),
    e_post = (\<lambda>_ _ _. Replied 200 (Inr ''{}''))\<rparr>"

lemma utf8_ok_replicate: "utf8_ok (replicate n CHR ''n'')"
  by (rule utf8_ok_all_ascii) simp

lemma replicate_other: "c \<noteq> CHR ''n'' \<Longrightarrow> replicate n CHR ''n'' \<noteq> c # s" "c \<noteq> CHR ''n'' \<Longrightarrow> c # s \<noteq> replicate n CHR ''n''"
  by (cases n; simp)+

lemma demo_env_ok: "env_ok demo_env"
  by (simp add: env_ok_def demo_env_def utf8_ok_replicate)

lemma demo_healthy: "healthy demo_env"
  by (simp add: healthy_def demo_env_def)

lemma demo_accepts: "\<forall>n. e_enqueue demo_env n = NoFault"
  by (simp add: demo_env_def)

definition demo_job :: StoreJob where
  "demo_job = \<lparr>job_ID = ''job1'', job_UserID = ''user1'', job_Type = ''email'', job_Name = ''hello'',
    job_WebhookURL = ''http://hook'', job_Payload = ''{}'', job_Version = 1, job_MaxRetries = 2,
    job_TimeoutSeconds = 15, job_State = ''pending'', job_Attempts = 0, job_ScheduledAt = 1,
    job_LastError = None, job_Result = None, job_CreatedAt = 1, job_UpdatedAt = 1\<rparr>"

definition demo_event :: StoreOutboxEvent where
  "demo_event = \<lparr>ev_ID = ''ev1'', ev_AggregateType = ''job'', ev_AggregateID = ''job1'',
    ev_EventType = ''job_created'', ev_Payload = ''{}'', ev_Published = False, ev_PublishedAt = None,
    ev_CreatedAt = 1, ev_UpdatedAt = 1\<rparr>"

definition demo_user :: StoreUser where
  "demo_user = \<lparr>user_ID = ''user1'', user_Email = ''a@b'', user_Username = ''ann'',
    user_PasswordHash = ''hash:secret'', user_CreatedAt = 0, user_UpdatedAt = 0\<rparr>"

definition demo_key :: StoreIdempotencyKey where
  "demo_key = \<lparr>ik_ID = ''key1'', ik_UserID = ''user1'', ik_RequestHash = ''h1'', ik_JobID = Some ''job1'',
    ik_Method = ''POST'', ik_Path = ''/jobs'', ik_StatusCode = None, ik_CreatedAt = 1,
    ik_ExpiresAt = 1 + 24 * 3600 * 1000000000\<rparr>"

definition demo_world :: world where
  "demo_world = \<lparr>pg = \<lparr>users = [demo_user], jobs = [demo_job], idempotency_keys = [demo_key],
     outbox = [demo_event]\<rparr>, redis = [], posts = [], tick = 0\<rparr>"

lemmas demo_defs = demo_world_def demo_user_def demo_job_def demo_key_def demo_event_def

lemma demo_schema: "schema_ok (pg demo_world)"
  by (simp add: schema_ok_def demo_defs keys_ok_def key_of_def)

lemma demo_ids: "ids_ok demo_env (pg demo_world)"
  by (simp add: ids_ok_def demo_defs canonical_def job_ref_def demo_env_def utf8_ok_ascii)

lemma demo_ok: "db_ok (pg demo_world)"
  using demo_schema
  by (simp add: db_ok_def jobs_ok_def linked_def announced_def demo_defs job_ok_def job_ref_def
      event_ref_def keys_ok_def int4_ok_def)

definition demo_task :: queued_task where
  \<comment> \<open>the task of the event\<close>
  "demo_task = queued 0 (the (NewJobProcessTask ''job1'' ''ev1''))"

lemma demo_parse: "ParseJobProcessPayload demo_task = Some \<lparr>jpp_JobID = ''job1'', jpp_OutboxID = ''ev1''\<rparr>"
proof -
  obtain task where "NewJobProcessTask ''job1'' ''ev1'' = Some task"
    using NewJobProcessTask_total by blast
  then show ?thesis
    using Parse_New [of "''job1''" "''ev1''" task] by (simp add: demo_task_def utf8_ok_ascii)
qed

lemma demo_payload_json: "unmarshal (job_Payload demo_job) \<noteq> None"
  using unmarshal_print [of "JObj []"]
  by (simp add: demo_job_def json_fits_def max_depth_def render_members_def)

end
