(* ===== verification/Store_Props.thy ===== *)
theory Store_Props
  imports Refinement Demo
begin

text \<open>
  The properties of the store: job creation is atomic and idempotent, its key outlives its expiry
  date and any lost reply, two concurrent creations with one hash cannot both succeed; deletion
  forgets the key; listing partitions a user's jobs into pages; registration is unique by email.
\<close>

section \<open>What a creation adds\<close>

lemma created_tables:
  assumes "env_ok env" and "created env userID h meth path params t t' job"
  obtains u i v where "jobs t' = jobs t @ [job]" "idempotency_keys t' = idempotency_keys t @ [i]"
    "outbox t' = outbox t @ [v]" "users t' = users t"
    "e_uuid_in env userID = Some u" "e_uuid_in env (cp_UserID params) = Some (job_UserID job)"
    "key_of i = (u, h)" "ik_JobID i = Some (job_ID job)" "ik_Method i = meth" "ik_Path i = path"
    "ev_AggregateID v = job_ID job" "event_ref v = (job_ID job, ''job_created'')" "\<not> ev_Published v"
    "find_by job_ID (job_ID job) (jobs t) = None" "canonical env (job_ID job)"
    "job_State job = ''pending''" "job_Attempts job = 0" "job_LastError job = None" "job_Result job = None"
    "job_Type job = cp_Type params" "job_Name job = cp_Name params" "job_WebhookURL job = cp_WebhookURL params"
    "e_jsonb_in env (cp_Payload params) = Some (job_Payload job)"
proof -
  from assms(2) obtain m m1 m2 now ex payload t1 t2 k where
    j: "sql_insert_job env (e_uuid env m) now (new_job_row env m params) t = Inr (e_uuid env m, t1)"
    and i: "sql_insert_key env (e_uuid env m1) now userID h (e_uuid env m) meth path ex t1 = Inr ((), t2)"
    and v: "sql_insert_event env (e_uuid env m2) now
        \<lparr>op_AggregateType = ''job'', op_AggregateID = e_uuid env m, op_EventType = ''job_created'',
         op_Payload = payload, op_Published = False\<rparr> t2 = Inr (e_uuid env m2, t')"
    and k: "e_uuid_in env (e_uuid env m) = Some k" "find_by job_ID k (jobs t') = Some job"
    unfolding created_def by blast
  have can: "canonical env (e_uuid env m)" by (rule env_okD(1) [OF assms(1)])
  then have k_eq: "k = e_uuid env m" using k(1) by (simp add: canonical_def)
  let ?row = "\<lambda>u p. (new_job_row env m params)\<lparr>job_ID := e_uuid env m, job_UserID := u, job_Payload := p,
    job_LastError := None, job_Result := None, job_CreatedAt := now, job_UpdatedAt := now\<rparr>"
  from j obtain u p where u: "e_uuid_in env (cp_UserID params) = Some u" "e_jsonb_in env (cp_Payload params) = Some p"
    and new: "find_by job_ID (e_uuid env m) (jobs t) = None"
    and t1: "t1 = t\<lparr>jobs := jobs t @ [?row u p]\<rparr>"
    by (rule sql_insert_jobE) (simp add: new_job_row_def Let_def add_row_def)
  from i have "\<exists>u' row. t2 = t1\<lparr>idempotency_keys := idempotency_keys t1 @ [row]\<rparr> \<and>
      e_uuid_in env userID = Some u' \<and> key_of row = (u', h) \<and> ik_JobID row = Some (e_uuid env m) \<and>
      ik_Method row = meth \<and> ik_Path row = path"
    by (rule sql_insert_keyE) (use can in \<open>auto simp: canonical_def key_of_def add_row_def
      intro!: exI [of _ "\<lparr>ik_ID = e_uuid env m1, ik_UserID = _, ik_RequestHash = h, ik_JobID = _,
        ik_Method = meth, ik_Path = path, ik_StatusCode = None, ik_CreatedAt = now, ik_ExpiresAt = ex\<rparr>"]\<close>)
  then obtain u' row where row: "e_uuid_in env userID = Some u'" "key_of row = (u', h)"
    "ik_JobID row = Some (e_uuid env m)" "ik_Method row = meth" "ik_Path row = path"
    and t2: "t2 = t1\<lparr>idempotency_keys := idempotency_keys t1 @ [row]\<rparr>"
    by blast
  from v have "\<exists>ev. t' = t2\<lparr>outbox := outbox t2 @ [ev]\<rparr> \<and> ev_AggregateID ev = e_uuid env m \<and>
      event_ref ev = (e_uuid env m, ''job_created'') \<and> \<not> ev_Published ev"
    by (rule sql_insert_eventE) (rule exI, rule conjI, simp add: add_row_def,
        use can in \<open>simp add: canonical_def event_ref_def\<close>)
  then obtain ev where ev: "ev_AggregateID ev = e_uuid env m" "event_ref ev = (e_uuid env m, ''job_created'')"
      "\<not> ev_Published ev" and t': "t' = t2\<lparr>outbox := outbox t2 @ [ev]\<rparr>"
    by blast
  have job: "job = ?row u p"
    using k(2) new unfolding t' t2 t1 k_eq by (simp add: find_by_append)
  show thesis
    by (rule that [of row ev u']) (use job t' t2 t1 row ev u new can in \<open>simp_all add: new_job_row_def Let_def\<close>)
qed

definition one_created ::
  "env \<Rightarrow> string \<Rightarrow> string \<Rightarrow> StoreCreateJobParams \<Rightarrow> tables \<Rightarrow> tables \<Rightarrow> bool" where
  \<comment> \<open>one pending job, its key and its event were appended, and nothing else changed\<close>
  "one_created env userID h params t t' \<longleftrightarrow>
    (\<exists>job i v u. t' = t\<lparr>jobs := jobs t @ [job], idempotency_keys := idempotency_keys t @ [i],
        outbox := outbox t @ [v]\<rparr> \<and>
      e_uuid_in env userID = Some u \<and> job_UserID job = u \<and> key_of i = (u, h) \<and>
      ik_JobID i = Some (job_ID job) \<and> event_ref v = (job_ID job, ''job_created'') \<and> \<not> ev_Published v \<and>
      job_State job = ''pending'' \<and> job_Attempts job = 0 \<and> job_Type job = cp_Type params \<and>
      job_Name job = cp_Name params \<and> job_WebhookURL job = cp_WebhookURL params)"

lemma created_one:
  assumes "env_ok env" and "cp_UserID params = userID" and "created env userID h meth path params t t' job"
  shows "one_created env userID h params t t'"
proof -
  from created_tables [OF assms(1,3)] obtain u i v where
    new: "jobs t' = jobs t @ [job]" "idempotency_keys t' = idempotency_keys t @ [i]"
      "outbox t' = outbox t @ [v]" "users t' = users t" "e_uuid_in env userID = Some u"
      "e_uuid_in env (cp_UserID params) = Some (job_UserID job)"
    and refs: "key_of i = (u, h)" "ik_JobID i = Some (job_ID job)" "event_ref v = (job_ID job, ''job_created'')"
      "\<not> ev_Published v" "job_State job = ''pending''" "job_Attempts job = 0"
      "job_Type job = cp_Type params" "job_Name job = cp_Name params" "job_WebhookURL job = cp_WebhookURL params"
    by metis
  have "t' = t\<lparr>jobs := jobs t @ [job], idempotency_keys := idempotency_keys t @ [i],
      outbox := outbox t @ [v]\<rparr>"
    using new by simp
  with new refs assms(2) show ?thesis unfolding one_created_def by auto
qed

text \<open>C6: Creating a job is atomic under every schedule of failures: either the tables are as
  before, or exactly one pending job with the requested fields, its idempotency key and its
  unpublished \<open>job_created\<close> event were added together. A call that reports a new job has added it,
  and a call that reports an existing one has changed nothing.\<close>

theorem create_atomic:
  assumes "env_ok env" and "cp_UserID params = userID"
    and "CreateJobWithIdempotency env userID h meth path params w = (r, w')"
  shows "(pg w' = pg w \<or> one_created env userID h params (pg w) (pg w')) \<and>
    (\<forall>job. r = Inr (job, False) \<longrightarrow> one_created env userID h params (pg w) (pg w') \<and> job \<in> set (jobs (pg w'))) \<and>
    (\<forall>job. r = Inr (job, True) \<longrightarrow> pg w' = pg w \<and> job \<in> set (jobs (pg w)))"
  using assms(3)
proof (cases rule: CreateJob_run)
  case (created job)
  with created_one [OF assms(1,2) created(2)] created_tables [OF assms(1) created(2)]
  show ?thesis by (metis in_set_conv_decomp Inr_inject prod.inject)
qed (use created_one [OF assms(1,2)] in auto)

section \<open>Idempotency\<close>

lemma find_key:
  assumes "schema_ok t" and "i \<in> set (idempotency_keys t)" and "key_of i = (u, h)"
  shows "List.find (\<lambda>i. ik_UserID i = u \<and> ik_RequestHash i = h) (idempotency_keys t) = Some i"
proof -
  have "keys_ok key_of (idempotency_keys t)" using assms(1) by (simp add: schema_ok_def)
  then have "find_by key_of (u, h) (idempotency_keys t) = Some i"
    using assms(2,3) by (simp add: find_by_Some_iff)
  then show ?thesis by (simp add: find_by_def key_of_def)
qed

lemma lookup_existing:
  assumes "healthy env" and "schema_ok (pg w)" and "ids_ok env (pg w)" and "e_text_ok env h"
    and "e_uuid_in env userID = Some u"
    and "i \<in> set (idempotency_keys (pg w))" and "key_of i = (u, h)" and "ik_JobID i = Some (job_ID job)"
    and "job \<in> set (jobs (pg w))"
  shows "\<exists>w'. create_lookup env userID h w = (Inr (Existing job), w') \<and> pg w' = pg w"
proof -
  have key: "sql_job_of_key env userID h (pg w) = Inr (job_ID job, pg w)"
    using assms(4,5,8) by (simp add: sql_job_of_key_def find_key [OF assms(2,6,7)])
  have "find_by job_ID (job_ID job) (jobs (pg w)) = Some job"
    using assms(2,9) by (simp add: find_by_Some_iff schema_ok_def)
  then have get: "sql_job_by_id env (job_ID job) (pg w) = Inr (job, pg w)"
    using ids_okD(2) [OF assms(3,9)] by (simp add: sql_job_by_id_def)
  show ?thesis
    by (simp add: create_lookup_def healthy_simps [OF assms(1)] key get GetJobByIDTx_def queryRow_def)
qed

text \<open>C24: As long as the key and its job are stored, a request with the same user and hash returns that
  job as it now is and changes nothing, whatever its parameters. The clock does not matter: a key
  is never looked at for its expiry date.\<close>

theorem create_existing:
  assumes "healthy env" and "schema_ok (pg w)" and "ids_ok env (pg w)" and "e_text_ok env h"
    and "e_uuid_in env userID = Some u"
    and "i \<in> set (idempotency_keys (pg w))" and "key_of i = (u, h)" and "ik_JobID i = Some (job_ID job)"
    and "job \<in> set (jobs (pg w))"
  shows "\<exists>w'. CreateJobWithIdempotency env userID h meth path params w = (Inr (job, True), w') \<and> pg w' = pg w"
  using lookup_existing [OF assms] by (auto simp: CreateJobWithIdempotency_def)

definition same_inputs :: "env \<Rightarrow> env \<Rightarrow> bool" where
  \<comment> \<open>the same PostgreSQL, at another time and with other failures\<close>
  "same_inputs env env' \<longleftrightarrow> e_uuid_in env' = e_uuid_in env \<and> e_jsonb_in env' = e_jsonb_in env \<and>
    e_text_ok env' = e_text_ok env"

text \<open>A creation that took effect is found again, even when the client was told of a failure because a
  reply was lost.\<close>

lemma create_retry_finds_job:
  assumes "env_ok env" and "cp_UserID params = userID" and "schema_ok (pg w)" and "ids_ok env (pg w)"
    and "CreateJobWithIdempotency env userID h meth path params w = (r, w1)" and "pg w1 \<noteq> pg w"
    and "same_inputs env env'" and "healthy env'" and "e_text_ok env h" and "pg w2 = pg w1"
  shows "\<exists>job w3. CreateJobWithIdempotency env' userID h meth path params w2 = (Inr (job, True), w3) \<and>
    pg w3 = pg w1 \<and> jobs (pg w1) = jobs (pg w) @ [job]"
proof -
  from assms(5) obtain job where c: "created env userID h meth path params (pg w) (pg w1) job"
    by (cases rule: CreateJob_run) (use assms(6) in auto)
  from created_tables [OF assms(1) c] obtain u i where new: "jobs (pg w1) = jobs (pg w) @ [job]"
    "idempotency_keys (pg w1) = idempotency_keys (pg w) @ [i]" "e_uuid_in env userID = Some u"
    "key_of i = (u, h)" "ik_JobID i = Some (job_ID job)"
    by metis
  have step: "db_step env (pg w) (pg w1)" by (rule created_step [OF assms(1,2) c])
  have "schema_ok (pg w2)" "ids_ok env (pg w2)"
    using db_step_schema [OF step] db_step_ids [OF step] assms(3,4,10) by simp_all
  moreover have "ids_ok env' (pg w2) = ids_ok env (pg w2)"
    using assms(7) by (simp add: ids_ok_def canonical_def same_inputs_def)
  ultimately have "\<exists>w3. create_lookup env' userID h w2 = (Inr (Existing job), w3) \<and> pg w3 = pg w2"
    using new assms(7-10) by (intro lookup_existing [where u = u and i = i]) (simp_all add: same_inputs_def)
  with new(1) assms(10) show ?thesis by (auto simp: CreateJobWithIdempotency_def)
qed

text \<open>C25: Two concurrent requests with one hash cannot both create a job. If the first committed after
  the second had looked up the key, the insertion of the second, which sees the committed tables,
  fails and leaves the tables as they are; its client gets an error instead of the job.\<close>

theorem concurrent_create_fails:
  assumes "tx_tables tx = pg w" and "e_uuid_in env userID = Some u"
    and "(u, h) \<in> key_of ` set (idempotency_keys (pg w))"
  shows "\<exists>e w'. create_insert env userID h meth path params tx w = (Inl e, w') \<and> pg w' = pg w"
proof -
  obtain r w' where run: "create_insert env userID h meth path params tx w = (r, w')" by (metis surj_pair)
  have no: False if c: "created env userID h meth path params (pg w) t' job" for t' job
  proof -
    from c obtain m m1 now ex t1 t2 where
      j: "sql_insert_job env (e_uuid env m) now (new_job_row env m params) (pg w) = Inr (e_uuid env m, t1)"
      and i: "sql_insert_key env (e_uuid env m1) now userID h (e_uuid env m) meth path ex t1 = Inr ((), t2)"
      unfolding created_def by blast
    from j have "idempotency_keys t1 = idempotency_keys (pg w)" by (rule sql_insert_jobE) simp
    with i assms(2,3) show False by (auto elim!: sql_insert_keyE simp: key_of_def)
  qed
  from run show ?thesis
    by (cases rule: create_insert_run) (use run no assms(1) in auto)
qed

section \<open>A first request\<close>

definition fresh_ids :: "env \<Rightarrow> tables \<Rightarrow> bool" where
  \<comment> \<open>\<^verbatim>\<open>gen_random_uuid()\<close> does not repeat a stored identifier\<close>
  "fresh_ids env t \<longleftrightarrow> (\<forall>n. e_uuid env n \<notin> job_ID ` set (jobs t) \<and>
    e_uuid env n \<notin> ev_ID ` set (outbox t) \<and> e_uuid env n \<notin> ik_ID ` set (idempotency_keys t) \<and>
    e_uuid env n \<notin> user_ID ` set (users t))"

definition params_ok :: "env \<Rightarrow> StoreCreateJobParams \<Rightarrow> bool" where
  "params_ok env params \<longleftrightarrow>
    e_text_ok env (cp_Type params) \<and> e_text_ok env (cp_Name params) \<and> e_text_ok env (cp_WebhookURL params) \<and>
    e_jsonb_in env (cp_Payload params) \<noteq> None \<and>
    int4_ok (cp_MaxRetries params) \<and> int4_ok (cp_TimeoutSeconds params) \<and> int4_ok (cp_Version params) \<and>
    (\<forall>n. announceable env (e_uuid env n) (cp_Type params) (cp_Name params) (cp_WebhookURL params)
      (cp_Payload params))"

lemma lookup_absent:
  assumes "healthy env" and "e_uuid_in env userID = Some u" and "e_text_ok env h"
    and "(u, h) \<notin> key_of ` set (idempotency_keys (pg w))"
  shows "create_lookup env userID h w =
    (Inr (Absent \<lparr>tx_tables = pg w, tx_now = e_pgnow env (tick w)\<rparr>), bump (bump w))"
proof -
  have "List.find (\<lambda>i. ik_UserID i = u \<and> ik_RequestHash i = h) (idempotency_keys (pg w)) = None"
    using assms(4) by (force simp: find_None_iff key_of_def)
  then have "sql_job_of_key env userID h (pg w) = Inl ErrNoRows"
    using assms(2,3) by (simp add: sql_job_of_key_def)
  then show ?thesis by (simp add: create_lookup_def healthy_simps [OF assms(1)])
qed

lemma insert_key_ok:
  assumes "e_uuid_in env userID = Some u" and "e_uuid_in env jid = Some jid" and "e_text_ok env h"
    and "e_text_ok env meth" and "e_text_ok env path" and "kid \<notin> ik_ID ` set (idempotency_keys t)"
    and "(u, h) \<notin> key_of ` set (idempotency_keys t)" and "u \<in> user_ID ` set (users t)"
    and "jid \<in> job_ID ` set (jobs t)"
  shows "\<exists>row. sql_insert_key env kid now userID h jid meth path ex t =
    Inr ((), t\<lparr>idempotency_keys := idempotency_keys t @ [row]\<rparr>)"
proof -
  have "(u, h) \<notin> (\<lambda>i. (ik_UserID i, ik_RequestHash i)) ` set (idempotency_keys t)"
    using assms(7) by (simp add: key_of_def [abs_def])
  moreover have "find_by user_ID u (users t) \<noteq> None" "find_by job_ID jid (jobs t) \<noteq> None"
    using assms(8,9) by (simp_all add: find_by_None_iff del: not_None_eq)
  ultimately show ?thesis
    using assms(1-6) by (auto simp: sql_insert_key_def add_row_def)
qed

definition stored_row :: "env \<Rightarrow> nat \<Rightarrow> int \<Rightarrow> string \<Rightarrow> string \<Rightarrow> string \<Rightarrow> StoreCreateJobParams \<Rightarrow> StoreJob" where
  "stored_row env n now jid u p params = (new_job_row env n params)\<lparr>job_ID := jid, job_UserID := u,
     job_Payload := p, job_LastError := None, job_Result := None, job_CreatedAt := now, job_UpdatedAt := now\<rparr>"

lemma insert_job_ok:
  assumes "env_ok env" and "params_ok env params" and "e_uuid_in env (cp_UserID params) = Some u"
    and "e_jsonb_in env (cp_Payload params) = Some p" and "jid \<notin> job_ID ` set (jobs t)"
    and "u \<in> user_ID ` set (users t)"
  shows "sql_insert_job env jid now (new_job_row env n params) t =
    Inr (jid, t\<lparr>jobs := jobs t @ [stored_row env n now jid u p params]\<rparr>)"
proof -
  have "find_by job_ID jid (jobs t) = None" "find_by user_ID u (users t) \<noteq> None"
    using assms(5,6) by (simp_all add: find_by_None_iff del: not_None_eq)
  then show ?thesis
    using assms(2-4) text_literals(5) [OF assms(1)]
    by (auto simp: sql_insert_job_def new_job_row_def Let_def params_ok_def add_row_def int4_ok_def
        stored_row_def)
qed

lemma create_insert_ok:
  assumes "healthy env" and "env_ok env" and "fresh_ids env (pg w)" and "params_ok env params"
    and "e_uuid_in env (cp_UserID params) = Some u" and "u \<in> user_ID ` set (users (pg w))"
    and "(u, h) \<notin> key_of ` set (idempotency_keys (pg w))"
    and "e_text_ok env h" and "e_text_ok env meth" and "e_text_ok env path" and "tx_tables tx = pg w"
  shows "\<exists>n now jid p w'. create_insert env (cp_UserID params) h meth path params tx w =
    (Inr (stored_row env n now jid u p params), w')"
proof -
  let ?n = "tick w" and ?now = "tx_now tx"
  let ?jid = "e_uuid env ?n" and ?kid = "e_uuid env (Suc ?n)" and ?eid = "e_uuid env (Suc (Suc ?n))"
  have can: "e_uuid_in env ?jid = Some ?jid" using env_okD(1) [OF assms(2)] by (simp add: canonical_def)
  from assms(4) obtain p where p: "e_jsonb_in env (cp_Payload params) = Some p" by (auto simp: params_ok_def)
  have "announceable env ?jid (cp_Type params) (cp_Name params) (cp_WebhookURL params) (cp_Payload params)"
    using assms(4) by (simp add: params_ok_def)
  then obtain ep eb where ep: "marshal (event_payload ?jid (cp_Type params) (cp_Name params)
      (cp_WebhookURL params) (cp_Payload params)) = Some ep" "e_jsonb_in env ep = Some eb"
    by (auto simp: announceable_def split: option.splits)
  let ?row = "stored_row env ?n ?now ?jid u p params"
  let ?t1 = "(pg w)\<lparr>jobs := jobs (pg w) @ [?row]\<rparr>"
  have fresh: "?jid \<notin> job_ID ` set (jobs (pg w))" "?kid \<notin> ik_ID ` set (idempotency_keys (pg w))"
    "?eid \<notin> ev_ID ` set (outbox (pg w))"
    using assms(3) by (simp_all add: fresh_ids_def)
  have row_id: "job_ID ?row = ?jid" by (simp add: stored_row_def)
  note j = insert_job_ok [OF assms(2,4,5) p fresh(1) assms(6), of ?now ?n]
  have "?jid \<in> job_ID ` set (jobs ?t1)" using row_id by (simp del: StoreJob.simps)
  then obtain i where i: "sql_insert_key env ?kid ?now (cp_UserID params) h ?jid meth path
      (e_gonow env (Suc ?n) + day_ns) ?t1 = Inr ((), ?t1\<lparr>idempotency_keys := idempotency_keys ?t1 @ [i]\<rparr>)"
    using insert_key_ok [OF assms(5) can assms(8-10), of ?kid ?t1 ?now "e_gonow env (Suc ?n) + day_ns"]
      fresh(2) assms(6,7) by auto
  let ?t2 = "?t1\<lparr>idempotency_keys := idempotency_keys ?t1 @ [i]\<rparr>"
  have "\<exists>ev. sql_insert_event env ?eid ?now \<lparr>op_AggregateType = ''job'', op_AggregateID = ?jid,
      op_EventType = ''job_created'', op_Payload = ep, op_Published = False\<rparr> ?t2
      = Inr (?eid, ?t2\<lparr>outbox := outbox ?t2 @ [ev]\<rparr>)"
    using fresh(3) can ep text_literals(6,7) [OF assms(2)]
    by (subst sql_insert_event_ok [OF assms(2)]) (auto simp: find_by_None_iff)
  then obtain ev where v: "sql_insert_event env ?eid ?now \<lparr>op_AggregateType = ''job'', op_AggregateID = ?jid,
      op_EventType = ''job_created'', op_Payload = ep, op_Published = False\<rparr> ?t2
      = Inr (?eid, ?t2\<lparr>outbox := outbox ?t2 @ [ev]\<rparr>)" by blast
  have "find_by job_ID ?jid (jobs (pg w)) = None" using fresh(1) by (simp only: find_by_None_iff not_False_eq_True)
  then have "find_by job_ID ?jid (jobs (pg w) @ [?row]) = Some ?row"
    using row_id by (simp add: find_by_append)
  then have get: "sql_job_by_id env ?jid (?t2\<lparr>outbox := outbox ?t2 @ [ev]\<rparr>) =
      Inr (?row, ?t2\<lparr>outbox := outbox ?t2 @ [ev]\<rparr>)"
    using can by (simp add: sql_job_by_id_def)
  show ?thesis
    using j i v get ep assms(11)
    by (simp add: create_insert_def healthy_simps [OF assms(1)] GetJobByIDTx_def queryRow_def) blast
qed

text \<open>A first request on a healthy database creates the job: it answers with a \<open>pending\<close> job that
  belongs to the user, has the requested fields, and takes 5 retries, 15 seconds and version 1 for
  the values that are not positive.\<close>

theorem create_first:
  assumes "healthy env" and "env_ok env" and "fresh_ids env (pg w)" and "params_ok env params"
    and "e_uuid_in env (cp_UserID params) = Some u" and "u \<in> user_ID ` set (users (pg w))"
    and "(u, h) \<notin> key_of ` set (idempotency_keys (pg w))"
    and "e_text_ok env h" and "e_text_ok env meth" and "e_text_ok env path"
  shows "\<exists>job w'. CreateJobWithIdempotency env (cp_UserID params) h meth path params w = (Inr (job, False), w') \<and>
    job_State job = ''pending'' \<and> job_Attempts job = 0 \<and> job_UserID job = u \<and>
    job_Type job = cp_Type params \<and> job_Name job = cp_Name params \<and>
    job_WebhookURL job = cp_WebhookURL params \<and>
    job_MaxRetries job = (if cp_MaxRetries params \<le> 0 then 5 else cp_MaxRetries params) \<and>
    job_TimeoutSeconds job = (if cp_TimeoutSeconds params \<le> 0 then 15 else cp_TimeoutSeconds params) \<and>
    job_Version job = (if cp_Version params \<le> 0 then 1 else cp_Version params)"
proof -
  have "\<exists>n now jid p w'. create_insert env (cp_UserID params) h meth path params
      \<lparr>tx_tables = pg w, tx_now = e_pgnow env (tick w)\<rparr> (bump (bump w)) =
    (Inr (stored_row env n now jid u p params), w')"
    using assms by (intro create_insert_ok) simp_all
  then obtain n now jid p w' where "create_insert env (cp_UserID params) h meth path params
      \<lparr>tx_tables = pg w, tx_now = e_pgnow env (tick w)\<rparr> (bump (bump w)) =
    (Inr (stored_row env n now jid u p params), w')" by blast
  then have "CreateJobWithIdempotency env (cp_UserID params) h meth path params w =
      (Inr (stored_row env n now jid u p params, False), w')"
    by (simp add: CreateJobWithIdempotency_def lookup_absent [OF assms(1,5,8,7)])
  then show ?thesis by (simp add: stored_row_def new_job_row_def Let_def)
qed

section \<open>Listing\<close>

definition listing :: "string \<Rightarrow> tables \<Rightarrow> StoreJob list \<Rightarrow> bool" where
  \<comment> \<open>a user's jobs, newest first; jobs with the same creation time may stand in any order\<close>
  "listing u t js \<longleftrightarrow> sorted_wrt (\<lambda>a b. job_CreatedAt b \<le> job_CreatedAt a) js \<and>
    mset js = filter_mset (\<lambda>j. job_UserID j = u) (mset (jobs t))"

definition jobs_of :: "env \<Rightarrow> nat \<Rightarrow> string \<Rightarrow> tables \<Rightarrow> StoreJob list" where
  \<comment> \<open>the listing the execution at tick \<open>n\<close> cuts its page from\<close>
  "jobs_of env n u t = sort_key (\<lambda>j. - job_CreatedAt j)
     (scanned env n job_ID (filter (\<lambda>j. job_UserID j = u) (jobs t)))"

lemma jobs_of_listing: "listing u t (jobs_of env n u t)"
proof -
  have "sorted (map (\<lambda>j. - job_CreatedAt j) (jobs_of env n u t))" by (simp add: jobs_of_def)
  then show ?thesis by (simp add: listing_def sorted_wrt_map) (simp add: jobs_of_def)
qed

lemma listing_unique:
  assumes "listing u t js" and "listing u t js'"
    and "distinct (map job_CreatedAt (filter (\<lambda>j. job_UserID j = u) (jobs t)))"
  shows "js = js'"
proof -
  let ?f = "\<lambda>j. - job_CreatedAt j"
  have rows: "mset js = mset (filter (\<lambda>j. job_UserID j = u) (jobs t))" and same: "mset js = mset js'"
    and sorted: "sorted (map ?f js)" "sorted (map ?f js')"
    using assms(1,2) by (simp_all add: listing_def sorted_wrt_map)
  have "set js = set (filter (\<lambda>j. job_UserID j = u) (jobs t))" using rows by (metis set_mset_mset)
  then have inj: "inj_on ?f (set js)" using assms(3) by (simp add: distinct_map inj_on_def)
  have "sort_key ?f js = js'" using sort_key_inj_key_eq [OF same inj sorted(2)] .
  moreover have "sort_key ?f js = js" using sort_key_inj_key_eq [OF refl inj sorted(1)] .
  ultimately show ?thesis by simp
qed

lemma ListJobsByUser_run:
  assumes "healthy env" and "e_uuid_in env userID = Some u" and "0 < n"
  shows "ListJobsByUser env userID n off w =
    (if off < 0 then Inl (ErrOutOfRange ''OFFSET'')
     else Inr (take (nat n) (drop (nat off) (jobs_of env (tick w) u (pg w)))), bump w)"
  using assms by (simp add: ListJobsByUser_def Let_def healthy_simps sql_list_jobs_def jobs_of_def)

text \<open>C30: The pages of a listing partition the user's jobs, as long as no two of them were created at
  the same time and the tables do not change: whenever the pages are fetched, they are the segments
  of one list, strictly newest first, that holds exactly the jobs of the user; page \<open>k\<close> of size \<open>n\<close> is
  its segment from \<open>k * n\<close>, and the first \<open>m\<close> pages together are its first \<open>m * n\<close> jobs.\<close>

theorem list_pages_partition:
  assumes "healthy env" and "e_uuid_in env userID = Some u" and "0 < n"
    and "distinct (map job_CreatedAt (filter (\<lambda>j. job_UserID j = u) (jobs t)))"
  shows "\<exists>all. sorted_wrt (\<lambda>a b. job_CreatedAt b < job_CreatedAt a) all \<and>
    mset all = filter_mset (\<lambda>j. job_UserID j = u) (mset (jobs t)) \<and>
    (\<forall>w k. pg w = t \<longrightarrow>
      fst (ListJobsByUser env userID (int n) (int (k * n)) w) = Inr (take n (drop (k * n) all))) \<and>
    (\<forall>m. concat (map (\<lambda>k. take n (drop (k * n) all)) [0..<m]) = take (m * n) all)"
proof (intro exI [of _ "jobs_of env 0 u t"] conjI allI impI)
  let ?all = "jobs_of env 0 u t"
  have "sorted (map (\<lambda>j. - job_CreatedAt j) ?all)" by (simp add: jobs_of_def)
  moreover have "distinct (map (\<lambda>j. - job_CreatedAt j) ?all)"
    using assms(4) by (simp add: jobs_of_def distinct_map inj_on_def scanned_def)
  ultimately show "sorted_wrt (\<lambda>a b. job_CreatedAt b < job_CreatedAt a) ?all"
    using strict_sorted_iff [of "map (\<lambda>j. - job_CreatedAt j) ?all"] by (simp add: sorted_wrt_map)
  show "mset ?all = filter_mset (\<lambda>j. job_UserID j = u) (mset (jobs t))"
    using jobs_of_listing by (simp add: listing_def)
  show "fst (ListJobsByUser env userID (int n) (int (k * n)) w) = Inr (take n (drop (k * n) ?all))" if "pg w = t" for w k
    using assms(1-3) that listing_unique [OF jobs_of_listing jobs_of_listing assms(4), of env "tick w" env 0]
    by (subst ListJobsByUser_run [of env userID u]) (simp_all add: nat_mult_distrib not_less)
  show "concat (map (\<lambda>k. take n (drop (k * n) ?all)) [0..<m]) = take (m * n) ?all" for m
    by (induction m) (simp_all add: take_add [symmetric] add.commute)
qed

text \<open>Without that hypothesis the pages need not: of two jobs created at the same time, one can be on
  both pages and the other on none, when the second execution meets the rows in the other order.\<close>

lemma tied_pages_overlap:
  assumes "healthy env" and "e_uuid_in env userID = Some u"
    and "filter (\<lambda>j. job_UserID j = u) (jobs (pg w)) = [a, b]" and "job_CreatedAt a = job_CreatedAt b"
    and "e_scan env (tick w) (job_ID a) < e_scan env (tick w) (job_ID b)"
    and "e_scan env (Suc (tick w)) (job_ID b) < e_scan env (Suc (tick w)) (job_ID a)"
  shows "\<exists>w1. ListJobsByUser env userID 1 0 w = (Inr [a], w1) \<and> fst (ListJobsByUser env userID 1 1 w1) = Inr [a]"
  using assms(3-6)
  by (simp add: ListJobsByUser_run [OF assms(1,2)] jobs_of_def scanned_def)

section \<open>Deletion\<close>

text \<open>Deleting a job forgets it: the job is gone, so is its idempotency key, and the same request
  finds nothing to return. A deletion in another user's name leaves all tables as they are.\<close>

lemma delete_forgets:
  assumes "healthy env" and "db_ok (pg w)" and "ids_ok env (pg w)" and "job \<in> set (jobs (pg w))"
    and "e_uuid_in env userID = Some u"
  shows "\<exists>w'. DeleteJob env (job_ID job) userID w = (Inr (), w') \<and>
    (if job_UserID job = u
     then jobs (pg w') = del_by job_ID (job_ID job) (jobs (pg w)) \<and>
       idempotency_keys (pg w') = filter (\<lambda>i. ik_JobID i \<noteq> Some (job_ID job)) (idempotency_keys (pg w)) \<and>
       outbox (pg w') = outbox (pg w)
     else pg w' = pg w)"
proof -
  have inj: "a = job" if "a \<in> set (jobs (pg w))" "job_ID a = job_ID job" for a
    using that assms(2,4) by (simp add: db_ok_def schema_ok_def keys_ok_def distinct_map inj_on_def)
  have ids: "e_uuid_in env (job_ID job) = Some (job_ID job)" using ids_okD(2) [OF assms(3,4)] .
  have linked: "\<exists>j. ik_JobID i = Some j" if "i \<in> set (idempotency_keys (pg w))" for i
    using assms(2) that by (auto simp: db_ok_def linked_def)
  show ?thesis
  proof (cases "job_UserID job = u")
    case True
    have rows: "filter (\<lambda>j. \<not> (job_ID j = job_ID job \<and> job_UserID j = u)) (jobs (pg w)) =
        del_by job_ID (job_ID job) (jobs (pg w))"
      unfolding del_by_def using True by (intro filter_cong) (auto dest: inj)
    have gone: "job_ID ` {j \<in> set (jobs (pg w)). job_ID j = job_ID job \<and> job_UserID j = u} = {job_ID job}"
      using True assms(4) by auto
    have keys: "filter (\<lambda>i. case ik_JobID i of None \<Rightarrow> True | Some j \<Rightarrow>
          j \<notin> job_ID ` {j \<in> set (jobs (pg w)). job_ID j = job_ID job \<and> job_UserID j = u})
          (idempotency_keys (pg w)) =
        filter (\<lambda>i. ik_JobID i \<noteq> Some (job_ID job)) (idempotency_keys (pg w))"
      unfolding gone by (intro filter_cong) (auto dest: linked)
    show ?thesis
      using True ids assms(5)
      by (simp add: DeleteJob_def healthy_simps [OF assms(1)] sql_delete_job_eq keys rows [simplified])
  next
    case False
    have "filter (\<lambda>j. job_ID j = job_ID job \<longrightarrow> job_UserID j \<noteq> u) (jobs (pg w)) = jobs (pg w)"
      using False by (intro filter_True) (auto dest: inj)
    moreover have gone: "{j \<in> set (jobs (pg w)). job_ID j = job_ID job \<and> job_UserID j = u} = {}"
      using False by (auto dest: inj)
    have "filter (\<lambda>i. case ik_JobID i of None \<Rightarrow> True | Some j \<Rightarrow>
          j \<notin> job_ID ` {j \<in> set (jobs (pg w)). job_ID j = job_ID job \<and> job_UserID j = u})
          (idempotency_keys (pg w)) = idempotency_keys (pg w)"
      unfolding gone by (intro filter_True) (simp split: option.splits)
    ultimately show ?thesis
      using False ids assms(5)
      by (simp add: DeleteJob_def healthy_simps [OF assms(1)] sql_delete_job_eq)
  qed
qed

section \<open>Users\<close>

lemma CreateUser_run:
  assumes "CreateUser env email un ph w = (r, w')"
  obtains (failed) e where "r = Inl e" "pg w' = pg w"
  | (added) u where "r = Inl ErrConn \<or> r = Inr (user_ID u)"
      "pg w' = (pg w)\<lparr>users := users (pg w) @ [u]\<rparr>"
      "user_Email u = email" "user_Username u = un" "user_PasswordHash u = ph"
      "user_ID u = e_uuid env (tick w)" "user_ID u \<notin> user_ID ` set (users (pg w))" "email \<notin> user_Email ` set (users (pg w))"
proof -
  let ?f = "sql_insert_user env (e_uuid env (tick w)) (e_pgnow env (tick w)) email un ph"
  let ?u = "\<lparr>user_ID = e_uuid env (tick w), user_Email = email, user_Username = un, user_PasswordHash = ph,
    user_CreatedAt = e_pgnow env (tick w), user_UpdatedAt = e_pgnow env (tick w)\<rparr>"
  have new: "x = user_ID ?u \<and> t = (pg w)\<lparr>users := users (pg w) @ [?u]\<rparr> \<and>
      user_ID ?u \<notin> user_ID ` set (users (pg w)) \<and> email \<notin> user_Email ` set (users (pg w))"
    if "?f (pg w) = Inr (x, t)" for x t
    using that by (rule sql_insert_userE) (simp add: add_row_def find_by_None_iff)
  from assms [unfolded CreateUser_def] show thesis
  proof (cases rule: auto_stmt_cases)
    case (failed e)
    then show thesis by (intro that(1)) simp_all
  next
    case (lost x t)
    from new [OF lost(2)] lost(1,3) show thesis by (intro that(2) [of ?u]) simp_all
  next
    case (success x t)
    from new [OF success(2)] success(1,3) show thesis by (intro that(2) [of ?u]) simp_all
  qed
qed

text \<open>Registration is unique by email and its account is found at login: under every schedule of
  failures, a registration that took effect added one user with the given password hash; on a
  healthy database that email then finds this user, and registering it again fails and changes
  nothing.\<close>

lemma register_then_login_row:
  assumes "CreateUser env email un ph w = (r, w1)" and "pg w1 \<noteq> pg w"
    and "healthy env'" and "e_text_ok env' email" and "pg w2 = pg w1"
  shows "\<exists>u. users (pg w1) = users (pg w) @ [u] \<and> (\<forall>uid. r = Inr uid \<longrightarrow> uid = user_ID u) \<and>
    fst (GetUserByEmail env' email w2) = Inr u \<and> user_PasswordHash u = ph \<and>
    (\<exists>e w3. CreateUser env' email un' ph' w2 = (Inl e, w3) \<and> pg w3 = pg w2)"
  using assms(1)
proof (cases rule: CreateUser_run)
  case (failed e)
  with assms(2) show ?thesis by simp
next
  case (added u)
  have "find_by user_Email email (users (pg w)) = None" using added(8) by (simp only: find_by_None_iff not_False_eq_True)
  then have "find_by user_Email email (users (pg w2)) = Some u"
    using added assms(5) by (simp add: find_by_append)
  then have found: "fst (GetUserByEmail env' email w2) = Inr u"
    using assms(4) by (simp add: GetUserByEmail_def healthy_simps [OF assms(3)] sql_user_by_email_def)
  obtain r3 w3 where again: "CreateUser env' email un' ph' w2 = (r3, w3)" by (metis surj_pair)
  then have "(\<exists>e. r3 = Inl e) \<and> pg w3 = pg w2"
    by (cases rule: CreateUser_run) (use added assms(5) in auto)
  with added found again show ?thesis by auto
qed

section \<open>Witnesses\<close>

definition demo_params :: StoreCreateJobParams where
  "demo_params = \<lparr>cp_UserID = ''user1'', cp_Type = ''email'', cp_Name = ''bye'', cp_WebhookURL = ''http://hook'',
    cp_Payload = ''{}'', cp_MaxRetries = 0, cp_TimeoutSeconds = 30, cp_Version = 1\<rparr>"

lemma demo_announceable: "announceable demo_env jobID ty name url ''{}''"
  using event_payload_marshal [OF demo_payload_json, of jobID ty name url]
  by (auto simp: announceable_def demo_env_def demo_job_def split: option.splits)

lemma demo_params_ok: "params_ok demo_env demo_params"
  by (simp add: params_ok_def demo_params_def demo_announceable)
    (simp add: demo_env_def int4_ok_def)

lemma demo_fresh: "fresh_ids demo_env (pg demo_world)"
  by (simp add: fresh_ids_def demo_defs) (simp add: demo_env_def replicate_other)

theorem create_first_witness:
  "\<exists>job w'. CreateJobWithIdempotency demo_env ''user1'' ''h2'' ''POST'' ''/jobs'' demo_params demo_world =
      (Inr (job, False), w') \<and> job_State job = ''pending'' \<and> job_MaxRetries job = 5 \<and> job_TimeoutSeconds job = 30"
proof -
  have "e_uuid_in demo_env (cp_UserID demo_params) = Some ''user1''"
    by (simp add: demo_env_def demo_params_def utf8_ok_ascii)
  moreover have "''user1'' \<in> user_ID ` set (users (pg demo_world))" by (simp add: demo_defs)
  moreover have "(''user1'', ''h2'') \<notin> key_of ` set (idempotency_keys (pg demo_world))"
    by (simp add: demo_defs key_of_def)
  moreover have "e_text_ok demo_env ''h2''" "e_text_ok demo_env ''POST''" "e_text_ok demo_env ''/jobs''"
    by (simp_all add: demo_env_def)
  ultimately show ?thesis
    using create_first [OF demo_healthy demo_env_ok demo_fresh demo_params_ok, of "''user1''" "''h2''" "''POST''" "''/jobs''"]
    by (auto simp: demo_params_def)
qed

lemma demo_creates:
  assumes "params_ok demo_env params" and "cp_UserID params = ''user1''" and "h \<noteq> ''h1''"
  obtains job w' where "CreateJobWithIdempotency demo_env ''user1'' h ''POST'' ''/jobs'' params demo_world =
    (Inr (job, False), w')" "pg w' \<noteq> pg demo_world"
proof -
  have db: "e_uuid_in demo_env ''user1'' = Some ''user1''" "''user1'' \<in> user_ID ` set (users (pg demo_world))"
    "(''user1'', h) \<notin> key_of ` set (idempotency_keys (pg demo_world))" "\<And>s. e_text_ok demo_env s"
    using assms(3) by (simp_all add: demo_defs key_of_def) (simp_all add: demo_env_def utf8_ok_ascii)
  have "\<exists>n now jid p w'. create_insert demo_env (cp_UserID params) h ''POST'' ''/jobs'' params
      \<lparr>tx_tables = pg demo_world, tx_now = e_pgnow demo_env (tick demo_world)\<rparr> (bump (bump demo_world)) =
    (Inr (stored_row demo_env n now jid ''user1'' p params), w')"
    using demo_fresh db assms(1,2)
    by (intro create_insert_ok demo_healthy demo_env_ok) simp_all
  then obtain job w' where run: "create_insert demo_env ''user1'' h ''POST'' ''/jobs'' params
      \<lparr>tx_tables = pg demo_world, tx_now = e_pgnow demo_env (tick demo_world)\<rparr> (bump (bump demo_world)) = (Inr job, w')"
    using assms(2) by auto
  have look: "create_lookup demo_env ''user1'' h demo_world =
      (Inr (Absent \<lparr>tx_tables = pg demo_world, tx_now = e_pgnow demo_env (tick demo_world)\<rparr>), bump (bump demo_world))"
    using db by (intro lookup_absent [OF demo_healthy, of _ "''user1''"]) simp_all
  from run have "pg w' \<noteq> pg demo_world"
    by (cases rule: create_insert_run) (auto elim!: created_tables [OF demo_env_ok])
  with run look show thesis
    by (intro that [of job w']) (simp_all add: CreateJobWithIdempotency_def)
qed

theorem create_atomic_witness:
  "pg (snd (CreateJobWithIdempotency demo_env ''user1'' ''h2'' ''POST'' ''/jobs'' demo_params demo_world)) = pg demo_world \<or>
   one_created demo_env ''user1'' ''h2'' demo_params (pg demo_world)
     (pg (snd (CreateJobWithIdempotency demo_env ''user1'' ''h2'' ''POST'' ''/jobs'' demo_params demo_world)))"
proof -
  have "cp_UserID demo_params = ''user1''" by (simp add: demo_params_def)
  from create_atomic [OF demo_env_ok this prod.collapse [symmetric]] show ?thesis by blast
qed

theorem create_existing_witness:
  "\<exists>w'. CreateJobWithIdempotency demo_env ''user1'' ''h1'' ''POST'' ''/jobs'' demo_params demo_world =
    (Inr (demo_job, True), w') \<and> pg w' = pg demo_world"
  by (rule create_existing [OF demo_healthy demo_schema demo_ids, of _ _ "''user1''" demo_key])
    (simp_all add: demo_defs key_of_def, simp_all add: demo_env_def utf8_ok_ascii)

theorem concurrent_create_fails_witness:
  "\<exists>e w'. create_insert demo_env ''user1'' ''h1'' ''POST'' ''/jobs'' demo_params
     \<lparr>tx_tables = pg demo_world, tx_now = 0\<rparr> demo_world = (Inl e, w') \<and> pg w' = pg demo_world"
  by (rule concurrent_create_fails [of _ _ _ _ "''user1''"])
    (simp_all add: demo_defs key_of_def, simp_all add: demo_env_def utf8_ok_ascii)

text \<open>Two jobs of the user, the second a nanosecond younger than the first or as old.\<close>

definition two_jobs :: "int \<Rightarrow> tables" where
  "two_jobs age = (pg demo_world)\<lparr>jobs := [demo_job, demo_job\<lparr>job_ID := ''job2'', job_CreatedAt := 1 + age\<rparr>]\<rparr>"

lemma two_jobs_rows:
  "filter (\<lambda>j. job_UserID j = ''user1'') (jobs (two_jobs age)) =
    [demo_job, demo_job\<lparr>job_ID := ''job2'', job_CreatedAt := 1 + age\<rparr>]"
  by (simp add: two_jobs_def) (simp add: demo_job_def)

theorem list_pages_partition_witness:
  "\<exists>all. mset all = {#demo_job, demo_job\<lparr>job_ID := ''job2'', job_CreatedAt := 2\<rparr>#} \<and>
    (\<forall>k w. pg w = two_jobs 1 \<longrightarrow> fst (ListJobsByUser demo_env ''user1'' 1 (int k) w) = Inr (take 1 (drop k all)))"
proof -
  have "e_uuid_in demo_env ''user1'' = Some ''user1''" by (simp add: demo_env_def utf8_ok_ascii)
  moreover have "distinct (map job_CreatedAt (filter (\<lambda>j. job_UserID j = ''user1'') (jobs (two_jobs 1))))"
    unfolding two_jobs_rows by (simp add: demo_job_def)
  ultimately obtain all where "mset all = filter_mset (\<lambda>j. job_UserID j = ''user1'') (mset (jobs (two_jobs 1)))"
    and pages: "\<forall>w k. pg w = two_jobs 1 \<longrightarrow>
      fst (ListJobsByUser demo_env ''user1'' (int 1) (int (k * 1)) w) = Inr (take 1 (drop (k * 1) all))"
    using list_pages_partition [OF demo_healthy, of "''user1''" "''user1''" 1 "two_jobs 1"] by auto
  moreover from this(1) have "mset all = mset [demo_job, demo_job\<lparr>job_ID := ''job2'', job_CreatedAt := 2\<rparr>]"
    unfolding mset_filter [symmetric] two_jobs_rows by simp
  ultimately show ?thesis by (intro exI [of _ all]) simp
qed

definition shuffled_env :: env where
  \<comment> \<open>every other execution meets the rows in the other order\<close>
  "shuffled_env = demo_env\<lparr>e_scan := (\<lambda>n k. if (k = ''job1'') = even n then 0 else 1)\<rparr>"

lemma tied_pages_overlap_witness:
  "\<exists>w1. ListJobsByUser shuffled_env ''user1'' 1 0 (demo_world\<lparr>pg := two_jobs 0\<rparr>) = (Inr [demo_job], w1) \<and>
    fst (ListJobsByUser shuffled_env ''user1'' 1 1 w1) = Inr [demo_job]"
proof (rule tied_pages_overlap)
  show "healthy shuffled_env" "e_uuid_in shuffled_env ''user1'' = Some ''user1''"
    using demo_healthy by (simp_all add: shuffled_env_def healthy_def) (simp add: demo_env_def utf8_ok_ascii)
  show "filter (\<lambda>j. job_UserID j = ''user1'') (jobs (pg (demo_world\<lparr>pg := two_jobs 0\<rparr>))) =
      [demo_job, demo_job\<lparr>job_ID := ''job2'', job_CreatedAt := 1 + 0\<rparr>]"
    using two_jobs_rows [of 0] by simp
qed (simp_all add: shuffled_env_def, simp_all add: demo_job_def demo_world_def)

end
