(* ===== verification/Demo_Libs.thy ===== *)
theory Demo_Libs
  imports Token Sha256
begin

text \<open>
  A concrete JWT and bcrypt library that behaves as \<open>libs_ok\<close> says, for the witnesses: a token
  spells out its key and its claims, a hash is the password in hexadecimal.
\<close>

fun enc_str :: "string \<Rightarrow> string" where
  "enc_str [] = ''.''"
| "enc_str (c # s) = CHR ''x'' # c # enc_str s"

fun dec_str :: "string \<Rightarrow> (string \<times> string) option" where
  "dec_str [] = None"
| "dec_str [x] = (if x = CHR ''.'' then Some ([], []) else None)"
| "dec_str (x # c # r) =
    (if x = CHR ''.'' then Some ([], c # r)
     else case dec_str r of None \<Rightarrow> None | Some (s, t) \<Rightarrow> Some (c # s, t))"

lemma dec_enc_str: "dec_str (enc_str s @ t) = Some (s, t)"
  by (induction s) (cases t; simp)+

definition enc_int :: "int option \<Rightarrow> string" where
  "enc_int x = enc_str (case x of None \<Rightarrow> [] | Some i \<Rightarrow>
     if i < 0 then CHR ''-'' # replicate (nat (- i)) CHR ''1'' else CHR ''+'' # replicate (nat i) CHR ''1'')"

definition dec_int :: "string \<Rightarrow> (int option \<times> string) option" where
  "dec_int t =
    (case dec_str t of
       None \<Rightarrow> None
     | Some (s, r) \<Rightarrow>
         (case s of
            [] \<Rightarrow> Some (None, r)
          | c # u \<Rightarrow> Some (Some (if c = CHR ''-'' then - int (length u) else int (length u)), r)))"

lemma dec_enc_int: "dec_int (enc_int x @ t) = Some (x, t)"
  using dec_enc_str [of "[]" t] by (cases x) (simp_all add: dec_int_def enc_int_def dec_enc_str)

definition demo_sign :: "string \<Rightarrow> LocalClaims \<Rightarrow> string option" where
  "demo_sign key c = Some (CHR ''j'' # enc_str key @ enc_str (lc_Subject c) @ enc_int (lc_ExpiresAt c)
     @ enc_int (lc_IssuedAt c) @ enc_str (lc_Email c))"

definition demo_decode :: "string \<Rightarrow> (string \<times> LocalClaims) option" where
  "demo_decode t =
    Option.bind (dec_str (drop 1 t)) (\<lambda>(key, t1).
    Option.bind (dec_str t1) (\<lambda>(subject, t2).
    Option.bind (dec_int t2) (\<lambda>(expires, t3).
    Option.bind (dec_int t3) (\<lambda>(issued, t4).
    Option.bind (dec_str t4) (\<lambda>(email, t5).
      Some (key, \<lparr>lc_Subject = subject, lc_ExpiresAt = expires, lc_IssuedAt = issued, lc_Email = email\<rparr>))))))"

lemma demo_decode_sign: "demo_sign key c = Some t \<Longrightarrow> demo_decode t = Some (key, c)"
  using dec_enc_str [of "lc_Email c" "[]"]
  by (auto simp: demo_sign_def demo_decode_def dec_enc_str dec_enc_int)

definition demo_parse_token ::
  "int \<Rightarrow> string \<Rightarrow> (string \<Rightarrow> token_error + string) \<Rightarrow> token_error + (LocalClaims \<times> bool)" where
  "demo_parse_token now t kf =
    (case demo_decode t of
       None \<Rightarrow> Inl ParseError
     | Some (key, c) \<Rightarrow>
         (case kf ''HS256'' of
            Inl e \<Rightarrow> Inl e
          | Inr key' \<Rightarrow> if key' \<noteq> key \<or> expired c now then Inl ParseError else Inr (c, True)))"

definition demo_libs :: libs where
  "demo_libs = \<lparr>jwt_Sign = demo_sign, jwt_Parse = demo_parse_token,
     bc_Generate = (\<lambda>_ p. if 72 < length p then None else Some (EncodeToString p)),
     bc_Compare = (\<lambda>h p. h = EncodeToString p)\<rparr>"

lemma enc_str_last: "\<exists>u. enc_str s = u @ ''.''"
  by (induction s) (auto intro: exI [of _ "_ # _"])

lemma demo_sign_shape: "demo_sign key c = Some t \<Longrightarrow> \<exists>u. t = CHR ''j'' # u @ ''.''"
  using enc_str_last [of "lc_Email c"] by (auto simp: demo_sign_def)

lemma strip_none:
  assumes "\<forall>p \<in> set ps. p \<noteq> [] \<longrightarrow> \<not> has_prefix p s"
  shows "strip_any ps s = s"
proof -
  have "List.find (\<lambda>p. p \<noteq> [] \<and> has_prefix p s) ps = None"
    using assms by (auto simp: find_None_iff)
  then show ?thesis by (subst strip_any.simps) simp
qed

lemma spaces_first: "\<forall>p \<in> set spaces. \<not> has_prefix p (CHR ''j'' # s)"
  by (simp add: spaces_def char_of_eq_iff)

lemma spaces_last: "\<forall>p \<in> set (map rev spaces). \<not> has_prefix p (CHR ''.'' # s)"
  by (simp add: spaces_def char_of_eq_iff)

lemma demo_sign_trim: "demo_sign key c = Some t \<Longrightarrow> TrimSpace t = t"
proof -
  assume "demo_sign key c = Some t"
  from demo_sign_shape [OF this] obtain u where t: "t = CHR ''j'' # u @ ''.''" by blast
  have "strip_any spaces t = t" unfolding t using spaces_first by (intro strip_none) blast
  moreover have "strip_any (map rev spaces) (rev t) = rev t"
    unfolding t using spaces_last by (intro strip_none) simp
  ultimately show ?thesis by (simp add: TrimSpace_def)
qed

lemma EncodeToString_ascii: "utf8_ok (EncodeToString p) \<and> CHR 0x00 \<notin> set (EncodeToString p)"
proof -
  have "\<forall>c \<in> set (EncodeToString p). code c < 128 \<and> c \<noteq> CHR 0x00"
    using EncodeToString_hex [where s = p] by fastforce
  then show ?thesis using utf8_ok_all_ascii by blast
qed

lemma demo_libs_ok: "libs_ok demo_libs"
proof -
  have "t \<noteq> [] \<and> TrimSpace t = t \<and> \<not> has_prefix ''Bearer'' t" if "demo_sign s c = Some t" for s c t
    using demo_sign_trim [OF that] demo_sign_shape [OF that] by auto
  moreover have "demo_sign s c \<noteq> None" for s c by (simp add: demo_sign_def)
  ultimately show ?thesis
    using demo_decode_sign EncodeToString_ascii
    unfolding libs_ok_def demo_libs_def demo_parse_token_def
    by (auto split: option.splits sum.splits if_splits)
qed

end
