(* ===== verification/Handler_Props.thy ===== *)
theory Handler_Props
  imports Handler_Runs Store_Props Demo_Libs
begin

text \<open>
  The properties of the API. Every request refines the database specification, a client error
  leaves the tables as they are, no request touches or reveals another user's jobs, and the handlers do
  what the documentation of their routes says, branch by branch.
\<close>

section \<open>Refinement\<close>

lemma apply_update_positive:
  assumes "job_ok job"
  shows "0 < job_MaxRetries (apply_update req job)" "0 < job_TimeoutSeconds (apply_update req job)"
    "0 < job_Version (apply_update req job)"
  using assms by (auto simp: apply_update_def Let_def job_ok_def split: option.splits)

lemma endpoint_steps:
  assumes "env_ok env" and "db_ok (pg w)"
  shows "db_steps env (pg w) (pg (snd (endpoint_handler cf env h r w)))"
proof (cases "endpoint_handler cf env h r w")
  case (Pair resp w')
  show ?thesis
  proof (cases h)
    case Register
    with Pair have "registerHandler (cf_libs cf) env (cf_secret cf) r w = (resp, w')" by simp
    then show ?thesis
      using CreateUser_steps [OF assms(1), of "bump w"] Pair
      by (cases rule: registerHandler_run) auto
  next
    case CreateJob
    with Pair have "createJobHandler (cf_float cf) env r w = (resp, w')" by simp
    then show ?thesis
      using CreateJob_steps [OF assms(1)] Pair
      by (cases rule: createJobHandler_run) auto
  next
    case UpdateJob
    with Pair have "updateJobHandler env r w = (resp, w')" by simp
    then show ?thesis
    proof (cases rule: updateJobHandler_run)
      case (run req job k w1)
      have "job_ok job" using assms(2) find_by_SomeD [OF run(3)] by (simp add: db_ok_def jobs_ok_def)
      then show ?thesis
        using UpdateJobDetails_steps [OF apply_update_positive] run Pair by (metis snd_conv)
    qed (use Pair in auto)
  next
    case RemoveJob
    with Pair have "deleteJobHandler env r w = (resp, w')" by simp
    then show ?thesis
    proof (cases rule: deleteJobHandler_run)
      case (run job k w1)
      then show ?thesis using DeleteJob_steps [of env w1] Pair by (metis snd_conv)
    qed (use Pair in auto)
  qed (simp_all add: healthHandler_def world_simps)
qed

section \<open>Client errors\<close>

lemma endpoint_client_error:
  assumes "endpoint_handler cf env h r w = (resp, w')" and "client_error resp"
  shows "pg w' = pg w"
proof (cases h)
  case Register
  with assms have "registerHandler (cf_libs cf) env (cf_secret cf) r w = (resp, w')" by simp
  then show ?thesis by (cases rule: registerHandler_run) (use assms(2) in auto)
next
  case CreateJob
  with assms have "createJobHandler (cf_float cf) env r w = (resp, w')" by simp
  then show ?thesis by (cases rule: createJobHandler_run) (use assms(2) in auto)
next
  case UpdateJob
  with assms have "updateJobHandler env r w = (resp, w')" by simp
  then show ?thesis by (cases rule: updateJobHandler_run) (use assms(2) in auto)
next
  case RemoveJob
  with assms have "deleteJobHandler env r w = (resp, w')" by simp
  then show ?thesis by (cases rule: deleteJobHandler_run) (use assms(2) in auto)
next
  case Login
  with assms loginHandler_pg [of "cf_libs cf" env "cf_secret cf" r w] show ?thesis by simp
next
  case ListJobs
  with assms listJobsHandler_pg [of "cf_time cf" env r w] show ?thesis by simp
next
  case GetJob
  with assms getJobHandler_pg [of "cf_time cf" env r w] show ?thesis by simp
next
  case Health
  with assms show ?thesis by (simp add: healthHandler_def)
qed

text \<open>The routes behind the middleware and the user a request is served for.\<close>

lemma serve_cases:
  assumes "serve cf env route r w = Some (resp, w')"
  obtains (refused) e where "ValidateAccessToken (cf_libs cf) (cf_secret cf) (rq_Authorization r) (e_gonow env (tick w)) = Inl e"
      "resp = http_Error ''invalid access token'' 401" "w' = bump w"
  | (protected) h c where "map_of RegisterRoutes route = Some (h, True)"
      "ValidateAccessToken (cf_libs cf) (cf_secret cf) (rq_Authorization r) (e_gonow env (tick w)) = Inr c"
      "endpoint_handler cf env h (r\<lparr>rq_claims := Some c\<rparr>) (bump w) = (resp, w')"
  | (public) h where "map_of RegisterRoutes route = Some (h, False)"
      "endpoint_handler cf env h (r\<lparr>rq_claims := None\<rparr>) w = (resp, w')"
  using assms
  by (auto simp: serve_def NewJWTAuth_def split: option.splits if_splits sum.splits)

text \<open>C12: A request answered with a client error has changed nothing: whatever the route, the request
  and the schedule of failures, a status from 400 to 499 leaves the tables as they were.\<close>

theorem client_error_changes_nothing:
  assumes "serve cf env route r w = Some (resp, w')" and "400 \<le> rs_Status resp" and "rs_Status resp < 500"
  shows "pg w' = pg w"
  using assms(1)
proof (cases rule: serve_cases)
  case (protected h c)
  from endpoint_client_error [OF protected(3)] assms(2,3) show ?thesis by (simp add: client_error_def)
next
  case (public h)
  from endpoint_client_error [OF public(2)] assms(2,3) show ?thesis by (simp add: client_error_def)
qed simp

lemma request_steps:
  assumes "env_ok env" and "db_ok (pg w)" and "serve cf env route r w = Some (resp, w')"
  shows "db_steps env (pg w) (pg w')"
  using assms(3)
proof (cases rule: serve_cases)
  case (protected h c)
  with endpoint_steps [OF assms(1), of "bump w" cf h "r\<lparr>rq_claims := Some c\<rparr>"] assms(2)
  show ?thesis by simp
next
  case (public h)
  with endpoint_steps [OF assms(1,2), of cf h "r\<lparr>rq_claims := None\<rparr>"] show ?thesis by simp
qed simp

text \<open>C1: Every request refines the specification of the database: under every schedule of failures it
  takes the tables through steps of \<open>db_step\<close>, so it keeps the invariants of the database.\<close>

theorem serve_refines:
  assumes "env_ok env" and "db_ok (pg w)" and "serve cf env route r w = Some (resp, w')"
  shows "db_steps env (pg w) (pg w') \<and> db_ok (pg w')"
  using request_steps [OF assms] db.steps assms(2) by blast

section \<open>Other users' jobs\<close>

definition foreign_jobs :: "env \<Rightarrow> string \<Rightarrow> tables \<Rightarrow> StoreJob list" where
  \<comment> \<open>the jobs of everybody but this user\<close>
  "foreign_jobs env userID t = filter (\<lambda>j. e_uuid_in env userID \<noteq> Some (job_UserID j)) (jobs t)"

lemma foreign_jobs_same: "jobs t' = jobs t \<Longrightarrow> foreign_jobs env u t' = foreign_jobs env u t"
  by (simp add: foreign_jobs_def)

lemma foreign_create:
  assumes "env_ok env"
  shows "foreign_jobs env u (pg (snd (CreateJobWithIdempotency env u h meth path (params\<lparr>cp_UserID := u\<rparr>) w)))
    = foreign_jobs env u (pg w)"
proof -
  obtain r w' where c: "CreateJobWithIdempotency env u h meth path (params\<lparr>cp_UserID := u\<rparr>) w = (r, w')"
    by (metis surj_pair)
  have new: "foreign_jobs env u (pg w') = foreign_jobs env u (pg w)"
    if "created env u h meth path (params\<lparr>cp_UserID := u\<rparr>) (pg w) (pg w') job" for job
  proof -
    from created_tables [OF assms that] have "jobs (pg w') = jobs (pg w) @ [job]"
      "e_uuid_in env u = Some (job_UserID job)" by simp_all
    then show ?thesis by (simp add: foreign_jobs_def)
  qed
  from c show ?thesis by (cases rule: CreateJob_run) (use c new in auto)
qed

lemma foreign_auto_stmt:
  assumes "\<And>x t'. f (pg w) = Inr (x, t') \<Longrightarrow> foreign_jobs env u t' = foreign_jobs env u (pg w)"
  shows "foreign_jobs env u (pg (snd (auto_stmt env f w))) = foreign_jobs env u (pg w)"
proof (cases "auto_stmt env f w")
  case (Pair r w')
  then show ?thesis by (cases rule: auto_stmt_cases) (use Pair assms in auto)
qed

lemma foreign_update:
  "foreign_jobs env u (pg (snd (UpdateJobDetails env k u nm url mr ts v w))) = foreign_jobs env u (pg w)"
  unfolding UpdateJobDetails_def
proof (rule foreign_auto_stmt)
  fix x t'
  assume "sql_update_job env (e_pgnow env (tick w)) k u nm url mr ts v (pg w) = Inr (x, t')"
  then obtain k' u' f where "e_uuid_in env u = Some u'"
    and t': "t' = (pg w)\<lparr>jobs := upd_by job_ID k' (\<lambda>j. if job_UserID j = u' then f j else j) (jobs (pg w))\<rparr>"
    and "\<forall>j. job_UserID (f j) = job_UserID j"
    by (rule sql_update_jobE) auto
  then have "filter (\<lambda>j. u' \<noteq> job_UserID j) (upd_by job_ID k' (\<lambda>j. if job_UserID j = u' then f j else j) rows)
      = filter (\<lambda>j. u' \<noteq> job_UserID j) rows" for rows
    by (induction rows) (auto simp: upd_by_def)
  with \<open>e_uuid_in env u = Some u'\<close> show "foreign_jobs env u t' = foreign_jobs env u (pg w)"
    unfolding t' by (simp add: foreign_jobs_def)
qed

lemma foreign_delete: "foreign_jobs env u (pg (snd (DeleteJob env k u w))) = foreign_jobs env u (pg w)"
  unfolding DeleteJob_def
proof (rule foreign_auto_stmt)
  fix x t'
  assume "sql_delete_job env k u (pg w) = Inr (x, t')"
  then show "foreign_jobs env u t' = foreign_jobs env u (pg w)"
    by (rule sql_delete_jobE) (auto simp: foreign_jobs_def intro!: filter_cong)
qed

text \<open>C10: A request can only change its own user's jobs: whatever the route, the request and the
  schedule of failures, when the token names a user, the jobs of everybody else are after the
  request what they were before.\<close>

theorem foreign_jobs_untouched:
  assumes "env_ok env" and "serve cf env route r w = Some (resp, w')"
    and "ValidateAccessToken (cf_libs cf) (cf_secret cf) (rq_Authorization r) (e_gonow env (tick w)) = Inr c"
    and "map_of RegisterRoutes route = Some (h, True)"
  shows "foreign_jobs env (lc_Subject c) (pg w') = foreign_jobs env (lc_Subject c) (pg w)"
proof -
  let ?r = "r\<lparr>rq_claims := Some c\<rparr>" and ?u = "lc_Subject c"
  have u: "getUserID ?r = ?u" by (simp add: getUserID_def GetJWTClaims_def)
  have run: "endpoint_handler cf env h ?r (bump w) = (resp, w')"
    using assms(2-4) by (simp add: serve_def NewJWTAuth_def)
  consider "h = CreateJob" | "h = ListJobs" | "h = GetJob" | "h = UpdateJob" | "h = RemoveJob"
    using assms(4) by (auto simp: RegisterRoutes_def split: if_splits)
  then show ?thesis
  proof cases
    case 1
    with run have "createJobHandler (cf_float cf) env ?r (bump w) = (resp, w')" by simp
    then show ?thesis
    proof (cases rule: createJobHandler_run)
      case (run p params)
      then have "params\<lparr>cp_UserID := ?u\<rparr> = params" using u by simp
      with run u foreign_create [OF assms(1), of ?u _ _ _ params "bump w"] show ?thesis by simp
    qed simp
  next
    case 2
    with run listJobsHandler_pg [of "cf_time cf" env ?r "bump w"] show ?thesis by simp
  next
    case 3
    with run getJobHandler_pg [of "cf_time cf" env ?r "bump w"] show ?thesis by simp
  next
    case 4
    with run have "updateJobHandler env ?r (bump w) = (resp, w')" by simp
    then show ?thesis by (cases rule: updateJobHandler_run) (use u foreign_update in simp_all)
  next
    case 5
    with run have "deleteJobHandler env ?r (bump w) = (resp, w')" by simp
    then show ?thesis by (cases rule: deleteJobHandler_run) (use u foreign_delete in simp_all)
  qed
qed

section \<open>Authentication\<close>

lemma jobs_routes:
  assumes "has_prefix ''/jobs'' (snd route)" and "map_of RegisterRoutes route = Some (h, p)"
  shows "p \<and> h \<in> {CreateJob, ListJobs, GetJob, UpdateJob, RemoveJob}"
  using assms by (auto simp: RegisterRoutes_def split: if_splits)

text \<open>C11: Every route under \<open>/jobs\<close> is protected: without a token that validates the request is
  refused with 401 and no handler runs; a token that validates but names no subject is refused
  with 401 as well. Either way the tables, the queue and the webhook log are as before.\<close>

theorem unauthenticated_refused:
  assumes "has_prefix ''/jobs'' (snd route)" and "serve cf env route r w = Some (resp, w')"
    and "isl (ValidateAccessToken (cf_libs cf) (cf_secret cf) (rq_Authorization r) (e_gonow env (tick w))) \<or>
      lc_Subject (projr (ValidateAccessToken (cf_libs cf) (cf_secret cf) (rq_Authorization r) (e_gonow env (tick w)))) = []"
  shows "rs_Status resp = 401 \<and> pg w' = pg w \<and> redis w' = redis w \<and> posts w' = posts w"
proof -
  let ?v = "ValidateAccessToken (cf_libs cf) (cf_secret cf) (rq_Authorization r) (e_gonow env (tick w))"
  from assms(2) obtain h p where "map_of RegisterRoutes route = Some (h, p)"
    by (auto simp: serve_def split: option.splits)
  with jobs_routes [OF assms(1)] have h: "map_of RegisterRoutes route = Some (h, True)"
    "h \<in> {CreateJob, ListJobs, GetJob, UpdateJob, RemoveJob}" by auto
  show ?thesis
  proof (cases ?v)
    case (Inl e)
    with assms(2) h show ?thesis by (auto simp: serve_def NewJWTAuth_def)
  next
    case (Inr c)
    with assms(3) have u: "getUserID (r\<lparr>rq_claims := Some c\<rparr>) = []"
      by (simp add: getUserID_def GetJWTClaims_def)
    with assms(2) h Inr u show ?thesis
      by (auto simp: serve_def NewJWTAuth_def createJobHandler_def listJobsHandler_def getJobHandler_def
          updateJobHandler_def deleteJobHandler_def)
  qed
qed

section \<open>Reading\<close>

lemma GetJobByID_healthy:
  assumes "healthy env"
  shows "GetJobByID env k w =
    (case e_uuid_in env k of
       None \<Rightarrow> Inl (ErrInput ''uuid'')
     | Some k' \<Rightarrow> (case find_by job_ID k' (jobs (pg w)) of None \<Rightarrow> Inl ErrNoRows | Some j \<Rightarrow> Inr j), bump w)"
  by (simp add: GetJobByID_def GetJobByIDTx_def queryRow_def healthy_simps [OF assms] sql_job_by_id_def
      split: option.splits)

definition stored_job :: "env \<Rightarrow> string \<Rightarrow> world \<Rightarrow> StoreJob option" where
  \<comment> \<open>the job a path parameter names\<close>
  "stored_job env k w = Option.bind (e_uuid_in env k) (\<lambda>k'. find_by job_ID k' (jobs (pg w)))"

lemma GetJobByID_stored:
  assumes "healthy env"
  shows "\<exists>e. GetJobByID env k w = (case stored_job env k w of None \<Rightarrow> Inl e | Some j \<Rightarrow> Inr j, bump w)"
  by (cases "e_uuid_in env k"; cases "stored_job env k w")
    (auto simp: GetJobByID_healthy [OF assms] stored_job_def)

text \<open>Fetching a job, on a healthy database: 404 when the path names no stored job, 403 when it names
  another user's, and 200 with the stored job's fields when it is the caller's.\<close>

theorem get_job_response:
  assumes "healthy env" and "getUserID r \<noteq> []"
  shows "fst (getJobHandler tj env r w) =
    (case stored_job env (rq_jobID r) w of
       None \<Rightarrow> message 404 ''job not found''
     | Some job \<Rightarrow>
         if job_UserID job \<noteq> getUserID r then message 403 ''forbidden''
         else with_data 200 ''job fetched'' (job_value tj job))"
  using GetJobByID_stored [OF assms(1), of "rq_jobID r" w] assms(2)
  by (auto simp: getJobHandler_def Let_def split: option.splits)

text \<open>C29: Listing, on a healthy database, for a caller whose identifier is a UUID: the page number \<open>p\<close> is
  the parameter \<^verbatim>\<open>page\<close>, or 1 when that is not a positive number, and the page size \<open>n\<close> is the parameter
  \<^verbatim>\<open>page_size\<close>, or 20 when that is not a positive number, with no upper bound. The answer is 200 with
  the at most \<open>n\<close> jobs that follow the first \<open>(p - 1) * n\<close> in a list of exactly his jobs, newest first,
  where that product is taken in 64 bits; when it is negative there, the answer is 500.\<close>

theorem list_jobs_response:
  assumes "healthy env" and "getUserID r \<noteq> []" and "e_uuid_in env (getUserID r) = Some u"
    and "p = (if 0 < fst (atoi (rq_Query r ''page'')) then fst (atoi (rq_Query r ''page'')) else 1)"
    and "n = (if 0 < fst (atoi (rq_Query r ''page_size'')) then fst (atoi (rq_Query r ''page_size'')) else 20)"
    and "off = wrap64 ((p - 1) * n)"
  shows "\<exists>js. sorted_wrt (\<lambda>a b. job_CreatedAt b \<le> job_CreatedAt a) js \<and>
    mset js = filter_mset (\<lambda>j. job_UserID j = u) (mset (jobs (pg w))) \<and>
    fst (listJobsHandler tj env r w) =
      (if off < 0 then message 500 ''failed to list jobs''
       else with_data 200 ''jobs listed'' (GSlice (map (job_value tj) (take (nat n) (drop (nat off) js)))))"
proof (intro exI [of _ "jobs_of env (tick w) u (pg w)"] conjI)
  have "page_of r = p" "page_size_of r = n" "0 < n"
    using assms(4,5) by (auto simp: page_of_def page_size_of_def Let_def)
  then show "fst (listJobsHandler tj env r w) =
      (if off < 0 then message 500 ''failed to list jobs''
       else with_data 200 ''jobs listed''
         (GSlice (map (job_value tj) (take (nat n) (drop (nat off) (jobs_of env (tick w) u (pg w)))))))"
    using assms(2,6)
    by (simp add: listJobsHandler_def Let_def wrap64_mult ListJobsByUser_run [OF assms(1,3)])
qed (use jobs_of_listing in \<open>auto simp: listing_def\<close>)

text \<open>The offset is the right one as long as it fits 64 bits, and the page number and size given in
  decimal are the ones used.\<close>

lemma list_offset_exact:
  assumes "rq_Query r ''page'' = itoa p" and "rq_Query r ''page_size'' = itoa n"
    and "int64_ok p" and "int64_ok n" and "0 < p" and "0 < n" and "int64_ok ((p - 1) * n)"
  shows "page_of r = p \<and> page_size_of r = n \<and> wrap64 (wrap64 (page_of r - 1) * page_size_of r) = (p - 1) * n"
proof -
  have "page_of r = p" "page_size_of r = n"
    using assms by (simp_all add: page_of_def page_size_of_def atoi_itoa)
  moreover have "int64_ok (p - 1)"
    using assms(3,5) by (simp add: int64_ok_def min_int64_def)
  ultimately show ?thesis using assms(7) by (simp add: wrap64_id)
qed

section \<open>Updating and deleting\<close>

definition update_fits :: "env \<Rightarrow> StoreJob \<Rightarrow> bool" where
  \<comment> \<open>the updated fields fit their columns\<close>
  "update_fits env job \<longleftrightarrow> e_text_ok env (job_Name job) \<and> e_text_ok env (job_WebhookURL job) \<and>
    int4_ok (job_MaxRetries job) \<and> int4_ok (job_TimeoutSeconds job) \<and> int4_ok (job_Version job)"

lemma apply_update_keeps:
  "job_ID (apply_update req job) = job_ID job" "job_UserID (apply_update req job) = job_UserID job"
  by (simp_all add: apply_update_def Let_def split: option.splits)

definition put_fields :: "updateJobRequest \<Rightarrow> StoreJob \<Rightarrow> int \<Rightarrow> StoreJob \<Rightarrow> StoreJob" where
  \<comment> \<open>what the write does to a stored row: the five columns are set to what was read and requested,
     whatever they are by then\<close>
  "put_fields req job now i =
    (if job_UserID i = job_UserID job
     then i\<lparr>job_Name := job_Name (apply_update req job), job_WebhookURL := job_WebhookURL (apply_update req job),
       job_MaxRetries := job_MaxRetries (apply_update req job),
       job_TimeoutSeconds := job_TimeoutSeconds (apply_update req job),
       job_Version := job_Version (apply_update req job), job_UpdatedAt := now\<rparr>
     else i)"

lemma put_fields_own: "put_fields req job now job = (apply_update req job)\<lparr>job_UpdatedAt := now\<rparr>"
  by (simp add: put_fields_def apply_update_def Let_def split: option.splits)

lemma put_fields_again:
  "put_fields req' job now' ((apply_update req job)\<lparr>job_UpdatedAt := now\<rparr>) = (apply_update req' job)\<lparr>job_UpdatedAt := now'\<rparr>"
proof -
  have "put_fields req' job now' (put_fields req job now job) = put_fields req' job now' job"
    by (simp add: put_fields_def)
  then show ?thesis by (simp only: put_fields_own)
qed

lemma sql_update_fits:
  assumes "e_uuid_in env (job_ID job) = Some (job_ID job)" and "e_uuid_in env (job_UserID job) = Some (job_UserID job)"
    and "update_fits env (apply_update req job)"
  shows "sql_update_job env now (job_ID job) (job_UserID job) (job_Name (apply_update req job))
    (job_WebhookURL (apply_update req job)) (job_MaxRetries (apply_update req job))
    (job_TimeoutSeconds (apply_update req job)) (job_Version (apply_update req job)) t =
    Inr ((), t\<lparr>jobs := upd_by job_ID (job_ID job) (put_fields req job now) (jobs t)\<rparr>)"
  unfolding sql_update_job_def assms(1,2) put_fields_def [abs_def]
  using assms(3) by (simp only: update_fits_def prod.case option.case not_True_eq_False if_False simp_thms)

lemma write_update_healthy:
  assumes "healthy env" and "e_uuid_in env (job_ID job) = Some (job_ID job)"
    and "e_uuid_in env (job_UserID job) = Some (job_UserID job)" and "update_fits env (apply_update req job)"
  shows "write_update env req job w = (Inr (), bump (w\<lparr>pg := (pg w)\<lparr>jobs :=
    upd_by job_ID (job_ID job) (put_fields req job (e_pgnow env (tick w))) (jobs (pg w))\<rparr>\<rparr>))"
  unfolding write_update_def Let_def apply_update_keeps UpdateJobDetails_def healthy_simps [OF assms(1)]
    sql_update_fits [OF assms(2-4)]
  by simp

lemma write_update_row:
  assumes "schema_ok t" and "job \<in> set (jobs t)"
  shows "upd_by job_ID (job_ID job) (put_fields req job n) (jobs t) =
    upd_by job_ID (job_ID job) (\<lambda>_. (apply_update req job)\<lparr>job_UpdatedAt := n\<rparr>) (jobs t)"
proof -
  have "i = job" if "i \<in> set (jobs t)" "job_ID i = job_ID job" for i
    using that assms by (simp add: schema_ok_def keys_ok_def distinct_map inj_on_def)
  then show ?thesis unfolding upd_by_def by (intro map_cong refl) (metis put_fields_own)
qed

definition or_else :: "'a option \<Rightarrow> 'a \<Rightarrow> 'a" where
  \<comment> \<open>the value given, or the old one\<close>
  "or_else given old = (case given of Some x \<Rightarrow> x | None \<Rightarrow> old)"

definition or_else_positive :: "int option \<Rightarrow> int \<Rightarrow> int" where
  \<comment> \<open>the number given if it is positive, or the old one\<close>
  "or_else_positive given old = (case given of Some x \<Rightarrow> if 0 < x then x else old | None \<Rightarrow> old)"

lemma apply_update_fields:
  "apply_update req job = job\<lparr>job_Name := or_else (uj_Name req) (job_Name job),
    job_WebhookURL := or_else (uj_WebhookURL req) (job_WebhookURL job),
    job_Version := or_else_positive (uj_Version req) (job_Version job),
    job_MaxRetries := or_else_positive (uj_MaxRetries req) (job_MaxRetries job),
    job_TimeoutSeconds := or_else_positive (uj_TimeoutSeconds req) (job_TimeoutSeconds job)\<rparr>"
  by (simp add: apply_update_def Let_def or_else_def or_else_positive_def split: option.splits)

text \<open>C26: Updating a job of the caller's, on a healthy database: the answer is 200 and in the stored row
  the name and the URL are those of the request when it has them, the version, the maximal number of
  attempts and the timeout are those of the request when it has them and they are positive, and
  \<open>updated_at\<close> is new; every other field, so the owner, the type, the state, the attempts and the
  payload the webhook receives, stays as it is, and so do all other rows.\<close>

theorem update_job_effect:
  assumes "healthy env" and "ids_ok env (pg w)"
    and "stored_job env (rq_jobID r) w = Some job" and "job_UserID job = getUserID r" and "getUserID r \<noteq> []"
    and "e_uuid_in env (getUserID r) = Some (getUserID r)"
    and "decode_body True update_job_fields no_update_job r = Some req" and "\<not> nothing_to_update req"
    and "updated = job\<lparr>job_Name := (case uj_Name req of Some name \<Rightarrow> name | None \<Rightarrow> job_Name job),
      job_WebhookURL := (case uj_WebhookURL req of Some url \<Rightarrow> url | None \<Rightarrow> job_WebhookURL job),
      job_Version := (case uj_Version req of Some v \<Rightarrow> if 0 < v then v else job_Version job | None \<Rightarrow> job_Version job),
      job_MaxRetries := (case uj_MaxRetries req of
        Some m \<Rightarrow> if 0 < m then m else job_MaxRetries job | None \<Rightarrow> job_MaxRetries job),
      job_TimeoutSeconds := (case uj_TimeoutSeconds req of
        Some s \<Rightarrow> if 0 < s then s else job_TimeoutSeconds job | None \<Rightarrow> job_TimeoutSeconds job)\<rparr>"
    and "update_fits env updated" and "schema_ok (pg w)"
  shows "\<exists>now w'. updateJobHandler env r w = (message 200 ''job updated'', w') \<and>
    pg w' = (pg w)\<lparr>jobs := upd_by job_ID (job_ID job) (\<lambda>_. updated\<lparr>job_UpdatedAt := now\<rparr>) (jobs (pg w))\<rparr>"
proof -
  have updated: "apply_update req job = updated"
    unfolding assms(9) apply_update_fields or_else_def or_else_positive_def ..
  from assms(3) have row: "job \<in> set (jobs (pg w))"
    by (auto simp: stored_job_def bind_eq_Some_conv dest: find_by_SomeD)
  have k: "e_uuid_in env (job_ID job) = Some (job_ID job)" using ids_okD(2) [OF assms(2) row] .
  have u: "e_uuid_in env (job_UserID job) = Some (job_UserID job)" using assms(4,6) by simp
  have "GetJobByID env (rq_jobID r) w = (Inr job, bump w)"
    using GetJobByID_stored [OF assms(1), of "rq_jobID r" w] assms(3) by auto
  moreover have "\<exists>now w'. write_update env req job (bump w) = (Inr (), w') \<and> pg w' = (pg w)\<lparr>jobs :=
      upd_by job_ID (job_ID job) (\<lambda>_. updated\<lparr>job_UpdatedAt := now\<rparr>) (jobs (pg w))\<rparr>"
    using write_update_healthy [OF assms(1) k u, of req "bump w"] write_update_row [OF assms(11) row, of req]
    by (auto simp: updated assms(10))
  ultimately show ?thesis
    using assms(4,5,7,8) by (auto simp: updateJobHandler_def Let_def)
qed


end
