(* ===== verification/Handler_Flows.thy ===== *)
theory Handler_Flows
  imports Handler_Props
begin

text \<open>
  Properties of several requests together: repeating a job request, and registering and then
  logging in. The second request may meet other failures and another clock: \<open>env'\<close> is an
  environment of its own, over the same PostgreSQL.
\<close>

section \<open>Repeating a job request\<close>

lemma payload_hash_text:
  assumes "env_ok env"
  shows "e_text_ok env (payload_hash p)"
  using env_okD(5) [OF assms] EncodeToString_ascii by (simp add: payload_hash_def)

text \<open>C5: Sending the same job twice creates it once. When the first request took effect, even if its
  client was told of a server error because a reply was lost, a second request of the same user whose
  body asks for the same job, however it is written, is answered with 200 and that job, and changes
  nothing. Bodies ask for the same job when they differ in layout, in the order of their members, or
  in spelling out a default.\<close>

theorem create_handler_idempotent:
  assumes "env_ok env" and "schema_ok (pg w)" and "ids_ok env (pg w)"
    and "requested_payload r = Some p" and "requested_payload r' = Some p"
    and "getUserID r \<noteq> []" and "getUserID r' = getUserID r"
    and "createJobHandler ft env r w = (resp, w1)" and "pg w1 \<noteq> pg w"
    and "same_inputs env env'" and "healthy env'" and "pg w2 = pg w1"
  shows "\<exists>job w3. jobs (pg w1) = jobs (pg w) @ [job] \<and>
    (resp = job_response False job \<or> resp = message 500 ''failed to register job'') \<and>
    createJobHandler ft env' r' w2 = (job_response True job, w3) \<and> pg w3 = pg w1"
proof -
  let ?u = "getUserID r" and ?ps = "create_params (getUserID r) p (payload_bytes p)"
  obtain x wx where c: "CreateJobWithIdempotency env ?u (payload_hash p) ''POST'' ''/jobs'' ?ps w = (x, wx)"
    by (metis surj_pair)
  from assms(8) createJobHandler_eq [OF assms(6,4), of ft env w] c
  have w1: "wx = w1" and resp: "resp = (case x of Inl _ \<Rightarrow> message 500 ''failed to register job''
      | Inr (job, existing) \<Rightarrow> job_response existing job)"
    by (auto split: sum.splits prod.splits)
  have hash_ok: "e_text_ok env (payload_hash p)" by (rule payload_hash_text [OF assms(1)])
  have user: "cp_UserID ?ps = ?u" by (simp add: create_params_def)
  from create_retry_finds_job [OF assms(1) user assms(2,3) c [unfolded w1] assms(9,10,11) hash_ok assms(12)]
  obtain job w3 where again: "CreateJobWithIdempotency env' ?u (payload_hash p) ''POST'' ''/jobs'' ?ps w2
      = (Inr (job, True), w3)" and w3: "pg w3 = pg w1" and new: "jobs (pg w1) = jobs (pg w) @ [job]"
    by blast
  have "createJobHandler ft env' r' w2 = (job_response True job, w3)"
    using createJobHandler_eq [of r' p ft env' w2] assms(5-7) again by simp
  moreover have "resp = job_response False job \<or> resp = message 500 ''failed to register job''"
    using c [unfolded w1]
  proof (cases rule: CreateJob_run)
    case (created job')
    then have "jobs (pg w1) = jobs (pg w) @ [job']" using created_tables [OF assms(1)] by blast
    with new have "job' = job" by simp
    with created resp show ?thesis by simp
  qed (use resp assms(9) in auto)
  ultimately show ?thesis using new w3 by blast
qed

section \<open>Two updates at once\<close>

lemma write_update_done:
  assumes "healthy env" and "ids_ok env (pg w)" and "schema_ok (pg w)" and "job \<in> set (jobs (pg w))"
    and "e_uuid_in env (job_UserID job) = Some (job_UserID job)" and "update_fits env (apply_update req job)"
  shows "write_update env req job w = (Inr (), bump (w\<lparr>pg := (pg w)\<lparr>jobs := upd_by job_ID (job_ID job)
    (\<lambda>_. (apply_update req job)\<lparr>job_UpdatedAt := e_pgnow env (tick w)\<rparr>) (jobs (pg w))\<rparr>\<rparr>))"
  using write_update_healthy [OF assms(1) ids_okD(2) [OF assms(2,4)] assms(5,6)]
    write_update_row [OF assms(3,4)] by simp

text \<open>C27: An update can be lost: the handler reads the job in one statement and writes all its columns
  in another. When two updates of a job read it before either writes, both are answered with
  success and the table holds what the second one alone would have left: the fields that only
  the first one set are back at their old values.\<close>

theorem concurrent_updates_lose:
  assumes "healthy env" and "ids_ok env (pg w)" and "schema_ok (pg w)"
    and "GetJobByID env k w = (Inr job, w1)" and "GetJobByID env k' w1 = (Inr job', w2)"
    and "job_ID job' = job_ID job" and "e_uuid_in env (job_UserID job) = Some (job_UserID job)"
    and "update_fits env (apply_update req job)" and "update_fits env (apply_update req' job')"
    and "write_update env req job w2 = (x, w3)" and "write_update env req' job' w3 = (x', w4)"
  shows "x = Inr () \<and> x' = Inr () \<and> (\<exists>now. pg w4 = (pg w)\<lparr>jobs := upd_by job_ID (job_ID job)
    (\<lambda>_. (apply_update req' job)\<lparr>job_UpdatedAt := now\<rparr>) (jobs (pg w))\<rparr>)"
proof -
  let ?put = "\<lambda>req now. (pg w)\<lparr>jobs := upd_by job_ID (job_ID job)
    (\<lambda>_. (apply_update req job)\<lparr>job_UpdatedAt := now\<rparr>) (jobs (pg w))\<rparr>"
  have same: "pg w1 = pg w" "pg w2 = pg w"
    using GetJobByID_same [OF assms(4)] GetJobByID_same [OF assms(5)] by simp_all
  have row: "job \<in> set (jobs (pg w))" "job' \<in> set (jobs (pg w))"
    using assms(4,5) same by (auto simp: GetJobByID_healthy [OF assms(1)] dest: find_by_SomeD split: option.splits)
  have job: "job' = job"
    using row assms(3,6) by (simp add: schema_ok_def keys_ok_def distinct_map inj_on_def)
  note k = ids_okD(2) [OF assms(2) row(1)]
  from write_update_done [OF assms(1) _ _ _ assms(7,8), of w2] row assms(2,3,10) same
  have first: "x = Inr ()" "pg w3 = ?put req (e_pgnow env (tick w2))" by auto
  from write_update_healthy [OF assms(1) k assms(7), of req' w3] assms(9,11) job
  have second: "x' = Inr ()" "pg w4 = (pg w3)\<lparr>jobs := upd_by job_ID (job_ID job)
    (put_fields req' job (e_pgnow env (tick w3))) (jobs (pg w3))\<rparr>" by auto
  have "pg w4 = ?put req' (e_pgnow env (tick w3))"
    unfolding second(2) first(2) by (simp add: upd_by_upd_by apply_update_keeps put_fields_again)
  with first(1) second(1) show ?thesis by blast
qed

section \<open>Login\<close>

lemma issue_tokens_total:
  assumes "libs_ok L"
  obtains a t w' where "issue_tokens L env secret u email w = (Some (a, t), w')"
    and "GenerateAccessToken L secret u email (15 * minute) (e_gonow env (tick w)) (e_gonow env (tick w + 1)) = Some a"
proof -
  obtain a where a: "GenerateAccessToken L secret u email (15 * minute) (e_gonow env (tick w))
      (e_gonow env (tick w + 1)) = Some a"
    using libs_okD(7) [OF assms] by (auto simp: GenerateAccessToken_def)
  moreover obtain t where "GenerateRefreshToken L secret u (7 * 24 * 60 * minute)
      (e_gonow env (tick w + 2)) (e_gonow env (tick w + 3)) = Some t"
    using libs_okD(7) [OF assms] by (auto simp: GenerateRefreshToken_def)
  ultimately have "issue_tokens L env secret u email w = (Some (a, t), bump (bump (bump (bump w))))"
    by (simp add: issue_tokens_def Let_def)
  from that [OF this a] show thesis .
qed

definition account :: "env \<Rightarrow> string \<Rightarrow> world \<Rightarrow> StoreUser option" where
  \<comment> \<open>the user an email names\<close>
  "account env email w =
    (if e_text_ok env email then find_by user_Email email (users (pg w)) else None)"

lemma GetUserByEmail_account:
  assumes "healthy env"
  shows "\<exists>e. GetUserByEmail env email w = (case account env email w of None \<Rightarrow> Inl e | Some u \<Rightarrow> Inr u, bump w)"
  by (auto simp: GetUserByEmail_def healthy_simps [OF assms] sql_user_by_email_def account_def split: option.splits)

lemma loginHandler_accepts:
  assumes "healthy env" and "libs_ok L" and "decode_body False auth_fields no_auth r = Some req"
    and "ar_Email req \<noteq> []" and "ar_Password req \<noteq> []" and "account env (ar_Email req) w = Some user"
    and "bc_Compare L (user_PasswordHash user) (ar_Password req)"
  obtains a t where "fst (loginHandler L env secret r w) =
      with_data 200 ''login successful'' (token_data (user_ID user) a t)"
    and "GenerateAccessToken L secret (user_ID user) (ar_Email req) (15 * minute) (e_gonow env (tick w + 1))
      (e_gonow env (tick w + 2)) = Some a"
proof -
  obtain a t w' where "issue_tokens L env secret (user_ID user) (ar_Email req) (bump w) = (Some (a, t), w')"
    "GenerateAccessToken L secret (user_ID user) (ar_Email req) (15 * minute) (e_gonow env (tick w + 1))
      (e_gonow env (tick w + 2)) = Some a"
    by (rule issue_tokens_total [OF assms(2), of env secret "user_ID user" "ar_Email req" "bump w"]) simp
  with that [of a t] assms GetUserByEmail_account [OF assms(1), of "ar_Email req" w] show thesis
    by (auto simp: loginHandler_def ComparePassword_def)
qed

text \<open>C23: Login, on a healthy database: 400 for a body that is no credentials object or lacks email or
  password, 401 with one and the same message for an unknown email and for a wrong password, and
  200 with the user's identifier and two tokens when the password matches the stored hash.\<close>

theorem login_response:
  assumes "healthy env" and "libs_ok L"
  shows "case decode_body False auth_fields no_auth r of
      None \<Rightarrow> fst (loginHandler L env secret r w) = message 400 ''invalid request payload''
    | Some req \<Rightarrow>
        if ar_Email req = [] \<or> ar_Password req = []
        then fst (loginHandler L env secret r w) = message 400 ''email and password are required''
        else case account env (ar_Email req) w of
            None \<Rightarrow> fst (loginHandler L env secret r w) = message 401 ''invalid credentials''
          | Some user \<Rightarrow>
              if bc_Compare L (user_PasswordHash user) (ar_Password req)
              then \<exists>a t. fst (loginHandler L env secret r w) =
                with_data 200 ''login successful'' (token_data (user_ID user) a t)
              else fst (loginHandler L env secret r w) = message 401 ''invalid credentials''"
proof (cases "decode_body False auth_fields no_auth r")
  case None
  then show ?thesis by (simp add: loginHandler_def)
next
  case (Some req)
  note look = GetUserByEmail_account [OF assms(1), of "ar_Email req" w]
  show ?thesis
  proof (cases "account env (ar_Email req) w")
    case None
    then show ?thesis using Some look by (auto simp: loginHandler_def)
  next
    case user: (Some user)
    show ?thesis
    proof (cases "ar_Email req = [] \<or> ar_Password req = [] \<or> \<not> bc_Compare L (user_PasswordHash user) (ar_Password req)")
      case True
      then show ?thesis using Some look user by (auto simp: loginHandler_def ComparePassword_def)
    next
      case False
      then have given: "ar_Email req \<noteq> []" "ar_Password req \<noteq> []"
        "bc_Compare L (user_PasswordHash user) (ar_Password req)" by auto
      obtain a t where "fst (loginHandler L env secret r w) =
          with_data 200 ''login successful'' (token_data (user_ID user) a t)"
        by (rule loginHandler_accepts [OF assms Some given(1,2) user given(3)])
      with given Some user show ?thesis by auto
    qed
  qed
qed

section \<open>Registering and logging in\<close>

lemma registerHandler_created:
  assumes "registerHandler L env secret r w = (resp, w')" and "rs_Status resp = 201"
    and "decode_body False auth_fields no_auth r = Some req"
  obtains ph user a t where "HashPassword L (tick w) (ar_Password req) = Some ph"
    "resp = with_data 201 ''registration successful'' (token_data (user_ID user) a t)"
    "pg w' = (pg w)\<lparr>users := users (pg w) @ [user]\<rparr>" "user_ID user = e_uuid env (Suc (tick w))"
    "user_Email user = ar_Email req" "user_PasswordHash user = ph"
    "ar_Email req \<notin> user_Email ` set (users (pg w))" "ar_Email req \<noteq> []" "ar_Password req \<noteq> []"
proof -
  let ?un = "if ar_Username req = [] then ar_Email req else ar_Username req"
  have given: "ar_Email req \<noteq> []" "ar_Password req \<noteq> []"
    using assms by (auto simp: registerHandler_def)
  with assms obtain ph where ph: "HashPassword L (tick w) (ar_Password req) = Some ph"
    by (auto simp: registerHandler_def Let_def split: option.splits)
  obtain x w1 where c: "CreateUser env (ar_Email req) ?un ph (bump w) = (x, w1)" by (metis surj_pair)
  with assms given ph obtain uid where x: "x = Inr uid"
    by (cases x) (auto simp: registerHandler_def Let_def)
  obtain y w2 where y: "issue_tokens L env secret uid (ar_Email req) w1 = (y, w2)" by (metis surj_pair)
  with assms given ph c x obtain a t where "y = Some (a, t)"
    by (cases y) (auto simp: registerHandler_def Let_def)
  with assms given ph c x y
  have done_: "resp = with_data 201 ''registration successful'' (token_data uid a t)" "w' = w2"
    by (simp_all add: registerHandler_def Let_def)
  have "pg w2 = pg w1" using issue_tokens_pg [of L env secret uid "ar_Email req" w1] y by simp
  with c x done_ that [OF ph] given show thesis
    by (cases rule: CreateUser_run) auto
qed

text \<open>C13: Who has registered can log in: after a registration answered with 201, a login with the same
  email and password on a healthy database, however the two bodies are written, is answered with
  200 and the new user's identifier, and the access token it carries names this user to the
  protected routes, with the \<open>Bearer\<close> prefix, until one second before its fifteen minutes are over.\<close>

theorem register_then_login:
  assumes "libs_ok L" and "env_ok env" and "registerHandler L env secret r w = (resp, w1)" and "rs_Status resp = 201"
    and "decode_body False auth_fields no_auth r = Some req" and "decode_body False auth_fields no_auth r' = Some req'"
    and "ar_Email req' = ar_Email req" and "ar_Password req' = ar_Password req"
    and "healthy env'" and "e_text_ok env' (ar_Email req)" and "utf8_ok (ar_Email req)" and "pg w2 = pg w1"
  shows "\<exists>user a t a' t'. users (pg w1) = users (pg w) @ [user] \<and>
    resp = with_data 201 ''registration successful'' (token_data (user_ID user) a t) \<and>
    fst (loginHandler L env' secret r' w2) = with_data 200 ''login successful'' (token_data (user_ID user) a' t') \<and>
    (\<forall>now. now + second \<le> e_gonow env' (tick w2 + 1) + 15 * minute \<longrightarrow>
      (\<exists>c. ValidateAccessToken L secret (bearer a') now = Inr c \<and> lc_Subject c = user_ID user))"
proof -
  from registerHandler_created [OF assms(3-5)] obtain ph user a t where
    ph: "HashPassword L (tick w) (ar_Password req) = Some ph" and
    resp: "resp = with_data 201 ''registration successful'' (token_data (user_ID user) a t)" and
    w1: "pg w1 = (pg w)\<lparr>users := users (pg w) @ [user]\<rparr>" and
    user: "user_ID user = e_uuid env (Suc (tick w))" "user_Email user = ar_Email req" "user_PasswordHash user = ph" and
    new: "ar_Email req \<notin> user_Email ` set (users (pg w))" and
    given: "ar_Email req \<noteq> []" "ar_Password req \<noteq> []" by blast
  have hash: "bc_Compare L (user_PasswordHash user) (ar_Password req')"
    using libs_okD(5) [OF assms(1)] ph user(3) assms(8) by (simp add: HashPassword_def)
  have "find_by user_Email (ar_Email req) (users (pg w)) = None"
    using new by (simp only: find_by_None_iff not_False_eq_True)
  then have account: "account env' (ar_Email req') w2 = Some user"
    using w1 user assms(7,10,12) by (simp add: account_def find_by_append)
  have given': "ar_Email req' \<noteq> []" "ar_Password req' \<noteq> []" using given assms(7,8) by simp_all
  obtain a' t' where login: "fst (loginHandler L env' secret r' w2) =
      with_data 200 ''login successful'' (token_data (user_ID user) a' t')"
    and a': "GenerateAccessToken L secret (user_ID user) (ar_Email req') (15 * minute)
      (e_gonow env' (tick w2 + 1)) (e_gonow env' (tick w2 + 2)) = Some a'"
    by (rule loginHandler_accepts [OF assms(9,1,6) given' account hash])
  have "utf8_ok (user_ID user)"
    using env_okD(1) [OF assms(2)] user(1) by (auto simp: env_ok_def canonical_def)
  note valid = access_token_valid [OF assms(1) a' this, of "bearer a'"]
  have token: "\<forall>now. now + second \<le> e_gonow env' (tick w2 + 1) + 15 * minute \<longrightarrow>
      (\<exists>c. ValidateAccessToken L secret (bearer a') now = Inr c \<and> lc_Subject c = user_ID user)"
    using valid(1) assms(7,11) by metis
  have users: "users (pg w1) = users (pg w) @ [user]" using w1 by simp
  show ?thesis
    by (intro exI [of _ user] exI [of _ a] exI [of _ t] exI [of _ a'] exI [of _ t'] conjI)
      (rule users, rule resp, rule login, rule token)
qed

end
