(* ===== verification/Processor.thy ===== *)
theory Processor
  imports Store
begin

text \<open>
  \<^verbatim>\<open>service/processor.go\<close>: the handler Asynq runs for a task. It takes the job to \<^verbatim>\<open>running\<close> in one
  transaction, sleeps, may fail on purpose, posts the payload to the webhook, and records the
  outcome in a second transaction.
\<close>

text \<open>
  The errors of the webhook call, a \<^verbatim>\<open>WebhookError\<close> or the error of the HTTP client, and the errors
  the handler returns to Asynq.
\<close>

datatype hook_error = WebhookError int string | TransportError string

datatype perror = HookError hook_error | StoreError dberr

definition error_text :: "hook_error \<Rightarrow> string" where
  \<comment> \<open>\<^verbatim>\<open>err.Error()\<close>; for a \<^verbatim>\<open>WebhookError\<close> it is the body of the reply\<close>
  "error_text e =
    (case e of
       WebhookError _ body \<Rightarrow> body
     | TransportError msg \<Rightarrow> msg)"

definition executeJobWebhook :: "env \<Rightarrow> StoreJob \<Rightarrow> world \<Rightarrow> (hook_error + string) \<times> world" where
  "executeJobWebhook env job w =
    (let w1 = bump (w\<lparr>posts := posts w @ [(job_WebhookURL job, job_Payload job)]\<rparr>)
     in case e_post env (tick w) (job_WebhookURL job) (job_Payload job) of
          PostFailed msg \<Rightarrow> (Inl (TransportError msg), w1)
        | Replied status reply \<Rightarrow>
            (case reply of
               Inl msg \<Rightarrow> (Inl (TransportError msg), w1)
             | Inr body \<Rightarrow>
                 if status < 200 \<or> status \<ge> 300 then (Inl (WebhookError status body), w1)
                 else (Inr body, w1)))"

definition float32_fifth :: rat where
  \<comment> \<open>the constant 0.2 as a \<^verbatim>\<open>float32\<close>\<close>
  "float32_fifth = 13421773 / 67108864"

definition start_job :: "env \<Rightarrow> string \<Rightarrow> world \<Rightarrow> (StoreJob \<times> int) option \<times> world" where
  \<comment> \<open>the first transaction; \<open>None\<close> is one of its early returns\<close>
  "start_job env jobID w =
    (case BeginTx env w of
       (Inl _, w1) \<Rightarrow> (None, w1)
     | (Inr tx, w1) \<Rightarrow>
     (case GetJobByIDForUpdateTx env tx jobID w1 of
       (Inl _, _, w2) \<Rightarrow> (None, w2)
     | (Inr job, tx2, w2) \<Rightarrow>
     (case IncrementJobAttemptsTx env tx2 (job_ID job) w2 of
       (Inl _, _, w3) \<Rightarrow> (None, w3)
     | (Inr attempts, tx3, w3) \<Rightarrow>
     (case UpdateJobStateTx env tx3 (job_ID job) ''running'' None None attempts w3 of
       (Inl _, _, w4) \<Rightarrow> (None, w4)
     | (Inr _, tx4, w4) \<Rightarrow>
     (case Commit env tx4 w4 of
       (Inl _, w5) \<Rightarrow> (None, w5)
     | (Inr _, w5) \<Rightarrow> (Some (job, attempts), w5))))))"

definition record_failure :: "env \<Rightarrow> StoreJob \<Rightarrow> int \<Rightarrow> hook_error \<Rightarrow> world \<Rightarrow> world" where
  \<comment> \<open>the second transaction after a failed webhook; every path returns nil\<close>
  "record_failure env job attempts err w =
    (case BeginTx env w of
       (Inl _, w1) \<Rightarrow> w1
     | (Inr tx, w1) \<Rightarrow>
         if attempts \<ge> job_MaxRetries job then
           (case UpdateJobStateTx env tx (job_ID job) ''failed'' (Some (error_text err)) None attempts w1 of
              (Inl _, _, w2) \<Rightarrow> w2
            | (Inr _, tx2, w2) \<Rightarrow> snd (Commit env tx2 w2))
         else
           (case UpdateJobStateTx env tx (job_ID job) ''queued'' (Some (error_text err)) None attempts w1 of
              (Inl _, _, w2) \<Rightarrow> w2
            | (Inr _, tx2, w2) \<Rightarrow>
                (case marshal (event_payload (job_ID job) (job_Type job) (job_Name job)
                    (job_WebhookURL job) (job_Payload job)) of
                   None \<Rightarrow> w2
                 | Some payloadBytes \<Rightarrow>
                     (case CreateOutboxEventTx env tx2
                         \<lparr>op_AggregateType = ''job'', op_AggregateID = job_ID job,
                          op_EventType = ''job_retry'', op_Payload = payloadBytes,
                          op_Published = False\<rparr> w2 of
                        (Inl _, _, w3) \<Rightarrow> w3
                      | (Inr _, tx3, w3) \<Rightarrow> snd (Commit env tx3 w3)))))"

definition run_job :: "env \<Rightarrow> StoreJob \<Rightarrow> int \<Rightarrow> world \<Rightarrow> perror option \<times> world" where
  \<comment> \<open>from the sleep, whose length nothing depends on, to the end; the first component is the error returned\<close>
  "run_job env job attempts w =
    (let w1 = bump w
     in if e_ctx_done env (tick w) then (None, w1)
        else if e_rand_float env (tick w1) < float32_fifth
        then (Some (HookError (WebhookError 500 ''simulated random failure'')), bump w1)
        else (case executeJobWebhook env job (bump w1) of
            (Inl err, w2) \<Rightarrow> (None, record_failure env job attempts err w2)
          | (Inr result, w2) \<Rightarrow>
              (case UpdateJobState env (job_ID job) ''completed'' None (Some result) attempts w2 of
                 (Inl e, w3) \<Rightarrow> (Some (StoreError e), w3)
               | (Inr _, w3) \<Rightarrow> (None, w3))))"

definition ProcessJobTask :: "env \<Rightarrow> 'a asynq_task_scheme \<Rightarrow> world \<Rightarrow> perror option \<times> world" where
  "ProcessJobTask env task w =
    (case ParseJobProcessPayload task of
       None \<Rightarrow> (None, w)
     | Some payload \<Rightarrow>
         (case start_job env (jpp_JobID payload) w of
            (None, w1) \<Rightarrow> (None, w1)
          | (Some (job, attempts), w1) \<Rightarrow> run_job env job attempts w1))"

end
