(* ===== verification/Worker_Runs.thy ===== *)
theory Worker_Runs
  imports Refinement Processor
begin

text \<open>
  The outcomes of the task handler: \<open>started\<close> is the first transaction, \<open>failure_recorded\<close> the
  second one after a failed webhook. \<open>process_run\<close> lists the ways \<open>ProcessJobTask\<close> can end, with the
  tables, the webhook log and the queue it leaves.
\<close>

section \<open>The first transaction\<close>

definition started :: "env \<Rightarrow> string \<Rightarrow> tables \<Rightarrow> tables \<Rightarrow> StoreJob \<Rightarrow> int \<Rightarrow> bool" where
  "started env jobID t t' job a \<longleftrightarrow>
    (\<exists>k now t1. e_uuid_in env jobID = Some k \<and> find_by job_ID k (jobs t) = Some job \<and>
      sql_increment_attempts env now (job_ID job) t = Inr (Some a, t1) \<and>
      sql_update_state env now (job_ID job) ''running'' None None a t1 = Inr ((), t'))"

definition quiet_step :: "world \<Rightarrow> world \<Rightarrow> bool" where
  \<comment> \<open>nothing sent and nothing enqueued\<close>
  "quiet_step w w' \<longleftrightarrow> posts w' = posts w \<and> redis w' = redis w"

lemma quiet_step_refl [simp]: "quiet_step w w"
  by (simp add: quiet_step_def)

lemma quiet_step_bump [simp]:
  "quiet_step w (bump w') = quiet_step w w'" "quiet_step w (w'\<lparr>pg := t\<rparr>) = quiet_step w w'"
  by (simp_all add: quiet_step_def)

lemma quiet_step_trans: "quiet_step w w1 \<Longrightarrow> quiet_step w1 w2 \<Longrightarrow> quiet_step w w2"
  by (simp add: quiet_step_def)

lemma start_job_run:
  assumes "start_job env jobID w = (r, w')"
  obtains (stopped) "r = None" "pg w' = pg w" "quiet_step w w'"
  | (lost) job a where "r = None" "started env jobID (pg w) (pg w') job a" "quiet_step w w'"
  | (started) job a where "r = Some (job, a)" "started env jobID (pg w) (pg w') job a" "quiet_step w w'"
proof -
  note d = start_job_def GetJobByIDForUpdateTx_def IncrementJobAttemptsTx_def UpdateJobStateTx_def
  obtain r1 w1 where s1: "BeginTx env w = (r1, w1)" by (metis surj_pair)
  from s1 show thesis
  proof (cases rule: BeginTx_cases)
    case failed
    with assms s1 have "r = None" "pg w' = pg w" "quiet_step w w'" by (auto simp: d)
    then show thesis by (rule that(1))
  next
    case b: success
    let ?tx = "\<lparr>tx_tables = pg w, tx_now = e_pgnow env (tick w)\<rparr>"
    obtain r2 tx2 w2 where s2: "tx_stmt env (sql_job_by_id env jobID) ?tx w1 = (r2, tx2, w2)"
      by (metis prod_cases3)
    from s2 show thesis
    proof (cases rule: tx_stmt_cases)
      case (failed e)
      with assms s1 b s2 have "r = None" "pg w' = pg w" "quiet_step w w'" by (auto simp: d)
      then show thesis by (rule that(1))
    next
      case g: (success job t)
      from sql_job_by_idE [OF g(2)] obtain k where k: "e_uuid_in env jobID = Some k"
        "find_by job_ID k (jobs (pg w)) = Some job" "t = pg w" by auto
      obtain r3 tx3 w3 where s3: "tx_stmt env (sql_increment_attempts env (tx_now tx2) (job_ID job))
        tx2 w2 = (r3, tx3, w3)" by (metis prod_cases3)
      from s3 show thesis
      proof (cases rule: tx_stmt_cases)
        case (failed e)
        with assms s1 b s2 g s3 have "r = None" "pg w' = pg w" "quiet_step w w'" by (auto simp: d)
        then show thesis by (rule that(1))
      next
        case i: (success x t1)
        show thesis
        proof (cases x)
          case None
          with assms s1 b s2 g s3 i have "r = None" "pg w' = pg w" "quiet_step w w'" by (auto simp: d)
          then show thesis by (rule that(1))
        next
          case a: (Some a)
          obtain r4 tx4 w4 where s4: "tx_stmt env (sql_update_state env (tx_now tx3) (job_ID job)
            ''running'' None None a) tx3 w3 = (r4, tx4, w4)" by (metis prod_cases3)
          from s4 show thesis
          proof (cases rule: tx_stmt_cases)
            case (failed e)
            with assms s1 b s2 g s3 i a s4 have "r = None" "pg w' = pg w" "quiet_step w w'"
              by (auto simp: d)
            then show thesis by (rule that(1))
          next
            case u: (success y t2)
            have st: "started env jobID (pg w) t2 job a"
              unfolding started_def using k g i a u
              by (intro exI [of _ k] exI [of _ "tx_now tx2"] exI [of _ t1]) simp
            obtain r5 w5 where s5: "Commit env tx4 w4 = (r5, w5)" by (metis surj_pair)
            have run: "(r, w') = (case r5 of Inl _ \<Rightarrow> (None, w5) | Inr _ \<Rightarrow> (Some (job, a), w5))"
              using assms s1 b s2 g s3 i a s4 u s5 by (simp add: d)
            from s5 show thesis
            proof (cases rule: Commit_cases)
              case failed
              with run b g i u have "r = None" "pg w' = pg w" "quiet_step w w'" by simp_all
              then show thesis by (rule that(1))
            next
              case lost
              with run b g i u have "r = None" "pg w' = t2" "quiet_step w w'" by simp_all
              with st show thesis using that(2) by simp
            next
              case success
              with run b g i u have "r = Some (job, a)" "pg w' = t2" "quiet_step w w'" by simp_all
              with st show thesis using that(3) by simp
            qed
          qed
        qed
      qed
    qed
  qed
qed

lemma started_step: "started env jobID t t' job a \<Longrightarrow> db_step env t t'"
  unfolding started_def by (elim exE conjE) (rule db_step.start)

lemma started_tables:
  assumes "started env jobID t t' job a" and "env_ok env"
  obtains k now where "e_uuid_in env jobID = Some k" "find_by job_ID k (jobs t) = Some job"
    "job_ID job = k" "e_uuid_in env k = Some k" "a = job_Attempts job + 1" "int4_ok a"
    "t' = t\<lparr>jobs := upd_by job_ID k (\<lambda>j. j\<lparr>job_State := ''running'', job_LastError := None,
        job_Result := None, job_Attempts := a, job_UpdatedAt := now\<rparr>) (jobs t)\<rparr>"
proof -
  from assms(1) obtain k now t1 where k: "e_uuid_in env jobID = Some k"
    and found: "find_by job_ID k (jobs t) = Some job"
    and i: "sql_increment_attempts env now (job_ID job) t = Inr (Some a, t1)"
    and u: "sql_update_state env now (job_ID job) ''running'' None None a t1 = Inr ((), t')"
    unfolding started_def by blast
  have id: "job_ID job = k" using find_by_SomeD [OF found] by simp
  have kk: "e_uuid_in env k = Some k" using env_okD(2) [OF assms(2) k] .
  from i have a: "a = job_Attempts job + 1" "int4_ok a"
    and t1: "t1 = t\<lparr>jobs := upd_by job_ID k
       (\<lambda>j. j\<lparr>job_Attempts := job_Attempts j + 1, job_UpdatedAt := now\<rparr>) (jobs t)\<rparr>"
    using id kk found by (auto elim!: sql_increment_attemptsE)
  from u have "t' = t1\<lparr>jobs := upd_by job_ID k (\<lambda>j. j\<lparr>job_State := ''running'', job_LastError := None,
        job_Result := None, job_Attempts := a, job_UpdatedAt := now\<rparr>) (jobs t1)\<rparr>"
    using id kk by (auto elim!: sql_update_stateE)
  then have "t' = t\<lparr>jobs := upd_by job_ID k (\<lambda>j. j\<lparr>job_State := ''running'', job_LastError := None,
        job_Result := None, job_Attempts := a, job_UpdatedAt := now\<rparr>) (jobs t)\<rparr>"
    unfolding t1 by (simp add: upd_by_upd_by)
  with k found id kk a show thesis by (rule that)
qed

lemma start_job_tick: "start_job env k w = (r, w') \<Longrightarrow> tick w \<le> tick w'"
  by (auto simp: start_job_def GetJobByIDForUpdateTx_def IncrementJobAttemptsTx_def UpdateJobStateTx_def
      dest!: round_trip_tick split: prod.splits sum.splits option.splits)

section \<open>The second transaction after a failure\<close>

definition failure_recorded ::
  "env \<Rightarrow> StoreJob \<Rightarrow> int \<Rightarrow> hook_error \<Rightarrow> tables \<Rightarrow> tables \<Rightarrow> bool" where
  "failure_recorded env job a err t t' \<longleftrightarrow>
    (if a \<ge> job_MaxRetries job
     then \<exists>now. sql_update_state env now (job_ID job) ''failed'' (Some (error_text err)) None a t = Inr ((), t')
     else \<exists>now n payload t1.
       sql_update_state env now (job_ID job) ''queued'' (Some (error_text err)) None a t = Inr ((), t1) \<and>
       marshal (event_payload (job_ID job) (job_Type job) (job_Name job) (job_WebhookURL job)
         (job_Payload job)) = Some payload \<and>
       sql_insert_event env (e_uuid env n) now
         \<lparr>op_AggregateType = ''job'', op_AggregateID = job_ID job, op_EventType = ''job_retry'',
          op_Payload = payload, op_Published = False\<rparr> t1 = Inr (e_uuid env n, t'))"

lemma failure_recorded_step: "failure_recorded env job a err t t' \<Longrightarrow> env_ok env \<Longrightarrow> canonical env (job_ID job) \<Longrightarrow>
    0 < a \<Longrightarrow> db_step env t t'"
  unfolding failure_recorded_def
  by (cases "a \<ge> job_MaxRetries job") (auto intro: db_step.fail db_step.retry env_okD(1))

lemma Commit_quiet: "Commit env tx w = (r, w') \<Longrightarrow> quiet_step w w'"
  by (erule Commit_cases) simp_all

lemma record_failure_run:
  assumes "record_failure env job a err w = w'"
  obtains (same) "pg w' = pg w" "quiet_step w w'"
  | (recorded) "failure_recorded env job a err (pg w) (pg w')" "quiet_step w w'"
proof -
  note d = record_failure_def UpdateJobStateTx_def CreateOutboxEventTx_def
  obtain r1 w1 where s1: "BeginTx env w = (r1, w1)" by (metis surj_pair)
  from s1 show thesis
  proof (cases rule: BeginTx_cases)
    case failed
    with assms s1 have "pg w' = pg w" "quiet_step w w'" by (auto simp: d)
    then show thesis by (rule that(1))
  next
    case b: success
    let ?tx = "\<lparr>tx_tables = pg w, tx_now = e_pgnow env (tick w)\<rparr>"
    let ?st = "if a \<ge> job_MaxRetries job then ''failed'' else ''queued''"
    obtain r2 tx2 w2 where s2: "tx_stmt env (sql_update_state env (tx_now ?tx) (job_ID job) ?st
        (Some (error_text err)) None a) ?tx w1 = (r2, tx2, w2)" by (metis prod_cases3)
    from s2 show thesis
    proof (cases rule: tx_stmt_cases)
      case (failed e)
      with assms s1 b s2 have "pg w' = pg w" "quiet_step w w'" by (auto simp: d)
      then show thesis by (rule that(1))
    next
      case u: (success x t1)
      show thesis
      proof (cases "a \<ge> job_MaxRetries job")
        case True
        obtain r3 w3 where s3: "Commit env tx2 w2 = (r3, w3)" by (metis surj_pair)
        have "w' = w3" using assms s1 b s2 u s3 True by (simp add: d)
        moreover have "failure_recorded env job a err (pg w) t1"
          using True u by (auto simp: failure_recorded_def)
        ultimately show thesis
          using s3 b u that by (auto elim!: Commit_cases)
      next
        case False
        show thesis
        proof (cases "marshal (event_payload (job_ID job) (job_Type job) (job_Name job)
            (job_WebhookURL job) (job_Payload job))")
          case None
          with assms s1 b s2 u False have "pg w' = pg w" "quiet_step w w'" by (auto simp: d)
          then show thesis by (rule that(1))
        next
          case m: (Some payload)
          obtain r3 tx3 w3 where s3: "tx_stmt env (sql_insert_event env (e_uuid env (tick w2)) (tx_now tx2)
              \<lparr>op_AggregateType = ''job'', op_AggregateID = job_ID job, op_EventType = ''job_retry'',
               op_Payload = payload, op_Published = False\<rparr>) tx2 w2 = (r3, tx3, w3)" by (metis prod_cases3)
          from s3 show thesis
          proof (cases rule: tx_stmt_cases)
            case (failed e)
            with assms s1 b s2 u False m s3 have "pg w' = pg w" "quiet_step w w'" by (auto simp: d)
            then show thesis by (rule that(1))
          next
            case v: (success e t2)
            obtain r4 w4 where s4: "Commit env tx3 w3 = (r4, w4)" by (metis surj_pair)
            have "w' = w4" using assms s1 b s2 u False m s3 v s4 by (simp add: d)
            moreover have "failure_recorded env job a err (pg w) t2"
              using False u m v sql_insert_event_id [OF v(2)]
              unfolding failure_recorded_def
              by (simp, intro exI [of _ "tx_now ?tx"] exI [of _ "tick w2"] exI [of _ t1]) simp
            ultimately show thesis
              using s4 b u v that by (auto elim!: Commit_cases)
          qed
        qed
      qed
    qed
  qed
qed

section \<open>The webhook\<close>

definition posted :: "StoreJob \<Rightarrow> world \<Rightarrow> world \<Rightarrow> bool" where
  \<comment> \<open>exactly one request, to the job's URL with the job's stored payload\<close>
  "posted job w w' \<longleftrightarrow>
    posts w' = posts w @ [(job_WebhookURL job, job_Payload job)] \<and> redis w' = redis w"

lemma posted_quiet: "posted job w w1 \<Longrightarrow> quiet_step w1 w2 \<Longrightarrow> posted job w w2"
  by (simp add: posted_def quiet_step_def)

lemma quiet_posted: "quiet_step w w1 \<Longrightarrow> posted job w1 w2 \<Longrightarrow> posted job w w2"
  by (simp add: posted_def quiet_step_def)

lemma executeJobWebhook_run:
  assumes "executeJobWebhook env job w = (r, w')"
  shows "posted job w w' \<and> pg w' = pg w"
  using assms
  by (auto simp: executeJobWebhook_def posted_def Let_def split: http_reply.splits sum.splits if_splits)

lemma executeJobWebhook_tick: "executeJobWebhook env job w = (r, w') \<Longrightarrow> tick w' = Suc (tick w)"
  by (auto simp: executeJobWebhook_def Let_def split: http_reply.splits sum.splits if_splits)

section \<open>The handler\<close>

lemma Commit_tick: "tick (snd (Commit env tx w)) = Suc (tick w)"
  by (rule round_trip_tick(4)) (rule surjective_pairing)

lemma ProcessJobTask_tick:
  assumes "ProcessJobTask env task w = (r, w')"
  shows "tick w \<le> tick w'"
proof -
  have rec: "record_failure env job a err w = w' \<Longrightarrow> tick w \<le> tick w'" for job a err w w'
    by (auto simp: record_failure_def UpdateJobStateTx_def CreateOutboxEventTx_def Commit_tick dest!: round_trip_tick
        split: prod.splits sum.splits option.splits if_splits)
  have run: "run_job env job a w = (r, w') \<Longrightarrow> tick w \<le> tick w'" for job a w r w'
    by (auto simp: run_job_def UpdateJobState_def Let_def dest!: executeJobWebhook_tick round_trip_tick
        split: prod.splits sum.splits if_splits)
      (metis rec Suc_leD)+
  show ?thesis
    using assms by (auto simp: ProcessJobTask_def dest!: start_job_tick run split: option.splits prod.splits)
qed

lemma run_job_run:
  assumes "run_job env job a w = (r, w')"
  obtains (cancelled) "r = None" "pg w' = pg w" "quiet_step w w'" "e_ctx_done env (tick w)"
  | (random) "r = Some (HookError (WebhookError 500 ''simulated random failure''))" "pg w' = pg w" "quiet_step w w'"
      "e_rand_float env (Suc (tick w)) < float32_fifth"
  | (failed) err where "r = None" "posted job w w'"
      "pg w' = pg w \<or> failure_recorded env job a err (pg w) (pg w')"
  | (unrecorded) e where "r = Some (StoreError e)" "posted job w w'" "pg w' = pg w"
  | (lost) now body where "r = Some (StoreError ErrConn)" "posted job w w'"
      "sql_update_state env now (job_ID job) ''completed'' None (Some body) a (pg w) = Inr ((), pg w')"
  | (completed) now body where "r = None" "posted job w w'"
      "sql_update_state env now (job_ID job) ''completed'' None (Some body) a (pg w) = Inr ((), pg w')"
proof -
  let ?w1 = "bump w"
  show thesis
  proof (cases "e_ctx_done env (tick w)")
    case True
    with assms have "r = None" "pg w' = pg w" "quiet_step w w'" by (auto simp: run_job_def Let_def)
    then show thesis using True by (rule that(1))
  next
    case live: False
    show thesis
    proof (cases "e_rand_float env (tick ?w1) < float32_fifth")
      case True
      with assms live have "r = Some (HookError (WebhookError 500 ''simulated random failure''))"
        "pg w' = pg w" "quiet_step w w'" by (auto simp: run_job_def Let_def)
      then show thesis by (rule that(2)) (use True in simp)
    next
      case go: False
      obtain x w2 where hook: "executeJobWebhook env job (bump ?w1) = (x, w2)" by (metis surj_pair)
      from executeJobWebhook_run [OF hook] have p: "posted job w w2" "pg w2 = pg w"
        by (simp_all add: posted_def)
      show thesis
      proof (cases x)
        case (Inl err)
        with assms live go hook have r: "r = None" "record_failure env job a err w2 = w'"
          by (simp_all add: run_job_def Let_def)
        from r(2) show thesis
        proof (cases rule: record_failure_run)
          case same
          with r p show thesis by (intro that(3) [of err]) (auto intro: posted_quiet)
        next
          case recorded
          with r p show thesis by (intro that(3) [of err]) (auto intro: posted_quiet)
        qed
      next
        case (Inr body)
        obtain y w3 where u: "UpdateJobState env (job_ID job) ''completed'' None (Some body) a w2 = (y, w3)"
          by (metis surj_pair)
        have run: "(r, w') = (case y of Inl e \<Rightarrow> (Some (StoreError e), w3) | Inr _ \<Rightarrow> (None, w3))"
          using assms live go hook Inr u by (simp add: run_job_def Let_def)
        from u [unfolded UpdateJobState_def] show thesis
        proof (cases rule: auto_stmt_cases)
          case (failed e)
          with run p show thesis by (intro that(4) [of e]) (auto simp: posted_def)
        next
          case (lost z t)
          with run p show thesis
            by (intro that(5) [of "e_pgnow env (tick w2)" body]) (auto simp: posted_def)
        next
          case (success z t)
          with run p show thesis
            by (intro that(6) [of "e_pgnow env (tick w2)" body]) (auto simp: posted_def)
        qed
      qed
    qed
  qed
qed

lemma run_job_steps:
  assumes "0 < a" and "env_ok env" and "canonical env (job_ID job)" and "run_job env job a w = (r, w')"
  shows "db_steps env (pg w) (pg w')"
  using assms(4)
  by (cases rule: run_job_run)
    (auto intro: db_steps_one failure_recorded_step [OF _ assms(2,3,1)] db_step.complete [OF assms(1)])

lemma started_positive: "started env jobID t t' job a \<Longrightarrow> jobs_ok t \<Longrightarrow> schema_ok t \<Longrightarrow> 0 < a"
  unfolding started_def by (blast dest: jobs_ok_start(2))

lemma ProcessJobTask_steps:
  assumes "db_ok (pg w)" and "ProcessJobTask env task w = (r, w')" and "env_ok env"
  shows "db_steps env (pg w) (pg w')"
proof (cases "ParseJobProcessPayload task")
  case None
  with assms(2) show ?thesis by (simp add: ProcessJobTask_def)
next
  case (Some payload)
  obtain x w1 where s: "start_job env (jpp_JobID payload) w = (x, w1)" by (metis surj_pair)
  then show ?thesis
  proof (cases rule: start_job_run)
    case stopped
    with assms(2) Some s show ?thesis by (simp add: ProcessJobTask_def)
  next
    case (lost job a)
    with assms(2) Some s have "w' = w1" by (simp add: ProcessJobTask_def)
    with lost show ?thesis by (auto intro: db_steps_one started_step)
  next
    case (started job a)
    with assms(1) have "0 < a" by (auto simp: db_ok_def intro: started_positive)
    moreover have "run_job env job a w1 = (r, w')"
      using assms(2) Some s started by (simp add: ProcessJobTask_def)
    moreover have "canonical env (job_ID job)"
      using started_tables [OF started(2) assms(3)] env_okD(4) [OF assms(3)] by metis
    ultimately have "db_steps env (pg w1) (pg w')" using assms(3) by (intro run_job_steps)
    with started started_step show ?thesis by (meson converse_rtranclp_into_rtranclp)
  qed
qed

lemma process_run:
  assumes "ProcessJobTask env task w = (r, w')"
  obtains (idle) "r = None" "pg w' = pg w" "quiet_step w w'"
  | (silent) p job a where "ParseJobProcessPayload task = Some p"
      "started env (jpp_JobID p) (pg w) (pg w') job a" "quiet_step w w'"
  | (called) p job a t where "ParseJobProcessPayload task = Some p"
      "started env (jpp_JobID p) (pg w) t job a" "posted job w w'"
      "pg w' = t \<or> (\<exists>err. failure_recorded env job a err t (pg w')) \<or>
       (\<exists>now body. sql_update_state env now (job_ID job) ''completed'' None (Some body) a t = Inr ((), pg w'))"
proof (cases "ParseJobProcessPayload task")
  case None
  with assms have "r = None" "pg w' = pg w" "quiet_step w w'" by (auto simp: ProcessJobTask_def)
  then show thesis by (rule that(1))
next
  case (Some p)
  note silent = that(2) [OF Some] and called = that(3) [OF Some]
  obtain x w1 where s: "start_job env (jpp_JobID p) w = (x, w1)" by (metis surj_pair)
  then show thesis
  proof (cases rule: start_job_run)
    case stopped
    with assms Some s have "r = None" "pg w' = pg w" "quiet_step w w'" by (auto simp: ProcessJobTask_def)
    then show thesis by (rule that(1))
  next
    case (lost job a)
    with assms Some s have "w' = w1" by (simp add: ProcessJobTask_def)
    with lost show thesis by (intro silent) simp_all
  next
    case (started job a)
    have run: "run_job env job a w1 = (r, w')"
      using assms Some s started by (simp add: ProcessJobTask_def)
    have call: thesis if "posted job w1 w'" "pg w' = pg w1 \<or> (\<exists>err. failure_recorded env job a err (pg w1) (pg w')) \<or>
       (\<exists>now body. sql_update_state env now (job_ID job) ''completed'' None (Some body) a (pg w1) = Inr ((), pg w'))"
      using that started by (intro called) (auto intro: quiet_posted)
    have none: thesis if "quiet_step w1 w'" "pg w' = pg w1"
      using that started by (intro silent) (auto intro: quiet_step_trans)
    from run show thesis
      by (cases rule: run_job_run) (blast intro: call none)+
  qed
qed

end
