(* ===== verification/Worker_Props.thy ===== *)
theory Worker_Props
  imports Worker_Runs Demo
begin

text \<open>
  The properties of the task handler: the outcome it records for each reply of the webhook, what
  it sends, and the paths on which a job is left \<open>running\<close> with nothing to take it further.
\<close>

section \<open>Outcomes on a healthy database\<close>

definition set_outcome ::
  "string \<Rightarrow> string option \<Rightarrow> string option \<Rightarrow> int \<Rightarrow> int \<Rightarrow> StoreJob \<Rightarrow> StoreJob" where
  "set_outcome st err res a now j = j\<lparr>job_State := st, job_LastError := err, job_Result := res,
     job_Attempts := a, job_UpdatedAt := now\<rparr>"

lemma set_outcome_id [simp]: "job_ID (set_outcome st err res a now j) = job_ID j"
  by (simp add: set_outcome_def)

lemma sql_update_state_ok:
  assumes "e_uuid_in env k = Some k" and "e_text_ok env st" and "\<forall>e. err = Some e \<longrightarrow> e_text_ok env e"
    and "int4_ok a" and "\<forall>body. res = Some body \<longrightarrow> e_jsonb_in env body \<noteq> None"
  shows "sql_update_state env now k st err res a t =
    Inr ((), t\<lparr>jobs := upd_by job_ID k (set_outcome st err (Option.bind res (e_jsonb_in env)) a now) (jobs t)\<rparr>)"
  using assms
  by (cases err; cases res)
    (auto simp: sql_update_state_def set_outcome_def [abs_def] Let_def split: option.splits)

definition runs :: "env \<Rightarrow> 'a asynq_task_scheme \<Rightarrow> world \<Rightarrow> StoreJob \<Rightarrow> bool" where
  \<comment> \<open>the task names this stored job, and one more attempt fits its column\<close>
  "runs env task w job \<longleftrightarrow>
    (case ParseJobProcessPayload task of
       None \<Rightarrow> False
     | Some p \<Rightarrow> (case e_uuid_in env (jpp_JobID p) of
         None \<Rightarrow> False
       | Some k \<Rightarrow> find_by job_ID k (jobs (pg w)) = Some job)) \<and>
    int4_ok (job_Attempts job + 1)"

lemma start_healthy:
  assumes "healthy env" and "env_ok env" and "runs env task w job"
  shows "\<exists>p w1 now. ParseJobProcessPayload task = Some p \<and>
    start_job env (jpp_JobID p) w = (Some (job, job_Attempts job + 1), w1) \<and>
    e_uuid_in env (job_ID job) = Some (job_ID job) \<and>
    find_by job_ID (job_ID job) (jobs (pg w)) = Some job \<and>
    pg w1 = (pg w)\<lparr>jobs := upd_by job_ID (job_ID job)
      (set_outcome ''running'' None None (job_Attempts job + 1) now) (jobs (pg w))\<rparr> \<and>
    quiet_step w w1"
proof -
  from assms(3) obtain p k where p: "ParseJobProcessPayload task = Some p"
    and k: "e_uuid_in env (jpp_JobID p) = Some k" "find_by job_ID k (jobs (pg w)) = Some job"
    and a: "int4_ok (job_Attempts job + 1)"
    by (auto simp: runs_def split: option.splits)
  have id: "job_ID job = k" using find_by_SomeD [OF k(2)] by simp
  have kk: "e_uuid_in env k = Some k" using env_okD(2) [OF assms(2) k(1)] .
  let ?now = "e_pgnow env (tick w)"
  let ?run = "set_outcome ''running'' None None (job_Attempts job + 1) ?now"
  let ?inc = "\<lambda>j. j\<lparr>job_Attempts := job_Attempts j + 1, job_UpdatedAt := ?now\<rparr>"
  have inc: "sql_increment_attempts env ?now k (pg w) = Inr (Some (job_Attempts job + 1),
      (pg w)\<lparr>jobs := upd_by job_ID k ?inc (jobs (pg w))\<rparr>)"
    using kk k(2) a by (simp add: sql_increment_attempts_def)
  have "upd_by job_ID k ?run (upd_by job_ID k ?inc (jobs (pg w))) = upd_by job_ID k ?run (jobs (pg w))"
    by (subst upd_by_upd_by) (simp_all add: set_outcome_def [abs_def])
  then have upd: "sql_update_state env ?now k ''running'' None None (job_Attempts job + 1)
      ((pg w)\<lparr>jobs := upd_by job_ID k ?inc (jobs (pg w))\<rparr>)
    = Inr ((), (pg w)\<lparr>jobs := upd_by job_ID k ?run (jobs (pg w))\<rparr>)"
    using kk a text_literals(1) [OF assms(2)] by (subst sql_update_state_ok) simp_all
  have get: "sql_job_by_id env (jpp_JobID p) (pg w) = Inr (job, pg w)"
    using k by (simp add: sql_job_by_id_def)
  show ?thesis
    using p k(2) kk
    by (simp add: start_job_def healthy_simps [OF assms(1)] GetJobByIDForUpdateTx_def get
        IncrementJobAttemptsTx_def id inc UpdateJobStateTx_def upd) blast
qed

definition live :: "env \<Rightarrow> bool" where
  \<comment> \<open>the context is not cancelled during the sleep and the simulated failure does not strike\<close>
  "live env \<longleftrightarrow> (\<forall>n. \<not> e_ctx_done env n \<and> float32_fifth \<le> e_rand_float env n)"

lemma run_job_live:
  assumes "live env"
  shows "run_job env job a w =
    (case executeJobWebhook env job (bump (bump w)) of
       (Inl err, w2) \<Rightarrow> (None, record_failure env job a err w2)
     | (Inr result, w2) \<Rightarrow>
         (case UpdateJobState env (job_ID job) ''completed'' None (Some result) a w2 of
            (Inl e, w3) \<Rightarrow> (Some (StoreError e), w3)
          | (Inr _, w3) \<Rightarrow> (None, w3)))"
proof -
  have "\<not> e_rand_float env (Suc (tick w)) < float32_fifth" "\<not> e_ctx_done env (tick w)"
    using assms by (auto simp: live_def leD)
  then show ?thesis by (simp add: run_job_def Let_def)
qed

definition job_row :: "string \<Rightarrow> world \<Rightarrow> StoreJob option" where
  "job_row k w = find_by job_ID k (jobs (pg w))"

definition answers :: "env \<Rightarrow> StoreJob \<Rightarrow> http_reply \<Rightarrow> bool" where
  "answers env job r \<longleftrightarrow> (\<forall>n. e_post env n (job_WebhookURL job) (job_Payload job) = r)"

lemma upd_outcome_twice:
  "upd_by job_ID k (set_outcome st err res a now) (upd_by job_ID k (set_outcome st' err' res' a' now') rows)
    = upd_by job_ID k (set_outcome st err res a now) rows"
  by (subst upd_by_upd_by) (simp_all add: set_outcome_def [abs_def])

lemma run_job_completes:
  assumes "healthy env" and "env_ok env" and "live env" and "e_uuid_in env (job_ID job) = Some (job_ID job)"
    and "int4_ok a" and "answers env job (Replied status (Inr body))" and "200 \<le> status" and "status < 300"
    and "e_jsonb_in env body = Some stored"
  shows "\<exists>now w'. run_job env job a w = (None, w') \<and> posted job w w' \<and>
    pg w' = (pg w)\<lparr>jobs := upd_by job_ID (job_ID job) (set_outcome ''completed'' None (Some stored) a now) (jobs (pg w))\<rparr>"
proof -
  obtain w2 where hook: "executeJobWebhook env job (bump (bump w)) = (Inr body, w2)"
    using assms(6-8) by (simp add: executeJobWebhook_def answers_def Let_def)
  from executeJobWebhook_run [OF hook] have w2: "posted job w w2" "pg w2 = pg w"
    by (simp_all add: posted_def)
  note upd = sql_update_state_ok [of env "job_ID job" "''completed''" None a "Some body",
      OF assms(4) text_literals(2) [OF assms(2)] _ assms(5)]
  show ?thesis
    using assms(9) hook w2
    by (simp add: run_job_live [OF assms(3)] UpdateJobState_def healthy_simps [OF assms(1)] upd posted_def) blast
qed

lemma process_done:
  assumes "healthy env" and "env_ok env" and "live env" and "runs env task w job"
    and "answers env job (Replied status (Inr body))" and "200 \<le> status" and "status < 300"
    and "e_jsonb_in env body = Some stored"
  shows "\<exists>now w'. ProcessJobTask env task w = (None, w') \<and> posted job w w' \<and>
    pg w' = (pg w)\<lparr>jobs := upd_by job_ID (job_ID job)
      (set_outcome ''completed'' None (Some stored) (job_Attempts job + 1) now) (jobs (pg w))\<rparr>"
proof -
  from start_healthy [OF assms(1,2,4)] obtain p w1 now
    where p: "ParseJobProcessPayload task = Some p"
      and s: "start_job env (jpp_JobID p) w = (Some (job, job_Attempts job + 1), w1)"
      and k: "e_uuid_in env (job_ID job) = Some (job_ID job)"
      and w1: "pg w1 = (pg w)\<lparr>jobs := upd_by job_ID (job_ID job)
        (set_outcome ''running'' None None (job_Attempts job + 1) now) (jobs (pg w))\<rparr>" "quiet_step w w1"
    by blast
  have "int4_ok (job_Attempts job + 1)" using assms(4) by (simp add: runs_def)
  from run_job_completes [OF assms(1-3) k this assms(5-8), of w1] p s w1 show ?thesis
    by (auto simp: ProcessJobTask_def upd_outcome_twice intro: quiet_posted)
qed

text \<open>C8: When the webhook answers with a 2xx status and a body PostgreSQL accepts as JSON, the task
  ends without error, exactly one request was sent, with the stored payload, and the job is
  \<open>completed\<close>: its result is the body, its error is cleared and its attempts have grown by one. No
  other job and no event changes.\<close>

theorem process_completes:
  assumes "healthy env" and "env_ok env" and "live env" and "runs env task w job"
    and "answers env job (Replied status (Inr body))" and "200 \<le> status" and "status < 300"
    and "e_jsonb_in env body = Some stored"
  shows "\<exists>now w'. ProcessJobTask env task w = (None, w') \<and> posted job w w' \<and>
    pg w' = (pg w)\<lparr>jobs := upd_by job_ID (job_ID job)
      (set_outcome ''completed'' None (Some stored) (job_Attempts job + 1) now) (jobs (pg w))\<rparr>"
  using process_done [OF assms] .

lemma record_failure_exhausted:
  assumes "healthy env" and "env_ok env" and "e_uuid_in env (job_ID job) = Some (job_ID job)"
    and "int4_ok a" and "e_text_ok env (error_text err)" and "job_MaxRetries job \<le> a"
  shows "\<exists>now. pg (record_failure env job a err w) = (pg w)\<lparr>jobs := upd_by job_ID (job_ID job)
      (set_outcome ''failed'' (Some (error_text err)) None a now) (jobs (pg w))\<rparr> \<and>
    quiet_step w (record_failure env job a err w)"
proof -
  note upd = sql_update_state_ok [of env "job_ID job" _ "Some (error_text err)" a None, OF assms(3) _ _ assms(4)]
  show ?thesis
    using assms(5,6) text_literals(3) [OF assms(2)]
    by (simp add: record_failure_def healthy_simps [OF assms(1)] UpdateJobStateTx_def upd) blast
qed

lemma record_failure_retries:
  assumes "healthy env" and "env_ok env" and "e_uuid_in env (job_ID job) = Some (job_ID job)"
    and "int4_ok a" and "e_text_ok env (error_text err)" and "\<not> job_MaxRetries job \<le> a"
    and "find_by ev_ID (e_uuid env (Suc (Suc (tick w)))) (outbox (pg w)) = None"
    and "announceable env (job_ID job) (job_Type job) (job_Name job) (job_WebhookURL job) (job_Payload job)"
  shows "\<exists>now v. pg (record_failure env job a err w) = (pg w)\<lparr>
      jobs := upd_by job_ID (job_ID job)
        (set_outcome ''queued'' (Some (error_text err)) None a now) (jobs (pg w)),
      outbox := outbox (pg w) @ [v]\<rparr> \<and>
    ev_EventType v = ''job_retry'' \<and> ev_AggregateID v = job_ID job \<and> \<not> ev_Published v \<and>
    ev_ID v = e_uuid env (Suc (Suc (tick w))) \<and> tick w + 3 \<le> tick (record_failure env job a err w) \<and>
    quiet_step w (record_failure env job a err w)"
proof -
  from assms(8) obtain pl b where pl: "marshal (event_payload (job_ID job) (job_Type job) (job_Name job)
      (job_WebhookURL job) (job_Payload job)) = Some pl" "e_jsonb_in env pl = Some b"
    by (auto simp: announceable_def split: option.splits)
  let ?now = "e_pgnow env (tick w)" and ?eid = "e_uuid env (Suc (Suc (tick w)))"
  let ?v = "\<lparr>ev_ID = ?eid, ev_AggregateType = ''job'', ev_AggregateID = job_ID job,
    ev_EventType = ''job_retry'', ev_Payload = b, ev_Published = False, ev_PublishedAt = None,
    ev_CreatedAt = ?now, ev_UpdatedAt = ?now\<rparr>"
  have ev: "sql_insert_event env ?eid ?now \<lparr>op_AggregateType = ''job'', op_AggregateID = job_ID job,
      op_EventType = ''job_retry'', op_Payload = pl, op_Published = False\<rparr> t
    = Inr (?eid, t\<lparr>outbox := outbox t @ [?v]\<rparr>)" if "outbox t = outbox (pg w)" for t
    using that pl assms(3,7) text_literals(6,8) [OF assms(2)]
    by (subst sql_insert_event_ok [OF assms(2)]) simp_all
  note upd = sql_update_state_ok [of env "job_ID job" _ "Some (error_text err)" a None, OF assms(3) _ _ assms(4)]
  show ?thesis
    using assms(5,6) text_literals(4) [OF assms(2)] pl
    by (intro exI [of _ ?now] exI [of _ ?v])
      (simp add: record_failure_def healthy_simps [OF assms(1)] UpdateJobStateTx_def upd CreateOutboxEventTx_def ev)
qed

lemma process_failing:
  assumes "healthy env" and "env_ok env" and "live env" and "runs env task w job"
    and "answers env job (Replied status (Inr body))" and "status < 200 \<or> 300 \<le> status"
    and "e_text_ok env body" and "\<forall>n \<ge> tick w. find_by ev_ID (e_uuid env n) (outbox (pg w)) = None"
    and "announceable env (job_ID job) (job_Type job) (job_Name job) (job_WebhookURL job) (job_Payload job)"
  shows "\<exists>now w'. ProcessJobTask env task w = (None, w') \<and> posted job w w' \<and>
    jobs (pg w') = upd_by job_ID (job_ID job)
      (set_outcome (if job_Attempts job + 1 \<ge> job_MaxRetries job then ''failed'' else ''queued'')
        (Some body) None (job_Attempts job + 1) now) (jobs (pg w)) \<and>
    (if job_Attempts job + 1 \<ge> job_MaxRetries job then outbox (pg w') = outbox (pg w)
     else \<exists>v n. outbox (pg w') = outbox (pg w) @ [v] \<and> ev_EventType v = ''job_retry'' \<and>
       ev_AggregateID v = job_ID job \<and> \<not> ev_Published v \<and> ev_ID v = e_uuid env n \<and> tick w \<le> n \<and> n < tick w')"
proof -
  from start_healthy [OF assms(1,2,4)] obtain p w1 now
    where p: "ParseJobProcessPayload task = Some p"
      and s: "start_job env (jpp_JobID p) w = (Some (job, job_Attempts job + 1), w1)"
      and k: "e_uuid_in env (job_ID job) = Some (job_ID job)"
      and w1: "pg w1 = (pg w)\<lparr>jobs := upd_by job_ID (job_ID job)
        (set_outcome ''running'' None None (job_Attempts job + 1) now) (jobs (pg w))\<rparr>" "quiet_step w w1"
    by blast
  let ?a = "job_Attempts job + 1" and ?err = "WebhookError status body"
  have a: "int4_ok ?a" using assms(4) by (simp add: runs_def)
  obtain w2 where hook: "executeJobWebhook env job (bump (bump w1)) = (Inl ?err, w2)"
    using assms(5,6) by (auto simp: executeJobWebhook_def answers_def Let_def)
  from executeJobWebhook_run [OF hook] have w2: "posted job w1 w2" "pg w2 = pg w1"
    by (simp_all add: posted_def)
  let ?w' = "record_failure env job ?a ?err w2"
  have run: "ProcessJobTask env task w = (None, ?w')"
    using p s hook by (simp add: ProcessJobTask_def run_job_live [OF assms(3)])
  have body_ok: "e_text_ok env (error_text ?err)" using assms(7) by (simp add: error_text_def)
  have sent: "posted job w ?w'" if "quiet_step w2 ?w'"
    using that w1(2) w2(1) by (blast intro: quiet_posted posted_quiet)
  have later: "tick w \<le> tick w2" using start_job_tick [OF s] executeJobWebhook_tick [OF hook] by simp
  then have new: "find_by ev_ID (e_uuid env (Suc (Suc (tick w2)))) (outbox (pg w2)) = None" using assms(8) w1 w2 by simp
  show ?thesis
  proof (cases "job_MaxRetries job \<le> ?a")
    case True
    with run sent w1(1) w2(2) record_failure_exhausted [OF assms(1,2) k a body_ok, of w2]
    show ?thesis by (auto simp: upd_outcome_twice error_text_def)
  next
    case False
    with record_failure_retries [OF assms(1,2) k a body_ok _ new assms(9)] obtain now2 v where
      w': "pg ?w' = (pg w2)\<lparr>jobs := upd_by job_ID (job_ID job)
          (set_outcome ''queued'' (Some (error_text ?err)) None ?a now2) (jobs (pg w2)), outbox := outbox (pg w2) @ [v]\<rparr>"
      and v: "ev_EventType v = ''job_retry''" "ev_AggregateID v = job_ID job" "\<not> ev_Published v"
        "ev_ID v = e_uuid env (Suc (Suc (tick w2)))" "tick w2 + 3 \<le> tick ?w'"
      and q: "quiet_step w2 ?w'" by blast
    have "outbox (pg ?w') = outbox (pg w) @ [v]" using w' w1(1) w2(2) by simp
    then have "\<exists>v n. outbox (pg ?w') = outbox (pg w) @ [v] \<and> ev_EventType v = ''job_retry'' \<and>
       ev_AggregateID v = job_ID job \<and> \<not> ev_Published v \<and> ev_ID v = e_uuid env n \<and> tick w \<le> n \<and> n < tick ?w'"
      using v later by (intro exI [of _ v] exI [of _ "Suc (Suc (tick w2))"]) simp
    with False run sent [OF q] w' w1(1) w2(2) show ?thesis
      by (auto simp: upd_outcome_twice error_text_def)
  qed
qed

text \<open>C9: When the webhook answers outside 2xx and the attempts are used up, the task ends without
  error and the job is \<open>failed\<close> with the body as its last error; when attempts are left, the job is
  \<open>queued\<close> and a new unpublished \<open>job_retry\<close> event for it is added in the same transaction.\<close>

theorem process_fails:
  assumes "healthy env" and "env_ok env" and "live env" and "runs env task w job"
    and "answers env job (Replied status (Inr body))" and "status < 200 \<or> 300 \<le> status"
    and "e_text_ok env body" and "\<forall>n. find_by ev_ID (e_uuid env n) (outbox (pg w)) = None"
    and "announceable env (job_ID job) (job_Type job) (job_Name job) (job_WebhookURL job) (job_Payload job)"
  shows "\<exists>now w'. ProcessJobTask env task w = (None, w') \<and> posted job w w' \<and>
    jobs (pg w') = upd_by job_ID (job_ID job)
      (set_outcome (if job_Attempts job + 1 \<ge> job_MaxRetries job then ''failed'' else ''queued'')
        (Some body) None (job_Attempts job + 1) now) (jobs (pg w)) \<and>
    (if job_Attempts job + 1 \<ge> job_MaxRetries job then outbox (pg w') = outbox (pg w)
     else \<exists>v. outbox (pg w') = outbox (pg w) @ [v] \<and> ev_EventType v = ''job_retry'' \<and>
       ev_AggregateID v = job_ID job \<and> \<not> ev_Published v)"
  using process_failing [OF assms(1-7) _ assms(9)] assms(8) by (fastforce split: if_splits)

section \<open>What holds under every schedule of failures\<close>

lemma find_upd_by_same: "(\<And>r. key (f r) = key r) \<Longrightarrow> find_by key k rows = Some r \<Longrightarrow>
  find_by key k (upd_by key k f rows) = Some (f r)"
  by (simp add: find_by_upd_by)

lemma failure_recorded_attempts:
  assumes "failure_recorded env job a err t t'" and "e_uuid_in env (job_ID job) = Some (job_ID job)"
    and "find_by job_ID (job_ID job) (jobs t) = Some j"
  shows "\<exists>j'. find_by job_ID (job_ID job) (jobs t') = Some j' \<and> job_Attempts j' = a"
proof (cases "job_MaxRetries job \<le> a")
  case True
  with assms obtain now where "sql_update_state env now (job_ID job) ''failed'' (Some (error_text err)) None a t
      = Inr ((), t')"
    by (auto simp: failure_recorded_def)
  then show ?thesis using assms(2,3) by (auto elim!: sql_update_stateE simp: find_by_upd_by)
next
  case False
  with assms(1) obtain now n payload t1
    where u: "sql_update_state env now (job_ID job) ''queued'' (Some (error_text err)) None a t = Inr ((), t1)"
      and "sql_insert_event env (e_uuid env n) now \<lparr>op_AggregateType = ''job'', op_AggregateID = job_ID job,
        op_EventType = ''job_retry'', op_Payload = payload, op_Published = False\<rparr> t1 = Inr (e_uuid env n, t')"
    by (auto simp: failure_recorded_def)
  then have "jobs t' = jobs t1" by (blast dest: jobs_same(3))
  with u show ?thesis using assms(2,3) by (auto elim!: sql_update_stateE simp: find_by_upd_by)
qed

text \<open>C17: Under every schedule of failures, one run of the handler sends at most one request, always
  to the URL and with the payload of the stored job, and only after the attempt was counted: in the
  database it leaves, the attempts of that job are one more than before.\<close>

theorem webhook_called_once:
  assumes "env_ok env" and "ProcessJobTask env task w = (r, w')" and "posts w' \<noteq> posts w"
  shows "\<exists>job j'. job \<in> set (jobs (pg w)) \<and>
    posts w' = posts w @ [(job_WebhookURL job, job_Payload job)] \<and>
    job_row (job_ID job) w' = Some j' \<and> job_Attempts j' = job_Attempts job + 1"
  using assms(2)
proof (cases rule: process_run)
  case idle
  with assms(3) show ?thesis by (simp add: quiet_step_def)
next
  case (silent p job a)
  with assms(3) show ?thesis by (simp add: quiet_step_def)
next
  case (called p job a t)
  from started_tables [OF called(2) assms(1)] obtain k now
    where k: "find_by job_ID k (jobs (pg w)) = Some job" "job_ID job = k" "e_uuid_in env k = Some k"
      and a: "a = job_Attempts job + 1"
      and t: "t = (pg w)\<lparr>jobs := upd_by job_ID k (\<lambda>j. j\<lparr>job_State := ''running'', job_LastError := None,
        job_Result := None, job_Attempts := a, job_UpdatedAt := now\<rparr>) (jobs (pg w))\<rparr>"
    by metis
  have at_t: "\<exists>j. find_by job_ID k (jobs t) = Some j \<and> job_Attempts j = a"
    unfolding t using k by (simp add: find_by_upd_by)
  from called(4) have "\<exists>j'. find_by job_ID k (jobs (pg w')) = Some j' \<and> job_Attempts j' = a"
  proof (elim disjE exE)
    assume "pg w' = t"
    with at_t show ?thesis by simp
  next
    fix err
    assume "failure_recorded env job a err t (pg w')"
    from failure_recorded_attempts [OF this] at_t k show ?thesis by auto
  next
    fix now body
    assume "sql_update_state env now (job_ID job) ''completed'' None (Some body) a t = Inr ((), pg w')"
    with at_t k show ?thesis by (auto elim!: sql_update_stateE simp: find_by_upd_by)
  qed
  with called(3) k a show ?thesis
    by (auto simp: posted_def job_row_def dest: find_by_SomeD)
qed

section \<open>Jobs left running\<close>

text \<open>C18: When the context is cancelled during the sleep, or the simulated failure strikes, the
  handler leaves the job \<open>running\<close> and adds no event: whatever the job's state was, its result is
  erased, nothing is sent, and nothing in the database will start it again. On a cancellation the
  handler returns nil, so that Asynq counts the task as done; on the simulated failure it returns an
  error, and the poller has enqueued the task without any retry.\<close>

theorem interrupted_stays_running:
  assumes "healthy env" and "env_ok env" and "runs env task w job"
    and "(\<forall>n. e_ctx_done env n) \<or> (\<forall>n. \<not> e_ctx_done env n) \<and> (\<forall>n. e_rand_float env n < float32_fifth)"
  shows "\<exists>now w'. ProcessJobTask env task w =
      (if e_ctx_done env 0 then None else Some (HookError (WebhookError 500 ''simulated random failure'')), w') \<and>
    posts w' = posts w \<and> redis w' = redis w \<and>
    pg w' = (pg w)\<lparr>jobs := upd_by job_ID (job_ID job)
      (set_outcome ''running'' None None (job_Attempts job + 1) now) (jobs (pg w))\<rparr>"
proof -
  from start_healthy [OF assms(1-3)] obtain p w1 now
    where p: "ParseJobProcessPayload task = Some p"
      and s: "start_job env (jpp_JobID p) w = (Some (job, job_Attempts job + 1), w1)"
      and w1: "pg w1 = (pg w)\<lparr>jobs := upd_by job_ID (job_ID job)
        (set_outcome ''running'' None None (job_Attempts job + 1) now) (jobs (pg w))\<rparr>" "quiet_step w w1"
    by blast
  obtain r w' where run: "run_job env job (job_Attempts job + 1) w1 = (r, w')" by (metis surj_pair)
  with assms(4) have "r = (if e_ctx_done env 0 then None else Some (HookError (WebhookError 500 ''simulated random failure''))) \<and>
      pg w' = pg w1 \<and> quiet_step w1 w'"
    by (auto simp: run_job_def Let_def split: if_splits)
  with p s run w1 show ?thesis
    by (intro exI [of _ now] exI [of _ w']) (auto simp: ProcessJobTask_def quiet_step_def)
qed

text \<open>When the webhook accepts with a 2xx status but a body that is not JSON, as an empty body is, the
  result cannot be stored: the handler returns the database's error, the request has been sent, and
  the job stays \<open>running\<close> with no event that would start it again.\<close>

lemma non_json_run:
  assumes "healthy env" and "env_ok env" and "live env" and "runs env task w job"
    and "answers env job (Replied status (Inr body))" and "200 \<le> status" and "status < 300"
    and "e_jsonb_in env body = None"
  shows "\<exists>now w'. ProcessJobTask env task w = (Some (StoreError (ErrInput ''jsonb'')), w') \<and>
    posted job w w' \<and>
    pg w' = (pg w)\<lparr>jobs := upd_by job_ID (job_ID job)
      (set_outcome ''running'' None None (job_Attempts job + 1) now) (jobs (pg w))\<rparr>"
proof -
  from start_healthy [OF assms(1,2,4)] obtain p w1 now
    where p: "ParseJobProcessPayload task = Some p"
      and s: "start_job env (jpp_JobID p) w = (Some (job, job_Attempts job + 1), w1)"
      and k: "e_uuid_in env (job_ID job) = Some (job_ID job)"
      and w1: "pg w1 = (pg w)\<lparr>jobs := upd_by job_ID (job_ID job)
        (set_outcome ''running'' None None (job_Attempts job + 1) now) (jobs (pg w))\<rparr>" "quiet_step w w1"
    by blast
  have a: "int4_ok (job_Attempts job + 1)" using assms(4) by (simp add: runs_def)
  obtain w2 where hook: "executeJobWebhook env job (bump (bump w1)) = (Inr body, w2)"
    using assms(5-7) by (simp add: executeJobWebhook_def answers_def Let_def)
  from executeJobWebhook_run [OF hook] have w2: "posted job w1 w2" "pg w2 = pg w1"
    by (simp_all add: posted_def)
  have upd: "sql_update_state env n (job_ID job) ''completed'' None (Some body) (job_Attempts job + 1) t
      = Inl (ErrInput ''jsonb'')" for n t
    using k a text_literals(2) [OF assms(2)] assms(8) by (simp add: sql_update_state_def)
  show ?thesis
    using p s w1 w2 hook quiet_posted [OF w1(2) w2(1)]
    by (simp add: ProcessJobTask_def run_job_live [OF assms(3)] UpdateJobState_def
        healthy_simps [OF assms(1)] upd posted_def) blast
qed

section \<open>Witnesses\<close>

lemma runs_env:
  assumes eq: "e_uuid_in env' = e_uuid_in env"
  shows "runs env' task w job = runs env task w job"
  unfolding runs_def eq ..

lemma demo_runs: "runs demo_env demo_task demo_world demo_job"
  by (simp add: runs_def demo_parse) (simp add: demo_defs demo_env_def utf8_ok_ascii int4_ok_def)

lemma demo_live: "live demo_env"
  by (simp add: live_def demo_env_def float32_fifth_def)

theorem process_completes_witness:
  "\<exists>now w'. ProcessJobTask demo_env demo_task demo_world = (None, w') \<and> posted demo_job demo_world w' \<and>
    pg w' = (pg demo_world)\<lparr>jobs := upd_by job_ID (job_ID demo_job)
      (set_outcome ''completed'' None (Some ''{}'') (job_Attempts demo_job + 1) now) (jobs (pg demo_world))\<rparr>"
proof (rule process_completes [OF demo_healthy demo_env_ok demo_live demo_runs])
  show "answers demo_env demo_job (Replied 200 (Inr ''{}''))"
    by (simp add: answers_def demo_env_def)
  show "e_jsonb_in demo_env ''{}'' = Some ''{}''" by (simp add: demo_env_def)
qed simp_all

text \<open>The environment of the failure paths: the webhook answers 503.\<close>

definition failing_env :: env where
  "failing_env = demo_env\<lparr>e_post := (\<lambda>_ _ _. Replied 503 (Inr ''busy''))\<rparr>"

lemma failing_facts: "healthy failing_env" "env_ok failing_env" "live failing_env"
  "runs failing_env demo_task demo_world demo_job"
  using demo_healthy demo_env_ok demo_live demo_runs runs_env [of failing_env demo_env demo_task]
  by (simp_all add: failing_env_def healthy_def env_ok_def live_def)

theorem process_fails_witness:
  "\<exists>now w'. ProcessJobTask failing_env demo_task demo_world = (None, w') \<and> posted demo_job demo_world w' \<and>
    jobs (pg w') = upd_by job_ID ''job1'' (set_outcome ''queued'' (Some ''busy'') None 1 now) (jobs (pg demo_world)) \<and>
    (\<exists>v. outbox (pg w') = outbox (pg demo_world) @ [v] \<and> ev_EventType v = ''job_retry'' \<and>
      ev_AggregateID v = ''job1'' \<and> \<not> ev_Published v)"
proof -
  have "answers failing_env demo_job (Replied 503 (Inr ''busy''))"
    by (simp add: answers_def failing_env_def)
  moreover have "\<forall>n. find_by ev_ID (e_uuid failing_env n) (outbox (pg demo_world)) = None"
    by (simp add: failing_env_def demo_env_def demo_defs replicate_other)
  moreover have "announceable failing_env (job_ID demo_job) (job_Type demo_job) (job_Name demo_job)
      (job_WebhookURL demo_job) (job_Payload demo_job)"
    using event_payload_marshal [of "job_Payload demo_job" "job_ID demo_job"]
    by (auto simp: announceable_def failing_env_def demo_env_def demo_payload_json split: option.splits)
  moreover have "e_text_ok failing_env ''busy''" by (simp add: failing_env_def demo_env_def)
  ultimately show ?thesis
    using process_fails [OF failing_facts, of 503 "''busy''"] by (simp add: demo_job_def)
qed

theorem webhook_called_once_witness:
  "\<exists>job j'. job \<in> set (jobs (pg demo_world)) \<and>
    posts (snd (ProcessJobTask demo_env demo_task demo_world)) =
      posts demo_world @ [(job_WebhookURL job, job_Payload job)] \<and>
    job_row (job_ID job) (snd (ProcessJobTask demo_env demo_task demo_world)) = Some j' \<and>
    job_Attempts j' = job_Attempts job + 1"
proof (rule webhook_called_once [OF demo_env_ok])
  show "ProcessJobTask demo_env demo_task demo_world =
      (fst (ProcessJobTask demo_env demo_task demo_world), snd (ProcessJobTask demo_env demo_task demo_world))"
    by simp
  from start_healthy [OF demo_healthy demo_env_ok demo_runs] obtain p w1
    where p: "ParseJobProcessPayload demo_task = Some p"
      and s: "start_job demo_env (jpp_JobID p) demo_world = (Some (demo_job, job_Attempts demo_job + 1), w1)"
      and q: "quiet_step demo_world w1"
    by blast
  obtain r w' where run: "run_job demo_env demo_job (job_Attempts demo_job + 1) w1 = (r, w')"
    by (metis surj_pair)
  then have "posted demo_job w1 w'"
    by (cases rule: run_job_run)
      (use demo_live in \<open>auto simp: live_def leD\<close>)
  then show "posts (snd (ProcessJobTask demo_env demo_task demo_world)) \<noteq> posts demo_world"
    using p s q run by (simp add: ProcessJobTask_def posted_def quiet_step_def)
qed

definition cancelled_env :: env where
  "cancelled_env = demo_env\<lparr>e_ctx_done := (\<lambda>_. True)\<rparr>"

theorem interrupted_stays_running_witness:
  "\<exists>now w'. ProcessJobTask cancelled_env demo_task demo_world = (None, w') \<and> posts w' = posts demo_world \<and>
    jobs (pg w') = [set_outcome ''running'' None None 1 now demo_job]"
proof -
  have env: "healthy cancelled_env" "env_ok cancelled_env" "runs cancelled_env demo_task demo_world demo_job"
    using demo_healthy demo_env_ok demo_runs runs_env [of cancelled_env demo_env demo_task]
    by (simp_all add: cancelled_env_def healthy_def env_ok_def)
  have cancelled: "e_ctx_done cancelled_env n" for n by (simp add: cancelled_env_def)
  from interrupted_stays_running [OF env] cancelled obtain now w' where
    "ProcessJobTask cancelled_env demo_task demo_world = (None, w')" "posts w' = posts demo_world"
    "pg w' = (pg demo_world)\<lparr>jobs := upd_by job_ID (job_ID demo_job)
      (set_outcome ''running'' None None (job_Attempts demo_job + 1) now) (jobs (pg demo_world))\<rparr>"
    by auto
  then show ?thesis
    by (intro exI [of _ now] exI [of _ w']) (simp add: upd_by_def demo_world_def, simp add: demo_job_def)
qed


end
