(* ===== verification/Outbox_Poller.thy ===== *)
theory Outbox_Poller
  imports Store
begin

text \<open>
  \<^verbatim>\<open>service/outbox_poller.go\<close>: one poll takes a batch of unpublished events, marks them published
  in one transaction and then enqueues a task for each, putting an event back when that fails.
\<close>

definition Enqueue :: "env \<Rightarrow> asynq_task \<Rightarrow> nat \<Rightarrow> world \<Rightarrow> bool \<times> world" where
  \<comment> \<open>\<^verbatim>\<open>asynq.Client.Enqueue\<close> with the option \<^verbatim>\<open>asynq.MaxRetry\<close>: whether it reported success\<close>
  "Enqueue env task maxRetry w =
    (case e_enqueue env (tick w) of
       NoFault \<Rightarrow> (True, bump (w\<lparr>redis := redis w @ [queued maxRetry task]\<rparr>))
     | FailBefore \<Rightarrow> (False, bump w)
     | LostReply \<Rightarrow> (False, bump (w\<lparr>redis := redis w @ [queued maxRetry task]\<rparr>)))"

fun mark_all :: "env \<Rightarrow> StoreOutboxEvent list \<Rightarrow> txn \<Rightarrow> world \<Rightarrow> (dberr + unit) \<times> txn \<times> world" where
  "mark_all env [] tx w = (Inr (), tx, w)"
| "mark_all env (event # events) tx w =
    (case MarkOutboxEventPublishedTx env tx (ev_ID event) w of
       (Inl e, tx', w') \<Rightarrow> (Inl e, tx', w')
     | (Inr _, tx', w') \<Rightarrow> mark_all env events tx' w')"

definition dispatch :: "env \<Rightarrow> StoreOutboxEvent \<Rightarrow> world \<Rightarrow> world" where
  \<comment> \<open>the body of the second loop; the outcome of the cleanup is only logged\<close>
  "dispatch env event w =
    (case NewJobProcessTask (ev_AggregateID event) (ev_ID event) of
       None \<Rightarrow> snd (MarkOutboxEventUnpublished env (ev_ID event) w)
     | Some task \<Rightarrow>
         (case Enqueue env task 0 w of
            (False, w1) \<Rightarrow> snd (MarkOutboxEventUnpublished env (ev_ID event) w1)
          | (True, w1) \<Rightarrow> w1))"

fun dispatch_all :: "env \<Rightarrow> StoreOutboxEvent list \<Rightarrow> world \<Rightarrow> world" where
  "dispatch_all env [] w = w"
| "dispatch_all env (event # events) w = dispatch_all env events (dispatch env event w)"

definition claim_batch :: "env \<Rightarrow> int \<Rightarrow> world \<Rightarrow> (dberr + StoreOutboxEvent list) \<times> world" where
  \<comment> \<open>the transaction of a poll: the events it has marked published\<close>
  "claim_batch env limit w =
    (case BeginTx env w of
       (Inl e, w1) \<Rightarrow> (Inl e, w1)
     | (Inr tx, w1) \<Rightarrow>
     (case GetUnpublishedOutboxEventsTx env tx limit w1 of
       (Inl e, _, w2) \<Rightarrow> (Inl e, w2)
     | (Inr events, tx2, w2) \<Rightarrow>
     (case mark_all env events tx2 w2 of
       (Inl e, _, w3) \<Rightarrow> (Inl e, w3)
     | (Inr _, tx3, w3) \<Rightarrow>
     (case Commit env tx3 w3 of
       (Inl e, w4) \<Rightarrow> (Inl e, w4)
     | (Inr _, w4) \<Rightarrow> (Inr events, w4)))))"

definition pollOnce :: "env \<Rightarrow> int \<Rightarrow> world \<Rightarrow> dberr option \<times> world" where
  \<comment> \<open>with no event both loops are empty, so the early \<^verbatim>\<open>return tx.Commit()\<close> needs no case of its own\<close>
  "pollOnce env limit w =
    (case claim_batch env limit w of
       (Inl e, w1) \<Rightarrow> (Some e, w1)
     | (Inr events, w1) \<Rightarrow> (None, dispatch_all env events w1))"

fun poller :: "env \<Rightarrow> int \<Rightarrow> nat \<Rightarrow> world \<Rightarrow> world" where
  \<comment> \<open>the loop of one poller of \<^verbatim>\<open>StartOutboxPollers\<close>, for at most \<open>n\<close> rounds: an error is logged
     and the loop goes on, a cancelled context ends it after the round\<close>
  "poller env limit 0 w = w"
| "poller env limit (Suc n) w =
    (case pollOnce env limit w of
       (_, w1) \<Rightarrow> if e_ctx_done env (tick w1) then bump w1 else poller env limit n (bump w1))"

text \<open>
  \<open>StartOutboxPollers\<close> starts \<open>n\<close> such loops side by side. A schedule names the poller that takes the
  next round; a poller that has seen the context cancelled takes none. The wait between the
  rounds of one poller is part of the schedule.
\<close>

fun run_pollers :: "env \<Rightarrow> int \<Rightarrow> nat list \<Rightarrow> nat set \<Rightarrow> world \<Rightarrow> nat set \<times> world" where
  "run_pollers env limit [] running w = (running, w)"
| "run_pollers env limit (i # schedule) running w =
    (if i \<notin> running then run_pollers env limit schedule running w
     else case pollOnce env limit w of
       (_, w1) \<Rightarrow>
         run_pollers env limit schedule (if e_ctx_done env (tick w1) then running - {i} else running) (bump w1))"

definition StartOutboxPollers :: "env \<Rightarrow> nat \<Rightarrow> int \<Rightarrow> nat list \<Rightarrow> world \<Rightarrow> nat set \<times> world" where
  \<comment> \<open>the pollers still running and the world after a schedule\<close>
  "StartOutboxPollers env n limit schedule w = run_pollers env limit schedule {..<n} w"

end
