(* ===== verification/Poller_Runs.thy ===== *)
theory Poller_Runs
  imports Refinement Outbox_Poller
begin

text \<open>
  The outcomes of a poll. A poll claims a batch, which marks its events published in one
  transaction, and dispatches the events one by one; \<open>served\<close> is what it owes an event it has
  claimed: a task for it in the queue, or the event unpublished again.
\<close>

section \<open>Claiming a batch\<close>

lemma mark_all_run:
  assumes "mark_all env events tx w = (r, tx', w')"
  shows "pg w' = pg w \<and> redis w' = redis w \<and> posts w' = posts w \<and> tx_now tx' = tx_now tx \<and>
    (\<forall>x. r = Inr x \<longrightarrow>
      sql_mark_list env (tx_now tx) (map ev_ID events) (tx_tables tx) = Inr ((), tx_tables tx'))"
  using assms
proof (induction events arbitrary: tx w)
  case Nil
  then show ?case by auto
next
  case (Cons v vs)
  obtain r1 tx1 w1 where s: "tx_stmt env (sql_mark env True (tx_now tx) (ev_ID v)) tx w = (r1, tx1, w1)"
    by (metis prod_cases3)
  from s show ?case
  proof (cases rule: tx_stmt_cases)
    case (failed e)
    with Cons.prems s show ?thesis by (auto simp: MarkOutboxEventPublishedTx_def)
  next
    case (success x t)
    with Cons.prems s have "mark_all env vs tx1 w1 = (r, tx', w')"
      by (simp add: MarkOutboxEventPublishedTx_def)
    from Cons.IH [OF this] success show ?thesis by simp
  qed
qed

lemma scan_event_simps [simp]:
  "ev_ID (scan_event v) = ev_ID v" "ev_AggregateID (scan_event v) = ev_AggregateID v"
  by (simp_all add: scan_event_def)

lemma dispatch_scan [simp]: "dispatch env (scan_event v) w = dispatch env v w"
  unfolding dispatch_def scan_event_simps ..

lemma dispatch_all_scan [simp]: "dispatch_all env (map scan_event vs) w = dispatch_all env vs w"
  by (induction vs arbitrary: w) simp_all

definition claimable :: "env \<Rightarrow> nat \<Rightarrow> int \<Rightarrow> tables \<Rightarrow> StoreOutboxEvent list" where
  \<comment> \<open>the unpublished events not locked by another transaction, oldest first\<close>
  "claimable env n limit t = take (nat limit) (sort_key ev_CreatedAt (scanned env n ev_ID
     (filter (\<lambda>v. \<not> ev_Published v \<and> ev_ID v \<notin> set (e_locked env n)) (outbox t))))"

lemma claim_batch_run:
  assumes "claim_batch env limit w = (r, w')"
  obtains (failed) e where "r = Inl e" "pg w' = pg w" "redis w' = redis w"
  | (lost) now where "r = Inl ErrConn" "redis w' = redis w"
      "sql_mark_list env now (map ev_ID (claimable env (Suc (tick w)) limit (pg w))) (pg w) = Inr ((), pg w')"
  | (claimed) now where "r = Inr (map scan_event (claimable env (Suc (tick w)) limit (pg w)))" "redis w' = redis w"
      "sql_mark_list env now (map ev_ID (claimable env (Suc (tick w)) limit (pg w))) (pg w) = Inr ((), pg w')"
proof -
  note d = claim_batch_def GetUnpublishedOutboxEventsTx_def
  obtain r1 w1 where s1: "BeginTx env w = (r1, w1)" by (metis surj_pair)
  from s1 show thesis
  proof (cases rule: BeginTx_cases)
    case failed
    with assms s1 have "r = Inl ErrConn" "pg w' = pg w" "redis w' = redis w" by (auto simp: d)
    then show thesis by (rule that(1))
  next
    case b: success
    let ?tx = "\<lparr>tx_tables = pg w, tx_now = e_pgnow env (tick w)\<rparr>"
    obtain r2 tx2 w2 where s2: "tx_stmt env (sql_unpublished env (tick w1) limit) ?tx w1 = (r2, tx2, w2)"
      by (metis prod_cases3)
    from s2 show thesis
    proof (cases rule: tx_stmt_cases)
      case (failed e)
      with assms s1 b s2 have "r = Inl e" "pg w' = pg w" "redis w' = redis w" by (auto simp: d)
      then show thesis by (rule that(1))
    next
      case u: (success events t)
      let ?evs = "claimable env (Suc (tick w)) limit (pg w)"
      have ev: "events = map scan_event ?evs" "t = pg w"
        using u(2) b by (auto simp: sql_unpublished_def claimable_def split: if_splits)
      obtain r3 tx3 w3 where s3: "mark_all env events tx2 w2 = (r3, tx3, w3)" by (metis prod_cases3)
      note m = mark_all_run [OF s3]
      show thesis
      proof (cases r3)
        case (Inl e)
        with assms s1 b s2 u s3 m have "r = Inl e" "pg w' = pg w" "redis w' = redis w"
          by (auto simp: d)
        then show thesis by (rule that(1))
      next
        case (Inr x)
        obtain r4 w4 where s4: "Commit env tx3 w3 = (r4, w4)" by (metis surj_pair)
        have run: "(r, w') = (case r4 of Inl e \<Rightarrow> (Inl e, w4) | Inr _ \<Rightarrow> (Inr events, w4))"
          using assms s1 b s2 u s3 Inr s4 by (simp add: d)
        have marked: "sql_mark_list env (tx_now ?tx) (map ev_ID ?evs) (pg w) = Inr ((), tx_tables tx3)"
          using m Inr u ev by (simp add: o_def)
        from s4 show thesis
        proof (cases rule: Commit_cases)
          case failed
          with run m u b have "r = Inl ErrConn" "pg w' = pg w" "redis w' = redis w" by simp_all
          then show thesis by (rule that(1))
        next
          case lost
          with run m u b have "r = Inl ErrConn" "redis w' = redis w" "pg w' = tx_tables tx3" by simp_all
          then show thesis using that(2) marked by simp
        next
          case success
          with run m u b have "r = Inr events" "redis w' = redis w" "pg w' = tx_tables tx3" by simp_all
          then show thesis using that(3) marked ev by simp
        qed
      qed
    qed
  qed
qed

section \<open>Refinement\<close>

lemma Enqueue_run:
  assumes "Enqueue env task n w = (b, w')"
  shows "pg w' = pg w \<and> (redis w' = redis w \<or> redis w' = redis w @ [queued n task]) \<and>
    (b \<longrightarrow> redis w' = redis w @ [queued n task])"
  using assms by (auto simp: Enqueue_def split: fault.splits)

lemma dispatch_run:
  obtains (enqueued) task w1 where "NewJobProcessTask (ev_AggregateID v) (ev_ID v) = Some task"
      "Enqueue env task 0 w = (True, w1)" "dispatch env v w = w1"
  | (put_back) w1 where "dispatch env v w = snd (MarkOutboxEventUnpublished env (ev_ID v) w1)"
      "pg w1 = pg w" "redis w1 = redis w \<or> (\<exists>task. redis w1 = redis w @ [queued 0 task] \<and>
        NewJobProcessTask (ev_AggregateID v) (ev_ID v) = Some task)"
proof -
  obtain task where t: "NewJobProcessTask (ev_AggregateID v) (ev_ID v) = Some task"
    using NewJobProcessTask_total by blast
  obtain b w1 where e: "Enqueue env task 0 w = (b, w1)" by (metis surj_pair)
  show thesis
  proof (cases b)
    case True
    with t e show thesis by (intro that(1)) (simp_all add: dispatch_def)
  next
    case False
    with t e Enqueue_run [OF e] show thesis by (intro that(2) [of w1]) (auto simp: dispatch_def)
  qed
qed

lemma dispatch_steps: "db_steps env (pg w) (pg (dispatch env v w))"
proof (cases rule: dispatch_run [of v env w])
  case (enqueued task w1)
  with Enqueue_run [OF enqueued(2)] show ?thesis by simp
next
  case (put_back w1)
  then show ?thesis using MarkOutboxEventUnpublished_steps [of env w1 "ev_ID v"] by simp
qed

lemma dispatch_all_steps: "db_steps env (pg w) (pg (dispatch_all env events w))"
  by (induction events arbitrary: w) (auto intro: dispatch_steps rtranclp_trans)

lemma pollOnce_steps: "db_steps env (pg w) (pg (snd (pollOnce env limit w)))"
proof (cases "claim_batch env limit w")
  case (Pair r w1)
  then show ?thesis
  proof (cases rule: claim_batch_run)
    case (failed e)
    with Pair show ?thesis by (simp add: pollOnce_def)
  next
    case (lost now)
    with Pair show ?thesis by (auto simp: pollOnce_def intro: db_steps_one db_step.publish)
  next
    case (claimed now)
    then have "db_step env (pg w) (pg w1)" by (auto intro: db_step.publish)
    then have "db_steps env (pg w) (pg (dispatch_all env (claimable env (Suc (tick w)) limit (pg w)) w1))"
      using dispatch_all_steps by (meson converse_rtranclp_into_rtranclp)
    with claimed Pair show ?thesis by (simp add: pollOnce_def)
  qed
qed

lemma poller_steps: "db_steps env (pg w) (pg (poller env limit n w))"
proof (induction n arbitrary: w)
  case (Suc n)
  have "db_steps env (pg w) (pg (snd (pollOnce env limit w)))" by (rule pollOnce_steps)
  then show ?case using Suc [of "bump (snd (pollOnce env limit w))"]
    by (auto split: prod.splits intro: rtranclp_trans)
qed simp

section \<open>What a poll does to the events\<close>

abbreviation event :: "string \<Rightarrow> world \<Rightarrow> StoreOutboxEvent option" where
  "event k w \<equiv> find_by ev_ID k (outbox (pg w))"

definition set_published :: "bool \<Rightarrow> int \<Rightarrow> StoreOutboxEvent \<Rightarrow> StoreOutboxEvent" where
  "set_published b now v = (if b then v\<lparr>ev_Published := True, ev_PublishedAt := Some now, ev_UpdatedAt := now\<rparr>
     else v\<lparr>ev_Published := False, ev_UpdatedAt := now\<rparr>)"

lemma set_published_id [simp]: "ev_ID (set_published b now v) = ev_ID v"
  by (simp add: set_published_def)

lemma set_published_flag [simp]: "ev_Published (set_published b now v) = b"
  by (simp add: set_published_def)

lemma sql_mark_canonical:
  assumes "e_uuid_in env k = Some k"
  shows "sql_mark env b now k t = Inr ((), t\<lparr>outbox := upd_by ev_ID k (set_published b now) (outbox t)\<rparr>)"
  using assms by (simp add: sql_mark_def set_published_def [abs_def])

lemma sql_mark_list_canonical:
  assumes "\<forall>k \<in> set ks. e_uuid_in env k = Some k"
  shows "sql_mark_list env now ks t = Inr ((), t\<lparr>outbox :=
    map (\<lambda>v. if ev_ID v \<in> set ks then set_published True now v else v) (outbox t)\<rparr>)"
  using assms
proof (induction ks arbitrary: t)
  case (Cons k ks)
  have "(if ev_ID u \<in> set ks then set_published True now u else u) =
      (if ev_ID v = k \<or> ev_ID v \<in> set ks then set_published True now v else v)"
    if "u = (if ev_ID v = k then set_published True now v else v)" for u v
    using that by (simp add: set_published_def)
  with Cons show ?case by (simp add: sql_mark_canonical upd_by_def o_def)
qed simp

lemma healthy_unpublish:
  assumes "healthy env" and "e_uuid_in env k = Some k"
  shows "\<exists>now. pg (snd (MarkOutboxEventUnpublished env k w)) =
      (pg w)\<lparr>outbox := upd_by ev_ID k (set_published False now) (outbox (pg w))\<rparr>"
    and "redis (snd (MarkOutboxEventUnpublished env k w)) = redis w"
  using assms
  by (auto simp: MarkOutboxEventUnpublished_def auto_stmt_def healthy_def sql_mark_canonical)

definition served :: "StoreOutboxEvent \<Rightarrow> world \<Rightarrow> bool" where
  "served v w \<longleftrightarrow>
    (\<exists>task. NewJobProcessTask (ev_AggregateID v) (ev_ID v) = Some task \<and> queued 0 task \<in> set (redis w)) \<or>
    (\<exists>v'. event (ev_ID v) w = Some v' \<and> \<not> ev_Published v')"

lemma dispatch_served:
  assumes "healthy env" and "e_uuid_in env (ev_ID v) = Some (ev_ID v)" and "event (ev_ID v) w \<noteq> None"
  shows "served v (dispatch env v w)"
proof (cases rule: dispatch_run [of v env w])
  case (enqueued task w1)
  with Enqueue_run [OF enqueued(2)] show ?thesis by (auto simp: served_def)
next
  case (put_back w1)
  from healthy_unpublish(1) [OF assms(1,2)] obtain now
    where "pg (dispatch env v w) = (pg w)\<lparr>outbox := upd_by ev_ID (ev_ID v) (set_published False now) (outbox (pg w))\<rparr>"
    using put_back by metis
  with assms(3) show ?thesis
    by (auto simp: served_def event_rows.get_modify)
qed

lemma dispatch_frame:
  assumes "healthy env" and "e_uuid_in env (ev_ID v) = Some (ev_ID v)"
  shows "set (redis w) \<subseteq> set (redis (dispatch env v w))"
    and "k \<noteq> ev_ID v \<Longrightarrow> event k (dispatch env v w) = event k w"
    and "event k (dispatch env v w) = None \<longleftrightarrow> event k w = None"
proof (atomize (full), cases rule: dispatch_run [of v env w])
  case (enqueued task w1)
  with Enqueue_run [OF enqueued(2)]
  show "set (redis w) \<subseteq> set (redis (dispatch env v w)) \<and>
      (k \<noteq> ev_ID v \<longrightarrow> event k (dispatch env v w) = event k w) \<and>
      (event k (dispatch env v w) = None \<longleftrightarrow> event k w = None)"
    by auto
next
  case (put_back w1)
  from healthy_unpublish(1) [OF assms] put_back obtain now
    where "pg (dispatch env v w) = (pg w)\<lparr>outbox := upd_by ev_ID (ev_ID v) (set_published False now) (outbox (pg w))\<rparr>"
    by metis
  moreover have "redis (dispatch env v w) = redis w1"
    using put_back healthy_unpublish(2) [OF assms] by simp
  ultimately show "set (redis w) \<subseteq> set (redis (dispatch env v w)) \<and>
      (k \<noteq> ev_ID v \<longrightarrow> event k (dispatch env v w) = event k w) \<and>
      (event k (dispatch env v w) = None \<longleftrightarrow> event k w = None)"
    using put_back(3) by (auto simp: event_rows.get_modify split: option.splits)
qed

lemma served_dispatch:
  assumes "healthy env" and "e_uuid_in env (ev_ID u) = Some (ev_ID u)" and "ev_ID v \<noteq> ev_ID u"
    and "served v w"
  shows "served v (dispatch env u w)"
  using assms(4) dispatch_frame [OF assms(1,2), where w = w] assms(3) unfolding served_def
  by (metis subsetD)

lemma dispatch_all_served:
  assumes "healthy env" and "\<forall>v \<in> set vs. e_uuid_in env (ev_ID v) = Some (ev_ID v)"
    and "\<forall>v \<in> set vs. event (ev_ID v) w \<noteq> None" and "distinct (map ev_ID vs)"
  shows "\<forall>v \<in> set vs. served v (dispatch_all env vs w)"
proof -
  have keep: "served v (dispatch_all env us w)"
    if "served v w" "\<forall>u \<in> set us. e_uuid_in env (ev_ID u) = Some (ev_ID u)" "ev_ID v \<notin> ev_ID ` set us" for v us w
    using that
    by (induction us arbitrary: w) (auto intro: served_dispatch [OF assms(1)])
  show ?thesis
    using assms(2-4)
  proof (induction vs arbitrary: w)
    case (Cons v vs)
    have "served v (dispatch env v w)" using Cons.prems by (intro dispatch_served assms(1)) auto
    then have "served v (dispatch_all env vs (dispatch env v w))"
      using Cons.prems by (intro keep) auto
    moreover have "\<forall>u \<in> set vs. served u (dispatch_all env vs (dispatch env v w))"
      using Cons.prems dispatch_frame(3) [OF assms(1), of v] by (intro Cons.IH) auto
    ultimately show ?case by simp
  qed simp
qed

lemma distinct_sorted_rows: "distinct (map f (sort_key g rows)) = distinct (map f rows)"
  by (simp add: distinct_map)

lemma distinct_scanned: "distinct (map f (scanned env n key rows)) = distinct (map f rows)"
  unfolding scanned_def by (rule distinct_sorted_rows)

lemma claimableD:
  assumes "v \<in> set (claimable env n limit t)"
  shows "v \<in> set (outbox t)" and "\<not> ev_Published v"
  using assms by (auto simp: claimable_def dest!: in_set_takeD)

lemma claimable_distinct:
  assumes "schema_ok t"
  shows "distinct (map ev_ID (claimable env n limit t))"
proof -
  have "distinct (map ev_ID (filter P (outbox t)))" for P
    using assms by (simp add: schema_ok_def keys_ok_def distinct_map_filter)
  then show ?thesis
    unfolding claimable_def take_map [symmetric] by (intro distinct_take) (simp add: distinct_sorted_rows distinct_scanned)
qed

lemma claim_healthy:
  assumes "healthy env" and "ids_ok env (pg w)" and "0 \<le> limit"
  shows "\<exists>now w1. claim_batch env limit w = (Inr (map scan_event (claimable env (Suc (tick w)) limit (pg w))), w1) \<and>
    redis w1 = redis w \<and> outbox (pg w1) = map (\<lambda>v.
      if ev_ID v \<in> ev_ID ` set (claimable env (Suc (tick w)) limit (pg w)) then set_published True now v else v)
      (outbox (pg w))"
proof -
  let ?evs = "claimable env (Suc (tick w)) limit (pg w)"
  have ids: "\<forall>v \<in> set ?evs. e_uuid_in env (ev_ID v) = Some (ev_ID v)"
    using claimableD ids_okD(3) [OF assms(2)] by blast
  have mark: "\<exists>tx' w'. mark_all env vs tx w = (Inr (), tx', w')"
    if "\<forall>v \<in> set vs. e_uuid_in env (ev_ID v) = Some (ev_ID v)" for vs tx w
    using that assms(1)
    by (induction vs arbitrary: tx w)
      (simp_all add: MarkOutboxEventPublishedTx_def tx_stmt_def healthy_def sql_mark_canonical)
  let ?tx = "\<lparr>tx_tables = pg w, tx_now = e_pgnow env (tick w)\<rparr>"
  have "\<forall>v \<in> set (map scan_event ?evs). e_uuid_in env (ev_ID v) = Some (ev_ID v)"
    using ids by simp
  from mark [OF this] obtain tx' w' where
    m: "mark_all env (map scan_event ?evs) ?tx (bump (bump w)) = (Inr (), tx', w')" by blast
  have sql: "sql_unpublished env (Suc (tick w)) limit (pg w) = Inr (map scan_event ?evs, pg w)"
    using assms(3) by (simp add: sql_unpublished_def claimable_def)
  have "\<exists>x w1. claim_batch env limit w = (Inr x, w1)"
    by (simp add: claim_batch_def GetUnpublishedOutboxEventsTx_def healthy_simps [OF assms(1)] sql m)
  then obtain x w1 where c: "claim_batch env limit w = (Inr x, w1)" by blast
  then show ?thesis
  proof (cases rule: claim_batch_run)
    case (claimed now)
    have "sql_mark_list env now (map ev_ID ?evs) (pg w) = Inr ((), (pg w)\<lparr>outbox :=
        map (\<lambda>v. if ev_ID v \<in> set (map ev_ID ?evs) then set_published True now v else v) (outbox (pg w))\<rparr>)"
      using ids by (intro sql_mark_list_canonical) auto
    with claimed(3) have "pg w1 = (pg w)\<lparr>outbox := map (\<lambda>v. if ev_ID v \<in> ev_ID ` set ?evs
        then set_published True now v else v) (outbox (pg w))\<rparr>" by simp
    then have "outbox (pg w1) = map (\<lambda>v. if ev_ID v \<in> ev_ID ` set ?evs
        then set_published True now v else v) (outbox (pg w))" by simp
    with c claimed(1,2) show ?thesis by (intro exI [of _ now] exI [of _ w1]) simp
  qed simp_all
qed

end
