(* ===== verification/Poller_Props.thy ===== *)
theory Poller_Props
  imports Poller_Runs Demo
begin

text \<open>
  The properties of the outbox poller: with a healthy database a poll serves every event it
  claims, and when the queue accepts them too it enqueues exactly the claimed events, oldest
  first; an event that is published is never enqueued again, so one whose poller stopped between
  its commit and its dispatch is lost.
\<close>

section \<open>A healthy database\<close>

lemma pollOnce_healthy:
  assumes "healthy env" and "ids_ok env (pg w)" and "0 \<le> limit"
  obtains now w1 where "pollOnce env limit w = (None, dispatch_all env (claimable env (Suc (tick w)) limit (pg w)) w1)"
    "redis w1 = redis w"
    "outbox (pg w1) = map (\<lambda>v. if ev_ID v \<in> ev_ID ` set (claimable env (Suc (tick w)) limit (pg w))
      then set_published True now v else v) (outbox (pg w))"
proof -
  from claim_healthy [OF assms] obtain now w1 where
    "claim_batch env limit w = (Inr (map scan_event (claimable env (Suc (tick w)) limit (pg w))), w1)" "redis w1 = redis w"
    "outbox (pg w1) = map (\<lambda>v. if ev_ID v \<in> ev_ID ` set (claimable env (Suc (tick w)) limit (pg w))
      then set_published True now v else v) (outbox (pg w))"
    by blast
  then show thesis using that [of w1 now] by (simp add: pollOnce_def)
qed

lemma claimed_present:
  assumes "outbox (pg w1) = map (\<lambda>v. if P v then set_published True now v else v) (outbox (pg w))"
    and "v \<in> set (outbox (pg w))"
  shows "event (ev_ID v) w1 \<noteq> None"
proof -
  have "map ev_ID (outbox (pg w1)) = map ev_ID (outbox (pg w))"
    by (simp add: assms(1))
  then have "ev_ID ` set (outbox (pg w1)) = ev_ID ` set (outbox (pg w))"
    by (metis set_map)
  with assms(2) show ?thesis by (simp add: find_by_None_iff del: not_None_eq)
qed

text \<open>C7: With a healthy database a poll succeeds and every event it has claimed is served, whatever
  the queue does: there is a task for it in the queue, or the event is unpublished again and a
  later poll will take it.\<close>

theorem poll_serves:
  assumes "healthy env" and "schema_ok (pg w)" and "ids_ok env (pg w)" and "0 \<le> limit"
  shows "fst (pollOnce env limit w) = None \<and>
    (\<forall>v \<in> set (claimable env (Suc (tick w)) limit (pg w)). served v (snd (pollOnce env limit w)))"
proof -
  let ?evs = "claimable env (Suc (tick w)) limit (pg w)"
  from pollOnce_healthy [OF assms(1,3,4)] obtain now w1
    where poll: "pollOnce env limit w = (None, dispatch_all env ?evs w1)"
      and out: "outbox (pg w1) = map (\<lambda>v. if ev_ID v \<in> ev_ID ` set ?evs then
        set_published True now v else v) (outbox (pg w))"
    by blast
  have "\<forall>v \<in> set ?evs. event (ev_ID v) w1 \<noteq> None"
    using claimableD(1) claimed_present [OF out] by blast
  moreover have "\<forall>v \<in> set ?evs. e_uuid_in env (ev_ID v) = Some (ev_ID v)"
    using claimableD(1) ids_okD(3) [OF assms(3)] by blast
  ultimately show ?thesis
    using dispatch_all_served [OF assms(1)] claimable_distinct [OF assms(2)] poll by simp
qed

definition task_for :: "StoreOutboxEvent \<Rightarrow> queued_task" where
  \<comment> \<open>its task, enqueued with \<^verbatim>\<open>asynq.MaxRetry(0)\<close>\<close>
  "task_for v = queued 0 (the (NewJobProcessTask (ev_AggregateID v) (ev_ID v)))"

lemma dispatch_all_accepted:
  assumes "\<forall>n. e_enqueue env n = NoFault"
  shows "redis (dispatch_all env vs w) = redis w @ map task_for vs \<and> pg (dispatch_all env vs w) = pg w"
proof (induction vs arbitrary: w)
  case (Cons v vs)
  obtain task where "NewJobProcessTask (ev_AggregateID v) (ev_ID v) = Some task"
    using NewJobProcessTask_total by blast
  then have "redis (dispatch env v w) = redis w @ [task_for v]" "pg (dispatch env v w) = pg w"
    using assms by (simp_all add: dispatch_def Enqueue_def task_for_def)
  with Cons.IH [of "dispatch env v w"] show ?case by simp
qed simp

text \<open>C14: With a healthy database and a queue that accepts, a poll appends to the queue one task per
  claimed event, the oldest unpublished events first, those of the same time in the order the query
  met them, and at most \<open>limit\<close> of them, each without retries, and marks exactly these events published.\<close>

theorem poll_enqueues_exactly:
  assumes "healthy env" and "ids_ok env (pg w)" and "0 \<le> limit" and "\<forall>n. e_enqueue env n = NoFault"
  shows "\<exists>now. redis (snd (pollOnce env limit w)) =
      redis w @ map task_for (claimable env (Suc (tick w)) limit (pg w)) \<and>
    outbox (pg (snd (pollOnce env limit w))) =
      map (\<lambda>v. if ev_ID v \<in> ev_ID ` set (claimable env (Suc (tick w)) limit (pg w))
            then set_published True now v else v) (outbox (pg w))"
  by (rule pollOnce_healthy [OF assms(1-3)])
    (auto simp: dispatch_all_accepted [OF assms(4)])

section \<open>Published events\<close>

definition published_at :: "string \<Rightarrow> world \<Rightarrow> bool" where
  "published_at k w \<longleftrightarrow> (\<exists>v. event k w = Some v \<and> ev_Published v)"

lemma dispatch_other:
  assumes "e_uuid_in env (ev_ID u) = Some (ev_ID u)" and "k \<noteq> ev_ID u"
  shows "event k (dispatch env u w) = event k w"
    and "set (redis (dispatch env u w)) \<subseteq> insert (task_for u) (set (redis w))"
proof (atomize (full), cases rule: dispatch_run [of u env w])
  case (enqueued task w1)
  with Enqueue_run [OF enqueued(2)] show "event k (dispatch env u w) = event k w \<and>
      set (redis (dispatch env u w)) \<subseteq> insert (task_for u) (set (redis w))"
    by (auto simp: task_for_def)
next
  case (put_back w1)
  obtain r w2 where m: "auto_stmt env (sql_mark env False (e_pgnow env (tick w1)) (ev_ID u)) w1 = (r, w2)"
    by (metis surj_pair)
  then have "event k w2 = event k w1 \<and> redis w2 = redis w1"
    by (cases rule: auto_stmt_cases)
      (use assms in \<open>auto simp: sql_mark_canonical event_rows.get_modify\<close>)
  then show "event k (dispatch env u w) = event k w \<and>
      set (redis (dispatch env u w)) \<subseteq> insert (task_for u) (set (redis w))"
    using put_back m by (auto simp: MarkOutboxEventUnpublished_def task_for_def)
qed

lemma dispatch_all_other:
  assumes "\<forall>u \<in> set us. e_uuid_in env (ev_ID u) = Some (ev_ID u)" and "k \<notin> ev_ID ` set us"
  shows "event k (dispatch_all env us w) = event k w \<and>
    set (redis (dispatch_all env us w)) \<subseteq> task_for ` set us \<union> set (redis w)"
  using assms
proof (induction us arbitrary: w)
  case (Cons u us)
  with dispatch_other [of env u k w] show ?case by fastforce
qed simp

definition names_event :: "string \<Rightarrow> 'a asynq_task_scheme \<Rightarrow> bool" where
  "names_event k task \<longleftrightarrow>
    (case ParseJobProcessPayload task of None \<Rightarrow> False | Some p \<Rightarrow> jpp_OutboxID p = k)"

lemma task_for_names:
  assumes "utf8_ok (ev_ID v)" and "utf8_ok (ev_AggregateID v)"
  shows "names_event k (task_for v) \<longleftrightarrow> k = ev_ID v"
  using Parse_New [OF assms(2,1)] NewJobProcessTask_total [of "ev_AggregateID v" "ev_ID v"]
  by (auto simp: task_for_def names_event_def)

definition lost :: "string \<Rightarrow> world \<Rightarrow> bool" where
  \<comment> \<open>the event is published and no task in the queue names it\<close>
  "lost k w \<longleftrightarrow> published_at k w \<and> (\<forall>task \<in> set (redis w). \<not> names_event k task)"

lemma claim_published:
  assumes "claim_batch env limit w = (r, w1)" and "ids_ok env (pg w)" and "published_at k w"
  shows "published_at k w1 \<and> redis w1 = redis w"
proof -
  let ?evs = "claimable env (Suc (tick w)) limit (pg w)"
  let ?upd = "\<lambda>now v. if ev_ID v \<in> ev_ID ` set ?evs then set_published True now v else v"
  have ids: "\<forall>v \<in> set ?evs. e_uuid_in env (ev_ID v) = Some (ev_ID v)"
    using claimableD ids_okD(3) [OF assms(2)] by blast
  have mark: "sql_mark_list env now (map ev_ID ?evs) (pg w) = Inr ((), (pg w)\<lparr>outbox :=
      map (?upd now) (outbox (pg w))\<rparr>)" for now
    using ids sql_mark_list_canonical [of "map ev_ID ?evs" env now "pg w"] by simp
  have upd: "find_by ev_ID k (map (?upd now) rows) = map_option (?upd now) (find_by ev_ID k rows)" for now rows
    by (induction rows) simp_all
  have marked: "published_at k w1"
    if "sql_mark_list env now (map ev_ID ?evs) (pg w) = Inr ((), pg w1)" for now
  proof -
    have "pg w1 = (pg w)\<lparr>outbox := map (?upd now) (outbox (pg w))\<rparr>" using that mark [of now] by simp
    then have "outbox (pg w1) = map (?upd now) (outbox (pg w))" by simp
    moreover obtain v where v: "event k w = Some v" "ev_Published v"
      using assms(3) by (auto simp: published_at_def)
    ultimately have "event k w1 = Some (?upd now v)" by (simp only: upd option.map)
    then show ?thesis using v by (auto simp: published_at_def)
  qed
  from assms(1) show ?thesis
    by (cases rule: claim_batch_run) (use assms(3) marked in \<open>auto simp: published_at_def\<close>)
qed

lemma pollOnce_lost:
  assumes "schema_ok (pg w)" and "ids_ok env (pg w)" and "lost k w"
  shows "lost k (snd (pollOnce env limit w))"
proof -
  let ?evs = "claimable env (Suc (tick w)) limit (pg w)"
  have pub: "published_at k w" using assms(3) by (simp add: lost_def)
  then obtain v where v: "event k w = Some v" "ev_Published v" by (auto simp: published_at_def)
  have other: "k \<notin> ev_ID ` set ?evs"
  proof
    assume "k \<in> ev_ID ` set ?evs"
    then obtain u where u: "u \<in> set ?evs" "ev_ID u = k" by auto
    have "keys_ok ev_ID (outbox (pg w))" using assms(1) by (simp add: schema_ok_def)
    then have "event k w = Some u"
      using claimableD(1) [OF u(1)] u(2) by (simp add: find_by_Some_iff)
    with v have "u = v" by simp
    with claimableD(2) [OF u(1)] v show False by simp
  qed
  have ids: "\<forall>u \<in> set ?evs. e_uuid_in env (ev_ID u) = Some (ev_ID u)"
    using claimableD ids_okD(3) [OF assms(2)] by blast
  have tasks: "\<forall>u \<in> set ?evs. \<not> names_event k (task_for u)"
    using other ids_okD(4) [OF assms(2)] claimableD(1) by (auto simp: task_for_names)
  obtain r w1 where c: "claim_batch env limit w = (r, w1)" by (metis surj_pair)
  from claim_published [OF c assms(2) pub] have w1: "published_at k w1" "redis w1 = redis w"
    by simp_all
  show ?thesis
  proof (cases r)
    case (Inl e)
    with c w1 assms(3) show ?thesis by (simp add: pollOnce_def lost_def)
  next
    case (Inr events)
    have "events = map scan_event ?evs" using c Inr by (auto elim!: claim_batch_run)
    with c Inr have poll: "snd (pollOnce env limit w) = dispatch_all env ?evs w1" by (simp add: pollOnce_def)
    from dispatch_all_other [OF ids other, of w1] w1 tasks assms(3)
    show ?thesis unfolding poll lost_def published_at_def by auto
  qed
qed

text \<open>C15: An event that is published and that no task in the queue names is lost: no number of
  further polls, under any schedule of failures, enqueues a task for it or unpublishes it. This is
  the state a poller leaves behind when it stops between the commit of its batch and the dispatch.\<close>

theorem published_event_lost:
  assumes "env_ok env" and "schema_ok (pg w)" and "ids_ok env (pg w)" and "lost k w"
  shows "lost k (poller env limit n w)"
  using assms
proof (induction n arbitrary: w)
  case (Suc n)
  obtain r w1 where p: "pollOnce env limit w = (r, w1)" by (metis surj_pair)
  have steps: "db_steps env (pg w) (pg w1)" using pollOnce_steps [of env w limit] p by simp
  have "lost k (bump w1)"
    using pollOnce_lost [OF Suc.prems(2-4), of limit] p by (simp add: lost_def published_at_def)
  moreover have "schema_ok (pg (bump w1))" "ids_ok env (pg (bump w1))"
    using schema.steps [OF steps] ids.steps [OF steps] Suc.prems by simp_all
  ultimately show ?case using Suc.IH [of "bump w1"] Suc.prems(1) p by (simp split: if_splits)
qed simp

text \<open>C16: The state of the previous property is reached: with a healthy database, a claim that
  commits and is followed by no dispatch leaves each of its events lost, provided no task named it
  before.\<close>

theorem crash_after_claim_loses:
  assumes "healthy env" and "schema_ok (pg w)" and "ids_ok env (pg w)" and "0 \<le> limit"
    and "v \<in> set (claimable env (Suc (tick w)) limit (pg w))"
    and "\<forall>task \<in> set (redis w). \<not> names_event (ev_ID v) task"
  shows "lost (ev_ID v) (snd (claim_batch env limit w))"
proof -
  let ?evs = "claimable env (Suc (tick w)) limit (pg w)"
  from claim_healthy [OF assms(1,3,4)] obtain now w1 where c: "claim_batch env limit w = (Inr (map scan_event ?evs), w1)"
    and r: "redis w1 = redis w"
    and out: "outbox (pg w1) = map (\<lambda>v. if ev_ID v \<in> ev_ID ` set ?evs then set_published True now v else v)
      (outbox (pg w))"
    by blast
  obtain u where u: "event (ev_ID v) w1 = Some u"
    using claimed_present [OF out claimableD(1) [OF assms(5)]] by auto
  then have "ev_ID u = ev_ID v" "u \<in> set (outbox (pg w1))" by (auto dest: find_by_SomeD)
  then have "ev_Published u" using assms(5) unfolding out by auto
  then show ?thesis using u c r assms(6) by (simp add: lost_def published_at_def)
qed

section \<open>Witnesses\<close>

lemma demo_claimable: "claimable demo_env n 10 (pg demo_world) = [demo_event]"
  by (simp add: claimable_def demo_world_def demo_event_def demo_env_def)

theorem poll_serves_witness:
  "fst (pollOnce demo_env 10 demo_world) = None \<and> served demo_event (snd (pollOnce demo_env 10 demo_world))"
  using poll_serves [OF demo_healthy demo_schema demo_ids, of 10] by (simp add: demo_claimable)

theorem poll_enqueues_exactly_witness:
  "redis (snd (pollOnce demo_env 10 demo_world)) = [task_for demo_event]"
  using poll_enqueues_exactly [OF demo_healthy demo_ids, of 10]
  by (simp add: demo_claimable demo_accepts) (simp add: demo_world_def)

lemma demo_unnamed: "\<forall>task \<in> set (redis demo_world). \<not> names_event (ev_ID demo_event) task"
  by (simp add: demo_world_def)

theorem crash_after_claim_loses_witness:
  "lost ''ev1'' (snd (claim_batch demo_env 10 demo_world))"
  using crash_after_claim_loses [OF demo_healthy demo_schema demo_ids _ _ demo_unnamed, of 10]
  by (simp add: demo_claimable) (simp add: demo_event_def)

definition demo_crashed :: world where
  \<comment> \<open>the event is marked, the queue is empty\<close>
  "demo_crashed = demo_world\<lparr>pg := (pg demo_world)\<lparr>outbox := [demo_event\<lparr>ev_Published := True\<rparr>]\<rparr>\<rparr>"

theorem published_event_lost_witness: "lost ''ev1'' (poller demo_env 10 5 demo_crashed)"
proof (rule published_event_lost [OF demo_env_ok])
  show "schema_ok (pg demo_crashed)"
    using demo_schema
    by (simp add: demo_crashed_def schema_ok_def demo_world_def keys_ok_def)
  show "ids_ok demo_env (pg demo_crashed)"
    using demo_ids
    by (simp add: demo_crashed_def ids_ok_def demo_world_def demo_event_def)
  show "lost ''ev1'' demo_crashed"
    by (simp add: lost_def published_at_def demo_crashed_def demo_world_def demo_event_def)
qed

end
