(* ===== verification/System.thy ===== *)
theory System
  imports Handler_Flows Worker_Props Poller_Props
begin

text \<open>
  The processes together: API requests, polls and task deliveries in any order, with every
  component failing or stopping wherever the code lets it. \<open>system_step\<close> is the relation between the
  worlds before and after one of them; what is reachable from the empty database satisfies the
  database invariants, and every task in the queue carries a stored outbox event.

  One step is one whole operation: its transactions do not interleave with another operation's.
  \<open>Interleaving\<close> takes the operations apart at their transactions.
\<close>

section \<open>Requests enqueue and send nothing\<close>

lemma auto_stmt_quiet: "auto_stmt env f w = (r, w') \<Longrightarrow> quiet_step w w'"
  by (erule auto_stmt_cases) (simp_all add: quiet_step_def)

lemma tx_stmt_quiet: "tx_stmt env f tx w = (r, tx', w') \<Longrightarrow> quiet_step w w'"
  using tx_stmt_pg [of env f tx w] by simp

lemma BeginTx_quiet: "BeginTx env w = (r, w') \<Longrightarrow> quiet_step w w'"
  by (erule BeginTx_cases) simp_all

lemmas stmts_quiet = BeginTx_quiet [unfolded quiet_step_def] tx_stmt_quiet [unfolded quiet_step_def]
  auto_stmt_quiet [unfolded quiet_step_def] Commit_quiet [unfolded quiet_step_def]

lemma queryRow_quiet: "queryRow env txo f w = (r, txo', w') \<Longrightarrow> quiet_step w w'"
  by (auto simp: queryRow_def quiet_step_def dest!: stmts_quiet split: option.splits prod.splits)

lemma create_lookup_quiet: "create_lookup env u h w = (r, w') \<Longrightarrow> quiet_step w w'"
  by (auto simp: create_lookup_def GetJobByIDTx_def quiet_step_def
      dest!: stmts_quiet queryRow_quiet [unfolded quiet_step_def] split: prod.splits sum.splits if_splits dberr.splits)

lemma create_insert_quiet: "create_insert env u h meth path params tx w = (r, w') \<Longrightarrow> quiet_step w w'"
  by (auto simp: create_insert_def GetJobByIDTx_def CreateOutboxEventTx_def quiet_step_def Let_def
      dest!: stmts_quiet queryRow_quiet [unfolded quiet_step_def] split: prod.splits sum.splits option.splits)

lemma CreateJob_quiet: "CreateJobWithIdempotency env u h meth path params w = (r, w') \<Longrightarrow> quiet_step w w'"
  by (auto simp: CreateJobWithIdempotency_def dest!: create_lookup_quiet create_insert_quiet
      split: prod.splits sum.splits lookup_result.splits intro: quiet_step_trans)

lemma issue_tokens_quiet: "issue_tokens L env secret u email w = (r, w') \<Longrightarrow> quiet_step w w'"
  by (auto simp: issue_tokens_def Let_def split: option.splits)

lemmas requests_quiet = stmts_quiet CreateJob_quiet [unfolded quiet_step_def]
  issue_tokens_quiet [unfolded quiet_step_def] queryRow_quiet [unfolded quiet_step_def]

lemma endpoint_quiet: "endpoint_handler cf env h r w = (resp, w') \<Longrightarrow> quiet_step w w'"
proof (cases h)
  case Register
  then show "endpoint_handler cf env h r w = (resp, w') \<Longrightarrow> quiet_step w w'"
    by (auto simp: registerHandler_def Let_def CreateUser_def quiet_step_def dest!: requests_quiet
        split: option.splits prod.splits sum.splits if_splits)
next
  case Login
  then show "endpoint_handler cf env h r w = (resp, w') \<Longrightarrow> quiet_step w w'"
    by (auto simp: loginHandler_def Let_def GetUserByEmail_def quiet_step_def dest!: requests_quiet
        split: option.splits prod.splits sum.splits if_splits)
next
  case CreateJob
  then show "endpoint_handler cf env h r w = (resp, w') \<Longrightarrow> quiet_step w w'"
    by (auto simp: createJobHandler_def Let_def quiet_step_def dest!: requests_quiet
        split: option.splits prod.splits sum.splits if_splits)
next
  case UpdateJob
  then show "endpoint_handler cf env h r w = (resp, w') \<Longrightarrow> quiet_step w w'"
    by (auto simp: updateJobHandler_def write_update_def GetJobByID_def GetJobByIDTx_def UpdateJobDetails_def Let_def
        quiet_step_def dest!: requests_quiet split: option.splits prod.splits sum.splits if_splits)
qed (auto simp: healthHandler_def listJobsHandler_def getJobHandler_def deleteJobHandler_def GetJobByID_def
    GetJobByIDTx_def ListJobsByUser_def DeleteJob_def Let_def quiet_step_def dest!: requests_quiet
    split: prod.splits sum.splits if_splits)

lemma serve_quiet: "serve cf env route r w = Some (resp, w') \<Longrightarrow> quiet_step w w'"
  by (erule serve_cases) (auto dest: endpoint_quiet simp: quiet_step_def)

section \<open>Events are never deleted\<close>

definition event_keys :: "tables \<Rightarrow> (string \<times> string) set" where
  \<comment> \<open>what the task of an event is made of\<close>
  "event_keys t = (\<lambda>v. (ev_AggregateID v, ev_ID v)) ` set (outbox t)"

lemma event_keys_statements:
  "sql_insert_user env uid now email un ph t = Inr (x, t') \<Longrightarrow> event_keys t \<subseteq> event_keys t'"
  "sql_insert_job env jid now r t = Inr (x, t') \<Longrightarrow> event_keys t \<subseteq> event_keys t'"
  "sql_insert_key env kid now u h j meth path ex t = Inr (y, t') \<Longrightarrow> event_keys t \<subseteq> event_keys t'"
  "sql_insert_event env eid now p t = Inr (x, t') \<Longrightarrow> event_keys t \<subseteq> event_keys t'"
  "sql_update_job env now k u nm url mr ts v t = Inr (y, t') \<Longrightarrow> event_keys t \<subseteq> event_keys t'"
  "sql_delete_job env k u t = Inr (y, t') \<Longrightarrow> event_keys t \<subseteq> event_keys t'"
  "sql_increment_attempts env now k t = Inr (Some a, t') \<Longrightarrow> event_keys t \<subseteq> event_keys t'"
  "sql_update_state env now k st er rs a t = Inr (y, t') \<Longrightarrow> event_keys t \<subseteq> event_keys t'"
  "sql_mark env pub now k t = Inr (y, t') \<Longrightarrow> event_keys t \<subseteq> event_keys t'"
  by (erule sql_insert_userE sql_insert_jobE sql_insert_keyE sql_insert_eventE sql_update_jobE sql_delete_jobE
      sql_increment_attemptsE sql_update_stateE sql_markE, force simp: event_keys_def image_upd_by)+

lemma event_keys_mark_list: "sql_mark_list env now vs t = Inr (x, t') \<Longrightarrow> event_keys t \<subseteq> event_keys t'"
  by (rule sql_mark_list_inv [where I = "\<lambda>u. event_keys t \<subseteq> event_keys u"])
    (blast dest: event_keys_statements(9) intro: subset_trans)+

lemma event_keys_step: "db_step env t t' \<Longrightarrow> event_keys t \<subseteq> event_keys t'"
  by (induction rule: db_step.induct) (blast dest: event_keys_statements event_keys_mark_list intro: subset_trans)+

lemma event_keys_steps: "db_steps env t t' \<Longrightarrow> event_keys t \<subseteq> event_keys t'"
  by (induction rule: rtranclp_induct) (auto dest: event_keys_step)

section \<open>What a poll enqueues\<close>

lemma task_for_key: "NewJobProcessTask (ev_AggregateID v) (ev_ID v) = Some task \<Longrightarrow> task_for v = queued 0 task"
  by (simp add: task_for_def)

lemma Unpublished_redis: "redis (snd (MarkOutboxEventUnpublished env k w)) = redis w"
  unfolding MarkOutboxEventUnpublished_def
  by (metis auto_stmt_quiet quiet_step_def surjective_pairing)

lemma dispatch_redis: "set (redis (dispatch env v w)) \<subseteq> insert (task_for v) (set (redis w))"
proof (cases rule: dispatch_run [of v env w])
  case (enqueued task w1)
  with Enqueue_run [OF enqueued(2)] show ?thesis by (auto simp: task_for_def)
next
  case (put_back w1)
  then show ?thesis by (auto simp: Unpublished_redis task_for_def)
qed

lemma dispatch_all_redis: "set (redis (dispatch_all env vs w)) \<subseteq> task_for ` set vs \<union> set (redis w)"
proof (induction vs arbitrary: w)
  case (Cons v vs)
  from Cons [of "dispatch env v w"] dispatch_redis [of env v w] show ?case by auto
qed simp

lemma claim_facts:
  assumes "claim_batch env limit w = (r, w1)"
  shows "db_steps env (pg w) (pg w1) \<and> redis w1 = redis w \<and>
    (\<forall>vs. r = Inr vs \<longrightarrow> (\<forall>v \<in> set vs. (ev_AggregateID v, ev_ID v) \<in> event_keys (pg w)))"
  using assms
proof (cases rule: claim_batch_run)
  case (claimed now)
  then have "(ev_AggregateID v, ev_ID v) \<in> event_keys (pg w)"
    if "v \<in> scan_event ` set (claimable env (Suc (tick w)) limit (pg w))" for v
    using that claimableD(1) by (auto simp: event_keys_def)
  with claimed show ?thesis by (auto intro: db_steps_one db_step.publish)
qed (auto intro: db_steps_one db_step.publish)

section \<open>The steps of the system\<close>

text \<open>
  \<open>poll_stops\<close> is a poller that stops after its transaction and \<open>n\<close> dispatches, \<open>worker_stops\<close> a worker
  that stops after its first transaction. A delivery leaves the task in the queue and \<open>settle\<close> removes
  it, at any time: so the steps allow every number of deliveries, also those of a worker that was
  shut down before its handler returned, whatever retries the task carries.
\<close>

inductive system_step :: "config \<Rightarrow> env \<Rightarrow> world \<Rightarrow> world \<Rightarrow> bool" for cf env where
  request: "serve cf env route r w = Some (resp, w') \<Longrightarrow> system_step cf env w w'"
| poll: "pollOnce env limit w = (e, w') \<Longrightarrow> system_step cf env w w'"
| poll_stops: "claim_batch env limit w = (Inr vs, w1) \<Longrightarrow> system_step cf env w (dispatch_all env (take n vs) w1)"
| deliver: "task \<in> set (redis w) \<Longrightarrow> ProcessJobTask env task w = (e, w') \<Longrightarrow> system_step cf env w w'"
| worker_stops: "task \<in> set (redis w) \<Longrightarrow> ParseJobProcessPayload task = Some p \<Longrightarrow>
    start_job env (jpp_JobID p) w = (x, w') \<Longrightarrow> system_step cf env w w'"
| settle: "system_step cf env w (w\<lparr>redis := remove1 task (redis w)\<rparr>)"

definition empty_world :: "nat \<Rightarrow> world" where
  \<comment> \<open>the tables after the migrations; the system may start at any time\<close>
  "empty_world n = \<lparr>pg = \<lparr>users = [], jobs = [], idempotency_keys = [], outbox = []\<rparr>,
     redis = [], posts = [], tick = n\<rparr>"

definition reachable :: "config \<Rightarrow> env \<Rightarrow> world \<Rightarrow> bool" where
  "reachable cf env w \<longleftrightarrow> (\<exists>n. (system_step cf env)\<^sup>*\<^sup>* (empty_world n) w)"

definition event_tasks :: "tables \<Rightarrow> queued_task set" where
  "event_tasks t = task_for ` set (outbox t)"

lemma event_tasks_keys: "event_tasks t = (\<lambda>(job, event). queued 0 (the (NewJobProcessTask job event))) ` event_keys t"
  by (auto simp: event_tasks_def event_keys_def task_for_def image_iff)

definition tasks_ok :: "world \<Rightarrow> bool" where
  \<comment> \<open>every queued task was made from a stored event\<close>
  "tasks_ok w \<longleftrightarrow> set (redis w) \<subseteq> event_tasks (pg w)"

definition system_ok :: "env \<Rightarrow> world \<Rightarrow> bool" where
  "system_ok env w \<longleftrightarrow> db_ok (pg w) \<and> ids_ok env (pg w) \<and> tasks_ok w"

lemma system_ok_steps:
  assumes "system_ok env w" and "db_steps env (pg w) (pg w')"
    and "set (redis w') \<subseteq> set (redis w) \<union> event_tasks (pg w)"
  shows "system_ok env w'"
proof -
  have "event_tasks (pg w) \<subseteq> event_tasks (pg w')"
    unfolding event_tasks_keys by (intro image_mono event_keys_steps [OF assms(2)])
  with assms have "tasks_ok w'" unfolding system_ok_def tasks_ok_def by blast
  with assms(1,2) show ?thesis
    by (auto simp: system_ok_def intro: db.steps ids.steps)
qed

definition effect :: "env \<Rightarrow> world \<Rightarrow> world \<Rightarrow> bool" where
  \<comment> \<open>steps of the database, and new tasks only for stored events\<close>
  "effect env w w' \<longleftrightarrow> db_steps env (pg w) (pg w') \<and> set (redis w') \<subseteq> set (redis w) \<union> event_tasks (pg w)"

lemma effect_ok: "effect env w w' \<Longrightarrow> system_ok env w \<Longrightarrow> system_ok env w'"
  unfolding effect_def by (rule system_ok_steps) auto

lemma effect_quiet: "db_steps env (pg w) (pg w') \<Longrightarrow> redis w' = redis w \<Longrightarrow> effect env w w'"
  by (simp add: effect_def)

lemma effect_dispatch:
  assumes "db_steps env (pg w) (pg w1)" and "redis w1 = redis w"
    and "\<forall>v \<in> set vs. (ev_AggregateID v, ev_ID v) \<in> event_keys (pg w)"
  shows "effect env w (dispatch_all env vs w1)"
proof -
  have "db_steps env (pg w) (pg (dispatch_all env vs w1))"
    using assms(1) dispatch_all_steps by (rule rtranclp_trans)
  moreover have made: "task_for ` set vs \<subseteq> event_tasks (pg w)"
    using assms(3) unfolding event_tasks_keys by (force simp: task_for_def)
  have "set (redis (dispatch_all env vs w1)) \<subseteq> task_for ` set vs \<union> set (redis w)"
    using dispatch_all_redis [of env vs w1] unfolding assms(2) .
  with made have "set (redis (dispatch_all env vs w1)) \<subseteq> set (redis w) \<union> event_tasks (pg w)" by blast
  ultimately show ?thesis unfolding effect_def ..
qed

lemma start_job_effect:
  assumes "start_job env k w = (x, w')"
  shows "db_steps env (pg w) (pg w') \<and> redis w' = redis w"
  using assms
  by (cases rule: start_job_run) (auto simp: quiet_step_def intro: db_steps_one started_step)

lemma system_step_effect:
  assumes "env_ok env" and "system_step cf env w w'" and "system_ok env w"
  shows "effect env w w'"
  using assms(2)
proof (cases rule: system_step.cases)
  case (request route r resp)
  have "db_steps env (pg w) (pg w')" using request_steps [OF assms(1) _ request] assms(3) by (simp add: system_ok_def)
  with serve_quiet [OF request] show ?thesis by (auto simp: quiet_step_def intro: effect_quiet)
next
  case (poll limit e)
  obtain r w1 where c: "claim_batch env limit w = (r, w1)" by (metis surj_pair)
  from claim_facts [OF c] poll c show ?thesis
    by (cases r) (auto simp: pollOnce_def intro: effect_quiet effect_dispatch)
next
  case (poll_stops limit vs w1 n)
  from claim_facts [OF poll_stops(2)] show ?thesis
    unfolding poll_stops(1) by (intro effect_dispatch) (auto dest: in_set_takeD)
next
  case (deliver task e)
  have "db_steps env (pg w) (pg w')"
    using ProcessJobTask_steps [OF _ deliver(2) assms(1)] assms(3) by (simp add: system_ok_def)
  moreover have "redis w' = redis w"
    using deliver(2) by (cases rule: process_run) (auto simp: quiet_step_def posted_def)
  ultimately show ?thesis by (rule effect_quiet)
next
  case (worker_stops task p x)
  from start_job_effect [OF worker_stops(3)] show ?thesis by (blast intro: effect_quiet)
next
  case (settle task)
  then show ?thesis by (auto simp: effect_def dest: set_remove1_subset [THEN subsetD])
qed

lemma system_step_ok:
  "env_ok env \<Longrightarrow> system_step cf env w w' \<Longrightarrow> system_ok env w \<Longrightarrow> system_ok env w'"
  using system_step_effect effect_ok by blast

section \<open>What is reachable\<close>

lemma system_ok_empty: "system_ok env (empty_world n)"
  using db_ok_empty by (simp add: system_ok_def empty_world_def tasks_ok_def ids_ok_def)

lemma reachable_system_ok:
  assumes "env_ok env" and "reachable cf env w"
  shows "system_ok env w"
proof -
  from assms(2) obtain n where "(system_step cf env)\<^sup>*\<^sup>* (empty_world n) w" by (auto simp: reachable_def)
  then show ?thesis
    by (induction rule: rtranclp_induct) (auto intro: system_ok_empty system_step_ok [OF assms(1)])
qed

lemma task_for_parse:
  assumes "utf8_ok (ev_ID v)" and "utf8_ok (ev_AggregateID v)"
  shows "task_type (task_for v) = TypeJobProcess \<and> qt_MaxRetry (task_for v) = 0 \<and>
    ParseJobProcessPayload (task_for v) = Some \<lparr>jpp_JobID = ev_AggregateID v, jpp_OutboxID = ev_ID v\<rparr>"
proof -
  obtain payload where task: "NewJobProcessTask (ev_AggregateID v) (ev_ID v) = Some \<lparr>task_type = TypeJobProcess, task_payload = payload\<rparr>"
    using NewJobProcessTask_total by blast
  with Parse_New [OF assms(2,1) task] show ?thesis by (simp add: task_for_def)
qed

text \<open>Whatever requests, polls, deliveries, failures and stops have happened, in whatever order,
  since the tables were empty: the database satisfies all its invariants, and every task in the queue
  is of the type the worker serves, carries no retries, and parses to the job and the identifier of a
  stored event.\<close>

theorem reachable_invariants:
  assumes "env_ok env" and "reachable cf env w"
  shows "db_ok (pg w) \<and> (\<forall>task \<in> set (redis w). \<exists>v \<in> set (outbox (pg w)). task_type task = TypeJobProcess \<and>
    qt_MaxRetry task = 0 \<and> ParseJobProcessPayload task = Some \<lparr>jpp_JobID = ev_AggregateID v, jpp_OutboxID = ev_ID v\<rparr>)"
proof -
  have ok: "db_ok (pg w)" "ids_ok env (pg w)" "set (redis w) \<subseteq> task_for ` set (outbox (pg w))"
    using reachable_system_ok [OF assms] by (simp_all add: system_ok_def tasks_ok_def event_tasks_def)
  have parse: "task_type (task_for v) = TypeJobProcess \<and> qt_MaxRetry (task_for v) = 0 \<and>
      ParseJobProcessPayload (task_for v) = Some \<lparr>jpp_JobID = ev_AggregateID v, jpp_OutboxID = ev_ID v\<rparr>"
    if "v \<in> set (outbox (pg w))" for v
    using ids_okD(4) [OF ok(2) that] by (intro task_for_parse) simp_all
  with ok show ?thesis by blast
qed

end
