(* ===== verification/End_To_End.thy ===== *)
theory End_To_End
  imports System
begin

text \<open>
  A job on its way through all three processes: the request that creates it, the poll that enqueues
  its task, the delivery that calls the webhook and records the result.
\<close>

section \<open>A poll leaves the jobs alone\<close>

lemma mark_list_jobs: "sql_mark_list env now vs t = Inr (x, t') \<Longrightarrow> jobs t' = jobs t"
  by (rule sql_mark_list_inv [where I = "\<lambda>u. jobs u = jobs t"]) (auto elim!: sql_markE)

lemma Unpublished_jobs: "jobs (pg (snd (MarkOutboxEventUnpublished env k w))) = jobs (pg w)"
proof (cases "MarkOutboxEventUnpublished env k w")
  case (Pair r w')
  from Pair [unfolded MarkOutboxEventUnpublished_def] show ?thesis
    by (cases rule: auto_stmt_cases) (use Pair in \<open>auto elim!: sql_markE\<close>)
qed

lemma dispatch_jobs: "jobs (pg (dispatch env v w)) = jobs (pg w)"
proof (cases rule: dispatch_run [of v env w])
  case (enqueued task w1)
  with Enqueue_run [OF enqueued(2)] show ?thesis by simp
next
  case (put_back w1)
  then show ?thesis by (simp add: Unpublished_jobs)
qed

lemma dispatch_all_jobs: "jobs (pg (dispatch_all env vs w)) = jobs (pg w)"
  by (induction vs arbitrary: w) (simp_all add: dispatch_jobs)

lemma pollOnce_jobs: "jobs (pg (snd (pollOnce env limit w))) = jobs (pg w)"
proof (cases "claim_batch env limit w")
  case (Pair r w1)
  then have "jobs (pg w1) = jobs (pg w)"
    by (cases rule: claim_batch_run) (auto dest: mark_list_jobs)
  with Pair show ?thesis by (cases r) (simp_all add: pollOnce_def dispatch_all_jobs)
qed

section \<open>The three steps\<close>

definition no_backlog :: "env \<Rightarrow> int \<Rightarrow> tables \<Rightarrow> bool" where
  \<comment> \<open>the unpublished events fit one batch and no other poller holds them\<close>
  "no_backlog env limit t \<longleftrightarrow> length (filter (\<lambda>v. \<not> ev_Published v) (outbox t)) \<le> nat limit \<and>
    (\<forall>n. e_locked env n = [])"

lemma claimable_all:
  assumes "no_backlog env limit t"
  shows "set (claimable env n limit t) = {v \<in> set (outbox t). \<not> ev_Published v}"
  using assms by (simp add: no_backlog_def claimable_def)

lemma create_accepted:
  assumes "requested_payload r = Some p" and "getUserID r \<noteq> []"
    and "createJobHandler ft env r w = (resp, w1)" and "rs_Status resp = 202"
  obtains job where "resp = job_response False job"
    "created env (getUserID r) (payload_hash p) ''POST'' ''/jobs''
      (create_params (getUserID r) p (payload_bytes p)) (pg w) (pg w1) job"
proof -
  obtain x wx where c: "CreateJobWithIdempotency env (getUserID r) (payload_hash p) ''POST'' ''/jobs''
      (create_params (getUserID r) p (payload_bytes p)) w = (x, wx)" by (metis surj_pair)
  note h = createJobHandler_eq [OF assms(2,1), of ft env w, unfolded c]
  from c show thesis
  proof (cases rule: CreateJob_run)
    case (failed e)
    with h assms(3,4) show thesis by auto
  next
    case (existing u i job)
    with h assms(3,4) show thesis by (auto simp: job_response_def)
  next
    case (lost job)
    with h assms(3,4) show thesis by auto
  next
    case (created job)
    with h assms(3) that show thesis by auto
  qed
qed

lemma poll_delivers:
  assumes "healthy env" and "ids_ok env (pg w)" and "\<forall>n. e_enqueue env n = NoFault" and "no_backlog env limit (pg w)"
    and "v \<in> set (outbox (pg w))" and "\<not> ev_Published v"
  shows "task_for v \<in> set (redis (snd (pollOnce env limit w)))"
proof -
  have v: "v \<in> set (claimable env (Suc (tick w)) limit (pg w))"
    using claimable_all [OF assms(4)] assms(5,6) by simp
  then have "0 \<le> limit" by (cases "0 \<le> limit") (auto simp: claimable_def)
  then obtain w1 where "pollOnce env limit w = (None, dispatch_all env (claimable env (Suc (tick w)) limit (pg w)) w1)"
    by (rule pollOnce_healthy [OF assms(1,2)])
  with v dispatch_all_accepted [OF assms(3)] show ?thesis by simp
qed

text \<open>C3: From request to result: on a healthy deployment whose webhook answers 2xx with JSON, a job
  request answered with 202 has stored a pending job; the next poll, when the unpublished events
  fit its batch, puts the job's task into the queue; and the delivery of that task sends the stored
  payload to the job's URL once and leaves the job \<open>completed\<close> with the webhook's answer as its
  result, after one attempt.\<close>

theorem job_end_to_end:
  assumes "healthy env" and "env_ok env" and "live env" and "\<forall>n. e_enqueue env n = NoFault"
    and "ids_ok env (pg w)"
    and "requested_payload r = Some p" and "getUserID r \<noteq> []"
    and "createJobHandler ft env r w = (resp, w1)" and "rs_Status resp = 202"
    and "no_backlog env limit (pg w1)"
    and "\<forall>n url body. e_post env n url body = Replied status (Inr reply)" and "200 \<le> status" and "status < 300"
    and "e_jsonb_in env reply = Some stored"
  shows "\<exists>job task w3 j. jobs (pg w1) = jobs (pg w) @ [job] \<and> resp = job_response False job \<and>
    job_State job = ''pending'' \<and> e_jsonb_in env (payload_bytes p) = Some (job_Payload job) \<and>
    task \<in> set (redis (snd (pollOnce env limit w1))) \<and>
    ProcessJobTask env task (snd (pollOnce env limit w1)) = (None, w3) \<and>
    posts w3 = posts (snd (pollOnce env limit w1)) @ [(job_WebhookURL job, job_Payload job)] \<and>
    job_row (job_ID job) w3 = Some j \<and> job_State j = ''completed'' \<and> job_Result j = Some stored \<and>
    job_Attempts j = 1"
proof -
  let ?params = "create_params (getUserID r) p (payload_bytes p)" and ?w2 = "snd (pollOnce env limit w1)"
  from create_accepted [OF assms(6-9)] obtain job where resp: "resp = job_response False job"
    and c: "created env (getUserID r) (payload_hash p) ''POST'' ''/jobs'' ?params (pg w) (pg w1) job" by blast
  from created_tables [OF assms(2) c] obtain v where new: "jobs (pg w1) = jobs (pg w) @ [job]"
    "outbox (pg w1) = outbox (pg w) @ [v]" "ev_AggregateID v = job_ID job" "\<not> ev_Published v"
    "find_by job_ID (job_ID job) (jobs (pg w)) = None" "canonical env (job_ID job)"
    "job_State job = ''pending''" "job_Attempts job = 0"
    "e_jsonb_in env (cp_Payload ?params) = Some (job_Payload job)"
    by metis
  have "cp_UserID ?params = getUserID r" by (simp add: create_params_def)
  from db_step_ids [OF created_step [OF assms(2) this c] assms(5)] have ids: "ids_ok env (pg w1)" .
  have v: "v \<in> set (outbox (pg w1))" using new(2) by simp
  have task: "task_for v \<in> set (redis ?w2)"
    using poll_delivers [OF assms(1) ids assms(4,10) v new(4)] .
  have k: "e_uuid_in env (job_ID job) = Some (job_ID job)" using new(6) by (simp add: canonical_def)
  have row: "find_by job_ID (job_ID job) (jobs (pg ?w2)) = Some job"
    using new(1,5) by (simp add: pollOnce_jobs find_by_append)
  have parse: "ParseJobProcessPayload (task_for v) = Some \<lparr>jpp_JobID = job_ID job, jpp_OutboxID = ev_ID v\<rparr>"
    using task_for_parse [of v] ids_okD(4) [OF ids v] new(3) by simp
  have "runs env (task_for v) ?w2 job"
    using parse k row new(8) by (simp add: runs_def int4_ok_def)
  from process_done [OF assms(1-3) this _ assms(12-14)] assms(11) obtain now w3 where
    w3: "ProcessJobTask env (task_for v) ?w2 = (None, w3)" "posted job ?w2 w3" and
    pg3: "pg w3 = (pg ?w2)\<lparr>jobs := upd_by job_ID (job_ID job)
      (set_outcome ''completed'' None (Some stored) (job_Attempts job + 1) now) (jobs (pg ?w2))\<rparr>"
    by (auto simp: answers_def)
  have done_row: "job_row (job_ID job) w3 = Some (set_outcome ''completed'' None (Some stored) 1 now job)"
    using row new(8) by (simp add: job_row_def pg3 find_by_upd_by)
  show ?thesis
    by (intro exI [of _ job] exI [of _ "task_for v"] exI [of _ w3]
        exI [of _ "set_outcome ''completed'' None (Some stored) 1 now job"])
      (use new resp task w3 done_row in \<open>simp add: posted_def create_params_def set_outcome_def\<close>)
qed

section \<open>A task delivered twice\<close>

text \<open>C20: Nothing stops a task from being carried out again: the handler does not look at the state
  of the job, so when the queue holds two tasks for one event, because the reply to an enqueue was
  lost and the event put back, or when Asynq delivers a task a second time after a shutdown, a job
  that is already \<open>completed\<close> goes through \<open>running\<close> again, the webhook receives the same payload a
  second time, and the attempts count both runs.\<close>

theorem redelivery_repeats_webhook:
  assumes "healthy env" and "env_ok env" and "live env" and "runs env task w job" and "int4_ok (job_Attempts job + 2)"
    and "answers env job (Replied status (Inr reply))" and "200 \<le> status" and "status < 300"
    and "e_jsonb_in env reply = Some stored"
  shows "\<exists>w1 w2 j1 j2. ProcessJobTask env task w = (None, w1) \<and> job_row (job_ID job) w1 = Some j1 \<and>
    job_State j1 = ''completed'' \<and> ProcessJobTask env task w1 = (None, w2) \<and>
    posts w2 = posts w @ [(job_WebhookURL job, job_Payload job), (job_WebhookURL job, job_Payload job)] \<and>
    job_row (job_ID job) w2 = Some j2 \<and> job_State j2 = ''completed'' \<and> job_Attempts j2 = job_Attempts job + 2"
proof -
  from process_done [OF assms(1-4,6-9)] obtain now w1 where
    w1: "ProcessJobTask env task w = (None, w1)" "posted job w w1" and
    pg1: "pg w1 = (pg w)\<lparr>jobs := upd_by job_ID (job_ID job)
      (set_outcome ''completed'' None (Some stored) (job_Attempts job + 1) now) (jobs (pg w))\<rparr>" by blast
  let ?j1 = "set_outcome ''completed'' None (Some stored) (job_Attempts job + 1) now job"
  from assms(4) obtain p k where p: "ParseJobProcessPayload task = Some p" "e_uuid_in env (jpp_JobID p) = Some k"
    "find_by job_ID k (jobs (pg w)) = Some job"
    by (auto simp: runs_def split: option.splits)
  then have k: "k = job_ID job" by (auto dest: find_by_SomeD)
  have row1: "find_by job_ID (job_ID job) (jobs (pg w1)) = Some ?j1"
    using p(3) k by (simp add: pg1 find_by_upd_by)
  have fields: "job_ID ?j1 = job_ID job" "job_WebhookURL ?j1 = job_WebhookURL job" "job_Payload ?j1 = job_Payload job"
    "job_Attempts ?j1 = job_Attempts job + 1" "job_State ?j1 = ''completed''" by (simp_all add: set_outcome_def)
  have "runs env task w1 ?j1" using p(1,2) k row1 fields(4) assms(5) by (simp add: runs_def add.commute)
  moreover have "answers env ?j1 (Replied status (Inr reply))" using assms(6) fields by (simp add: answers_def)
  ultimately obtain now2 w2 where
    w2: "ProcessJobTask env task w1 = (None, w2)" "posted ?j1 w1 w2" and
    pg2: "pg w2 = (pg w1)\<lparr>jobs := upd_by job_ID (job_ID job)
      (set_outcome ''completed'' None (Some stored) (job_Attempts job + 1 + 1) now2) (jobs (pg w1))\<rparr>"
    using process_done [OF assms(1-3) _ _ assms(7-9), of task w1 ?j1] fields by auto
  let ?j2 = "set_outcome ''completed'' None (Some stored) (job_Attempts job + 1 + 1) now2 ?j1"
  have "job_row (job_ID job) w2 = Some ?j2" using row1 by (simp add: job_row_def pg2 find_by_upd_by)
  moreover have "job_Attempts ?j2 = job_Attempts job + 2" "job_State ?j2 = ''completed''" by (simp_all add: set_outcome_def)
  moreover have "posts w2 = posts w @ [(job_WebhookURL job, job_Payload job), (job_WebhookURL job, job_Payload job)]"
    using w1(2) w2(2) fields by (simp add: posted_def)
  moreover have "job_row (job_ID job) w1 = Some ?j1" using row1 by (simp add: job_row_def)
  ultimately show ?thesis using w1(1) w2(1) fields(5) by blast
qed

end
