(* ===== verification/Demo_Http.thy ===== *)
theory Demo_Http
  imports Handler_Runs Demo Demo_Libs
begin

text \<open>
  Concrete requests to the concrete database: the caller is \<open>demo_user\<close>, who holds a token that is
  valid for fifteen minutes, and the bodies are JSON texts.
\<close>

definition demo_config :: config where
  "demo_config = \<lparr>cf_libs = demo_libs, cf_secret = ''k'', cf_float = (\<lambda>_. None), cf_time = GInt\<rparr>"

definition demo_token :: string where
  "demo_token = the (GenerateAccessToken demo_libs ''k'' ''user1'' ''a@b'' (15 * minute) 0 0)"

definition demo_claims :: LocalClaims where
  "demo_claims = \<lparr>lc_Subject = ''user1'', lc_ExpiresAt = Some 900, lc_IssuedAt = Some 0, lc_Email = ''a@b''\<rparr>"

definition demo_request :: "json \<Rightarrow> request" where
  "demo_request j = \<lparr>rq_Method = ''PUT'', rq_Path = ''/jobs/job1'', rq_RemoteAddr = ''::1'', rq_Authorization = bearer demo_token, rq_Body = print_json j, rq_Query = (\<lambda>_. itoa 1),
    rq_jobID = ''job1'', rq_claims = Some demo_claims, rq_logger = None\<rparr>"

definition nobody_request :: request where
  \<comment> \<open>no token, no body\<close>
  "nobody_request = \<lparr>rq_Method = ''GET'', rq_Path = ''/jobs/job1'', rq_RemoteAddr = ''::1'', rq_Authorization = [], rq_Body = [], rq_Query = (\<lambda>_. []), rq_jobID = ''job1'', rq_claims = None, rq_logger = None\<rparr>"

lemma demo_token_sign: "jwt_Sign demo_libs ''k'' demo_claims = Some demo_token"
  by (simp add: demo_token_def GenerateAccessToken_def demo_libs_def demo_sign_def demo_claims_def
      NewNumericDate_def minute_def second_def)

lemma demo_claims_text: "claims_text_ok demo_claims"
  by (simp add: claims_text_ok_def demo_claims_def utf8_ok_ascii)

lemma demo_token_valid:
  "now < 900 * second \<Longrightarrow> ValidateAccessToken demo_libs ''k'' (bearer demo_token) now = Inr demo_claims"
  using validate_signed [OF demo_libs_ok demo_token_sign demo_claims_text, of "bearer demo_token" now]
  by (simp add: expired_def demo_claims_def)

lemma demo_request_simps [simp]:
  "rq_Authorization (demo_request j) = bearer demo_token" "rq_jobID (demo_request j) = ''job1''"
  "rq_claims (demo_request j) = Some demo_claims" "rq_Query (demo_request j) x = itoa 1"
  "getUserID (demo_request j) = ''user1''" "lc_Subject demo_claims = ''user1''"
  by (simp_all add: demo_request_def getUserID_def GetJWTClaims_def demo_claims_def)

lemma demo_request_claims: "(demo_request j)\<lparr>rq_claims := Some demo_claims\<rparr> = demo_request j"
  by (simp add: demo_request_def)

lemma demo_config_simps [simp]:
  "cf_libs demo_config = demo_libs" "cf_secret demo_config = ''k''" "cf_time demo_config = GInt"
  by (simp_all add: demo_config_def)

lemma demo_env_simps [simp]: "e_gonow demo_env n = int n" "e_text_ok demo_env s" "tick demo_world = 0"
  by (simp_all add: demo_env_def demo_world_def)

lemma demo_user_uuid: "e_uuid_in demo_env ''user1'' = Some ''user1''"
  by (simp add: demo_env_def utf8_ok_ascii)

lemma demo_body: "json_fits j \<Longrightarrow> decode_body strict fs zero (demo_request j) = decode_struct strict fs j zero"
  using decode_stream_print [of j "[]"] by (simp add: decode_body_def demo_request_def num_stop_def)

text \<open>The bodies: a change of the name, a new job, the user's credentials.\<close>

definition rename_body :: json where
  "rename_body = JObj [(''name'', JStr ''again'')]"

definition job_body :: json where
  "job_body = JObj [(''type'', JStr ''email''), (''name'', JStr ''news''), (''webhook_url'', JStr ''http://n'')]"

definition job_body' :: json where
  \<comment> \<open>the same job, written in another order and with a default spelled out\<close>
  "job_body' = JObj [(''name'', JStr ''news''), (''version'', JNum (itoa 1)), (''type'', JStr ''email''),
    (''webhook_url'', JStr ''http://n'')]"

definition login_body :: json where
  "login_body = JObj [(''email'', JStr ''a@b''), (''password'', JStr ''secret'')]"

definition signup_body :: json where
  "signup_body = JObj [(''email'', JStr ''c@d''), (''password'', JStr ''secret'')]"

end
