(* ===== verification/Handler_Witnesses.thy ===== *)
theory Handler_Witnesses
  imports Handler_Flows Demo_Http
begin

text \<open>The properties of the tokens, the API and its flows at concrete inputs.\<close>

section \<open>Tokens\<close>

lemma demo_access_token: "GenerateAccessToken demo_libs ''k'' ''user1'' ''a@b'' (15 * minute) 0 0 = Some demo_token"
  using demo_token_sign
  by (simp add: GenerateAccessToken_def demo_claims_def NewNumericDate_def minute_def second_def)

theorem access_token_lifetime_witness:
  "(\<exists>c. ValidateAccessToken demo_libs ''k'' (bearer demo_token) (14 * minute) = Inr c \<and>
     lc_Subject c = ''user1'' \<and> lc_Email c = ''a@b'') \<and>
   isl (ValidateAccessToken demo_libs ''k'' demo_token (15 * minute))"
  using access_token_lifetime [OF demo_libs_ok demo_access_token, of "bearer demo_token" "14 * minute"]
    access_token_lifetime [OF demo_libs_ok demo_access_token, of demo_token "15 * minute"]
  by (simp add: utf8_ok_ascii minute_def second_def)

theorem refresh_token_accepted_witness:
  "\<exists>t c. GenerateRefreshToken demo_libs ''k'' ''user1'' (24 * 60 * minute) 0 0 = Some t \<and>
    ValidateAccessToken demo_libs ''k'' (bearer t) (60 * minute) = Inr c \<and> lc_Subject c = ''user1''"
proof -
  obtain t where t: "GenerateRefreshToken demo_libs ''k'' ''user1'' (24 * 60 * minute) 0 0 = Some t"
    by (simp add: GenerateRefreshToken_def demo_libs_def demo_sign_def)
  have "utf8_ok ''user1''" "60 * minute + second \<le> 0 + 24 * 60 * minute"
    by (simp_all add: utf8_ok_ascii minute_def second_def)
  from refresh_token_accepted [OF demo_libs_ok t this] t show ?thesis by blast
qed

section \<open>Requests\<close>

lemma demo_valid: "ValidateAccessToken demo_libs ''k'' (bearer demo_token) 0 = Inr demo_claims"
  by (rule demo_token_valid) (simp add: second_def)

lemma routes:
  "map_of RegisterRoutes (''GET'', ''/jobs/{jobID}'') = Some (GetJob, True)"
  "map_of RegisterRoutes (''DELETE'', ''/jobs/{jobID}'') = Some (RemoveJob, True)"
  "map_of RegisterRoutes (''POST'', ''/login'') = Some (Login, False)"
  by (simp_all add: RegisterRoutes_def)

lemma serve_total: "map_of RegisterRoutes route = Some x \<Longrightarrow> \<exists>resp w'. serve cf env route r w = Some (resp, w')"
  by (auto simp: serve_def split: prod.splits)

theorem client_error_changes_nothing_witness:
  "\<exists>resp w'. serve demo_config demo_env (''GET'', ''/jobs/{jobID}'') nobody_request demo_world = Some (resp, w') \<and>
    pg w' = pg demo_world"
proof -
  have s: "serve demo_config demo_env (''GET'', ''/jobs/{jobID}'') nobody_request demo_world =
      Some (http_Error ''invalid access token'' 401, bump demo_world)"
    by (simp add: serve_def routes NewJWTAuth_def nobody_request_def ValidateAccessToken_def)
  from client_error_changes_nothing [OF s] s show ?thesis by simp
qed

theorem serve_refines_witness:
  "\<exists>resp w'. serve demo_config demo_env (''DELETE'', ''/jobs/{jobID}'') (demo_request JNull) demo_world = Some (resp, w') \<and>
    db_steps demo_env (pg demo_world) (pg w') \<and> db_ok (pg w')"
proof -
  obtain resp w' where "serve demo_config demo_env (''DELETE'', ''/jobs/{jobID}'') (demo_request JNull) demo_world = Some (resp, w')"
    using serve_total [OF routes(2)] by blast
  from serve_refines [OF demo_env_ok demo_ok this] this show ?thesis by blast
qed

theorem foreign_jobs_untouched_witness:
  "\<exists>resp w'. serve demo_config demo_env (''DELETE'', ''/jobs/{jobID}'') (demo_request JNull) demo_world = Some (resp, w') \<and>
    foreign_jobs demo_env ''user1'' (pg w') = foreign_jobs demo_env ''user1'' (pg demo_world)"
proof -
  obtain resp w' where s: "serve demo_config demo_env (''DELETE'', ''/jobs/{jobID}'') (demo_request JNull) demo_world = Some (resp, w')"
    using serve_total [OF routes(2)] by blast
  from foreign_jobs_untouched [OF demo_env_ok s, of demo_claims RemoveJob] s demo_valid routes(2) show ?thesis by simp
qed

theorem unauthenticated_refused_witness:
  "\<exists>resp w'. serve demo_config demo_env (''DELETE'', ''/jobs/{jobID}'') nobody_request demo_world = Some (resp, w') \<and>
    rs_Status resp = 401 \<and> pg w' = pg demo_world"
proof -
  obtain resp w' where s: "serve demo_config demo_env (''DELETE'', ''/jobs/{jobID}'') nobody_request demo_world = Some (resp, w')"
    using serve_total [OF routes(2)] by blast
  have "has_prefix ''/jobs'' (snd (''DELETE'', ''/jobs/{jobID}''))" by simp
  from unauthenticated_refused [OF this s] s show ?thesis
    by (simp add: nobody_request_def ValidateAccessToken_def)
qed

lemma demo_stored_job: "stored_job demo_env ''job1'' demo_world = Some demo_job"
  by (simp add: stored_job_def demo_defs) (simp add: demo_env_def utf8_ok_ascii)

lemma demo_owner: "job_UserID demo_job = ''user1''"
  by (simp add: demo_job_def)

theorem get_job_response_witness:
  "fst (getJobHandler GInt demo_env (demo_request JNull) demo_world) = with_data 200 ''job fetched'' (job_value GInt demo_job)"
  using get_job_response [OF demo_healthy, of "demo_request JNull" GInt demo_world] demo_stored_job demo_owner
  by simp

theorem list_jobs_response_witness:
  "fst (listJobsHandler GInt demo_env (demo_request JNull) demo_world) =
    with_data 200 ''jobs listed'' (GSlice [job_value GInt demo_job])"
proof -
  have number: "fst (atoi (itoa 1)) = 1"
    by (subst atoi_itoa) (simp_all add: int64_ok_def min_int64_def max_int64_def)
  have user: "getUserID (demo_request JNull) \<noteq> []" "e_uuid_in demo_env (getUserID (demo_request JNull)) = Some ''user1''"
    by (simp_all add: demo_user_uuid)
  obtain js where js: "mset js = filter_mset (\<lambda>j. job_UserID j = ''user1'') (mset (jobs (pg demo_world)))"
    and answer: "fst (listJobsHandler GInt demo_env (demo_request JNull) demo_world) =
      with_data 200 ''jobs listed'' (GSlice (map (job_value GInt) (take 1 (drop 0 js))))"
    using list_jobs_response [OF demo_healthy user refl refl refl, of demo_world GInt]
    by (auto simp: number wrap64_id int64_ok_def min_int64_def max_int64_def)
  from js have "js = [demo_job]" by (simp add: demo_world_def demo_owner)
  with answer show ?thesis by simp
qed

section \<open>Bodies\<close>

lemma fits: "json_fits rename_body" "json_fits job_body" "json_fits job_body'" "json_fits login_body" "json_fits signup_body"
  by (simp_all add: json_fits_def max_depth_def utf8_ok_ascii rename_body_def job_body_def job_body'_def
      login_body_def signup_body_def)

lemma decode_rename:
  "decode_body True update_job_fields no_update_job (demo_request rename_body) = Some (no_update_job\<lparr>uj_Name := Some ''again''\<rparr>)"
  by (simp add: demo_body fits)
    (simp add: rename_body_def decode_struct_def update_job_fields_def field_names del: fold_name.simps)

lemma demo_update:
  "apply_update (no_update_job\<lparr>uj_Name := Some ''again''\<rparr>) demo_job = demo_job\<lparr>job_Name := ''again''\<rparr>"
  "apply_update (no_update_job\<lparr>uj_MaxRetries := Some 9\<rparr>) demo_job = demo_job\<lparr>job_MaxRetries := 9\<rparr>"
  by (simp_all add: apply_update_def no_update_job_def Let_def)

lemma demo_update_fits:
  "update_fits demo_env (apply_update (no_update_job\<lparr>uj_Name := Some ''again''\<rparr>) demo_job)"
  "update_fits demo_env (apply_update (no_update_job\<lparr>uj_MaxRetries := Some 9\<rparr>) demo_job)"
  unfolding demo_update by (simp_all add: update_fits_def demo_job_def int4_ok_def)

theorem concurrent_updates_lose_witness:
  "\<exists>now w1 w2 w3 w4. GetJobByID demo_env ''job1'' demo_world = (Inr demo_job, w1) \<and>
    GetJobByID demo_env ''job1'' w1 = (Inr demo_job, w2) \<and>
    write_update demo_env (no_update_job\<lparr>uj_Name := Some ''again''\<rparr>) demo_job w2 = (Inr (), w3) \<and>
    write_update demo_env (no_update_job\<lparr>uj_MaxRetries := Some 9\<rparr>) demo_job w3 = (Inr (), w4) \<and>
    jobs (pg w4) = [demo_job\<lparr>job_MaxRetries := 9, job_UpdatedAt := now\<rparr>]"
proof -
  let ?p = "no_update_job\<lparr>uj_Name := Some ''again''\<rparr>" and ?q = "no_update_job\<lparr>uj_MaxRetries := Some 9\<rparr>"
  have read: "\<exists>w'. GetJobByID demo_env ''job1'' w = (Inr demo_job, w')" if "pg w = pg demo_world" for w
    using GetJobByID_stored [OF demo_healthy, of "''job1''" w] demo_stored_job that by (simp add: stored_job_def)
  obtain w1 where g1: "GetJobByID demo_env ''job1'' demo_world = (Inr demo_job, w1)" using read by blast
  obtain w2 where g2: "GetJobByID demo_env ''job1'' w1 = (Inr demo_job, w2)"
    using read GetJobByID_same [OF g1] by blast
  obtain x w3 where u1: "write_update demo_env ?p demo_job w2 = (x, w3)" by (metis surj_pair)
  obtain x' w4 where u2: "write_update demo_env ?q demo_job w3 = (x', w4)" by (metis surj_pair)
  have owner: "e_uuid_in demo_env (job_UserID demo_job) = Some (job_UserID demo_job)"
    by (simp add: demo_owner demo_user_uuid)
  from concurrent_updates_lose [OF demo_healthy demo_ids demo_schema g1 g2 refl owner demo_update_fits u1 u2]
  obtain now where "x = Inr ()" "x' = Inr ()"
    "jobs (pg w4) = upd_by job_ID (job_ID demo_job) (\<lambda>_. (apply_update ?q demo_job)\<lparr>job_UpdatedAt := now\<rparr>) (jobs (pg demo_world))"
    by auto
  moreover from this(3) have "jobs (pg w4) = [demo_job\<lparr>job_MaxRetries := 9, job_UpdatedAt := now\<rparr>]"
    unfolding demo_update by (simp add: upd_by_def demo_world_def)
  ultimately show ?thesis using g1 g2 u1 u2 by blast
qed

theorem update_job_effect_witness:
  "\<exists>now w'. updateJobHandler demo_env (demo_request rename_body) demo_world = (message 200 ''job updated'', w') \<and>
    jobs (pg w') = [demo_job\<lparr>job_Name := ''again'', job_UpdatedAt := now\<rparr>]"
proof -
  let ?u = "no_update_job\<lparr>uj_Name := Some ''again''\<rparr>"
  let ?new = "demo_job\<lparr>job_Name := ''again''\<rparr>"
  have "\<not> nothing_to_update ?u" by (simp add: nothing_to_update_def)
  moreover have "?new = demo_job\<lparr>job_Name := (case uj_Name ?u of Some name \<Rightarrow> name | None \<Rightarrow> job_Name demo_job),
      job_WebhookURL := (case uj_WebhookURL ?u of Some url \<Rightarrow> url | None \<Rightarrow> job_WebhookURL demo_job),
      job_Version := (case uj_Version ?u of Some v \<Rightarrow> if 0 < v then v else job_Version demo_job | None \<Rightarrow> job_Version demo_job),
      job_MaxRetries := (case uj_MaxRetries ?u of
        Some m \<Rightarrow> if 0 < m then m else job_MaxRetries demo_job | None \<Rightarrow> job_MaxRetries demo_job),
      job_TimeoutSeconds := (case uj_TimeoutSeconds ?u of
        Some s \<Rightarrow> if 0 < s then s else job_TimeoutSeconds demo_job | None \<Rightarrow> job_TimeoutSeconds demo_job)\<rparr>"
    by (simp add: no_update_job_def demo_job_def)
  moreover have "update_fits demo_env ?new" using demo_update_fits(1) unfolding demo_update .
  moreover note ready = calculation demo_schema
  obtain now w' where "updateJobHandler demo_env (demo_request rename_body) demo_world = (message 200 ''job updated'', w')"
    "pg w' = (pg demo_world)\<lparr>jobs := upd_by job_ID (job_ID demo_job)
      (\<lambda>_. ?new\<lparr>job_UpdatedAt := now\<rparr>) (jobs (pg demo_world))\<rparr>"
    using update_job_effect [OF demo_healthy demo_ids _ _ _ _ decode_rename ready]
    by (auto simp: demo_stored_job demo_owner demo_user_uuid)
  then show ?thesis
    by (intro exI [of _ now] exI [of _ w']) (simp add: demo_world_def upd_by_def)
qed


section \<open>Flows\<close>

definition news_payload :: JobPayload where
  "news_payload = \<lparr>jp_Type = ''email'', jp_Name = ''news'', jp_WebhookURL = ''http://n'', jp_Version = 1,
     jp_MaxRetries = 5, jp_TimeoutSeconds = 15\<rparr>"

lemma requested_news:
  "requested_payload (demo_request job_body) = Some news_payload"
  "requested_payload (demo_request job_body') = Some news_payload"
proof -
  have "decode_body True register_job_fields no_register_job (demo_request job_body) =
      Some \<lparr>rj_Type = ''email'', rj_Name = ''news'', rj_WebhookURL = ''http://n'', rj_Version = None,
        rj_MaxRetries = None, rj_TimeoutSeconds = None\<rparr>"
    by (simp add: demo_body fits)
      (simp add: job_body_def decode_struct_def register_job_fields_def no_register_job_def field_names del: fold_name.simps)
  then show "requested_payload (demo_request job_body) = Some news_payload"
    by (simp add: requested_payload_def NewJobPayload_def news_payload_def)
  have "decode_body True register_job_fields no_register_job (demo_request job_body') =
      Some \<lparr>rj_Type = ''email'', rj_Name = ''news'', rj_WebhookURL = ''http://n'', rj_Version = Some 1,
        rj_MaxRetries = None, rj_TimeoutSeconds = None\<rparr>"
    by (simp add: demo_body fits)
      (simp add: job_body'_def decode_struct_def register_job_fields_def no_register_job_def field_names
        int64_ok_def min_int64_def max_int64_def del: fold_name.simps)
  then show "requested_payload (demo_request job_body') = Some news_payload"
    by (simp add: requested_payload_def NewJobPayload_def news_payload_def)
qed

lemma news_params: "params_ok demo_env (create_params ''user1'' news_payload (payload_bytes news_payload))"
proof -
  have "unmarshal (payload_bytes news_payload) \<noteq> None"
    unfolding payload_bytes_def
    by (subst unmarshal_print [OF payload_fits]) (simp_all add: payload_ok_def news_payload_def utf8_ok_ascii)
  from event_payload_marshal [OF this] show ?thesis
    by (auto simp: params_ok_def create_params_def announceable_def news_payload_def int4_ok_def demo_env_def
        split: option.splits)
qed

lemma demo_first_request:
  obtains job w1 where "createJobHandler (cf_float demo_config) demo_env (demo_request job_body) demo_world =
    (job_response False job, w1)" "pg w1 \<noteq> pg demo_world"
proof -
  let ?p = "create_params ''user1'' news_payload (payload_bytes news_payload)"
  have "length (payload_hash news_payload) = 64"
    by (simp add: payload_hash_def length_EncodeToString length_Sum256)
  then have "payload_hash news_payload \<noteq> ''h1''" by auto
  then obtain job w1 where new: "CreateJobWithIdempotency demo_env ''user1'' (payload_hash news_payload) ''POST'' ''/jobs''
      ?p demo_world = (Inr (job, False), w1)" "pg w1 \<noteq> pg demo_world"
    using demo_creates [OF news_params] by (auto simp: create_params_def)
  from that [of job w1] new show thesis
    using createJobHandler_eq [OF _ requested_news(1), of "cf_float demo_config" demo_env demo_world] by simp
qed

lemma accepted_status: "rs_Status (job_response False job) = 202"
  by (simp add: job_response_def)

theorem create_handler_idempotent_witness:
  "\<exists>w1 job w3. createJobHandler (cf_float demo_config) demo_env (demo_request job_body) demo_world =
      (job_response False job, w1) \<and> jobs (pg w1) = [demo_job, job] \<and>
    createJobHandler (cf_float demo_config) demo_env (demo_request job_body') w1 = (job_response True job, w3) \<and>
    pg w3 = pg w1"
proof -
  let ?ft = "cf_float demo_config"
  obtain job w1 where first: "createJobHandler ?ft demo_env (demo_request job_body) demo_world = (job_response False job, w1)"
    and new: "pg w1 \<noteq> pg demo_world" by (rule demo_first_request)
  have "same_inputs demo_env demo_env" by (simp add: same_inputs_def)
  from create_handler_idempotent [OF demo_env_ok demo_schema demo_ids requested_news _ _ first new this demo_healthy refl]
  obtain job' w3 where again: "jobs (pg w1) = jobs (pg demo_world) @ [job']"
    "job_response False job = job_response False job' \<or> job_response False job = message 500 ''failed to register job''"
    "createJobHandler ?ft demo_env (demo_request job_body') w1 = (job_response True job', w3)" "pg w3 = pg w1"
    by auto
  have "job_response False job \<noteq> message 500 ''failed to register job''"
  proof
    assume "job_response False job = message 500 ''failed to register job''"
    then have "rs_Status (job_response False job) = 500" by (simp only: response_simps)
    then show False unfolding accepted_status by simp
  qed
  with again(2) have "job_response False job = job_response False job'" by auto
  with first again show ?thesis
    by (intro exI [of _ w1] exI [of _ job'] exI [of _ w3]) (simp add: demo_world_def)
qed

lemma decode_login:
  "decode_body False auth_fields no_auth (demo_request login_body) =
    Some \<lparr>ar_Email = ''a@b'', ar_Password = ''secret'', ar_Username = []\<rparr>"
  by (simp add: demo_body fits)
    (simp add: login_body_def decode_struct_def auth_fields_def no_auth_def field_names del: fold_name.simps)

theorem login_response_witness:
  "fst (loginHandler demo_libs demo_env ''k'' (demo_request login_body) demo_world) = message 401 ''invalid credentials''"
proof -
  have "account demo_env ''a@b'' demo_world = Some demo_user"
    by (simp add: account_def demo_defs)
  moreover have "\<not> bc_Compare demo_libs (user_PasswordHash demo_user) ''secret''"
    using length_EncodeToString [of "''secret''"]
    by (auto simp: demo_libs_def demo_user_def dest: arg_cong [where f = length])
  ultimately show ?thesis
    using login_response [OF demo_healthy demo_libs_ok, of "''k''" "demo_request login_body" demo_world]
    by (simp add: decode_login)
qed

lemma decode_signup:
  "decode_body False auth_fields no_auth (demo_request signup_body) =
    Some \<lparr>ar_Email = ''c@d'', ar_Password = ''secret'', ar_Username = []\<rparr>"
  by (simp add: demo_body fits)
    (simp add: signup_body_def decode_struct_def auth_fields_def no_auth_def field_names del: fold_name.simps)

lemma demo_signup:
  obtains resp w1 where "registerHandler demo_libs demo_env ''k'' (demo_request signup_body) demo_world = (resp, w1)"
    "rs_Status resp = 201"
proof -
  have "\<exists>uid w1. CreateUser demo_env ''c@d'' ''c@d'' (EncodeToString ''secret'') (bump demo_world) = (Inr uid, w1)"
    by (simp add: CreateUser_def healthy_simps [OF demo_healthy] sql_insert_user_def demo_defs)
      (simp add: demo_env_def)
  then obtain uid w1 where c: "CreateUser demo_env ''c@d'' ''c@d'' (EncodeToString ''secret'') (bump demo_world) = (Inr uid, w1)"
    by blast
  obtain a t w2 where "issue_tokens demo_libs demo_env ''k'' uid ''c@d'' w1 = (Some (a, t), w2)"
    by (rule issue_tokens_total [OF demo_libs_ok])
  moreover have "HashPassword demo_libs n ''secret'' = Some (EncodeToString ''secret'')" for n
    by (simp add: HashPassword_def demo_libs_def)
  ultimately show thesis
    using c that by (simp add: registerHandler_def decode_signup Let_def)
qed

theorem register_then_login_witness:
  "\<exists>w1 user a t. users (pg w1) = [demo_user, user] \<and>
    fst (loginHandler demo_libs demo_env ''k'' (demo_request signup_body) w1) =
      with_data 200 ''login successful'' (token_data (user_ID user) a t) \<and>
    (\<exists>c. ValidateAccessToken demo_libs ''k'' (bearer a) (14 * minute) = Inr c \<and> lc_Subject c = user_ID user)"
proof -
  obtain resp w1 where run: "registerHandler demo_libs demo_env ''k'' (demo_request signup_body) demo_world = (resp, w1)"
    "rs_Status resp = 201" by (rule demo_signup)
  have email: "e_text_ok demo_env ''c@d''" "utf8_ok ''c@d''" by (simp_all add: utf8_ok_ascii)
  from register_then_login [OF demo_libs_ok demo_env_ok run decode_signup decode_signup refl refl demo_healthy _ _ refl] email
  obtain user a t where "users (pg w1) = users (pg demo_world) @ [user]"
    "fst (loginHandler demo_libs demo_env ''k'' (demo_request signup_body) w1) =
      with_data 200 ''login successful'' (token_data (user_ID user) a t)"
    "\<forall>now. now + second \<le> e_gonow demo_env (tick w1 + 1) + 15 * minute \<longrightarrow>
      (\<exists>c. ValidateAccessToken demo_libs ''k'' (bearer a) now = Inr c \<and> lc_Subject c = user_ID user)"
    by auto
  moreover from this(3) have "\<exists>c. ValidateAccessToken demo_libs ''k'' (bearer a) (14 * minute) = Inr c \<and> lc_Subject c = user_ID user"
    by (simp add: minute_def second_def)
  ultimately show ?thesis
    by (intro exI [of _ w1] exI [of _ user] exI [of _ a] exI [of _ t]) (simp add: demo_world_def)
qed

end
