(* ===== verification/System_Witnesses.thy ===== *)
theory System_Witnesses
  imports End_To_End Handler_Witnesses
begin

text \<open>The properties of the whole system at concrete inputs.\<close>

theorem reachable_invariants_witness:
  "\<exists>resp w. serve demo_config demo_env (''POST'', ''/login'') (demo_request signup_body) (empty_world 0) = Some (resp, w) \<and>
    db_ok (pg w)"
proof -
  obtain resp w where s: "serve demo_config demo_env (''POST'', ''/login'') (demo_request signup_body) (empty_world 0) = Some (resp, w)"
    using serve_total [OF routes(3)] by blast
  then have "reachable demo_config demo_env w"
    by (auto simp: reachable_def intro: system_step.request)
  from reachable_invariants [OF demo_env_ok this] s show ?thesis by blast
qed

theorem job_end_to_end_witness:
  "\<exists>w1 w2 job task w3 j. createJobHandler (cf_float demo_config) demo_env (demo_request job_body) demo_world =
      (job_response False job, w1) \<and> pollOnce demo_env 10 w1 = (None, w2) \<and> task \<in> set (redis w2) \<and>
    ProcessJobTask demo_env task w2 = (None, w3) \<and> job_row (job_ID job) w3 = Some j \<and>
    job_State j = ''completed'' \<and> job_Result j = Some ''{}''"
proof -
  let ?ft = "cf_float demo_config"
  obtain job0 w1 where first: "createJobHandler ?ft demo_env (demo_request job_body) demo_world = (job_response False job0, w1)"
    and "pg w1 \<noteq> pg demo_world" by (rule demo_first_request)
  have user: "getUserID (demo_request job_body) \<noteq> []" by simp
  obtain job' where c: "created demo_env (getUserID (demo_request job_body)) (payload_hash news_payload) ''POST'' ''/jobs''
      (create_params (getUserID (demo_request job_body)) news_payload (payload_bytes news_payload))
      (pg demo_world) (pg w1) job'"
    by (rule create_accepted [OF requested_news(1) user first accepted_status])
  obtain v where out: "outbox (pg w1) = outbox (pg demo_world) @ [v]"
    by (rule created_tables [OF demo_env_ok c])
  have backlog: "no_backlog demo_env 10 (pg w1)"
    unfolding no_backlog_def out by (simp add: demo_world_def demo_env_def)
  have hook: "\<forall>n url body. e_post demo_env n url body = Replied 200 (Inr ''{}'')" "e_jsonb_in demo_env ''{}'' = Some ''{}''"
    by (simp_all add: demo_env_def)
  obtain w2 where w2: "pollOnce demo_env 10 w1 = (fst (pollOnce demo_env 10 w1), w2)" by (metis surj_pair fst_conv)
  have ids: "ids_ok demo_env (pg w1)"
    by (rule db_step_ids [OF created_step [OF demo_env_ok _ c] demo_ids]) (simp add: create_params_def)
  have "fst (pollOnce demo_env 10 w1) = None"
    by (rule pollOnce_healthy [OF demo_healthy ids, of 10]) simp_all
  with w2 have w2: "pollOnce demo_env 10 w1 = (None, w2)" by simp
  from job_end_to_end [OF demo_healthy demo_env_ok demo_live demo_accepts demo_ids requested_news(1) user first
      accepted_status backlog hook(1) _ _ hook(2)]
  show ?thesis using first w2 by auto
qed

theorem redelivery_repeats_webhook_witness:
  "\<exists>w1 w2. ProcessJobTask demo_env demo_task demo_world = (None, w1) \<and>
    ProcessJobTask demo_env demo_task w1 = (None, w2) \<and>
    posts w2 = [(''http://hook'', ''{}''), (''http://hook'', ''{}'')]"
proof -
  have "answers demo_env demo_job (Replied 200 (Inr ''{}''))" "e_jsonb_in demo_env ''{}'' = Some ''{}''"
    "int4_ok (job_Attempts demo_job + 2)"
    by (simp_all add: answers_def demo_env_def int4_ok_def demo_job_def)
  from redelivery_repeats_webhook [OF demo_healthy demo_env_ok demo_live demo_runs this(3,1) _ _ this(2)]
  show ?thesis by (auto simp: demo_job_def demo_world_def)
qed

end
