(* ===== verification/Interleaving.thy ===== *)
theory Interleaving
  imports System Demo_Http "HOL-Library.Multiset"
begin

text \<open>
  Operations taken apart at their transactions. A poller, a worker and the update and delete handlers
  hold what they have read between two round trips; the others run in between. \<open>part_step\<close> relates
  the worlds and the multisets of half-done work before and after one part: what \<open>System\<close> proves
  of whole operations holds of every interleaving of their parts. What does break between two
  parts is shown at the end: a run of a job that is late reopens the job another run has completed.
\<close>

section \<open>The parts of a run\<close>

definition call_webhook :: "env \<Rightarrow> StoreJob \<Rightarrow> world \<Rightarrow> (perror option + (hook_error + string)) \<times> world" where
  \<comment> \<open>the sleep, the simulated failure and the request; \<open>Inl\<close> is an early return\<close>
  "call_webhook env job w =
    (let w1 = bump w
     in if e_ctx_done env (tick w) then (Inl None, w1)
        else if e_rand_float env (tick w1) < float32_fifth
        then (Inl (Some (HookError (WebhookError 500 ''simulated random failure''))), bump w1)
        else (case executeJobWebhook env job (bump w1) of (x, w2) \<Rightarrow> (Inr x, w2)))"

definition record_outcome :: "env \<Rightarrow> StoreJob \<Rightarrow> int \<Rightarrow> hook_error + string \<Rightarrow> world \<Rightarrow> perror option \<times> world" where
  \<comment> \<open>the part of the worker after the request\<close>
  "record_outcome env job attempts x w =
    (case x of
       Inl err \<Rightarrow> (None, record_failure env job attempts err w)
     | Inr result \<Rightarrow>
         (case UpdateJobState env (job_ID job) ''completed'' None (Some result) attempts w of
            (Inl e, w1) \<Rightarrow> (Some (StoreError e), w1)
          | (Inr _, w1) \<Rightarrow> (None, w1)))"

lemma run_job_parts:
  "run_job env job a w =
    (case call_webhook env job w of
       (Inl r, w1) \<Rightarrow> (r, w1)
     | (Inr x, w1) \<Rightarrow> record_outcome env job a x w1)"
  by (simp add: run_job_def call_webhook_def record_outcome_def Let_def split: prod.splits sum.splits)

lemma call_webhook_quiet:
  assumes "call_webhook env job w = (r, w')"
  shows "pg w' = pg w \<and> redis w' = redis w"
  using assms by (auto simp: call_webhook_def Let_def posted_def dest!: executeJobWebhook_run split: if_splits prod.splits)

lemma record_outcome_effect:
  assumes "env_ok env" and "0 < a" and "canonical env (job_ID job)"
  shows "effect env w (snd (record_outcome env job a x w))"
proof (cases x)
  case (Inl err)
  obtain w1 where "record_failure env job a err w = w1" by simp
  then have "effect env w w1"
  proof (cases rule: record_failure_run)
    case recorded
    then show ?thesis
      using failure_recorded_step assms by (auto simp: quiet_step_def intro!: effect_quiet db_steps_one)
  qed (auto simp: quiet_step_def intro: effect_quiet)
  with Inl \<open>record_failure env job a err w = w1\<close> show ?thesis by (simp add: record_outcome_def)
next
  case (Inr body)
  obtain y w1 where u: "UpdateJobState env (job_ID job) ''completed'' None (Some body) a w = (y, w1)"
    by (metis surj_pair)
  have "effect env w w1"
    using u [unfolded UpdateJobState_def]
  proof (cases rule: auto_stmt_cases)
    case (failed e)
    then show ?thesis by (intro effect_quiet) simp_all
  qed (auto intro!: effect_quiet db_steps_one db_step.complete [OF assms(2)])
  with Inr u show ?thesis by (simp add: record_outcome_def split: sum.splits)
qed

section \<open>Half-done work\<close>

datatype pending =
    Dispatching "StoreOutboxEvent list"     \<comment> \<open>a poller with the rest of its batch\<close>
  | Started StoreJob int                     \<comment> \<open>a worker between its first transaction and the request\<close>
  | Called StoreJob int "hook_error + string" \<comment> \<open>a worker with the reply of the webhook\<close>
  | Updating updateJobRequest StoreJob       \<comment> \<open>an update handler that has read the job\<close>
  | Deleting string string                   \<comment> \<open>a delete handler that has checked the owner\<close>

inductive part_step :: "config \<Rightarrow> env \<Rightarrow> world \<times> pending multiset \<Rightarrow> world \<times> pending multiset \<Rightarrow> bool" for cf env where
  whole: "system_step cf env w w' \<Longrightarrow> part_step cf env (w, M) (w', M)"
| claim: "claim_batch env limit w = (Inr vs, w') \<Longrightarrow> part_step cf env (w, M) (w', add_mset (Dispatching vs) M)"
| dispatch: "part_step cf env (w, add_mset (Dispatching (v # vs)) M) (dispatch env v w, add_mset (Dispatching vs) M)"
| start: "task \<in> set (redis w) \<Longrightarrow> ParseJobProcessPayload task = Some p \<Longrightarrow>
    start_job env (jpp_JobID p) w = (Some (job, a), w') \<Longrightarrow> part_step cf env (w, M) (w', add_mset (Started job a) M)"
| call: "call_webhook env job w = (Inr x, w') \<Longrightarrow>
    part_step cf env (w, add_mset (Started job a) M) (w', add_mset (Called job a x) M)"
| interrupted: "call_webhook env job w = (Inl r, w') \<Longrightarrow> part_step cf env (w, add_mset (Started job a) M) (w', M)"
| outcome: "record_outcome env job a x w = (r, w') \<Longrightarrow> part_step cf env (w, add_mset (Called job a x) M) (w', M)"
| read_update: "GetJobByID env k w = (Inr job, w') \<Longrightarrow> part_step cf env (w, M) (w', add_mset (Updating req job) M)"
| store_update: "write_update env req job w = (r, w') \<Longrightarrow> part_step cf env (w, add_mset (Updating req job) M) (w', M)"
| read_delete: "GetJobByID env k w = (Inr job, w') \<Longrightarrow>
    part_step cf env (w, M) (w', add_mset (Deleting k (job_UserID job)) M)"
| delete: "DeleteJob env k u w = (r, w') \<Longrightarrow> part_step cf env (w, add_mset (Deleting k u) M) (w', M)"
| stop: "part_step cf env (w, add_mset p M) (w, M)"

definition part_reachable :: "config \<Rightarrow> env \<Rightarrow> world \<times> pending multiset \<Rightarrow> bool" where
  "part_reachable cf env s \<longleftrightarrow> (\<exists>n. (part_step cf env)\<^sup>*\<^sup>* (empty_world n, {#}) s)"

fun pending_ok :: "env \<Rightarrow> tables \<Rightarrow> pending \<Rightarrow> bool" where
  "pending_ok env t (Dispatching vs) \<longleftrightarrow> (\<forall>v \<in> set vs. (ev_AggregateID v, ev_ID v) \<in> event_keys t)"
| "pending_ok env t (Started job a) \<longleftrightarrow> 0 < a \<and> canonical env (job_ID job)"
| "pending_ok env t (Called job a x) \<longleftrightarrow> 0 < a \<and> canonical env (job_ID job)"
| "pending_ok env t (Updating req job) \<longleftrightarrow> job_ok job"
| "pending_ok env t (Deleting k u) \<longleftrightarrow> True"

fun parts_ok :: "env \<Rightarrow> world \<times> pending multiset \<Rightarrow> bool" where
  "parts_ok env (w, M) \<longleftrightarrow> system_ok env w \<and> (\<forall>p \<in># M. pending_ok env (pg w) p)"

declare parts_ok.simps [simp del]

section \<open>Every part keeps the invariant\<close>

lemma pending_ok_mono: "db_steps env t t' \<Longrightarrow> pending_ok env t p \<Longrightarrow> pending_ok env t' p"
  by (cases p) (auto dest: event_keys_steps)

text \<open>The rule all parts use: an effect on the world, and new half-done work that is in order.\<close>

lemma parts_okI:
  assumes "parts_ok env (w, M)" and "system_ok env w \<Longrightarrow> effect env w w'"
    and "\<And>p. p \<in># M' \<Longrightarrow> p \<in># M \<or> (system_ok env w \<longrightarrow> pending_ok env (pg w) p)"
  shows "parts_ok env (w', M')"
proof -
  from assms(1,2) have "db_steps env (pg w) (pg w')" "system_ok env w'"
    by (auto simp: parts_ok.simps effect_def intro: effect_ok)
  with assms show ?thesis by (auto simp: parts_ok.simps intro: pending_ok_mono)
qed

lemma GetJobByID_effect:
  assumes "GetJobByID env k w = (r, w')"
  shows "effect env w w'"
proof (rule effect_quiet)
  show "db_steps env (pg w) (pg w')" using GetJobByID_same [OF assms] by simp
  from assms obtain txo where "queryRow env None (sql_job_by_id env k) w = (r, txo, w')"
    by (auto simp: GetJobByID_def GetJobByIDTx_def split: prod.splits)
  from queryRow_quiet [OF this] show "redis w' = redis w" by (simp add: quiet_step_def)
qed

lemma write_update_effect:
  assumes "job_ok job" and "write_update env req job w = (r, w')"
  shows "effect env w w'"
proof (rule effect_quiet)
  show "db_steps env (pg w) (pg w')"
    using UpdateJobDetails_steps [OF apply_update_positive [OF assms(1)]] assms(2)
    unfolding write_update_def Let_def by (metis snd_conv)
  show "redis w' = redis w"
    using assms(2) by (auto simp: write_update_def UpdateJobDetails_def Let_def dest!: auto_stmt_quiet [unfolded quiet_step_def])
qed

lemma DeleteJob_effect: "DeleteJob env k u w = (r, w') \<Longrightarrow> effect env w w'"
  using DeleteJob_steps [of env w k u]
  by (intro effect_quiet) (auto simp: DeleteJob_def dest!: auto_stmt_quiet [unfolded quiet_step_def])

lemma dispatch_effect:
  assumes "(ev_AggregateID v, ev_ID v) \<in> event_keys (pg w)"
  shows "effect env w (dispatch env v w)"
  using effect_dispatch [of env w w "[v]"] assms by simp

lemma start_pending:
  assumes "env_ok env" and "system_ok env w" and "start_job env k w = (Some (job, a), w')"
  shows "0 < a \<and> canonical env (job_ID job)"
  using assms(3)
proof (cases rule: start_job_run)
  case (started job' a')
  then have "started env k (pg w) (pg w') job a" by simp
  with assms(2) started_positive started_tables [OF this assms(1)] env_okD(4) [OF assms(1)]
  show ?thesis by (metis system_ok_def db_ok_def)
qed simp_all

lemma read_job_ok:
  assumes "GetJobByID env k w = (Inr job, w')" and "system_ok env w"
  shows "job_ok job"
proof -
  have "job \<in> set (jobs (pg w))" using assms(1) by (auto elim!: GetJobByID_found dest: find_by_SomeD)
  with assms(2) show ?thesis by (simp add: system_ok_def db_ok_def jobs_ok_def)
qed

lemma part_step_ok:
  assumes "env_ok env" and "part_step cf env s s'" and "parts_ok env s"
  shows "parts_ok env s'"
  using assms(2)
proof (cases rule: part_step.cases)
  case (whole w w' M)
  show ?thesis unfolding whole(2)
    by (rule parts_okI [OF assms(3) [unfolded whole(1)] system_step_effect [OF assms(1) whole(3)]]) simp_all
next
  case (claim limit w vs w' M)
  from claim_facts [OF claim(3)] show ?thesis unfolding claim(2)
    by (intro parts_okI [OF assms(3) [unfolded claim(1)]]) (auto intro: effect_quiet)
next
  case (dispatch w v vs M)
  have "\<forall>v' \<in> set (v # vs). (ev_AggregateID v', ev_ID v') \<in> event_keys (pg w)"
    using assms(3) by (simp add: dispatch(1) parts_ok.simps)
  then show ?thesis unfolding dispatch(2)
    by (intro parts_okI [OF assms(3) [unfolded dispatch(1)]]) (auto intro: dispatch_effect)
next
  case (start task w p job a w' M)
  from start_pending [OF assms(1) _ start(5)] start_job_effect [OF start(5)] show ?thesis unfolding start(2)
    by (intro parts_okI [OF assms(3) [unfolded start(1)]]) (auto intro: effect_quiet)
next
  case (call job w x w' a M)
  have "0 < a \<and> canonical env (job_ID job)" using assms(3) by (simp add: call(1) parts_ok.simps)
  with call_webhook_quiet [OF call(3)] show ?thesis unfolding call(2)
    by (intro parts_okI [OF assms(3) [unfolded call(1)]]) (auto intro: effect_quiet)
next
  case (interrupted job w r w' a M)
  from call_webhook_quiet [OF interrupted(3)] show ?thesis unfolding interrupted(2)
    by (intro parts_okI [OF assms(3) [unfolded interrupted(1)]]) (auto intro: effect_quiet)
next
  case (outcome job a x w r w' M)
  have "0 < a" "canonical env (job_ID job)" using assms(3) by (simp_all add: outcome(1) parts_ok.simps)
  from record_outcome_effect [OF assms(1) this, of w x] show ?thesis unfolding outcome(2)
    by (intro parts_okI [OF assms(3) [unfolded outcome(1)]]) (simp_all add: outcome(3))
next
  case (read_update k w job w' M req)
  from GetJobByID_effect [OF read_update(3)] read_job_ok [OF read_update(3)] show ?thesis unfolding read_update(2)
    by (intro parts_okI [OF assms(3) [unfolded read_update(1)]]) auto
next
  case (store_update req job w r w' M)
  have "job_ok job" using assms(3) by (simp add: store_update(1) parts_ok.simps)
  from write_update_effect [OF this store_update(3)] show ?thesis unfolding store_update(2)
    by (intro parts_okI [OF assms(3) [unfolded store_update(1)]]) auto
next
  case (read_delete k w job w' M)
  from GetJobByID_effect [OF read_delete(3)] show ?thesis unfolding read_delete(2)
    by (intro parts_okI [OF assms(3) [unfolded read_delete(1)]]) auto
next
  case (delete k u w r w' M)
  from DeleteJob_effect [OF delete(3)] show ?thesis unfolding delete(2)
    by (intro parts_okI [OF assms(3) [unfolded delete(1)]]) auto
next
  case (stop w p M)
  with assms(3) show ?thesis by (simp add: parts_ok.simps)
qed

section \<open>What is reachable in parts\<close>

lemma part_reachable_ok:
  assumes "env_ok env" and "part_reachable cf env s"
  shows "parts_ok env s"
proof -
  from assms(2) obtain n where "(part_step cf env)\<^sup>*\<^sup>* (empty_world n, {#}) s" by (auto simp: part_reachable_def)
  then show ?thesis
    by (induction rule: rtranclp_induct)
      (auto simp: parts_ok.simps system_ok_empty intro: part_step_ok [OF assms(1)])
qed

text \<open>C2: Requests, polls, deliveries, failures and stops may interleave at every transaction, since the
  tables were empty: the database satisfies all its invariants, and every task in the queue is of
  the type the worker serves, carries no retries, and parses to the job and the identifier of a
  stored event; so does the task of every event a poller still holds.\<close>

theorem interleaved_invariants:
  assumes "env_ok env" and "part_reachable cf env (w, M)"
  shows "db_ok (pg w) \<and>
    (\<forall>task \<in> set (redis w) \<union> {task_for v | v vs. Dispatching vs \<in># M \<and> v \<in> set vs}.
      \<exists>v \<in> set (outbox (pg w)). task_type task = TypeJobProcess \<and> qt_MaxRetry task = 0 \<and>
        ParseJobProcessPayload task = Some \<lparr>jpp_JobID = ev_AggregateID v, jpp_OutboxID = ev_ID v\<rparr>)"
proof -
  have ok: "system_ok env w" and held: "\<forall>p \<in># M. pending_ok env (pg w) p"
    using part_reachable_ok [OF assms] by (simp_all add: parts_ok.simps)
  have "task_for v \<in> event_tasks (pg w)" if "Dispatching vs \<in># M" "v \<in> set vs" for v vs
  proof -
    have "(ev_AggregateID v, ev_ID v) \<in> event_keys (pg w)" using held that by fastforce
    then show ?thesis unfolding event_tasks_keys task_for_def by force
  qed
  then have "set (redis w) \<union> {task_for v | v vs. Dispatching vs \<in># M \<and> v \<in> set vs} \<subseteq> event_tasks (pg w)"
    using ok by (auto simp: system_ok_def tasks_ok_def)
  moreover have "\<exists>v \<in> set (outbox (pg w)). task_type task = TypeJobProcess \<and> qt_MaxRetry task = 0 \<and>
      ParseJobProcessPayload task = Some \<lparr>jpp_JobID = ev_AggregateID v, jpp_OutboxID = ev_ID v\<rparr>"
    if "task \<in> event_tasks (pg w)" for task
  proof -
    from that obtain v where v: "v \<in> set (outbox (pg w))" "task = task_for v" by (auto simp: event_tasks_def)
    with ok have "utf8_ok (ev_ID v) \<and> utf8_ok (ev_AggregateID v)"
      by (auto simp: system_ok_def dest: ids_okD(4))
    with v task_for_parse show ?thesis by blast
  qed
  moreover have "db_ok (pg w)" using ok by (simp add: system_ok_def)
  ultimately show ?thesis by blast
qed

section \<open>A run that is late\<close>

lemma start_job_tables:
  assumes "start_job env k w = (Some (job, a), w')" and "env_ok env"
  shows "\<exists>now. find_by job_ID (job_ID job) (jobs (pg w)) = Some job \<and> e_uuid_in env (job_ID job) = Some (job_ID job) \<and>
    a = job_Attempts job + 1 \<and> int4_ok a \<and>
    pg w' = (pg w)\<lparr>jobs := upd_by job_ID (job_ID job) (set_outcome ''running'' None None a now) (jobs (pg w))\<rparr>"
  using assms(1)
proof (cases rule: start_job_run)
  case (started job' a')
  then have "started env k (pg w) (pg w') job a" by simp
  from started_tables [OF this assms(2)] show ?thesis
    by (auto simp: set_outcome_def [abs_def])
qed simp_all

lemma record_completed_tables:
  assumes "record_outcome env job a (Inr body) w = (None, w')" and "e_uuid_in env (job_ID job) = Some (job_ID job)"
  shows "\<exists>now stored. pg w' = (pg w)\<lparr>jobs := upd_by job_ID (job_ID job)
    (set_outcome ''completed'' None (Some stored) a now) (jobs (pg w))\<rparr>"
proof -
  obtain y w1 where u: "UpdateJobState env (job_ID job) ''completed'' None (Some body) a w = (y, w1)"
    by (metis surj_pair)
  with assms(1) have y: "y = Inr ()" "w1 = w'" by (auto simp: record_outcome_def split: sum.splits)
  from u [unfolded UpdateJobState_def] y obtain t where
    "sql_update_state env (e_pgnow env (tick w)) (job_ID job) ''completed'' None (Some body) a (pg w) = Inr ((), t)" "pg w' = t"
    by (auto elim!: auto_stmt_cases)
  moreover from this(1) obtain stored where "stored \<noteq> None"
    "t = (pg w)\<lparr>jobs := upd_by job_ID (job_ID job) (\<lambda>j. j\<lparr>job_State := ''completed'', job_LastError := None,
      job_Result := stored, job_Attempts := a, job_UpdatedAt := e_pgnow env (tick w)\<rparr>) (jobs (pg w))\<rparr>"
    by (rule sql_update_stateE) (use assms(2) in auto)
  ultimately show ?thesis unfolding set_outcome_def [abs_def] by blast
qed

text \<open>C21: A late failure reopens a completed job: when a task is delivered twice and the second run
  completes the job before the first one records its failure, the job goes from \<open>completed\<close> back to
  \<open>queued\<close> with its result gone, the attempt the second run has counted is taken back, and a retry
  event is added, which makes the webhook be called again.\<close>

theorem late_failure_reopens:
  assumes "healthy env" and "env_ok env"
    and "start_job env k w = (Some (job, a), w1)" and "start_job env k' w1 = (Some (job', a'), w2)"
    and "job_ID job' = job_ID job" and "record_outcome env job' a' (Inr body) w2 = (None, w3)"
    and "record_outcome env job a (Inl err) w3 = (r, w4)"
    and "\<not> job_MaxRetries job \<le> a" and "e_text_ok env (error_text err)"
    and "\<forall>n. find_by ev_ID (e_uuid env n) (outbox (pg w)) = None"
    and "announceable env (job_ID job) (job_Type job) (job_Name job) (job_WebhookURL job) (job_Payload job)"
  shows "a' = a + 1 \<and> r = None \<and> (\<exists>j3 j4 v.
    job_row (job_ID job) w3 = Some j3 \<and> job_State j3 = ''completed'' \<and> job_Attempts j3 = a' \<and>
    job_row (job_ID job) w4 = Some j4 \<and> job_State j4 = ''queued'' \<and> job_Result j4 = None \<and> job_Attempts j4 = a \<and>
    outbox (pg w4) = outbox (pg w) @ [v] \<and> ev_EventType v = ''job_retry'' \<and>
    ev_AggregateID v = job_ID job \<and> \<not> ev_Published v)"
proof -
  let ?k = "job_ID job"
  from start_job_tables [OF assms(3,2)] obtain n1 where one: "find_by job_ID ?k (jobs (pg w)) = Some job"
    "e_uuid_in env ?k = Some ?k" "int4_ok a" and
    w1: "pg w1 = (pg w)\<lparr>jobs := upd_by job_ID ?k (set_outcome ''running'' None None a n1) (jobs (pg w))\<rparr>" by blast
  from start_job_tables [OF assms(4,2)] assms(5) obtain n2 where two: "find_by job_ID ?k (jobs (pg w1)) = Some job'"
    "a' = job_Attempts job' + 1" and
    w2: "pg w2 = (pg w1)\<lparr>jobs := upd_by job_ID ?k (set_outcome ''running'' None None a' n2) (jobs (pg w1))\<rparr>" by auto
  have "job' = set_outcome ''running'' None None a n1 job"
    using two(1) one(1) w1 by (simp add: find_upd_by_same)
  then have a': "a' = a + 1" using two(2) by (simp add: set_outcome_def)
  from record_completed_tables [OF assms(6)] assms(5) one(2) obtain n3 stored where
    w3: "pg w3 = (pg w2)\<lparr>jobs := upd_by job_ID ?k (set_outcome ''completed'' None (Some stored) a' n3) (jobs (pg w2))\<rparr>" by auto
  have rec: "r = None" "w4 = record_failure env job a err w3" using assms(7) by (simp_all add: record_outcome_def)
  have "outbox (pg w3) = outbox (pg w)" using w1 w2 w3 by simp
  with assms(10) have "find_by ev_ID (e_uuid env (Suc (Suc (tick w3)))) (outbox (pg w3)) = None" by simp
  from record_failure_retries [OF assms(1,2) one(2,3) assms(9,8) this assms(11)] rec(2) obtain n4 v where
    w4: "pg w4 = (pg w3)\<lparr>jobs := upd_by job_ID ?k (set_outcome ''queued'' (Some (error_text err)) None a n4) (jobs (pg w3)),
      outbox := outbox (pg w3) @ [v]\<rparr>"
    and v: "ev_EventType v = ''job_retry''" "ev_AggregateID v = ?k" "\<not> ev_Published v" by blast
  have row3: "job_row ?k w3 = Some (set_outcome ''completed'' None (Some stored) a' n3 job)"
    using one(1) w1 w2 w3 by (simp add: job_row_def upd_outcome_twice find_upd_by_same)
  then have "job_row ?k w4 = Some (set_outcome ''queued'' (Some (error_text err)) None a n4
      (set_outcome ''completed'' None (Some stored) a' n3 job))"
    using w4 by (simp add: job_row_def find_upd_by_same)
  with row3 a' rec(1) v w4 \<open>outbox (pg w3) = outbox (pg w)\<close> show ?thesis
    by (simp add: set_outcome_def)
qed

section \<open>Witnesses\<close>

theorem interleaved_invariants_witness:
  "\<exists>w vs w'. serve demo_config demo_env (''DELETE'', ''/jobs/{jobID}'') nobody_request (empty_world 0) =
      Some (http_Error ''invalid access token'' 401, w) \<and>
    claim_batch demo_env 10 w = (Inr vs, w') \<and> db_ok (pg w')"
proof -
  let ?w = "bump (empty_world 0)"
  have s: "serve demo_config demo_env (''DELETE'', ''/jobs/{jobID}'') nobody_request (empty_world 0) =
      Some (http_Error ''invalid access token'' 401, ?w)"
    by (simp add: serve_def RegisterRoutes_def NewJWTAuth_def nobody_request_def ValidateAccessToken_def)
  have "ids_ok demo_env (pg ?w)" by (simp add: ids_ok_def empty_world_def)
  from claim_healthy [OF demo_healthy this, of 10] obtain vs w' where c: "claim_batch demo_env 10 ?w = (Inr vs, w')" by auto
  have "part_step demo_config demo_env (empty_world 0, {#}) (?w, {#})"
    by (intro part_step.whole system_step.request [OF s])
  moreover have "part_step demo_config demo_env (?w, {#}) (w', {#Dispatching vs#})"
    by (rule part_step.claim [OF c])
  ultimately have "part_reachable demo_config demo_env (w', {#Dispatching vs#})"
    unfolding part_reachable_def by (meson converse_rtranclp_into_rtranclp rtranclp.rtrancl_refl)
  from interleaved_invariants [OF demo_env_ok this] s c show ?thesis by blast
qed

theorem late_failure_reopens_witness:
  "\<exists>w1 w2 w3 w4 job' j3 j4. start_job demo_env ''job1'' demo_world = (Some (demo_job, 1), w1) \<and>
    start_job demo_env ''job1'' w1 = (Some (job', 2), w2) \<and>
    record_outcome demo_env job' 2 (Inr ''{}'') w2 = (None, w3) \<and>
    record_outcome demo_env demo_job 1 (Inl (WebhookError 503 ''busy'')) w3 = (None, w4) \<and>
    job_row ''job1'' w3 = Some j3 \<and> job_State j3 = ''completed'' \<and> job_Attempts j3 = 2 \<and>
    job_row ''job1'' w4 = Some j4 \<and> job_State j4 = ''queued'' \<and> job_Attempts j4 = 1"
proof -
  have one: "job_Attempts demo_job + 1 = 1" "job_ID demo_job = ''job1''" by (simp_all add: demo_job_def)
  from start_healthy [OF demo_healthy demo_env_ok demo_runs] obtain w1 now where
    s1: "start_job demo_env ''job1'' demo_world = (Some (demo_job, 1), w1)"
    and k: "e_uuid_in demo_env ''job1'' = Some ''job1''" "find_by job_ID ''job1'' (jobs (pg demo_world)) = Some demo_job"
    and w1: "jobs (pg w1) = upd_by job_ID ''job1'' (set_outcome ''running'' None None 1 now) (jobs (pg demo_world))"
    unfolding one by (auto simp: demo_parse)
  let ?j = "set_outcome ''running'' None None 1 now demo_job"
  have j: "job_ID ?j = ''job1''" "job_Attempts ?j + 1 = 2" by (simp_all add: one) (simp add: set_outcome_def)
  have "find_by job_ID ''job1'' (jobs (pg w1)) = Some ?j" using k(2) w1 by (simp add: find_upd_by_same)
  then have "runs demo_env demo_task w1 ?j" using k(1) j by (simp add: runs_def demo_parse int4_ok_def)
  from start_healthy [OF demo_healthy demo_env_ok this] obtain w2 where
    s2: "start_job demo_env ''job1'' w1 = (Some (?j, 2), w2)"
    unfolding j by (auto simp: demo_parse)
  obtain w3 where r3: "record_outcome demo_env ?j 2 (Inr ''{}'') w2 = (None, w3)"
    using k(1) sql_update_state_ok [of demo_env "''job1''" "''completed''" None 2 "Some ''{}''"]
    by (simp add: record_outcome_def UpdateJobState_def healthy_simps [OF demo_healthy] one)
      (simp add: demo_env_def int4_ok_def)
  obtain r w4 where r4: "record_outcome demo_env demo_job 1 (Inl (WebhookError 503 ''busy'')) w3 = (r, w4)"
    by (metis surj_pair)
  have "announceable demo_env (job_ID demo_job) (job_Type demo_job) (job_Name demo_job) (job_WebhookURL demo_job) (job_Payload demo_job)"
    using event_payload_marshal [OF demo_payload_json] by (auto simp: announceable_def demo_env_def split: option.splits)
  moreover have "\<forall>n. find_by ev_ID (e_uuid demo_env n) (outbox (pg demo_world)) = None"
    by (simp add: demo_env_def demo_defs replicate_other)
  moreover have "e_text_ok demo_env (error_text (WebhookError 503 ''busy''))" by (simp add: demo_env_def)
  moreover have "\<not> job_MaxRetries demo_job \<le> 1" by (simp add: demo_job_def)
  ultimately show ?thesis
    using late_failure_reopens [OF demo_healthy demo_env_ok s1 s2 _ r3 r4] s1 s2 r3 r4 unfolding one
    by (auto simp: one)
qed

end
