(* ===== verification/Give_Up.thy ===== *)
theory Give_Up
  imports End_To_End
begin

text \<open>
  A job whose webhook never answers 2xx: rounds of one poll and the deliveries it has enqueued. Each
  round makes one attempt and, while attempts are left, one retry event for the next; after
  \<open>max_retries\<close> rounds the job is \<open>failed\<close> and nothing is left to enqueue.
\<close>

section \<open>A round\<close>

fun carry_out :: "env \<Rightarrow> nat \<Rightarrow> queued_task \<Rightarrow> world \<Rightarrow> world" where
  \<comment> \<open>what Asynq documents of \<^verbatim>\<open>MaxRetry\<close>: a task whose handler has returned an error is carried out again,
     at most that often\<close>
  "carry_out env 0 task w = snd (ProcessJobTask env task w)"
| "carry_out env (Suc retries) task w =
    (case ProcessJobTask env task w of
       (None, w1) \<Rightarrow> w1
     | (Some _, w1) \<Rightarrow> carry_out env retries task w1)"

fun deliver_all :: "env \<Rightarrow> queued_task list \<Rightarrow> world \<Rightarrow> world" where
  "deliver_all env [] w = w"
| "deliver_all env (task # tasks) w = deliver_all env tasks (carry_out env (qt_MaxRetry task) task w)"

definition deliver_round :: "env \<Rightarrow> int \<Rightarrow> world \<Rightarrow> world" where
  \<comment> \<open>one poll, then the tasks it has put into the queue, in their order\<close>
  "deliver_round env limit w =
    (let w1 = snd (pollOnce env limit w) in deliver_all env (drop (length (redis w)) (redis w1)) w1)"

definition unpublished :: "world \<Rightarrow> StoreOutboxEvent list" where
  "unpublished w = filter (\<lambda>v. \<not> ev_Published v) (outbox (pg w))"

definition fresh_ids :: "env \<Rightarrow> world \<Rightarrow> bool" where
  \<comment> \<open>no UUID that is still to be drawn is the identifier of an event\<close>
  "fresh_ids env w \<longleftrightarrow> (\<forall>n \<ge> tick w. e_uuid env n \<notin> ev_ID ` set (outbox (pg w)))"

definition same_request :: "StoreJob \<Rightarrow> StoreJob \<Rightarrow> bool" where
  \<comment> \<open>what a run does not change\<close>
  "same_request job j \<longleftrightarrow> job_ID j = job_ID job \<and> job_Type j = job_Type job \<and> job_Name j = job_Name job \<and>
    job_WebhookURL j = job_WebhookURL job \<and> job_Payload j = job_Payload job \<and> job_MaxRetries j = job_MaxRetries job"

definition waiting :: "env \<Rightarrow> StoreJob \<Rightarrow> int \<Rightarrow> world \<Rightarrow> bool" where
  \<comment> \<open>the job has made \<open>k\<close> attempts and its event is the only one to be enqueued\<close>
  "waiting env job k w \<longleftrightarrow> system_ok env w \<and> fresh_ids env w \<and>
    (\<exists>v. unpublished w = [v] \<and> ev_AggregateID v = job_ID job) \<and>
    (\<exists>j. job_row (job_ID job) w = Some j \<and> same_request job j \<and> job_Attempts j = k)"

lemma image_set_eq: "map f xs = map f ys \<Longrightarrow> f ` set xs = f ` set ys"
  by (metis set_map)

section \<open>What a poll does to the clock and the webhook log\<close>

definition later :: "world \<Rightarrow> world \<Rightarrow> bool" where
  "later w w' \<longleftrightarrow> tick w \<le> tick w' \<and> posts w' = posts w"

lemma later_refl [simp]: "later w w"
  by (simp add: later_def)

lemma later_trans: "later w w1 \<Longrightarrow> later w1 w2 \<Longrightarrow> later w w2"
  by (simp add: later_def)

lemma round_trip_later:
  "BeginTx env w = (r, w') \<Longrightarrow> later w w'" "tx_stmt env f tx w = (x, tx', w') \<Longrightarrow> later w w'"
  "auto_stmt env g w = (y, w') \<Longrightarrow> later w w'" "Commit env tx w = (z, w') \<Longrightarrow> later w w'"
  by (auto simp: later_def dest: round_trip_tick stmts_quiet)

lemma mark_all_later: "mark_all env vs tx w = (x, tx', w') \<Longrightarrow> later w w'"
proof (induction vs arbitrary: tx w)
  case (Cons v vs)
  obtain y tx1 w1 where m: "MarkOutboxEventPublishedTx env tx (ev_ID v) w = (y, tx1, w1)" by (metis prod_cases3)
  then have "later w w1" by (auto simp: MarkOutboxEventPublishedTx_def dest: round_trip_later)
  moreover have "later w1 w'" using Cons m by (cases y) auto
  ultimately show ?case by (rule later_trans)
qed simp

lemma claim_batch_later: "claim_batch env limit w = (r, w') \<Longrightarrow> later w w'"
  by (auto simp: claim_batch_def GetUnpublishedOutboxEventsTx_def dest!: round_trip_later mark_all_later
      split: prod.splits sum.splits intro: later_trans)

lemma dispatch_later: "later w (dispatch env v w)"
proof -
  have mark: "later w (snd (MarkOutboxEventUnpublished env k w))" for k w
    unfolding MarkOutboxEventUnpublished_def by (rule round_trip_later(3)) (rule surjective_pairing)
  have enq: "Enqueue env task n w = (b, w1) \<Longrightarrow> later w w1" for task n b w1
    by (auto simp: Enqueue_def later_def split: fault.splits)
  show ?thesis
    by (auto simp: dispatch_def split: option.splits prod.splits bool.splits intro: mark enq later_trans [OF enq mark])
qed

lemma dispatch_all_later: "later w (dispatch_all env vs w)"
  by (induction vs arbitrary: w) (auto intro: later_trans [OF dispatch_later])

lemma pollOnce_later: "later w (snd (pollOnce env limit w))"
proof (cases "claim_batch env limit w")
  case (Pair r w1)
  with claim_batch_later [OF Pair] show ?thesis
    by (cases r) (auto simp: pollOnce_def intro: later_trans dispatch_all_later)
qed

text \<open>A poll that finds one event enqueues its task and leaves nothing unpublished.\<close>

lemma poll_single:
  assumes "healthy env" and "\<forall>n. e_enqueue env n = NoFault" and "\<forall>n. e_locked env n = []" and "1 \<le> limit"
    and "ids_ok env (pg w)" and "unpublished w = [v]"
  shows "redis (snd (pollOnce env limit w)) = redis w @ [task_for v] \<and> unpublished (snd (pollOnce env limit w)) = [] \<and>
    ev_ID ` set (outbox (pg (snd (pollOnce env limit w)))) = ev_ID ` set (outbox (pg w))"
proof -
  have one: "claimable env n limit (pg w) = [v]" for n
    using assms(3,4,6) by (cases "nat limit") (simp_all add: claimable_def unpublished_def)
  from assms(4) have "0 \<le> limit" by simp
  from pollOnce_healthy [OF assms(1,5) this] obtain now w1 where
    poll: "pollOnce env limit w = (None, dispatch_all env [v] w1)" and q: "redis w1 = redis w"
    and out: "outbox (pg w1) = map (\<lambda>u. if ev_ID u \<in> ev_ID ` set [v] then set_published True now u else u) (outbox (pg w))"
    unfolding one by blast
  have "ev_Published u" if "u \<in> set (outbox (pg w1))" for u
  proof -
    from that out obtain u0 where u0: "u0 \<in> set (outbox (pg w))"
      "u = (if ev_ID u0 = ev_ID v then set_published True now u0 else u0)" by auto
    show ?thesis
    proof (cases "ev_Published u0")
      case False
      with u0(1) have "u0 \<in> set (unpublished w)" by (simp add: unpublished_def)
      with assms(6) u0(2) show ?thesis by (simp add: set_published_def)
    qed (use u0(2) in \<open>simp add: set_published_def\<close>)
  qed
  then have "unpublished w1 = []" by (simp add: unpublished_def)
  moreover have "ev_ID ` set (outbox (pg w1)) = ev_ID ` set (outbox (pg w))"
    by (rule image_set_eq) (simp add: out)
  ultimately show ?thesis
    using dispatch_all_accepted [OF assms(2), of "[v]" w1] poll q by (simp add: unpublished_def)
qed

section \<open>One attempt\<close>

lemma system_ok_delivery:
  assumes "env_ok env" and "system_ok env w" and "task \<in> set (redis w)"
  shows "system_ok env (snd (ProcessJobTask env task w))"
  by (rule system_step_ok [OF assms(1) _ assms(2), where cf = undefined])
    (rule system_step.deliver [OF assms(3)], rule surjective_pairing)

lemma system_ok_poll:
  assumes "env_ok env" and "system_ok env w"
  shows "system_ok env (snd (pollOnce env limit w))"
  by (rule system_step_ok [OF assms(1) _ assms(2), where cf = undefined])
    (rule system_step.poll, rule surjective_pairing)

definition refusing :: "env \<Rightarrow> StoreJob \<Rightarrow> int \<Rightarrow> string \<Rightarrow> bool" where
  \<comment> \<open>the webhook of the job always answers outside 2xx, and its answer and the retry event can be stored\<close>
  "refusing env job status body \<longleftrightarrow> answers env job (Replied status (Inr body)) \<and> (status < 200 \<or> 300 \<le> status) \<and>
    e_text_ok env body \<and>
    announceable env (job_ID job) (job_Type job) (job_Name job) (job_WebhookURL job) (job_Payload job)"

lemma refusing_same: "same_request job j \<Longrightarrow> refusing env j status body = refusing env job status body"
  by (simp add: same_request_def refusing_def answers_def)

definition attempted :: "StoreJob \<Rightarrow> int \<Rightarrow> string \<Rightarrow> world \<Rightarrow> bool" where
  \<comment> \<open>the row after \<open>k\<close> refused attempts\<close>
  "attempted job k body w \<longleftrightarrow> (\<exists>j. job_row (job_ID job) w = Some j \<and> same_request job j \<and> job_Attempts j = k \<and>
    job_State j = (if k \<ge> job_MaxRetries job then ''failed'' else ''queued'') \<and> job_LastError j = Some body)"

lemma events_after:
  assumes "inj (e_uuid env)" and "fresh_ids env w" and "unpublished w = []" and "tick w \<le> tick w'"
    and "if last_one then outbox (pg w') = outbox (pg w)
     else \<exists>v n. outbox (pg w') = outbox (pg w) @ [v] \<and> ev_EventType v = ''job_retry'' \<and>
       ev_AggregateID v = k \<and> \<not> ev_Published v \<and> ev_ID v = e_uuid env n \<and> tick w \<le> n \<and> n < tick w'"
  shows "fresh_ids env w' \<and> (if last_one then unpublished w' = []
    else \<exists>v. unpublished w' = [v] \<and> ev_AggregateID v = k)"
proof (cases last_one)
  case True
  with assms show ?thesis by (simp add: fresh_ids_def unpublished_def)
next
  case False
  with assms(5) obtain v n where v: "outbox (pg w') = outbox (pg w) @ [v]" "ev_AggregateID v = k" "\<not> ev_Published v"
    "ev_ID v = e_uuid env n" "n < tick w'" by auto
  have "e_uuid env m \<noteq> e_uuid env n" if "m \<ge> tick w'" for m
    using that v(5) injD [OF assms(1)] by fastforce
  with v assms(2,4) have "fresh_ids env w'" by (auto simp: fresh_ids_def)
  with False v assms(3) show ?thesis by (simp add: unpublished_def)
qed

lemma attempt:
  assumes "healthy env" and "env_ok env" and "live env" and "inj (e_uuid env)" and "refusing env job status body"
    and "system_ok env w" and "fresh_ids env w" and "unpublished w = []" and "task \<in> set (redis w)"
    and "job_row (job_ID job) w = Some j" and "same_request job j" and "int4_ok (job_Attempts j + 1)"
    and "ParseJobProcessPayload task = Some p" and "jpp_JobID p = job_ID job"
  defines "w' \<equiv> snd (ProcessJobTask env task w)"
  shows "system_ok env w' \<and> fresh_ids env w' \<and> posts w' = posts w @ [(job_WebhookURL job, job_Payload job)] \<and>
    attempted job (job_Attempts j + 1) body w' \<and>
    (if job_Attempts j + 1 \<ge> job_MaxRetries job then unpublished w' = []
     else \<exists>v. unpublished w' = [v] \<and> ev_AggregateID v = job_ID job)"
proof -
  let ?k = "job_ID job" and ?a = "job_Attempts j + 1"
  from assms(10) have row: "find_by job_ID ?k (jobs (pg w)) = Some j" by (simp add: job_row_def)
  have same: "job_ID j = ?k" "job_MaxRetries j = job_MaxRetries job" using assms(11) by (simp_all add: same_request_def)
  have "e_uuid_in env ?k = Some ?k"
    using ids_okD(2) [of env "pg w" j] find_by_SomeD [OF row] assms(6) same by (auto simp: system_ok_def)
  then have runs: "runs env task w j" using row assms(12-14) by (simp add: runs_def)
  have hook: "refusing env j status body" using refusing_same assms(5,11) by simp
  have new: "\<forall>n \<ge> tick w. find_by ev_ID (e_uuid env n) (outbox (pg w)) = None"
    using assms(7) by (simp add: fresh_ids_def find_by_None_iff)
  from process_failing [OF assms(1-3) runs _ _ _ new, of status body] hook obtain now w2 where
    run: "ProcessJobTask env task w = (None, w2)" and sent: "posted j w w2" and
    rows: "jobs (pg w2) = upd_by job_ID ?k (set_outcome (if ?a \<ge> job_MaxRetries job then ''failed'' else ''queued'')
      (Some body) None ?a now) (jobs (pg w))" and
    events: "if ?a \<ge> job_MaxRetries job then outbox (pg w2) = outbox (pg w)
     else \<exists>v n. outbox (pg w2) = outbox (pg w) @ [v] \<and> ev_EventType v = ''job_retry'' \<and>
       ev_AggregateID v = ?k \<and> \<not> ev_Published v \<and> ev_ID v = e_uuid env n \<and> tick w \<le> n \<and> n < tick w2"
    unfolding refusing_def same by blast
  have w': "w' = w2" using run by (simp add: w'_def)
  have "attempted job ?a body w2"
    unfolding attempted_def job_row_def rows find_upd_by_same [OF set_outcome_id row]
    using assms(11) by (simp add: same_request_def set_outcome_def)
  moreover have "posts w2 = posts w @ [(job_WebhookURL job, job_Payload job)]"
    using sent assms(11) by (simp add: posted_def same_request_def)
  moreover have "system_ok env w2" using system_ok_delivery [OF assms(2,6,9)] run by simp
  moreover have "fresh_ids env w2 \<and> (if ?a \<ge> job_MaxRetries job then unpublished w2 = []
     else \<exists>v. unpublished w2 = [v] \<and> ev_AggregateID v = ?k)"
    by (rule events_after [OF assms(4,7,8) _ events]) (use ProcessJobTask_tick [OF run] in simp)
  ultimately show ?thesis unfolding w' by blast
qed

section \<open>Round after round\<close>

definition delivering :: "env \<Rightarrow> int \<Rightarrow> bool" where
  \<comment> \<open>everything but the webhook works: no failure, no cancellation, a queue that accepts, one poller\<close>
  "delivering env limit \<longleftrightarrow> healthy env \<and> env_ok env \<and> live env \<and> (\<forall>n. e_enqueue env n = NoFault) \<and>
    (\<forall>n. e_locked env n = []) \<and> inj (e_uuid env) \<and> 1 \<le> limit"

definition given_up :: "env \<Rightarrow> StoreJob \<Rightarrow> string \<Rightarrow> world \<Rightarrow> bool" where
  "given_up env job body w \<longleftrightarrow> system_ok env w \<and> unpublished w = [] \<and> attempted job (job_MaxRetries job) body w"

lemma round_attempts:
  assumes "delivering env limit" and "refusing env job status body" and "waiting env job k w"
    and "int4_ok (job_MaxRetries job)" and "0 \<le> k" and "k < job_MaxRetries job"
  shows "posts (deliver_round env limit w) = posts w @ [(job_WebhookURL job, job_Payload job)] \<and>
    attempted job (k + 1) body (deliver_round env limit w) \<and>
    (if k + 1 < job_MaxRetries job then waiting env job (k + 1) (deliver_round env limit w)
     else given_up env job body (deliver_round env limit w))"
proof -
  let ?w1 = "snd (pollOnce env limit w)"
  from assms(1) have env: "healthy env" "env_ok env" "live env" "\<forall>n. e_enqueue env n = NoFault"
    "\<forall>n. e_locked env n = []" "inj (e_uuid env)" "1 \<le> limit" by (simp_all add: delivering_def)
  from assms(3) obtain v j where ok: "system_ok env w" and fresh: "fresh_ids env w"
    and v: "unpublished w = [v]" "ev_AggregateID v = job_ID job"
    and j: "job_row (job_ID job) w = Some j" "same_request job j" "job_Attempts j = k"
    unfolding waiting_def by blast
  have ids: "ids_ok env (pg w)" using ok by (simp add: system_ok_def)
  note poll = poll_single [OF env(1,4,5,7) ids v(1)]
  have "v \<in> set (unpublished w)" using v(1) by simp
  then have stored: "v \<in> set (outbox (pg w))" by (simp add: unpublished_def)
  have parse: "ParseJobProcessPayload (task_for v) = Some \<lparr>jpp_JobID = job_ID job, jpp_OutboxID = ev_ID v\<rparr>"
    using task_for_parse [of v] ids_okD(4) [OF ids stored] v(2) by simp
  have fresh1: "fresh_ids env ?w1"
    using fresh poll pollOnce_later [of w env limit] by (auto simp: fresh_ids_def later_def)
  have row1: "job_row (job_ID job) ?w1 = Some j" using j(1) by (simp add: job_row_def pollOnce_jobs)
  have "int4_ok (job_Attempts j + 1)" using assms(4-6) j(3) by (simp add: int4_ok_def)
  note att = attempt [OF env(1-3,6) assms(2) system_ok_poll [OF env(2) ok] fresh1 _ _ row1 j(2) this parse]
  have "deliver_round env limit w = snd (ProcessJobTask env (task_for v) ?w1)"
    using poll by (simp add: deliver_round_def Let_def task_for_def)
  moreover have "posts ?w1 = posts w" using pollOnce_later [of w env limit] by (simp add: later_def)
  ultimately show ?thesis
    using att poll j(3) assms(6)
    by (auto simp: waiting_def given_up_def attempted_def split: if_splits)
qed

lemma env_idle:
  assumes "delivering env limit"
  shows "healthy env" "env_ok env" "\<forall>n. e_enqueue env n = NoFault" "0 \<le> limit"
  using assms unfolding delivering_def by auto

lemma none_idle:
  assumes "unpublished w = []"
  shows "claimable env n limit (pg w) = []"
proof -
  have "\<forall>v \<in> set (outbox (pg w)). \<not> (\<not> ev_Published v \<and> ev_ID v \<notin> set (e_locked env n))"
    using assms unfolding unpublished_def filter_empty_conv by blast
  then have empty: "filter (\<lambda>v. \<not> ev_Published v \<and> ev_ID v \<notin> set (e_locked env n)) (outbox (pg w)) = []"
    unfolding filter_empty_conv .
  show ?thesis unfolding claimable_def empty by simp
qed

lemma poll_idle:
  assumes "healthy env" "ids_ok env (pg w)" "0 \<le> limit" "unpublished w = []"
  shows "\<exists>w1. snd (pollOnce env limit w) = w1 \<and> redis w1 = redis w \<and> outbox (pg w1) = outbox (pg w)"
proof -
  obtain now w1 where
    poll: "pollOnce env limit w = (None, dispatch_all env [] w1)" and q: "redis w1 = redis w"
    and out: "outbox (pg w1) = map (\<lambda>v. if ev_ID v \<in> ev_ID ` set ([] :: StoreOutboxEvent list) then set_published True now v else v) (outbox (pg w))"
    by (rule pollOnce_healthy [OF assms(1-3), unfolded none_idle [OF assms(4)]])
  have w1: "snd (pollOnce env limit w) = w1" unfolding poll by simp
  have "outbox (pg w1) = outbox (pg w)" unfolding out by simp
  with w1 q show ?thesis by blast
qed

lemma idle_round:
  assumes "delivering env limit" and "system_ok env w" and "unpublished w = []"
  shows "posts (deliver_round env limit w) = posts w" "system_ok env (deliver_round env limit w)"
    "unpublished (deliver_round env limit w) = []" "jobs (pg (deliver_round env limit w)) = jobs (pg w)"
proof -
  note env = env_idle [OF assms(1)]
  have ids: "ids_ok env (pg w)" using assms(2) by (simp add: system_ok_def)
  from poll_idle [OF env(1) ids env(4) assms(3)] obtain w1 where w1: "snd (pollOnce env limit w) = w1"
    and q: "redis w1 = redis w" and out: "outbox (pg w1) = outbox (pg w)" by blast
  have round: "deliver_round env limit w = w1" unfolding deliver_round_def w1 Let_def q by simp
  show "posts (deliver_round env limit w) = posts w"
    using pollOnce_later [of w env limit] unfolding round w1 later_def by simp
  show "system_ok env (deliver_round env limit w)"
    using system_ok_poll [OF env(2) assms(2), of limit] unfolding round w1 .
  show "unpublished (deliver_round env limit w) = []"
    using assms(3) unfolding round unpublished_def out .
  show "jobs (pg (deliver_round env limit w)) = jobs (pg w)"
    using pollOnce_jobs [of env limit w] unfolding round w1 .
qed

lemma round_idle:
  assumes "delivering env limit" and "given_up env job body w"
  shows "posts (deliver_round env limit w) = posts w \<and> given_up env job body (deliver_round env limit w)"
  using idle_round [OF assms(1), of w] assms(2) by (simp add: given_up_def attempted_def job_row_def)

lemma rounds:
  assumes "delivering env limit" and "refusing env job status body" and "waiting env job 0 w"
    and "int4_ok (job_MaxRetries job)" and "0 < job_MaxRetries job"
  shows "posts ((deliver_round env limit ^^ n) w) =
      posts w @ replicate (min n (nat (job_MaxRetries job))) (job_WebhookURL job, job_Payload job) \<and>
    (if int n < job_MaxRetries job then waiting env job (int n) ((deliver_round env limit ^^ n) w)
     else given_up env job body ((deliver_round env limit ^^ n) w)) \<and>
    (0 < n \<longrightarrow> attempted job (min (int n) (job_MaxRetries job)) body ((deliver_round env limit ^^ n) w))"
proof (induction n)
  case 0
  with assms(3,5) show ?case by simp
next
  case (Suc n)
  let ?w = "(deliver_round env limit ^^ n) w"
  show ?case
  proof (cases "int n < job_MaxRetries job")
    case True
    with Suc have "waiting env job (int n) ?w" by simp
    from round_attempts [OF assms(1,2) this assms(4) _ True] Suc True show ?thesis
      by (auto simp: min_def replicate_append_same add.commute split: if_splits)
  next
    case False
    with Suc have "given_up env job body ?w" by simp
    note idle = this round_idle [OF assms(1) this]
    from False have "min n (nat (job_MaxRetries job)) = nat (job_MaxRetries job)"
      "min (Suc n) (nat (job_MaxRetries job)) = nat (job_MaxRetries job)"
      "min (int (Suc n)) (job_MaxRetries job) = job_MaxRetries job" "\<not> int (Suc n) < job_MaxRetries job" by auto
    with Suc idle show ?thesis by (simp add: given_up_def)
  qed
qed

text \<open>C4: A job that cannot succeed is given up after exactly \<open>max_retries\<close> attempts: when everything works
  but its webhook, which always answers outside 2xx, round after round of polling and delivering
  makes one more request, to the job's URL with its stored payload, and puts the job back to \<open>queued\<close>
  with a retry event, until \<open>max_retries\<close> requests have been made; then the job is \<open>failed\<close>, no event
  is left to enqueue, and no further round makes another request.\<close>

theorem job_gives_up:
  assumes "delivering env limit" and "refusing env job status body" and "waiting env job 0 w"
    and "int4_ok (job_MaxRetries job)" and "0 < job_MaxRetries job" and "0 < n"
    and "w' = (deliver_round env limit ^^ n) w"
  shows "posts w' = posts w @ replicate (min n (nat (job_MaxRetries job))) (job_WebhookURL job, job_Payload job) \<and>
    (\<exists>j. job_row (job_ID job) w' = Some j \<and> job_Attempts j = min (int n) (job_MaxRetries job) \<and>
      job_State j = (if int n < job_MaxRetries job then ''queued'' else ''failed'') \<and> job_LastError j = Some body) \<and>
    length (unpublished w') = (if int n < job_MaxRetries job then 1 else 0)"
  using rounds [OF assms(1-5), of n] assms(6)
  by (auto simp: assms(7) attempted_def waiting_def given_up_def split: if_splits)

lemma demo_waiting:
  assumes "e_uuid_in env = e_uuid_in demo_env" and "e_uuid env = e_uuid demo_env"
  shows "waiting env demo_job 0 demo_world"
proof -
  have "ids_ok env (pg demo_world) = ids_ok demo_env (pg demo_world)"
    by (simp add: ids_ok_def canonical_def assms(1))
  then have "system_ok env demo_world"
    using demo_ok demo_ids by (simp add: system_ok_def tasks_ok_def) (simp add: demo_world_def)
  moreover have "fresh_ids env demo_world"
    by (simp add: fresh_ids_def assms(2)) (simp add: demo_env_def demo_defs replicate_other)
  moreover have "unpublished demo_world = [demo_event]" "ev_AggregateID demo_event = job_ID demo_job"
    by (simp_all add: unpublished_def demo_defs)
  moreover have "job_row (job_ID demo_job) demo_world = Some demo_job" "job_Attempts demo_job = 0"
    by (simp_all add: job_row_def demo_defs)
  ultimately show ?thesis by (auto simp: waiting_def same_request_def)
qed

theorem job_gives_up_witness:
  "\<exists>j. posts ((deliver_round failing_env 10 ^^ 5) demo_world) = [(''http://hook'', ''{}''), (''http://hook'', ''{}'')] \<and>
    job_row ''job1'' ((deliver_round failing_env 10 ^^ 5) demo_world) = Some j \<and> job_State j = ''failed'' \<and>
    job_Attempts j = 2 \<and> job_LastError j = Some ''busy''"
proof -
  have fields: "job_ID demo_job = ''job1''" "job_MaxRetries demo_job = 2" "job_WebhookURL demo_job = ''http://hook''"
    "job_Payload demo_job = ''{}''" by (simp_all add: demo_job_def)
  have works: "delivering failing_env 10"
    using failing_facts by (simp add: delivering_def) (simp add: failing_env_def demo_env_def inj_def)
  have "announceable failing_env (job_ID demo_job) (job_Type demo_job) (job_Name demo_job)
      (job_WebhookURL demo_job) (job_Payload demo_job)"
    using event_payload_marshal [OF demo_payload_json]
    by (auto simp: announceable_def failing_env_def demo_env_def split: option.splits)
  then have refuses: "refusing failing_env demo_job 503 ''busy''"
    by (simp add: refusing_def answers_def failing_env_def demo_env_def)
  have waits: "waiting failing_env demo_job 0 demo_world"
    by (rule demo_waiting) (simp_all add: failing_env_def)
  have "int4_ok (job_MaxRetries demo_job)" "0 < job_MaxRetries demo_job" "(0::nat) < 5"
    by (simp_all add: fields int4_ok_def)
  from job_gives_up [OF works refuses waits this refl] show ?thesis
    by (auto simp: fields demo_world_def numeral_2_eq_2)
qed

end
