(* ===== verification/Stuck.thy ===== *)
theory Stuck
  imports Give_Up
begin

text \<open>
  A job whose webhook accepts with a body that is not JSON. The poller enqueues tasks with
  \<^verbatim>\<open>asynq.MaxRetry(0)\<close>, so the error the handler returns is not followed by another delivery, and
  the run has added no event: the rounds of the theory of giving up show that the job never leaves
  \<open>running\<close>.
\<close>

definition answered :: "StoreJob \<Rightarrow> int \<Rightarrow> world \<Rightarrow> bool" where
  \<comment> \<open>the row after a run whose result was not stored, in its \<open>k\<close>th attempt\<close>
  "answered job k w \<longleftrightarrow> (\<exists>j. job_row (job_ID job) w = Some j \<and> job_State j = ''running'' \<and>
    job_Attempts j = k \<and> job_Result j = None \<and> job_LastError j = None)"

lemma answers_same: "same_request job j \<Longrightarrow> answers env j reply = answers env job reply"
  by (simp add: same_request_def answers_def)

lemma round_answered:
  assumes "delivering env limit" and "waiting env job k w" and "int4_ok (k + 1)"
    and "answers env job (Replied status (Inr body))" and "200 \<le> status" and "status < 300"
    and "e_jsonb_in env body = None"
  shows "\<exists>task w2. redis (snd (pollOnce env limit w)) = redis w @ [task] \<and> qt_MaxRetry task = 0 \<and>
    ProcessJobTask env task (snd (pollOnce env limit w)) = (Some (StoreError (ErrInput ''jsonb'')), w2) \<and>
    deliver_round env limit w = w2 \<and> posts w2 = posts w @ [(job_WebhookURL job, job_Payload job)] \<and>
    system_ok env w2 \<and> unpublished w2 = [] \<and> answered job (k + 1) w2"
proof -
  let ?w1 = "snd (pollOnce env limit w)"
  from assms(1) have env: "healthy env" "env_ok env" "live env" "\<forall>n. e_enqueue env n = NoFault"
    "\<forall>n. e_locked env n = []" "1 \<le> limit" by (simp_all add: delivering_def)
  from assms(2) obtain v j where ok: "system_ok env w" and v: "unpublished w = [v]" "ev_AggregateID v = job_ID job"
    and j: "job_row (job_ID job) w = Some j" "same_request job j" "job_Attempts j = k"
    unfolding waiting_def by blast
  have ids: "ids_ok env (pg w)" using ok by (simp add: system_ok_def)
  note poll = poll_single [OF env(1,4-6) ids v(1)]
  have stored: "v \<in> set (outbox (pg w))" using arg_cong [OF v(1), of set] by (auto simp: unpublished_def)
  have parse: "ParseJobProcessPayload (task_for v) = Some \<lparr>jpp_JobID = job_ID job, jpp_OutboxID = ev_ID v\<rparr>"
    and retries: "qt_MaxRetry (task_for v) = 0"
    using task_for_parse [of v] ids_okD(4) [OF ids stored] v(2) by simp_all
  have row: "find_by job_ID (job_ID job) (jobs (pg ?w1)) = Some j" using j(1) by (simp add: job_row_def pollOnce_jobs)
  have same: "job_ID j = job_ID job" using j(2) by (simp add: same_request_def)
  have ok1: "system_ok env ?w1" using system_ok_poll [OF env(2) ok] .
  have "e_uuid_in env (job_ID job) = Some (job_ID job)"
    using ids_okD(2) [of env "pg ?w1" j] find_by_SomeD [OF row] ok1 same by (auto simp: system_ok_def)
  then have "runs env (task_for v) ?w1 j" using parse row j(3) assms(3) by (simp add: runs_def)
  from non_json_run [OF env(1-3) this _ assms(5-7)] assms(4) answers_same [OF j(2)] obtain now w2 where
    run: "ProcessJobTask env (task_for v) ?w1 = (Some (StoreError (ErrInput ''jsonb'')), w2)" "posted j ?w1 w2" and
    pg2: "pg w2 = (pg ?w1)\<lparr>jobs := upd_by job_ID (job_ID job)
      (set_outcome ''running'' None None (k + 1) now) (jobs (pg ?w1))\<rparr>"
    unfolding same j(3) by blast
  have "job_row (job_ID job) w2 = Some (set_outcome ''running'' None None (k + 1) now j)"
    using row by (simp add: job_row_def pg2 find_by_upd_by)
  then have "answered job (k + 1) w2" by (simp add: answered_def set_outcome_def)
  moreover have "posts w2 = posts w @ [(job_WebhookURL job, job_Payload job)]"
    using run(2) j(2) pollOnce_later [of w env limit] by (simp add: posted_def same_request_def later_def)
  moreover have "system_ok env w2" using system_ok_delivery [OF env(2) ok1, of "task_for v"] poll run(1) by simp
  moreover have "unpublished w2 = []" using poll by (simp add: unpublished_def pg2)
  moreover have "deliver_round env limit w = w2" using poll run(1) retries by (simp add: deliver_round_def Let_def)
  ultimately show ?thesis using poll run(1) retries by blast
qed

lemma rounds_answered:
  assumes "delivering env limit" and "system_ok env w" and "unpublished w = []" and "answered job k w"
  shows "posts ((deliver_round env limit ^^ n) w) = posts w \<and> system_ok env ((deliver_round env limit ^^ n) w) \<and>
    unpublished ((deliver_round env limit ^^ n) w) = [] \<and> answered job k ((deliver_round env limit ^^ n) w)"
proof (induction n)
  case (Suc n)
  with idle_round [OF assms(1), of "(deliver_round env limit ^^ n) w"] show ?case
    by (simp add: answered_def job_row_def)
qed (use assms in simp)

text \<open>C19: When the webhook accepts with a 2xx status but a body that is not JSON, as an empty body is, the
  result cannot be stored and the job is stuck. Everything else works: the next poll enqueues the
  job's task with no retry allowed, the handler sends the request and returns the database's error,
  and after that round, and any number of further rounds of polling and delivering, the job is
  \<open>running\<close> in the same attempt without a result, no event is left to enqueue, and that one request
  is all that was sent.\<close>

theorem non_json_result_stays_running:
  assumes "delivering env limit" and "waiting env job k w" and "int4_ok (k + 1)"
    and "answers env job (Replied status (Inr body))" and "200 \<le> status" and "status < 300"
    and "e_jsonb_in env body = None" and "w' = (deliver_round env limit ^^ Suc n) w"
  shows "(\<exists>task w2. redis (snd (pollOnce env limit w)) = redis w @ [task] \<and> qt_MaxRetry task = 0 \<and>
      ProcessJobTask env task (snd (pollOnce env limit w)) = (Some (StoreError (ErrInput ''jsonb'')), w2)) \<and>
    posts w' = posts w @ [(job_WebhookURL job, job_Payload job)] \<and> unpublished w' = [] \<and>
    (\<exists>j. job_row (job_ID job) w' = Some j \<and> job_State j = ''running'' \<and> job_Attempts j = k + 1 \<and>
      job_Result j = None \<and> job_LastError j = None)"
proof -
  from round_answered [OF assms(1-7)] obtain task where
    task: "\<exists>w2. redis (snd (pollOnce env limit w)) = redis w @ [task] \<and> qt_MaxRetry task = 0 \<and>
      ProcessJobTask env task (snd (pollOnce env limit w)) = (Some (StoreError (ErrInput ''jsonb'')), w2)" and
    round: "posts (deliver_round env limit w) = posts w @ [(job_WebhookURL job, job_Payload job)]"
      "system_ok env (deliver_round env limit w)" "unpublished (deliver_round env limit w) = []"
      "answered job (k + 1) (deliver_round env limit w)"
    by blast
  have "w' = (deliver_round env limit ^^ n) (deliver_round env limit w)"
    unfolding assms(8) by (simp only: funpow_Suc_right comp_apply)
  with rounds_answered [OF assms(1) round(2-4), of n] round(1) task show ?thesis
    unfolding answered_def by auto
qed

definition strict_env :: env where
  \<comment> \<open>a \<^verbatim>\<open>jsonb\<close> input that refuses the empty text, and a webhook that answers 204\<close>
  "strict_env = demo_env\<lparr>e_jsonb_in := (\<lambda>s. if s = [] then None else Some s),
     e_post := (\<lambda>_ _ _. Replied 204 (Inr []))\<rparr>"

lemma strict_facts: "healthy strict_env" "env_ok strict_env" "live strict_env"
  using demo_healthy demo_env_ok demo_live
  by (simp_all add: strict_env_def healthy_def env_ok_def live_def)

theorem non_json_result_stays_running_witness:
  "\<exists>j. posts ((deliver_round strict_env 10 ^^ Suc 6) demo_world) = [(''http://hook'', ''{}'')] \<and>
    job_row ''job1'' ((deliver_round strict_env 10 ^^ Suc 6) demo_world) = Some j \<and>
    job_State j = ''running'' \<and> job_Attempts j = 1"
proof -
  have works: "delivering strict_env 10"
    using strict_facts by (simp add: delivering_def) (simp add: strict_env_def demo_env_def inj_def)
  have waits: "waiting strict_env demo_job 0 demo_world"
    by (rule demo_waiting) (simp_all add: strict_env_def)
  have hook: "answers strict_env demo_job (Replied 204 (Inr []))" "e_jsonb_in strict_env [] = None" "int4_ok (0 + 1)"
    by (simp_all add: answers_def strict_env_def int4_ok_def)
  have fields: "posts demo_world = []" "job_ID demo_job = ''job1''" "job_WebhookURL demo_job = ''http://hook''"
    "job_Payload demo_job = ''{}''"
    by (simp_all add: demo_world_def demo_job_def)
  define w' where "w' = (deliver_round strict_env 10 ^^ Suc 6) demo_world"
  have "(200 :: int) \<le> 204" "(204 :: int) < 300" by simp_all
  from non_json_result_stays_running [OF works waits hook(3,1) this hook(2) w'_def]
  have "posts w' = posts demo_world @ [(job_WebhookURL demo_job, job_Payload demo_job)]"
    "\<exists>j. job_row (job_ID demo_job) w' = Some j \<and> job_State j = ''running'' \<and> job_Attempts j = 0 + 1"
    by blast+
  then show ?thesis unfolding w'_def [symmetric] fields by simp
qed

end
