(* ===== verification/Api_Docs.thy ===== *)
theory Api_Docs
  imports Handlers
begin

text \<open>
  \<^verbatim>\<open>docs/docs.go\<close>: the OpenAPI document that the program carries and serves to Swagger UI. The
  file is generated from the annotations of the handlers and holds one text, a template of a JSON
  document; here it is the document as a tree, member by member in the order of the file, with the
  fields of \<^verbatim>\<open>SwaggerInfo\<close> where the template has its actions. Strings are bytes, so the dash is
  written as its three bytes.

  The document is compared with the code: its operations with the route table, its request schemas
  and their examples with the decoders.
\<close>

section \<open>The document\<close>

definition em_dash :: string where
  "em_dash = [char_of (226 :: nat), char_of (128 :: nat), char_of (148 :: nat)]"

definition doc_ref :: "string \<Rightarrow> json" where
  "doc_ref name = JObj [(''$ref'', JStr (''#/definitions/'' @ name))]"

definition doc_response :: "string \<Rightarrow> json" where
  \<comment> \<open>every documented answer is a \<^verbatim>\<open>jsonResponse\<close>\<close>
  "doc_response description =
    JObj [(''description'', JStr description), (''schema'', doc_ref ''handler.jsonResponse'')]"

definition doc_string :: "string \<Rightarrow> json" where
  "doc_string ex = JObj [(''type'', JStr ''string''), (''example'', JStr ex)]"

definition doc_integer :: "string \<Rightarrow> json" where
  "doc_integer ex = JObj [(''type'', JStr ''integer''), (''example'', JNum ex)]"

definition doc_jobID :: json where
  "doc_jobID = JObj [(''type'', JStr ''string''), (''example'', JStr ''550e8400-e29b-41d4-a716-446655440000''),
    (''description'', JStr ''Job UUID''), (''name'', JStr ''jobID''), (''in'', JStr ''path''), (''required'', JBool True)]"

text \<open>\<^verbatim>\<open>swag.Spec\<close>, without the field for the template, which is \<open>docTemplate\<close> below.\<close>

record swag_Spec =
  sw_Version :: string
  sw_Host :: string
  sw_BasePath :: string
  sw_Schemes :: "string list"
  sw_Title :: string
  sw_Description :: string
  sw_InfoInstanceName :: string
  sw_LeftDelim :: string
  sw_RightDelim :: string

definition SwaggerInfo :: swag_Spec where
  "SwaggerInfo = \<lparr>sw_Version = ''1.0'', sw_Host = ''localhost:8000'', sw_BasePath = ''/'', sw_Schemes = [],
    sw_Title = ''Assignment API'',
    sw_Description = ''Async job processing REST API with idempotent job creation, outbox pattern, and JWT authentication.'',
    sw_InfoInstanceName = ''swagger'', sw_LeftDelim = ''{{'', sw_RightDelim = ''}}''\<rparr>"


definition doc_health :: json where
  "doc_health = JObj [
    (''description'', JStr ''Returns a simple OK response to confirm the API is running.''),
    (''produces'', JArr [JStr ''application/json'']),
    (''tags'', JArr [JStr ''system'']),
    (''summary'', JStr ''Health check''),
    (''responses'', JObj [
      (''200'', doc_response ''API is healthy'')])]"

definition doc_list_jobs :: json where
  "doc_list_jobs = JObj [
    (''description'', JStr ''Returns a paginated list of jobs owned by the authenticated user, newest first.''),
    (''produces'', JArr [JStr ''application/json'']),
    (''tags'', JArr [JStr ''jobs'']),
    (''summary'', JStr ''List user's jobs''),
    (''parameters'', JArr [JObj [
       (''minimum'', JNum ''1''),
       (''type'', JStr ''integer''),
       (''description'', JStr ''Page number (default 1)''),
       (''name'', JStr ''page''),
       (''in'', JStr ''query'')], JObj [
       (''maximum'', JNum ''100''),
       (''minimum'', JNum ''1''),
       (''type'', JStr ''integer''),
       (''description'', JStr ''Items per page (default 20, max 100)''),
       (''name'', JStr ''page_size''),
       (''in'', JStr ''query'')]]),
    (''responses'', JObj [
      (''200'', doc_response ''Paginated list of jobs''),
      (''401'', doc_response ''Missing or invalid Authorization header''),
      (''500'', doc_response ''Server error'')])]"

definition doc_create_job :: json where
  "doc_create_job = JObj [
    (''description'', JStr (''Registers an async job to be processed. **Idempotent** '' @ em_dash @ '' sending the same payload twice returns the existing job with HTTP 200. The idempotency hash is computed from canonical (sorted-key) JSON of all fields.'')),
    (''consumes'', JArr [JStr ''application/json'']),
    (''produces'', JArr [JStr ''application/json'']),
    (''tags'', JArr [JStr ''jobs'']),
    (''summary'', JStr ''Create a job''),
    (''parameters'', JArr [JObj [
       (''description'', JStr ''Job registration payload''),
       (''name'', JStr ''body''),
       (''in'', JStr ''body''),
       (''required'', JBool True),
       (''schema'', doc_ref ''handler.registerJobRequest'')]]),
    (''responses'', JObj [
      (''200'', doc_response (''Job already exists (idempotent match) '' @ em_dash @ '' returns existing job_id and state'')),
      (''202'', doc_response (''Job accepted for processing '' @ em_dash @ '' returns job_id and state'')),
      (''400'', doc_response ''Invalid payload or missing required fields''),
      (''401'', doc_response ''Missing or invalid Authorization header''),
      (''500'', doc_response ''Server error'')])]"

definition doc_get_job :: json where
  "doc_get_job = JObj [
    (''description'', JStr ''Returns full details of a specific job owned by the authenticated user.''),
    (''produces'', JArr [JStr ''application/json'']),
    (''tags'', JArr [JStr ''jobs'']),
    (''summary'', JStr ''Get a job by ID''),
    (''parameters'', JArr [doc_jobID]),
    (''responses'', JObj [
      (''200'', doc_response ''Job details''),
      (''401'', doc_response ''Missing or invalid Authorization header''),
      (''403'', doc_response ''Job belongs to another user''),
      (''404'', doc_response ''Job not found'')])]"

definition doc_update_job :: json where
  "doc_update_job = JObj [
    (''description'', JStr (''Partially updates an existing job. Only the fields included in the request body are changed '' @ em_dash @ '' omitted fields keep their current values.'')),
    (''consumes'', JArr [JStr ''application/json'']),
    (''produces'', JArr [JStr ''application/json'']),
    (''tags'', JArr [JStr ''jobs'']),
    (''summary'', JStr ''Update a job''),
    (''parameters'', JArr [doc_jobID, JObj [
       (''description'', JStr (''Fields to update (all optional '' @ em_dash @ '' at least one required)'')),
       (''name'', JStr ''body''),
       (''in'', JStr ''body''),
       (''required'', JBool True),
       (''schema'', doc_ref ''handler.updateJobRequest'')]]),
    (''responses'', JObj [
      (''200'', doc_response ''Job updated successfully''),
      (''400'', doc_response ''Invalid payload or no fields to update''),
      (''401'', doc_response ''Missing or invalid Authorization header''),
      (''403'', doc_response ''Job belongs to another user''),
      (''404'', doc_response ''Job not found''),
      (''500'', doc_response ''Server error'')])]"

definition doc_delete_job :: json where
  "doc_delete_job = JObj [
    (''description'', JStr ''Permanently removes a job owned by the authenticated user.''),
    (''produces'', JArr [JStr ''application/json'']),
    (''tags'', JArr [JStr ''jobs'']),
    (''summary'', JStr ''Delete a job''),
    (''parameters'', JArr [doc_jobID]),
    (''responses'', JObj [
      (''200'', doc_response ''Job deleted successfully''),
      (''401'', doc_response ''Missing or invalid Authorization header''),
      (''403'', doc_response ''Job belongs to another user''),
      (''404'', doc_response ''Job not found''),
      (''500'', doc_response ''Server error'')])]"

definition doc_login :: json where
  "doc_login = JObj [
    (''description'', JStr ''Authenticates with email and password, returns JWT access and refresh tokens.''),
    (''consumes'', JArr [JStr ''application/json'']),
    (''produces'', JArr [JStr ''application/json'']),
    (''tags'', JArr [JStr ''auth'']),
    (''summary'', JStr ''Authenticate a user''),
    (''parameters'', JArr [JObj [
       (''description'', JStr ''Login credentials''),
       (''name'', JStr ''body''),
       (''in'', JStr ''body''),
       (''required'', JBool True),
       (''schema'', doc_ref ''handler.authRequest'')]]),
    (''responses'', JObj [
      (''200'', doc_response (''Login OK '' @ em_dash @ '' includes user_id, access_token, refresh_token'')),
      (''400'', doc_response ''Invalid payload or missing fields''),
      (''401'', doc_response ''Invalid email or password'')])]"

definition doc_register :: json where
  "doc_register = JObj [
    (''description'', JStr ''Creates a user account with email and password, returns JWT access and refresh tokens.''),
    (''consumes'', JArr [JStr ''application/json'']),
    (''produces'', JArr [JStr ''application/json'']),
    (''tags'', JArr [JStr ''auth'']),
    (''summary'', JStr ''Register a new user''),
    (''parameters'', JArr [JObj [
       (''description'', JStr ''Registration credentials''),
       (''name'', JStr ''body''),
       (''in'', JStr ''body''),
       (''required'', JBool True),
       (''schema'', doc_ref ''handler.authRequest'')]]),
    (''responses'', JObj [
      (''201'', doc_response (''User created '' @ em_dash @ '' includes user_id, access_token, refresh_token'')),
      (''400'', doc_response ''Invalid payload or missing fields''),
      (''500'', doc_response ''Server error'')])]"

definition doc_authRequest :: json where
  "doc_authRequest = JObj [
    (''description'', JStr ''User credentials for registration or login.''),
    (''type'', JStr ''object''),
    (''properties'', JObj [
      (''email'', doc_string ''user@example.com''),
      (''password'', doc_string ''securePass123''),
      (''username'', doc_string ''johndoe'')])]"

definition doc_jsonResponse :: json where
  "doc_jsonResponse = JObj [
    (''description'', JStr ''Standard response wrapper used by all endpoints.''),
    (''type'', JStr ''object''),
    (''properties'', JObj [
      (''data'', JObj []),
      (''message'', doc_string ''ok'')])]"

definition doc_registerJobRequest :: json where
  "doc_registerJobRequest = JObj [
    (''description'', JStr ''Payload for registering a new async job.''),
    (''type'', JStr ''object''),
    (''properties'', JObj [
      (''max_retries'', doc_integer ''5''),
      (''name'', doc_string ''welcome-email''),
      (''timeout_seconds'', doc_integer ''30''),
      (''type'', doc_string ''email''),
      (''version'', doc_integer ''1''),
      (''webhook_url'', doc_string ''http://webhook:9000/echo'')])]"

definition doc_updateJobRequest :: json where
  "doc_updateJobRequest = JObj [
    (''description'', JStr ''Fields to update on an existing job. Only non-nil fields are applied.''),
    (''type'', JStr ''object''),
    (''properties'', JObj [
      (''max_retries'', doc_integer ''3''),
      (''name'', doc_string ''rebranded-email''),
      (''timeout_seconds'', doc_integer ''60''),
      (''version'', doc_integer ''2''),
      (''webhook_url'', doc_string ''http://webhook:9000/echo'')])]"

definition doc_paths :: json where
  "doc_paths = JObj [
    (''/health'', JObj [(''get'', doc_health)]),
    (''/jobs'', JObj [(''get'', doc_list_jobs), (''post'', doc_create_job)]),
    (''/jobs/{jobID}'', JObj [(''get'', doc_get_job), (''put'', doc_update_job), (''delete'', doc_delete_job)]),
    (''/login'', JObj [(''post'', doc_login)]),
    (''/register'', JObj [(''post'', doc_register)])]"

definition doc_definitions :: json where
  "doc_definitions = JObj [
    (''handler.authRequest'', doc_authRequest),
    (''handler.jsonResponse'', doc_jsonResponse),
    (''handler.registerJobRequest'', doc_registerJobRequest),
    (''handler.updateJobRequest'', doc_updateJobRequest)]"

definition doc_security :: json where
  "doc_security = JObj [
    (''BearerAuth'', JObj [
      (''description'', JStr (''Enter \"Bearer <token>\" '' @ em_dash @ '' get a token from POST /register or /login'')),
      (''type'', JStr ''apiKey''),
      (''name'', JStr ''Authorization''),
      (''in'', JStr ''header'')])]"

definition docTemplate :: "swag_Spec \<Rightarrow> json" where
  \<comment> \<open>the actions of the template are the fields of the specification\<close>
  "docTemplate spec = JObj [
     (''schemes'', JArr (map JStr (sw_Schemes spec))),
     (''swagger'', JStr ''2.0''),
     (''info'', JObj [
       (''description'', JStr (sw_Description spec)),
       (''title'', JStr (sw_Title spec)),
       (''termsOfService'', JStr ''https://github.com/Heleo2705/assignment''),
       (''contact'', JObj [
         (''name'', JStr ''API Support''),
         (''url'', JStr ''https://github.com/Heleo2705/assignment'')]),
       (''license'', JObj [
         (''name'', JStr ''MIT''),
         (''url'', JStr ''https://opensource.org/licenses/MIT'')]),
       (''version'', JStr (sw_Version spec))]),
     (''host'', JStr (sw_Host spec)),
     (''basePath'', JStr (sw_BasePath spec)),
     (''paths'', doc_paths),
     (''definitions'', doc_definitions),
     (''securityDefinitions'', doc_security)]"

section \<open>Looking things up\<close>

fun json_at :: "string list \<Rightarrow> json \<Rightarrow> json option" where
  \<comment> \<open>the value at a path of member names\<close>
  "json_at [] j = Some j"
| "json_at (k # ks) j =
    (case j of
       JObj kvs \<Rightarrow> (case map_of kvs k of None \<Rightarrow> None | Some j' \<Rightarrow> json_at ks j')
     | _ \<Rightarrow> None)"

fun members :: "json option \<Rightarrow> string list" where
  "members (Some (JObj kvs)) = map fst kvs"
| "members _ = []"

definition swagger :: json where
  \<comment> \<open>the document that is registered\<close>
  "swagger = docTemplate SwaggerInfo"

lemma json_at_append: "json_at (ks @ ls) j = Option.bind (json_at ks j) (json_at ls)"
  by (induction ks j rule: json_at.induct) (auto split: json.splits option.splits)

lemma json_at_JObj [simp]:
  "json_at (k # ks) (JObj kvs) = (case map_of kvs k of None \<Rightarrow> None | Some j \<Rightarrow> json_at ks j)"
  by simp

declare json_at.simps(2) [simp del]

lemma swagger_parts:
  "json_at (''paths'' # ks) swagger = json_at ks doc_paths"
  "json_at (''definitions'' # ks) swagger = json_at ks doc_definitions"
  "json_at (''securityDefinitions'' # ks) swagger = json_at ks doc_security"
  by (simp_all add: swagger_def docTemplate_def)

section \<open>Operations and routes\<close>

fun lower :: "string \<Rightarrow> string" where
  "lower [] = []"
| "lower (c # s) = (if in_range 65 90 c then byte (code c + 32) else c) # lower s"

definition doc_path :: "string \<Rightarrow> string" where
  \<comment> \<open>the router serves a mounted root with and without the final slash\<close>
  "doc_path path = (if 1 < length path \<and> last path = CHR ''/'' then butlast path else path)"

definition doc_address :: "string \<times> string \<Rightarrow> string list" where
  \<comment> \<open>where the document describes a route\<close>
  "doc_address route = [''paths'', doc_path (snd route), lower (fst route)]"

definition doc_operations :: "string list list" where
  "doc_operations = concat (map (\<lambda>p. map (\<lambda>m. [''paths'', p, m]) (members (json_at [''paths'', p] swagger)))
     (members (json_at [''paths''] swagger)))"

definition doc_codes :: "string \<times> string \<Rightarrow> string list" where
  \<comment> \<open>the status codes the document lists for a route\<close>
  "doc_codes route = members (json_at (doc_address route @ [''responses'']) swagger)"

definition doc_requires_token :: "string \<times> string \<Rightarrow> bool" where
  \<comment> \<open>a security requirement of the operation or of the whole document\<close>
  "doc_requires_token route \<longleftrightarrow>
    json_at (doc_address route @ [''security'']) swagger \<noteq> None \<or> json_at [''security''] swagger \<noteq> None"

end
