(* ===== verification/Api_Docs_Props.thy ===== *)
theory Api_Docs_Props
  imports Api_Docs Handler_Runs
begin

text \<open>
  The API document against the code: which routes it lists, what it says of their authentication,
  and whether its request schemas and their examples are what the decoders take.
\<close>

section \<open>Operations\<close>

lemmas doc_operation_defs = doc_health_def doc_list_jobs_def doc_create_job_def doc_get_job_def
  doc_update_job_def doc_delete_job_def doc_login_def doc_register_def

lemmas doc_schema_defs = doc_authRequest_def doc_jsonResponse_def doc_registerJobRequest_def
  doc_updateJobRequest_def doc_definitions_def

lemmas doc_lookup = swagger_parts doc_paths_def doc_operation_defs

lemma doc_addresses:
  "doc_address (''GET'', ''/health'') = [''paths'', ''/health'', ''get'']"
  "doc_address (''POST'', ''/register'') = [''paths'', ''/register'', ''post'']"
  "doc_address (''POST'', ''/login'') = [''paths'', ''/login'', ''post'']"
  "doc_address (''POST'', ''/jobs/'') = [''paths'', ''/jobs'', ''post'']"
  "doc_address (''GET'', ''/jobs/'') = [''paths'', ''/jobs'', ''get'']"
  "doc_address (''GET'', ''/jobs/{jobID}'') = [''paths'', ''/jobs/{jobID}'', ''get'']"
  "doc_address (''PUT'', ''/jobs/{jobID}'') = [''paths'', ''/jobs/{jobID}'', ''put'']"
  "doc_address (''DELETE'', ''/jobs/{jobID}'') = [''paths'', ''/jobs/{jobID}'', ''delete'']"
  by code_simp+

lemma doc_operations_listed:
  "doc_operations = [[''paths'', ''/health'', ''get''], [''paths'', ''/jobs'', ''get''], [''paths'', ''/jobs'', ''post''],
    [''paths'', ''/jobs/{jobID}'', ''get''], [''paths'', ''/jobs/{jobID}'', ''put''],
    [''paths'', ''/jobs/{jobID}'', ''delete''], [''paths'', ''/login'', ''post''], [''paths'', ''/register'', ''post'']]"
  by (simp add: doc_operations_def swagger_parts doc_paths_def)

lemma doc_codes_listed:
  "doc_codes (''GET'', ''/health'') = [''200'']"
  "doc_codes (''POST'', ''/register'') = [''201'', ''400'', ''500'']"
  "doc_codes (''POST'', ''/login'') = [''200'', ''400'', ''401'']"
  "doc_codes (''POST'', ''/jobs/'') = [''200'', ''202'', ''400'', ''401'', ''500'']"
  "doc_codes (''GET'', ''/jobs/'') = [''200'', ''401'', ''500'']"
  "doc_codes (''GET'', ''/jobs/{jobID}'') = [''200'', ''401'', ''403'', ''404'']"
  "doc_codes (''PUT'', ''/jobs/{jobID}'') = [''200'', ''400'', ''401'', ''403'', ''404'', ''500'']"
  "doc_codes (''DELETE'', ''/jobs/{jobID}'') = [''200'', ''401'', ''403'', ''404'', ''500'']"
  by (simp_all add: doc_codes_def doc_addresses doc_lookup)

lemma no_requirement:
  "doc_address (r, s) = [''paths'', p, m] \<Longrightarrow> json_at [p, m, ''security''] doc_paths = None \<Longrightarrow>
    \<not> doc_requires_token (r, s)"
  by (simp add: doc_requires_token_def swagger_parts) (simp add: swagger_def docTemplate_def)

lemma routes_need_no_token:
  "list_all (\<lambda>(route, h, protected). \<not> doc_requires_token route) RegisterRoutes"
  unfolding RegisterRoutes_def
  by (simp, intro conjI; rule no_requirement, rule doc_addresses, simp add: doc_paths_def doc_operation_defs)

text \<open>C32: The document lists exactly the routes that are registered, each once. It announces 401 for
  every route behind the token middleware, and declares the \<open>Authorization\<close> header as a security
  scheme; but no operation requires it, neither does the document as a whole, so a client made from
  it sends no token.\<close>

theorem docs_match_routes:
  "set doc_operations = (doc_address \<circ> fst) ` set RegisterRoutes \<and> length doc_operations = length RegisterRoutes \<and>
   distinct doc_operations \<and>
   list_all (\<lambda>(route, h, protected). (protected = (''401'' \<in> set (doc_codes route)) \<or> h = Login) \<and>
     \<not> doc_requires_token route) RegisterRoutes \<and>
   json_at [''securityDefinitions'', ''BearerAuth'', ''name''] swagger = Some (JStr ''Authorization'')"
proof -
  have routes: "set doc_operations = (doc_address \<circ> fst) ` set RegisterRoutes"
    by (simp add: doc_operations_listed RegisterRoutes_def doc_addresses insert_commute)
  have size: "length doc_operations = length RegisterRoutes" "distinct doc_operations"
    by (simp_all add: doc_operations_listed RegisterRoutes_def)
  have "list_all (\<lambda>(route, h, protected). protected = (''401'' \<in> set (doc_codes route)) \<or> h = Login) RegisterRoutes"
    by (simp add: RegisterRoutes_def doc_codes_listed)
  with routes size routes_need_no_token show ?thesis
    by (simp add: swagger_parts doc_security_def list.pred_set case_prod_unfold)
qed

section \<open>Request bodies\<close>

definition doc_properties :: "string \<Rightarrow> string list" where
  "doc_properties schema = members (json_at [''definitions'', schema, ''properties''] swagger)"

definition doc_property :: "string \<Rightarrow> string \<Rightarrow> string \<Rightarrow> json option" where
  "doc_property schema k what = json_at [''definitions'', schema, ''properties'', k, what] swagger"

definition doc_example :: "string \<Rightarrow> json" where
  \<comment> \<open>the object of the examples, which Swagger UI offers as a body\<close>
  "doc_example schema = JObj (map (\<lambda>k. (k, the (doc_property schema k ''example''))) (doc_properties schema))"

definition describes :: "string \<Rightarrow> (string \<times> 'r setter) list \<Rightarrow> 'r \<Rightarrow> bool" where
  \<comment> \<open>the properties of the schema are the fields of the struct, and a field takes strings or numbers
     according to its type\<close>
  "describes schema fs zero \<longleftrightarrow> set (doc_properties schema) = set (map fst fs) \<and>
    list_all (\<lambda>(k, set_field).
      (doc_property schema k ''type'' = Some (JStr ''string'') \<and>
        set_field (JStr ''x'') zero \<noteq> None \<and> set_field (JNum ''1'') zero = None) \<or>
      (doc_property schema k ''type'' = Some (JStr ''integer'') \<and>
        set_field (JStr ''x'') zero = None \<and> set_field (JNum ''1'') zero \<noteq> None)) fs"

lemmas doc_schema_lookup = doc_properties_def doc_property_def swagger_parts doc_schema_defs doc_string_def doc_integer_def

lemma atoi_literals:
  "atoi ''1'' = (1, None)" "atoi ''2'' = (2, None)" "atoi ''3'' = (3, None)" "atoi ''5'' = (5, None)"
  "atoi ''30'' = (30, None)" "atoi ''60'' = (60, None)"
  by code_simp+

lemma schema_properties:
  "doc_properties ''handler.authRequest'' = [''email'', ''password'', ''username'']"
  "doc_properties ''handler.registerJobRequest'' =
    [''max_retries'', ''name'', ''timeout_seconds'', ''type'', ''version'', ''webhook_url'']"
  "doc_properties ''handler.updateJobRequest'' =
    [''max_retries'', ''name'', ''timeout_seconds'', ''version'', ''webhook_url'']"
  by (simp_all add: doc_schema_lookup)

lemma property_types:
  "doc_property ''handler.authRequest'' ''email'' ''type'' = Some (JStr ''string'')"
  "doc_property ''handler.authRequest'' ''password'' ''type'' = Some (JStr ''string'')"
  "doc_property ''handler.authRequest'' ''username'' ''type'' = Some (JStr ''string'')"
  "doc_property ''handler.registerJobRequest'' ''max_retries'' ''type'' = Some (JStr ''integer'')"
  "doc_property ''handler.registerJobRequest'' ''name'' ''type'' = Some (JStr ''string'')"
  "doc_property ''handler.registerJobRequest'' ''timeout_seconds'' ''type'' = Some (JStr ''integer'')"
  "doc_property ''handler.registerJobRequest'' ''type'' ''type'' = Some (JStr ''string'')"
  "doc_property ''handler.registerJobRequest'' ''version'' ''type'' = Some (JStr ''integer'')"
  "doc_property ''handler.registerJobRequest'' ''webhook_url'' ''type'' = Some (JStr ''string'')"
  "doc_property ''handler.updateJobRequest'' ''max_retries'' ''type'' = Some (JStr ''integer'')"
  "doc_property ''handler.updateJobRequest'' ''name'' ''type'' = Some (JStr ''string'')"
  "doc_property ''handler.updateJobRequest'' ''timeout_seconds'' ''type'' = Some (JStr ''integer'')"
  "doc_property ''handler.updateJobRequest'' ''version'' ''type'' = Some (JStr ''integer'')"
  "doc_property ''handler.updateJobRequest'' ''webhook_url'' ''type'' = Some (JStr ''string'')"
  by (simp_all add: doc_schema_lookup)

lemma names_match:
  "set (doc_properties ''handler.authRequest'') = set (map fst auth_fields)"
  "set (doc_properties ''handler.registerJobRequest'') = set (map fst register_job_fields)"
  "set (doc_properties ''handler.updateJobRequest'') = set (map fst update_job_fields)"
  by (simp_all add: schema_properties auth_fields_def register_job_fields_def update_job_fields_def insert_commute)

lemma schemas_describe:
  "describes ''handler.authRequest'' auth_fields no_auth"
  "describes ''handler.registerJobRequest'' register_job_fields no_register_job"
  "describes ''handler.updateJobRequest'' update_job_fields no_update_job"
  unfolding describes_def names_match
  by (simp_all add: auth_fields_def register_job_fields_def update_job_fields_def property_types
      set_string_def set_string_ptr_def set_int_ptr_def atoi_literals)

lemma examples:
  "doc_example ''handler.authRequest'' = JObj [(''email'', JStr ''user@example.com''), (''password'', JStr ''securePass123''),
    (''username'', JStr ''johndoe'')]"
  "doc_example ''handler.registerJobRequest'' = JObj [(''max_retries'', JNum ''5''), (''name'', JStr ''welcome-email''),
    (''timeout_seconds'', JNum ''30''), (''type'', JStr ''email''), (''version'', JNum ''1''),
    (''webhook_url'', JStr ''http://webhook:9000/echo'')]"
  "doc_example ''handler.updateJobRequest'' = JObj [(''max_retries'', JNum ''3''), (''name'', JStr ''rebranded-email''),
    (''timeout_seconds'', JNum ''60''), (''version'', JNum ''2''), (''webhook_url'', JStr ''http://webhook:9000/echo'')]"
  by (simp_all add: doc_example_def doc_schema_lookup)

lemma num_text_literals:
  "num_text ''1''" "num_text ''2''" "num_text ''3''" "num_text ''5''" "num_text ''30''" "num_text ''60''"
  by code_simp+

lemma example_fits:
  "json_fits (doc_example ''handler.authRequest'')" "json_fits (doc_example ''handler.registerJobRequest'')"
  "json_fits (doc_example ''handler.updateJobRequest'')"
  unfolding examples by (simp_all add: json_fits_def max_depth_def utf8_ok_ascii num_text_literals)

definition send :: "request \<Rightarrow> json \<Rightarrow> request" where
  "send r body = r\<lparr>rq_Body := print_json body\<rparr>"

lemma decode_send: "json_fits j \<Longrightarrow> decode_body strict fs zero (send r j) = decode_struct strict fs j zero"
  using decode_stream_print [of j "[]"] by (simp add: decode_body_def send_def num_stop_def)

text \<open>C33: The request schemas of the document are those of the decoders: each has exactly the fields of
  its struct, with the types their values must have; and its example is a good request: the
  credentials are complete, the job passes the checks of its handler with the payload the example
  says, and the update sets the five fields.\<close>

theorem docs_describe_bodies:
  "describes ''handler.authRequest'' auth_fields no_auth \<and>
   describes ''handler.registerJobRequest'' register_job_fields no_register_job \<and>
   describes ''handler.updateJobRequest'' update_job_fields no_update_job \<and>
   decode_body False auth_fields no_auth (send r (doc_example ''handler.authRequest'')) =
     Some \<lparr>ar_Email = ''user@example.com'', ar_Password = ''securePass123'', ar_Username = ''johndoe''\<rparr> \<and>
   requested_payload (send r (doc_example ''handler.registerJobRequest'')) =
     Some \<lparr>jp_Type = ''email'', jp_Name = ''welcome-email'', jp_WebhookURL = ''http://webhook:9000/echo'',
       jp_Version = 1, jp_MaxRetries = 5, jp_TimeoutSeconds = 30\<rparr> \<and>
   decode_body True update_job_fields no_update_job (send r (doc_example ''handler.updateJobRequest'')) =
     Some \<lparr>uj_Name = Some ''rebranded-email'', uj_WebhookURL = Some ''http://webhook:9000/echo'', uj_Version = Some 2,
       uj_MaxRetries = Some 3, uj_TimeoutSeconds = Some 60\<rparr>"
proof -
  have auth: "decode_body False auth_fields no_auth (send r (doc_example ''handler.authRequest'')) =
     Some \<lparr>ar_Email = ''user@example.com'', ar_Password = ''securePass123'', ar_Username = ''johndoe''\<rparr>"
    unfolding decode_send [OF example_fits(1)]
    by (simp add: examples decode_struct_def auth_fields_def no_auth_def field_names del: fold_name.simps)
  have job: "decode_body True register_job_fields no_register_job (send r (doc_example ''handler.registerJobRequest'')) =
     Some \<lparr>rj_Type = ''email'', rj_Name = ''welcome-email'', rj_WebhookURL = ''http://webhook:9000/echo'',
       rj_Version = Some 1, rj_MaxRetries = Some 5, rj_TimeoutSeconds = Some 30\<rparr>"
    unfolding decode_send [OF example_fits(2)]
    by (simp add: examples decode_struct_def register_job_fields_def no_register_job_def field_names set_int_ptr_def
        atoi_literals del: fold_name.simps)
  have upd: "decode_body True update_job_fields no_update_job (send r (doc_example ''handler.updateJobRequest'')) =
     Some \<lparr>uj_Name = Some ''rebranded-email'', uj_WebhookURL = Some ''http://webhook:9000/echo'', uj_Version = Some 2,
       uj_MaxRetries = Some 3, uj_TimeoutSeconds = Some 60\<rparr>"
    unfolding decode_send [OF example_fits(3)]
    by (simp add: examples decode_struct_def update_job_fields_def no_update_job_def field_names set_int_ptr_def
        atoi_literals del: fold_name.simps)
  from schemas_describe auth job upd show ?thesis
    by (simp add: requested_payload_def NewJobPayload_def)
qed

end
