(* ===== verification/Handler_Responses.thy ===== *)
theory Handler_Responses
  imports Api_Docs_Props Demo_Http
begin

text \<open>
  The answers of the API against its document: the status codes each handler can send are those the
  document lists for its route, and every body a handler writes is the JSON text of an object with a
  message.
\<close>

section \<open>What is documented\<close>

fun documented :: "endpoint \<Rightarrow> int set" where
  \<comment> \<open>the codes of the document, by handler\<close>
  "documented Health = {200}"
| "documented Register = {201, 400, 500}"
| "documented Login = {200, 400, 401}"
| "documented CreateJob = {200, 202, 400, 401, 500}"
| "documented ListJobs = {200, 401, 500}"
| "documented GetJob = {200, 401, 403, 404}"
| "documented UpdateJob = {200, 400, 401, 403, 404, 500}"
| "documented RemoveJob = {200, 401, 403, 404, 500}"

lemma itoa_codes: "itoa 200 = ''200''" "itoa 201 = ''201''" "itoa 202 = ''202''" "itoa 400 = ''400''"
  "itoa 401 = ''401''" "itoa 403 = ''403''" "itoa 404 = ''404''" "itoa 500 = ''500''"
  by code_simp+

lemma documented_doc:
  assumes "map_of RegisterRoutes route = Some (h, protected)"
  shows "itoa ` documented h = set (doc_codes route)"
  using assms
  by (auto simp: RegisterRoutes_def doc_codes_listed itoa_codes split: if_splits)

definition json_reply :: "response \<Rightarrow> bool" where
  \<comment> \<open>a \<^verbatim>\<open>jsonResponse\<close> that could be encoded\<close>
  "json_reply resp \<longleftrightarrow> rs_ContentType resp = ''application/json'' \<and>
    (\<exists>p body. marshal (response_value p) = Some body \<and> rs_Body resp = body @ [char_of (10 :: nat)])"

definition stored_json :: "(int \<Rightarrow> gval) \<Rightarrow> tables \<Rightarrow> bool" where
  \<comment> \<open>PostgreSQL holds JSON in its \<^verbatim>\<open>jsonb\<close> columns, and times can be encoded\<close>
  "stored_json tj t \<longleftrightarrow> (\<forall>n. marshal (tj n) \<noteq> None) \<and>
    (\<forall>j \<in> set (jobs t). unmarshal (job_Payload j) \<noteq> None \<and> (\<forall>r. job_Result j = Some r \<longrightarrow> unmarshal r \<noteq> None))"

section \<open>Encoding\<close>

lemma those_None: "those xs = None \<longleftrightarrow> None \<in> set xs"
  by (induction xs) (auto split: option.splits)

lemma marshal_parts:
  "marshal (GMap kvs) \<noteq> None \<longleftrightarrow> (\<forall>(k, v) \<in> set kvs. marshal v \<noteq> None)"
  "marshal (GStruct kvs) \<noteq> None \<longleftrightarrow> (\<forall>(k, v) \<in> set kvs. marshal v \<noteq> None)"
  "marshal (GSlice vs) \<noteq> None \<longleftrightarrow> (\<forall>v \<in> set vs. marshal v \<noteq> None)"
  by (force simp: all_members_None those_None)+

lemma json_reply_write:
  assumes "marshal (response_value p) \<noteq> None"
  shows "json_reply (writeJSON c p)"
  using assms by (auto simp: json_reply_def writeJSON_def)

lemma json_reply_message [simp]: "json_reply (message c msg)"
  unfolding message_def by (rule json_reply_write, unfold response_value_def, subst marshal_parts) simp

lemma json_reply_data [simp]: "marshal v \<noteq> None \<Longrightarrow> json_reply (with_data c msg v)"
  unfolding with_data_def by (rule json_reply_write, unfold response_value_def, subst marshal_parts) simp

lemma token_data_encodes [simp]: "marshal (token_data u a t) \<noteq> None"
  unfolding token_data_def by (subst marshal_parts) simp

lemma job_value_encodes:
  assumes "stored_json tj t" and "job \<in> set (jobs t)"
  shows "marshal (job_value tj job) \<noteq> None"
  unfolding job_value_def
  using assms by (subst marshal_parts) (auto simp: stored_json_def compact_def split: option.splits)

section \<open>The handlers\<close>

definition replies :: "int set \<Rightarrow> response \<Rightarrow> bool" where
  "replies codes resp \<longleftrightarrow> rs_Status resp \<in> codes \<and> json_reply resp"

lemma replies_simps [simp]:
  "replies codes (message c msg) \<longleftrightarrow> c \<in> codes"
  "marshal v \<noteq> None \<Longrightarrow> replies codes (with_data c msg v) \<longleftrightarrow> c \<in> codes"
  by (simp_all add: replies_def)

lemma replies_public:
  "replies (documented Health) (fst (healthHandler r w))"
  "replies (documented Register) (fst (registerHandler L env secret r w))"
  "replies (insert 500 (documented Login)) (fst (loginHandler L env secret r w))"
  by (auto simp: healthHandler_def registerHandler_def loginHandler_def Let_def
      split: option.splits sum.splits prod.splits)

lemma replies_create: "replies (documented CreateJob) (fst (createJobHandler ft env r w))"
proof -
  have "marshal (GMap [(''job_id'', GStr a), (''state'', GStr b)]) \<noteq> None" for a b
    by (subst marshal_parts) simp
  then show ?thesis
    by (auto simp: createJobHandler_def Let_def simp del: marshal.simps split: option.splits sum.splits prod.splits)
qed

lemma replies_write:
  "replies (documented UpdateJob) (fst (updateJobHandler env r w))"
  "replies (documented RemoveJob) (fst (deleteJobHandler env r w))"
  by (auto simp: updateJobHandler_def deleteJobHandler_def Let_def split: option.splits sum.splits prod.splits)

lemma ListJobs_stored:
  assumes "ListJobsByUser env u n off w = (Inr js, w')"
  shows "set js \<subseteq> set (jobs (pg w))"
  using assms
  by (auto simp: ListJobsByUser_def auto_stmt_def sql_list_jobs_def Let_def
      dest!: in_set_takeD in_set_dropD split: fault.splits option.splits sum.splits prod.splits if_splits)

lemma replies_read:
  assumes "stored_json tj (pg w)"
  shows "replies (documented GetJob) (fst (getJobHandler tj env r w))"
    and "replies (documented ListJobs) (fst (listJobsHandler tj env r w))"
proof -
  have "marshal (job_value tj job) \<noteq> None" if "GetJobByID env k w = (Inr job, w1)" for k job w1
    using that by (intro job_value_encodes [OF assms]) (auto elim!: GetJobByID_found dest: find_by_SomeD)
  then show "replies (documented GetJob) (fst (getJobHandler tj env r w))"
    by (auto simp: getJobHandler_def Let_def split: sum.splits prod.splits)
  have "marshal (GSlice (map (job_value tj) js)) \<noteq> None" if "ListJobsByUser env u n off w = (Inr js, w1)" for u n off js w1
    using ListJobs_stored [OF that] job_value_encodes [OF assms] by (subst marshal_parts) auto
  then show "replies (documented ListJobs) (fst (listJobsHandler tj env r w))"
    by (auto simp: listJobsHandler_def Let_def simp del: marshal.simps split: sum.splits prod.splits)
qed

lemma endpoint_replies:
  assumes "stored_json (cf_time cf) (pg w)"
  shows "replies (documented h \<union> (if h = Login then {500} else {})) (fst (endpoint_handler cf env h r w))"
  using replies_public replies_create replies_write replies_read [OF assms] by (cases h) simp_all

lemma refusal_documented:
  assumes "map_of RegisterRoutes route = Some (h, True)"
  shows "401 \<in> documented h"
  using assms by (auto simp: RegisterRoutes_def split: if_splits)

lemma documented_status:
  assumes "map_of RegisterRoutes route = Some (h, protected)" and "c \<in> documented h"
  shows "itoa c \<in> set (doc_codes route)"
  unfolding documented_doc [OF assms(1), symmetric] using assms(2) by (rule imageI)

text \<open>C31: Every answer is one the documentation of its route announces: whatever the request and the
  schedule of failures, the status is among the codes the document lists for it, but for the 500 of a
  login whose tokens cannot be signed, and the body is the JSON text of a message with its data, but
  for the 401 of the token middleware, which is plain text.\<close>

theorem responses_documented:
  assumes "stored_json (cf_time cf) (pg w)" and "map_of RegisterRoutes route = Some (h, protected)"
    and "serve cf env route r w = Some (resp, w')"
  shows "(itoa (rs_Status resp) \<in> set (doc_codes route) \<or> h = Login \<and> rs_Status resp = 500) \<and>
    (json_reply resp \<or> protected \<and> resp = http_Error ''invalid access token'' 401)"
proof (cases "\<exists>r' w1. pg w1 = pg w \<and> resp = fst (endpoint_handler cf env h r' w1)")
  case True
  then obtain r' w1 where "pg w1 = pg w" and resp: "resp = fst (endpoint_handler cf env h r' w1)" by blast
  with assms(1) have "replies (documented h \<union> (if h = Login then {500} else {})) resp"
    by (simp add: endpoint_replies)
  then have "json_reply resp" "rs_Status resp \<in> documented h \<or> h = Login \<and> rs_Status resp = 500"
    by (auto simp: replies_def split: if_splits)
  with documented_status [OF assms(2)] show ?thesis by blast
next
  case False
  have "protected \<and> resp = http_Error ''invalid access token'' 401"
  proof (rule ccontr)
    assume "\<not> ?thesis"
    with assms(2,3) have "(\<exists>c. endpoint_handler cf env h (r\<lparr>rq_claims := Some c\<rparr>) (bump w) = (resp, w')) \<or>
        endpoint_handler cf env h (r\<lparr>rq_claims := None\<rparr>) w = (resp, w')"
      by (auto simp: serve_def NewJWTAuth_def split: if_splits sum.splits)
    with False show False by (metis fst_conv bump_simps(1))
  qed
  moreover from this assms(2) have "itoa 401 \<in> set (doc_codes route)"
    by (intro documented_status refusal_documented) simp_all
  ultimately show ?thesis by simp
qed

theorem responses_documented_witness:
  "\<exists>resp w'. serve demo_config demo_env (''GET'', ''/jobs/{jobID}'') nobody_request demo_world = Some (resp, w') \<and>
    itoa (rs_Status resp) \<in> set [''200'', ''401'', ''403'', ''404''] \<and> (json_reply resp \<or> resp = http_Error ''invalid access token'' 401)"
proof -
  have route: "map_of RegisterRoutes (''GET'', ''/jobs/{jobID}'') = Some (GetJob, True)"
    by (simp add: RegisterRoutes_def)
  then obtain resp w' where s: "serve demo_config demo_env (''GET'', ''/jobs/{jobID}'') nobody_request demo_world = Some (resp, w')"
    by (auto simp: serve_def) (metis surj_pair)
  have "unmarshal ''{}'' \<noteq> None" by code_simp
  then have "stored_json (cf_time demo_config) (pg demo_world)"
    by (simp add: stored_json_def demo_defs demo_config_def)
  from responses_documented [OF this route s] s show ?thesis by (auto simp: doc_codes_listed)
qed

end
