(* ===== verification/Startup.thy ===== *)
theory Startup
  imports Handlers Outbox_Poller Task
begin

text \<open>
  How the processes start: \<^verbatim>\<open>db/open.go\<close>, \<^verbatim>\<open>db/migrate.go\<close>, \<^verbatim>\<open>cmd/main.go\<close> and
  \<^verbatim>\<open>cmd/worker/main.go\<close>, up to the point where they serve, and how they end. The drivers and the migration library
  are parameters: \<open>drivers\<close> answers the \<open>n\<close>th call of each. \<open>boot\<close> counts these calls and keeps the
  database handles that are open and the addresses whose migrations have been applied.
\<close>

datatype up_result = UpDone | UpNoChange | UpFailed string

record drivers =
  dr_logger :: "string option"
  dr_getenv :: "string \<Rightarrow> string"
  dr_abs :: "string \<Rightarrow> string + string"
  dr_sql_open :: "nat \<Rightarrow> string \<Rightarrow> string option"
  dr_ping :: "nat \<Rightarrow> string option"
  dr_with_instance :: "nat \<Rightarrow> string option"
  dr_new_migrate :: "nat \<Rightarrow> string \<Rightarrow> string option"
  dr_up :: "nat \<Rightarrow> up_result"

text \<open>
  A \<open>string option\<close> is the error of a call, \<open>None\<close> when there is none: \<^verbatim>\<open>zap.NewDevelopment\<close>,
  \<^verbatim>\<open>sql.Open\<close>, \<^verbatim>\<open>Ping\<close>, \<^verbatim>\<open>postgres.WithInstance\<close>, \<^verbatim>\<open>NewWithDatabaseInstance\<close>. \<open>dr_abs\<close> is
  \<^verbatim>\<open>filepath.Abs\<close>, whose answer depends on the working directory.
\<close>

record boot =
  bt_calls :: nat
  bt_open :: "nat list"
  bt_migrated :: "string list"

definition close_db :: "nat \<Rightarrow> boot \<Rightarrow> boot" where
  "close_db h b = b\<lparr>bt_open := removeAll h (bt_open b)\<rparr>"

section \<open>The database\<close>

definition OpenDatabase :: "drivers \<Rightarrow> string \<Rightarrow> boot \<Rightarrow> (string + nat) \<times> boot" where
  \<comment> \<open>a handle is the number of the call that opened it\<close>
  "OpenDatabase D databaseURL b =
    (let h = bt_calls b; b1 = b\<lparr>bt_calls := Suc (bt_calls b)\<rparr>
     in case dr_sql_open D h databaseURL of
          Some err \<Rightarrow> (Inl err, b1)
        | None \<Rightarrow>
            let b2 = b1\<lparr>bt_open := h # bt_open b1\<rparr>
            in (case dr_ping D h of
                  Some err \<Rightarrow> (Inl err, close_db h b2)
                | None \<Rightarrow> (Inr h, b2)))"

definition Migrate :: "drivers \<Rightarrow> string \<Rightarrow> boot \<Rightarrow> string option \<times> boot" where
  \<comment> \<open>the deferred \<^verbatim>\<open>db.Close()\<close> runs on every path behind the opening; on Unix \<^verbatim>\<open>filepath.ToSlash\<close>
     changes nothing\<close>
  "Migrate D databaseURL b =
    (case dr_abs D ''migrations'' of
       Inl err \<Rightarrow> (Some err, b)
     | Inr migrationsPath \<Rightarrow>
     (case OpenDatabase D databaseURL b of
       (Inl err, b1) \<Rightarrow> (Some err, b1)
     | (Inr h, b1) \<Rightarrow>
     (case dr_with_instance D h of
       Some err \<Rightarrow> (Some err, close_db h b1)
     | None \<Rightarrow>
     (case dr_new_migrate D h (''file://'' @ migrationsPath) of
       Some err \<Rightarrow> (Some err, close_db h b1)
     | None \<Rightarrow>
     (case dr_up D h of
       UpFailed err \<Rightarrow> (Some err, close_db h b1)
     | _ \<Rightarrow> (None, close_db h (b1\<lparr>bt_migrated := databaseURL # bt_migrated b1\<rparr>)))))))"

section \<open>The API server\<close>

text \<open>
  How a start ends: a panic, \<^verbatim>\<open>logger.Fatal\<close>, which exits without running deferred calls, or a
  process that serves.
\<close>

datatype 'a start = Panic string | Fatal string | Serving 'a

datatype app_route = Redirect string int | SwaggerUI string | Api endpoint bool

record app =
  app_db :: nat
  app_secret :: string
  app_addr :: string
  app_routes :: "((string \<times> string) \<times> app_route) list"

definition app_router :: "((string \<times> string) \<times> app_route) list" where
  \<comment> \<open>the routes of \<^verbatim>\<open>main\<close>, then those of the handler; the request logger is in front of all\<close>
  "app_router =
    [((''GET'', ''/''), Redirect ''/swagger/index.html'' 302),
     ((''GET'', ''/swagger/*''), SwaggerUI ''/swagger/doc.json'')]
    @ map (\<lambda>(route, h, protected). (route, Api h protected)) RegisterRoutes"

definition app_main :: "drivers \<Rightarrow> boot \<Rightarrow> app start \<times> boot" where
  "app_main D b =
    (case dr_logger D of
       Some err \<Rightarrow> (Panic err, b)
     | None \<Rightarrow>
     let databaseURL = dr_getenv D ''DATABASE_URL''
     in if databaseURL = [] then (Fatal ''DATABASE_URL is required'', b)
     else
     (case Migrate D databaseURL b of
       (Some _, b1) \<Rightarrow> (Fatal ''database migration failed'', b1)
     | (None, b1) \<Rightarrow>
     (case OpenDatabase D databaseURL b1 of
       (Inl _, b2) \<Rightarrow> (Fatal ''failed to open database'', b2)
     | (Inr dbConn, b2) \<Rightarrow>
     let jwtSecret = dr_getenv D ''JWT_SECRET''
     in if jwtSecret = [] then (Fatal ''JWT_SECRET is required'', b2)
     else
       let port = (if dr_getenv D ''PORT'' = [] then ''8000'' else dr_getenv D ''PORT'')
       in (Serving \<lparr>app_db = dbConn, app_secret = jwtSecret, app_addr = '':'' @ port,
             app_routes = app_router\<rparr>, b2))))"

definition app_serve ::
  "app \<Rightarrow> config \<Rightarrow> logger \<Rightarrow> env \<Rightarrow> string \<times> string \<Rightarrow> request \<Rightarrow> world \<Rightarrow> (response \<times> world) option" where
  \<comment> \<open>the API routes behind the request logger; the other two leave the program\<close>
  "app_serve a cf base env route r w =
    (case map_of (app_routes a) route of
       Some (Api h protected) \<Rightarrow> RequestLogger base (serve cf env route) r w
     | _ \<Rightarrow> None)"

definition app_exit :: "string option \<Rightarrow> app \<Rightarrow> boot \<Rightarrow> string option \<times> boot" where
  \<comment> \<open>how \<^verbatim>\<open>main\<close> ends when \<^verbatim>\<open>ListenAndServe\<close> has returned: an error is fatal, which skips the deferred
     \<^verbatim>\<open>dbConn.Close()\<close>\<close>
  "app_exit served a b =
    (case served of
       Some _ \<Rightarrow> (Some ''server failed'', b)
     | None \<Rightarrow> (None, close_db (app_db a) b))"

section \<open>The worker\<close>

record worker =
  wk_db :: nat
  wk_redis_addr :: string
  wk_redis_password :: string
  wk_redis_db :: int
  wk_concurrency :: nat
  wk_queues :: "(string \<times> nat) list"
  wk_task_type :: string
  wk_pollers :: nat
  wk_limit :: int
  wk_interval :: int

definition worker_main :: "drivers \<Rightarrow> boot \<Rightarrow> worker start \<times> boot" where
  "worker_main D b =
    (case dr_logger D of
       Some err \<Rightarrow> (Panic err, b)
     | None \<Rightarrow>
     let databaseURL = dr_getenv D ''DATABASE_URL''
     in if databaseURL = [] then (Fatal ''DATABASE_URL is required'', b)
     else
     let redisAddr = dr_getenv D ''REDIS_ADDR''
     in if redisAddr = [] then (Fatal ''REDIS_ADDR is required'', b)
     else
     let dbStr = dr_getenv D ''REDIS_DB''
     in (case (if dbStr = [] then (0, None) else atoi dbStr) of
       (_, Some _) \<Rightarrow> (Fatal ''REDIS_DB must be an integer'', b)
     | (redisDB, None) \<Rightarrow>
     (case Migrate D databaseURL b of
       (Some _, b1) \<Rightarrow> (Fatal ''database migration failed'', b1)
     | (None, b1) \<Rightarrow>
     (case OpenDatabase D databaseURL b1 of
       (Inl _, b2) \<Rightarrow> (Fatal ''failed to open database'', b2)
     | (Inr dbConn, b2) \<Rightarrow>
       (Serving \<lparr>wk_db = dbConn, wk_redis_addr = redisAddr, wk_redis_password = dr_getenv D ''REDIS_PASSWORD'',
          wk_redis_db = redisDB, wk_concurrency = 10, wk_queues = [(''default'', 10)],
          wk_task_type = TypeJobProcess, wk_pollers = 2, wk_limit = 10, wk_interval = 5 * second\<rparr>, b2)))))"

definition worker_pollers :: "worker \<Rightarrow> env \<Rightarrow> nat list \<Rightarrow> world \<Rightarrow> nat set \<times> world" where
  "worker_pollers k env schedule w = StartOutboxPollers env (wk_pollers k) (wk_limit k) schedule w"

definition worker_exit :: "string option \<Rightarrow> worker \<Rightarrow> boot \<Rightarrow> string option \<times> boot" where
  \<comment> \<open>\<^verbatim>\<open>server.Run\<close> returns nil after a signal; an error is fatal\<close>
  "worker_exit served k b =
    (case served of
       Some _ \<Rightarrow> (Some ''asynq server failed'', b)
     | None \<Rightarrow> (None, close_db (wk_db k) b))"

section \<open>The demonstration webhook\<close>

definition echo_handler :: "request \<Rightarrow> response" where
  \<comment> \<open>\<^verbatim>\<open>/echo\<close> of \<^verbatim>\<open>cmd/webhook/main.go\<close>: the body is only printed\<close>
  "echo_handler r = \<lparr>rs_Status = 200, rs_ContentType = ''application/json'',
     rs_Body = (case marshal (GMap [(''status'', GStr ''ok'')]) of
       None \<Rightarrow> [] | Some body \<Rightarrow> body @ [char_of (10 :: nat)])\<rparr>"

end
