(* ===== verification/Startup_Props.thy ===== *)
theory Startup_Props
  imports Startup Processor Demo_Http Worker_Props
begin

text \<open>
  What a process that serves has done before, that no start leaks a database handle, and that the
  request logger and the demonstration webhook fit the components they are put in front of.
\<close>

section \<open>Handles\<close>

definition boot_ok :: "boot \<Rightarrow> bool" where
  \<comment> \<open>handles are numbers of calls made\<close>
  "boot_ok b \<longleftrightarrow> (\<forall>h \<in> set (bt_open b). h < bt_calls b)"

lemma close_fresh: "h \<notin> set (bt_open b) \<Longrightarrow> close_db h (b\<lparr>bt_open := h # bt_open b\<rparr>) = b"
  by (simp add: close_db_def)

lemma OpenDatabase_run:
  assumes "OpenDatabase D url b = (r, b')" and "boot_ok b"
  obtains (failed) err where "r = Inl err" "b' = b\<lparr>bt_calls := Suc (bt_calls b)\<rparr>"
  | (opened) "r = Inr (bt_calls b)" "b' = b\<lparr>bt_calls := Suc (bt_calls b), bt_open := bt_calls b # bt_open b\<rparr>"
      "dr_sql_open D (bt_calls b) url = None" "dr_ping D (bt_calls b) = None"
proof -
  have "bt_calls b \<notin> set (bt_open b)" using assms(2) by (auto simp: boot_ok_def)
  then have "close_db (bt_calls b) (b\<lparr>bt_calls := Suc (bt_calls b), bt_open := bt_calls b # bt_open b\<rparr>) =
      b\<lparr>bt_calls := Suc (bt_calls b)\<rparr>"
    by (simp add: close_db_def)
  with assms(1) that show thesis
    by (auto simp: OpenDatabase_def Let_def split: option.splits)
qed

lemma boot_ok_calls: "boot_ok b \<Longrightarrow> boot_ok (b\<lparr>bt_calls := Suc (bt_calls b)\<rparr>)"
  by (auto simp: boot_ok_def)

lemma Migrate_run:
  assumes "Migrate D url b = (r, b')" and "boot_ok b"
  shows "bt_open b' = bt_open b \<and> boot_ok b' \<and>
    bt_migrated b' = (if r = None then url # bt_migrated b else bt_migrated b)"
proof (cases "dr_abs D ''migrations''")
  case (Inl e)
  with assms show ?thesis by (auto simp: Migrate_def)
next
  case (Inr path)
  obtain x b1 where o: "OpenDatabase D url b = (x, b1)" by (metis surj_pair)
  from o assms(2) show ?thesis
  proof (cases rule: OpenDatabase_run)
    case (failed e)
    with assms o Inr boot_ok_calls [OF assms(2)] show ?thesis by (auto simp: Migrate_def)
  next
    case opened
    have fresh: "bt_calls b \<notin> set (bt_open b)" using assms(2) by (auto simp: boot_ok_def)
    from opened assms o Inr fresh boot_ok_calls [OF assms(2)] show ?thesis
      by (auto simp: Migrate_def close_db_def boot_ok_def split: option.splits up_result.splits)
  qed
qed

text \<open>Neither opening nor migrating leaks a database handle: \<open>OpenDatabase\<close> leaves one more handle
  open exactly when it returns it, also when the ping fails after the opening, and \<open>Migrate\<close> has
  closed its handle on every path; it records the migrations of an address exactly when it
  reports success.\<close>

theorem no_handle_leaks:
  assumes "boot_ok b"
  shows "(case OpenDatabase D url b of
      (Inl _, b') \<Rightarrow> bt_open b' = bt_open b
    | (Inr h, b') \<Rightarrow> bt_open b' = h # bt_open b \<and> h \<notin> set (bt_open b) \<and> dr_ping D h = None) \<and>
    (case Migrate D url b of
      (r, b') \<Rightarrow> bt_open b' = bt_open b \<and> bt_migrated b' = (if r = None then url # bt_migrated b else bt_migrated b))"
proof -
  obtain r b' where o: "OpenDatabase D url b = (r, b')" by (metis surj_pair)
  have fresh: "bt_calls b \<notin> set (bt_open b)" using assms by (auto simp: boot_ok_def)
  from o assms have "case (r, b') of
      (Inl _, b') \<Rightarrow> bt_open b' = bt_open b
    | (Inr h, b') \<Rightarrow> bt_open b' = h # bt_open b \<and> h \<notin> set (bt_open b) \<and> dr_ping D h = None"
    by (cases rule: OpenDatabase_run) (use fresh in auto)
  with o Migrate_run [OF _ assms, of D url] show ?thesis by (auto split: prod.splits)
qed

section \<open>The two processes\<close>

lemma app_main_serving:
  assumes "app_main D b = (Serving a, b')" and "boot_ok b"
  shows "app_secret a = dr_getenv D ''JWT_SECRET'' \<and> app_secret a \<noteq> [] \<and> dr_getenv D ''DATABASE_URL'' \<noteq> [] \<and>
    bt_migrated b' = dr_getenv D ''DATABASE_URL'' # bt_migrated b \<and> bt_open b' = app_db a # bt_open b \<and>
    app_db a \<notin> set (bt_open b) \<and> app_addr a = '':'' @ (if dr_getenv D ''PORT'' = [] then ''8000'' else dr_getenv D ''PORT'') \<and>
    app_routes a = app_router"
proof -
  let ?url = "dr_getenv D ''DATABASE_URL''"
  obtain r b1 where m: "Migrate D ?url b = (r, b1)" by (metis surj_pair)
  obtain x b2 where o: "OpenDatabase D ?url b1 = (x, b2)" by (metis surj_pair)
  have m1: "bt_open b1 = bt_open b" "boot_ok b1"
    "bt_migrated b1 = (if r = None then ?url # bt_migrated b else bt_migrated b)"
    using Migrate_run [OF m assms(2)] by simp_all
  have fresh: "bt_calls b1 \<notin> set (bt_open b)" using m1(1,2) by (auto simp: boot_ok_def)
  from o m1(2) show ?thesis
  proof (cases rule: OpenDatabase_run)
    case (failed e)
    with assms m o show ?thesis by (auto simp: app_main_def Let_def split: option.splits if_splits)
  next
    case opened
    with assms m o m1 fresh show ?thesis by (auto simp: app_main_def Let_def split: option.splits if_splits)
  qed
qed

lemma worker_main_serving:
  assumes "worker_main D b = (Serving k, b')" and "boot_ok b"
  shows "dr_getenv D ''DATABASE_URL'' \<noteq> [] \<and> wk_redis_addr k = dr_getenv D ''REDIS_ADDR'' \<and> wk_redis_addr k \<noteq> [] \<and>
    (if dr_getenv D ''REDIS_DB'' = [] then wk_redis_db k = 0
     else atoi (dr_getenv D ''REDIS_DB'') = (wk_redis_db k, None)) \<and>
    bt_migrated b' = dr_getenv D ''DATABASE_URL'' # bt_migrated b \<and> bt_open b' = wk_db k # bt_open b \<and>
    wk_db k \<notin> set (bt_open b) \<and> wk_pollers k = 2 \<and> wk_limit k = 10 \<and> wk_task_type k = TypeJobProcess"
proof -
  let ?url = "dr_getenv D ''DATABASE_URL''"
  obtain r b1 where m: "Migrate D ?url b = (r, b1)" by (metis surj_pair)
  obtain x b2 where o: "OpenDatabase D ?url b1 = (x, b2)" by (metis surj_pair)
  have m1: "bt_open b1 = bt_open b" "boot_ok b1"
    "bt_migrated b1 = (if r = None then ?url # bt_migrated b else bt_migrated b)"
    using Migrate_run [OF m assms(2)] by simp_all
  have fresh: "bt_calls b1 \<notin> set (bt_open b)" using m1(1,2) by (auto simp: boot_ok_def)
  from o m1(2) show ?thesis
  proof (cases rule: OpenDatabase_run)
    case (failed e)
    with assms m o show ?thesis by (auto simp: worker_main_def Let_def split: option.splits if_splits prod.splits)
  next
    case opened
    with assms m o m1 fresh show ?thesis by (auto simp: worker_main_def Let_def split: option.splits if_splits prod.splits)
  qed
qed

text \<open>C40: A process serves only when it is ready. The API server has found \<open>DATABASE_URL\<close> and
  \<open>JWT_SECRET\<close>, has applied the migrations to that address, and holds one open database handle more than
  before, the one it serves with; its secret is the environment's and never empty. The worker has
  found \<open>DATABASE_URL\<close> and \<open>REDIS_ADDR\<close>, a \<open>REDIS_DB\<close> that is absent or a decimal integer, and has
  migrated and opened the database in the same way; a \<open>REDIS_DB\<close> that is no integer stops it before it
  touches the database. When the serving ends without an error, the handle is closed.\<close>

theorem ready_when_serving:
  assumes "boot_ok b"
  shows "(\<forall>a b'. app_main D b = (Serving a, b') \<longrightarrow>
      dr_getenv D ''DATABASE_URL'' \<noteq> [] \<and> app_secret a = dr_getenv D ''JWT_SECRET'' \<and> app_secret a \<noteq> [] \<and>
      bt_migrated b' = dr_getenv D ''DATABASE_URL'' # bt_migrated b \<and> bt_open b' = app_db a # bt_open b \<and>
      bt_open (snd (app_exit None a b')) = bt_open b) \<and>
    (\<forall>k b'. worker_main D b = (Serving k, b') \<longrightarrow>
      dr_getenv D ''DATABASE_URL'' \<noteq> [] \<and> wk_redis_addr k = dr_getenv D ''REDIS_ADDR'' \<and> wk_redis_addr k \<noteq> [] \<and>
      bt_migrated b' = dr_getenv D ''DATABASE_URL'' # bt_migrated b \<and> bt_open b' = wk_db k # bt_open b \<and>
      bt_open (snd (worker_exit None k b')) = bt_open b \<and>
      (dr_getenv D ''REDIS_DB'' = itoa n \<and> int64_ok n \<longrightarrow> wk_redis_db k = n)) \<and>
    (dr_getenv D ''REDIS_DB'' \<noteq> [] \<and> snd (atoi (dr_getenv D ''REDIS_DB'')) \<noteq> None \<longrightarrow>
      (\<forall>k. fst (worker_main D b) \<noteq> Serving k) \<and> snd (worker_main D b) = b)"
proof -
  have itoa: "itoa n \<noteq> []" by (simp add: itoa_def)
  have refused: "(\<forall>k. fst (worker_main D b) \<noteq> Serving k) \<and> snd (worker_main D b) = b"
    if "dr_getenv D ''REDIS_DB'' \<noteq> []" and "snd (atoi (dr_getenv D ''REDIS_DB'')) \<noteq> None"
    using that by (auto simp: worker_main_def Let_def split: option.splits prod.splits)
  have redis: "wk_redis_db k = n"
    if "worker_main D b = (Serving k, b')" and "dr_getenv D ''REDIS_DB'' = itoa n" and "int64_ok n" for k b'
    using worker_main_serving [OF that(1) assms] that(2) itoa atoi_itoa [OF that(3)] by simp
  have ends: "app_main D b = (Serving a, b') \<Longrightarrow> bt_open (snd (app_exit None a b')) = bt_open b"
    "worker_main D b = (Serving k, b') \<Longrightarrow> bt_open (snd (worker_exit None k b')) = bt_open b" for a k b'
    using app_main_serving [OF _ assms, of D a b'] worker_main_serving [OF _ assms, of D k b']
    by (auto simp: app_exit_def worker_exit_def close_db_def)
  show ?thesis
    using app_main_serving [OF _ assms] worker_main_serving [OF _ assms] refused redis ends by blast
qed

section \<open>The request logger\<close>

lemma ignores_logger:
  "decode_body strict fs zero (r\<lparr>rq_logger := l\<rparr>) = decode_body strict fs zero r"
  "decode_body strict fs zero (r\<lparr>rq_claims := c\<rparr>) = decode_body strict fs zero r"
  "getUserID (r\<lparr>rq_logger := l, rq_claims := c\<rparr>) = getUserID (r\<lparr>rq_claims := c\<rparr>)"
  "page_of (r\<lparr>rq_logger := l\<rparr>) = page_of r" "page_of (r\<lparr>rq_claims := c\<rparr>) = page_of r"
  "page_size_of (r\<lparr>rq_logger := l\<rparr>) = page_size_of r" "page_size_of (r\<lparr>rq_claims := c\<rparr>) = page_size_of r"
  "rq_jobID (r\<lparr>rq_logger := l\<rparr>) = rq_jobID r" "rq_jobID (r\<lparr>rq_claims := c\<rparr>) = rq_jobID r"
  by (simp_all add: decode_body_def getUserID_def GetJWTClaims_def page_of_def page_size_of_def)

lemma endpoint_logger:
  "endpoint_handler cf env h (r\<lparr>rq_logger := l, rq_claims := c\<rparr>) w = endpoint_handler cf env h (r\<lparr>rq_claims := c\<rparr>) w"
  by (cases h; simp only: endpoint_handler.simps; unfold healthHandler_def registerHandler_def loginHandler_def
      createJobHandler_def listJobsHandler_def getJobHandler_def updateJobHandler_def deleteJobHandler_def
      ignores_logger Let_def; rule refl)

lemma serve_logger: "serve cf env route (r\<lparr>rq_logger := l\<rparr>) w = serve cf env route r w"
  by (auto simp: serve_def NewJWTAuth_def endpoint_logger split: option.splits prod.splits sum.splits)

text \<open>The request logger is transparent: behind it the server answers every request, on every route,
  as the routes of the handler do without it; a handler that asks for the logger gets the one of
  its own request, with the method, path and address of that request behind the fields of the
  process, and the claims the JWT middleware stores do not disturb it.\<close>

lemma logger_transparent:
  assumes "app_main D b = (Serving a, b')" and "boot_ok b"
  shows "app_serve a cf base env route r w = serve cf env route r w \<and>
    RequestLogger (Logger known) (\<lambda>r' w. GetLogger (r'\<lparr>rq_claims := c\<rparr>)) r w =
      Logger (known @ [(''method'', rq_Method r), (''path'', rq_Path r), (''remote_addr'', rq_RemoteAddr r)]) \<and>
    RequestLogger (Logger known) (\<lambda>r' w. GetJWTClaims r') r w = GetJWTClaims r"
proof -
  have routes: "map_of (app_routes a) route = (case map_of RegisterRoutes route of
      Some (h, protected) \<Rightarrow> Some (Api h protected)
    | None \<Rightarrow> map_of [((''GET'', ''/''), Redirect ''/swagger/index.html'' 302),
        ((''GET'', ''/swagger/*''), SwaggerUI ''/swagger/doc.json'')] route)"
    using app_main_serving [OF assms]
    by (auto simp: app_router_def RegisterRoutes_def split: option.splits)
  have "app_serve a cf base env route r w = serve cf env route r w"
  proof (cases "map_of RegisterRoutes route")
    case None
    then show ?thesis by (auto simp: app_serve_def routes serve_def)
  next
    case (Some x)
    then show ?thesis by (cases x) (simp add: app_serve_def routes RequestLogger_def serve_logger)
  qed
  then show ?thesis by (simp add: RequestLogger_def GetLogger_def GetJWTClaims_def)
qed

section \<open>The demonstration webhook\<close>

lemma echo_body: "rs_Body (echo_handler r) = print_json (JObj [(''status'', JStr ''ok'')]) @ [char_of (10 :: nat)]"
proof -
  have "raw_free (GMap [(''status'', GStr ''ok'')])" by simp
  from marshal_print [OF this] have "marshal (GMap [(''status'', GStr ''ok'')]) = Some (print_json (JObj [(''status'', JStr ''ok'')]))"
    by (simp del: marshal.simps)
  then show ?thesis by (simp add: echo_handler_def del: marshal.simps)
qed

lemma echo_json: "unmarshal (rs_Body (echo_handler r)) = Some (JObj [(''status'', JStr ''ok'')])"
proof -
  have "json_fits (JObj [(''status'', JStr ''ok'')])" by (simp add: json_fits_def max_depth_def utf8_ok_ascii)
  then have "scan_value (rs_Body (echo_handler r)) = Some (JObj [(''status'', JStr ''ok'')], [char_of (10 :: nat)])"
    unfolding echo_body by (intro scan_value_print) (simp_all add: num_stop_def is_digit_def in_range_def char_of_eq_iff)
  then show ?thesis by (simp add: unmarshal_def is_ws_def char_of_eq_iff)
qed

text \<open>The worker and the demonstration webhook fit together: what \<open>/echo\<close> answers, whatever it was
  sent, is a 200 with the JSON object that says the status is ok, so that a job pointed at it is completed
  with this object as its result by one delivery of its task.\<close>

theorem echo_completes:
  assumes "healthy env" and "env_ok env" and "live env" and "runs env task w job"
    and "\<forall>n. \<exists>r. rq_Body r = job_Payload job \<and> e_post env n (job_WebhookURL job) (job_Payload job) =
      Replied (rs_Status (echo_handler r)) (Inr (rs_Body (echo_handler r)))"
    and "\<forall>s. unmarshal s = Some (JObj [(''status'', JStr ''ok'')]) \<longrightarrow> e_jsonb_in env s \<noteq> None"
  shows "\<exists>w' j stored. ProcessJobTask env task w = (None, w') \<and> job_row (job_ID job) w' = Some j \<and>
    job_State j = ''completed'' \<and> job_Result j = Some stored \<and>
    e_jsonb_in env (rs_Body (echo_handler r)) = Some stored \<and>
    unmarshal (rs_Body (echo_handler r)) = Some (JObj [(''status'', JStr ''ok'')])"
proof -
  have same: "echo_handler r' = echo_handler r" for r' by (simp add: echo_handler_def)
  have status: "rs_Status (echo_handler r) = 200" by (simp add: echo_handler_def)
  have answers: "answers env job (Replied 200 (Inr (rs_Body (echo_handler r))))"
    using assms(5) same status unfolding answers_def by metis
  obtain stored where stored: "e_jsonb_in env (rs_Body (echo_handler r)) = Some stored"
    using assms(6) echo_json [of r] by blast
  from process_done [OF assms(1-4) answers _ _ stored] obtain now w' where
    w': "ProcessJobTask env task w = (None, w')" and
    pg': "pg w' = (pg w)\<lparr>jobs := upd_by job_ID (job_ID job)
      (set_outcome ''completed'' None (Some stored) (job_Attempts job + 1) now) (jobs (pg w))\<rparr>" by auto
  from assms(4) obtain k where "find_by job_ID k (jobs (pg w)) = Some job"
    by (auto simp: runs_def split: option.splits)
  then have "find_by job_ID (job_ID job) (jobs (pg w)) = Some job" by (auto dest: find_by_SomeD)
  then have row: "job_row (job_ID job) w' =
      Some (set_outcome ''completed'' None (Some stored) (job_Attempts job + 1) now job)"
    by (simp add: job_row_def pg' find_by_upd_by)
  show ?thesis
    by (intro exI [of _ w'] exI [of _ "set_outcome ''completed'' None (Some stored) (job_Attempts job + 1) now job"]
        exI [of _ stored]) (simp add: w' row stored echo_json, simp add: set_outcome_def)
qed

section \<open>Witnesses\<close>

definition demo_drivers :: drivers where
  \<comment> \<open>every call succeeds, and only the variables that are required are set\<close>
  "demo_drivers = \<lparr>dr_logger = None,
     dr_getenv = (\<lambda>v. if v = ''DATABASE_URL'' then ''postgres:///jobs'' else if v = ''JWT_SECRET'' then ''k''
       else if v = ''REDIS_ADDR'' then ''redis:6379'' else []),
     dr_abs = (\<lambda>p. Inr (''/app/'' @ p)), dr_sql_open = (\<lambda>_ _. None), dr_ping = (\<lambda>n. if n = 5 then Some ''refused'' else None),
     dr_with_instance = (\<lambda>_. None), dr_new_migrate = (\<lambda>_ _. None), dr_up = (\<lambda>_. UpNoChange)\<rparr>"

definition first_boot :: boot where
  "first_boot = \<lparr>bt_calls = 0, bt_open = [], bt_migrated = []\<rparr>"

lemma first_boot_ok: "boot_ok first_boot"
  by (simp add: boot_ok_def first_boot_def)

lemma demo_starts:
  "app_main demo_drivers first_boot = (Serving \<lparr>app_db = 1, app_secret = ''k'', app_addr = '':8000'', app_routes = app_router\<rparr>,
    \<lparr>bt_calls = 2, bt_open = [1], bt_migrated = [''postgres:///jobs'']\<rparr>)"
  by (simp add: app_main_def demo_drivers_def first_boot_def Migrate_def OpenDatabase_def close_db_def Let_def)

theorem no_handle_leaks_witness:
  "bt_open (snd (Migrate demo_drivers ''postgres:///jobs'' first_boot)) = [] \<and>
   bt_open (snd (OpenDatabase demo_drivers ''postgres:///jobs'' \<lparr>bt_calls = 5, bt_open = [1], bt_migrated = []\<rparr>)) = [1]"
proof -
  have "boot_ok \<lparr>bt_calls = 5, bt_open = [1], bt_migrated = []\<rparr>" by (simp add: boot_ok_def)
  moreover have "\<exists>e b'. OpenDatabase demo_drivers ''postgres:///jobs'' \<lparr>bt_calls = 5, bt_open = [1], bt_migrated = []\<rparr> = (Inl e, b')"
    by (simp add: OpenDatabase_def demo_drivers_def Let_def)
  ultimately show ?thesis
    using no_handle_leaks [OF first_boot_ok, of demo_drivers "''postgres:///jobs''"]
      no_handle_leaks [of "\<lparr>bt_calls = 5, bt_open = [1], bt_migrated = []\<rparr>" demo_drivers "''postgres:///jobs''"]
    by (auto simp: first_boot_def split: prod.splits)
qed

theorem ready_when_serving_witness:
  "\<exists>a b'. app_main demo_drivers first_boot = (Serving a, b') \<and> app_secret a = ''k'' \<and> bt_migrated b' = [''postgres:///jobs'']"
  using ready_when_serving [OF first_boot_ok, of demo_drivers] demo_starts
  by (auto simp: demo_drivers_def first_boot_def)

definition echo_env :: env where
  "echo_env = demo_env\<lparr>e_post := (\<lambda>_ _ body. let resp = echo_handler (nobody_request\<lparr>rq_Body := body\<rparr>)
     in Replied (rs_Status resp) (Inr (rs_Body resp)))\<rparr>"

theorem echo_completes_witness:
  "\<exists>w' j. ProcessJobTask echo_env demo_task demo_world = (None, w') \<and> job_row (job_ID demo_job) w' = Some j \<and>
    job_State j = ''completed''"
proof -
  have env: "healthy echo_env" "env_ok echo_env" "live echo_env"
    using demo_healthy demo_env_ok demo_live by (simp_all add: echo_env_def healthy_def env_ok_def live_def)
  have "runs echo_env demo_task demo_world demo_job"
    using demo_runs by (subst runs_env [of _ demo_env]) (simp_all add: echo_env_def)
  moreover have "\<forall>n. \<exists>r. rq_Body r = job_Payload demo_job \<and> e_post echo_env n (job_WebhookURL demo_job) (job_Payload demo_job) =
      Replied (rs_Status (echo_handler r)) (Inr (rs_Body (echo_handler r)))"
    by (intro allI exI [of _ "nobody_request\<lparr>rq_Body := job_Payload demo_job\<rparr>"]) (simp add: echo_env_def Let_def)
  moreover have "\<forall>s. unmarshal s = Some (JObj [(''status'', JStr ''ok'')]) \<longrightarrow> e_jsonb_in echo_env s \<noteq> None"
    by (simp add: echo_env_def demo_env_def)
  ultimately show ?thesis using echo_completes [OF env] by blast
qed

end
