(* ===== verification/Poller_Stop.thy ===== *)
theory Poller_Stop
  imports Poller_Props
begin

text \<open>
  The pollers side by side: whatever their rounds do, they take the database through steps of its
  specification, and once the context is cancelled each of them stops after the round it is in.
\<close>

section \<open>Rounds\<close>

lemma run_pollers_append:
  "run_pollers env limit (xs @ ys) running w =
    (case run_pollers env limit xs running w of (running', w') \<Rightarrow> run_pollers env limit ys running' w')"
  by (induction xs arbitrary: running w) (auto split: prod.splits)

lemma run_pollers_none: "run_pollers env limit xs {} w = ({}, w)"
  by (induction xs) simp_all

lemma run_pollers_one:
  "snd (run_pollers env limit (replicate n 0) {0} w) = poller env limit n w"
proof (induction n arbitrary: w)
  case (Suc n)
  obtain e w1 where "pollOnce env limit w = (e, w1)" by (metis surj_pair)
  with Suc [of "bump w1"] show ?case by (simp add: run_pollers_none)
qed simp

lemma run_pollers_steps: "db_steps env (pg w) (pg (snd (run_pollers env limit xs running w)))"
proof (induction xs arbitrary: running w)
  case (Cons i xs)
  have "db_steps env (pg w) (pg (snd (pollOnce env limit w)))" by (rule pollOnce_steps)
  with Cons show ?case
    by (auto split: prod.splits intro: rtranclp_trans)
      (metis bump_simps(1) rtranclp_trans snd_conv)+
qed simp

section \<open>The clock\<close>

lemma auto_stmt_tick: "tick (snd (auto_stmt env f w)) = Suc (tick w)"
  by (auto simp: auto_stmt_def split: fault.splits sum.splits prod.splits)

lemma dispatch_tick: "tick w \<le> tick (dispatch env v w)"
  by (auto simp: dispatch_def Enqueue_def MarkOutboxEventUnpublished_def auto_stmt_tick
      split: option.splits fault.splits)

lemma dispatch_all_tick: "tick w \<le> tick (dispatch_all env vs w)"
  by (induction vs arbitrary: w) (auto intro: dispatch_tick order_trans)

lemma mark_all_tick: "mark_all env vs tx w = (r, tx', w') \<Longrightarrow> tick w \<le> tick w'"
proof (induction vs arbitrary: tx w)
  case (Cons v vs)
  obtain r1 tx1 w1 where m: "MarkOutboxEventPublishedTx env tx (ev_ID v) w = (r1, tx1, w1)" by (metis surj_pair)
  then have "w1 = bump w"
    using tx_stmt_pg unfolding MarkOutboxEventPublishedTx_def by (metis snd_conv)
  with Cons m show ?case by (cases r1) fastforce+
qed simp

lemma claim_batch_tick: "claim_batch env limit w = (r, w') \<Longrightarrow> tick w \<le> tick w'"
proof -
  assume c: "claim_batch env limit w = (r, w')"
  obtain r1 w1 where b: "BeginTx env w = (r1, w1)" by (metis surj_pair)
  then have w1: "tick w1 = Suc (tick w)" by (auto elim: BeginTx_cases)
  show ?thesis
  proof (cases r1)
    case (Inl e)
    with c b w1 show ?thesis by (simp add: claim_batch_def)
  next
    case (Inr tx)
    obtain r2 tx2 w2 where g: "GetUnpublishedOutboxEventsTx env tx limit w1 = (r2, tx2, w2)" by (metis surj_pair)
    then have "w2 = bump w1" using tx_stmt_pg unfolding GetUnpublishedOutboxEventsTx_def by (metis snd_conv)
    then have w2: "tick w2 = Suc (tick w1)" by simp
    show ?thesis
    proof (cases r2)
      case (Inl e)
      with c b g w1 w2 \<open>r1 = Inr tx\<close> show ?thesis by (simp add: claim_batch_def)
    next
      case evs: (Inr evs)
      obtain r3 tx3 w3 where m: "mark_all env evs tx2 w2 = (r3, tx3, w3)" by (metis surj_pair)
      obtain r4 w4 where com: "Commit env tx3 w3 = (r4, w4)" by (metis surj_pair)
      then have "tick w4 = Suc (tick w3)" by (auto simp: Commit_def split: fault.splits)
      with c b g m com mark_all_tick [OF m] w1 w2 \<open>r1 = Inr tx\<close> evs show ?thesis
        by (auto simp: claim_batch_def split: sum.splits)
    qed
  qed
qed

lemma pollOnce_tick: "tick w \<le> tick (snd (pollOnce env limit w))"
proof (cases "claim_batch env limit w")
  case (Pair r w1)
  with claim_batch_tick [OF Pair] show ?thesis
    by (cases r) (auto simp: pollOnce_def intro: order_trans dispatch_all_tick)
qed

section \<open>Stopping\<close>

lemma run_pollers_cancelled:
  assumes "\<forall>n \<ge> T. e_ctx_done env n" and "T \<le> tick w"
  shows "fst (run_pollers env limit xs running w) = running - set xs"
  using assms(2)
proof (induction xs arbitrary: running w)
  case (Cons i xs)
  obtain e w1 where p: "pollOnce env limit w = (e, w1)" by (metis surj_pair)
  then have "T \<le> tick w1" using pollOnce_tick [of w env limit] Cons.prems by simp
  with Cons p assms(1) show ?case by auto
qed simp

text \<open>C22: The pollers stop: when the context has been cancelled, each poller ends its loop after its
  current round. As soon as every poller has had one more turn none is running, and whatever turns
  follow nothing happens any more. A single poller is the loop \<open>poller\<close>.\<close>

theorem pollers_stop:
  assumes "\<forall>n \<ge> T. e_ctx_done env n" and "T \<le> tick w" and "{..<pollers} \<subseteq> set schedule"
  shows "(\<exists>w'. \<forall>later. StartOutboxPollers env pollers limit (schedule @ later) w = ({}, w')) \<and>
    snd (StartOutboxPollers env 1 limit (replicate rounds 0) w) = poller env limit rounds w"
proof -
  have "fst (StartOutboxPollers env pollers limit schedule w) = {}"
    using run_pollers_cancelled [OF assms(1,2)] assms(3) by (auto simp: StartOutboxPollers_def)
  then obtain w' where "StartOutboxPollers env pollers limit schedule w = ({}, w')"
    by (metis prod.collapse)
  then have "StartOutboxPollers env pollers limit (schedule @ later) w = ({}, w')" for later
    by (simp add: StartOutboxPollers_def run_pollers_append run_pollers_none)
  moreover have "{..<1} = {0 :: nat}" by auto
  ultimately show ?thesis using run_pollers_one by (auto simp: StartOutboxPollers_def)
qed

definition ended_env :: env where
  "ended_env = demo_env\<lparr>e_ctx_done := (\<lambda>_. True)\<rparr>"

theorem pollers_stop_witness:
  "\<exists>w'. \<forall>later. StartOutboxPollers ended_env 2 10 ([1, 0, 1] @ later) demo_world = ({}, w')"
proof -
  have "\<forall>n \<ge> 0. e_ctx_done ended_env n" by (simp add: ended_env_def)
  moreover have "{..<2} \<subseteq> set [1, 0, 1 :: nat]" by auto
  ultimately show ?thesis using pollers_stop [of 0 ended_env demo_world 2 "[1, 0, 1]" 10] by blast
qed

end
