(* ===== verification/Idempotency_Props.thy ===== *)
theory Idempotency_Props
  imports Idempotency Task
begin

text \<open>
  What the idempotency hash and the task payload promise: the hash of a value depends on the value
  alone, it tells job payloads apart as far as SHA-256 does, and a task carries its two identifiers
  through the queue.
\<close>

section \<open>Canonical JSON\<close>

text \<open>C37: The canonical form does not depend on the iteration order of any map, at any depth of the
  value: two values that differ only in that order have the same canonical text, or both have
  none, and so the same idempotency hash.\<close>

theorem canonical_order_independent:
  assumes "same_value v w"
  shows "CanonicalJSON ft v = CanonicalJSON ft w \<and> ComputeIdempotencyHash ft v = ComputeIdempotencyHash ft w"
  using CanonicalJSON_same [OF assms] by (simp add: ComputeIdempotencyHash_def)

theorem canonical_order_independent_witness:
  "CanonicalJSON (\<lambda>_. None) (GMap [(''b'', GSlice [GMap [(''y'', GNull), (''x'', GInt 1)]]), (''a'', GInt 2)]) =
    CanonicalJSON (\<lambda>_. None) (GMap [(''a'', GInt 2), (''b'', GSlice [GMap [(''x'', GInt 1), (''y'', GNull)]])])"
proof -
  have "same_value (GMap [(''y'', GNull), (''x'', GInt 1)]) (GMap [(''x'', GInt 1), (''y'', GNull)])"
    by (rule same_map [of _ "[(''y'', GNull), (''x'', GInt 1)]"]) (simp_all add: same_refl)
  then have "same_value (GSlice [GMap [(''y'', GNull), (''x'', GInt 1)]]) (GSlice [GMap [(''x'', GInt 1), (''y'', GNull)]])"
    by (intro same_slice) simp
  then have "same_value (GMap [(''b'', GSlice [GMap [(''y'', GNull), (''x'', GInt 1)]]), (''a'', GInt 2)])
      (GMap [(''a'', GInt 2), (''b'', GSlice [GMap [(''x'', GInt 1), (''y'', GNull)]])])"
    by (intro same_map [of _ "[(''b'', GSlice [GMap [(''x'', GInt 1), (''y'', GNull)]]), (''a'', GInt 2)]"])
      (simp_all add: same_refl)
  from canonical_order_independent [OF this] show ?thesis by blast
qed

text \<open>C38: On values without raw messages the canonical form is what \<open>json.Marshal\<close> prints: the two
  optimised and the two recursive branches agree, it always exists, and decoding it gives the value
  back.\<close>

theorem canonical_is_marshal:
  assumes "raw_free v" and "json_fits (to_json v)"
  shows "CanonicalJSON ft v = marshal v \<and> Option.bind (CanonicalJSON ft v) unmarshal = Some (to_json v)"
  using CanonicalJSON_marshal [OF assms(1)] marshal_print [OF assms(1)] unmarshal_print [OF assms(2)]
  by simp

theorem canonical_is_marshal_witness:
  "Option.bind (CanonicalJSON (\<lambda>_. None) (GMap [(''b'', GInt 7), (''a'', GSlice [GNull])])) unmarshal =
    Some (to_json (GMap [(''b'', GInt 7), (''a'', GSlice [GNull])]))"
proof -
  let ?v = "GMap [(''b'', GInt 7), (''a'', GSlice [GNull])]"
  have "to_json ?v = JObj [(''a'', JArr [JNull]), (''b'', JNum (itoa 7))]" by simp
  then have "json_fits (to_json ?v)" by (simp add: json_fits_def max_depth_def utf8_ok_ascii)
  moreover have "raw_free ?v" by simp
  ultimately show ?thesis using canonical_is_marshal by blast
qed

text \<open>Two raw JSON messages that hold the same document, up to layout and the order of members, have
  the same canonical text; an empty message counts as \<open>null\<close> and one that is no JSON has none.\<close>

lemma canonical_raw_document:
  assumes "unmarshal a = Some i" and "unmarshal b = Some j" and "a \<noteq> []" and "b \<noteq> []"
    and "from_json ft i = Some v" and "from_json ft j = Some w" and "same_value v w"
  shows "CanonicalJSON ft (GRaw (Some a)) = CanonicalJSON ft (GRaw (Some b)) \<and>
    CanonicalJSON ft (GRaw (Some [])) = Some ''null'' \<and>
    (unmarshal c = None \<and> c \<noteq> [] \<longrightarrow> CanonicalJSON ft (GRaw (Some c)) = None)"
  using assms(1-6) CanonicalJSON_same [OF assms(7), of ft] by simp

section \<open>The hash\<close>

definition payload_text :: "JobPayload \<Rightarrow> string" where
  "payload_text p = print_json (to_json (payload_value p))"

lemma payload_canonical_text: "payload_canonical ft p = Some (payload_text p)"
  by (simp add: payload_canonical_eq payload_text_def)

lemma hash_value: "ComputeIdempotencyHash ft (payload_value p) = Some (EncodeToString (Sum256 (payload_text p)))"
  using payload_canonical_text [of ft p] by (simp add: ComputeIdempotencyHash_def payload_canonical_def)

lemma payload_text_inj:
  assumes "payload_ok p" and "payload_ok q" and "payload_ints_ok p" and "payload_ints_ok q"
    and "payload_text p = payload_text q"
  shows "p = q"
proof (rule payload_canonical_inj [OF assms(1-4)])
  show "payload_canonical (\<lambda>_. None) p = payload_canonical (\<lambda>_. None) q"
    by (simp only: payload_canonical_text assms(5))
qed

lemma hash_collision:
  assumes "payload_ok p" and "payload_ok q" and "payload_ints_ok p" and "payload_ints_ok q"
    and "Some (EncodeToString (Sum256 (payload_text q))) = Some (EncodeToString (Sum256 (payload_text p)))"
  shows "p = q \<or> payload_text p \<noteq> payload_text q \<and> Sum256 (payload_text p) = Sum256 (payload_text q)"
  using payload_text_inj [OF assms(1-4)] EncodeToString_inj assms(5) by (metis option.inject)

text \<open>C36: The hash of a job payload always exists and is 64 hexadecimal digits; two payloads share it only
  if they are the same payload or their two distinct canonical texts are a SHA-256 collision. No
  two fields can run into each other.\<close>

theorem hash_separates_payloads:
  assumes "payload_ok p" and "payload_ok q" and "payload_ints_ok p" and "payload_ints_ok q"
  shows "\<exists>h. ComputeIdempotencyHash ft (payload_value p) = Some h \<and> length h = 64 \<and> set h \<subseteq> set ''0123456789abcdef'' \<and>
    (ComputeIdempotencyHash ft (payload_value q) = Some h \<longrightarrow>
      p = q \<or> (\<exists>x y. payload_canonical ft p = Some x \<and> payload_canonical ft q = Some y \<and>
        x \<noteq> y \<and> Sum256 x = Sum256 y))"
proof -
  let ?h = "EncodeToString (Sum256 (payload_text p))"
  have len: "length ?h = 64" by (simp only: length_EncodeToString length_Sum256)
  have hex: "set ?h \<subseteq> set ''0123456789abcdef''" using EncodeToString_hex by blast
  have "p = q \<or> (\<exists>x y. payload_canonical ft p = Some x \<and> payload_canonical ft q = Some y \<and>
      x \<noteq> y \<and> Sum256 x = Sum256 y)" if "ComputeIdempotencyHash ft (payload_value q) = Some ?h"
    using hash_collision [OF assms] that unfolding hash_value payload_canonical_text by blast
  with len hex hash_value [of ft p] show ?thesis by blast
qed

theorem hash_separates_payloads_witness:
  "\<exists>h. ComputeIdempotencyHash (\<lambda>_. None) (payload_value (NewJobPayload ''t'' ''n'' ''u'' None None None)) = Some h \<and> length h = 64"
proof -
  let ?p = "NewJobPayload ''t'' ''n'' ''u'' None None None"
  have "payload_ok ?p" "payload_ints_ok ?p"
    by (simp_all add: payload_ok_def payload_ints_ok_def NewJobPayload_def utf8_ok_ascii int64_ok_def
        min_int64_def max_int64_def)
  from hash_separates_payloads [OF this(1,1,2,2)] show ?thesis by blast
qed

text \<open>The constructor of a job payload leaves version, retries and timeout positive, keeps every
  positive value it is given, and is settled: building the payload again from its own fields gives
  the same payload, so that a request that spells out the defaults has the hash of one that
  leaves them out.\<close>

lemma payload_defaults:
  "(let p = NewJobPayload jobType name webhookURL version maxRetries timeoutSeconds in
    0 < jp_Version p \<and> 0 < jp_MaxRetries p \<and> 0 < jp_TimeoutSeconds p \<and>
    NewJobPayload jobType name webhookURL (Some (jp_Version p)) (Some (jp_MaxRetries p)) (Some (jp_TimeoutSeconds p)) = p) \<and>
   NewJobPayload jobType name webhookURL None None None =
    NewJobPayload jobType name webhookURL (Some 1) (Some 5) (Some 15)"
  by (cases version; cases maxRetries; cases timeoutSeconds) (simp_all add: NewJobPayload_def Let_def)

section \<open>The task\<close>

text \<open>C39: A task carries the identifiers of its job and its outbox event through the queue: constructing
  it never fails, it has the type the worker's mux listens to, and the worker parses out what the
  poller put in.\<close>

theorem task_roundtrip:
  assumes "utf8_ok jobID" and "utf8_ok outboxID"
  shows "\<exists>task. NewJobProcessTask jobID outboxID = Some task \<and> task_type task = TypeJobProcess \<and>
    ParseJobProcessPayload task = Some \<lparr>jpp_JobID = jobID, jpp_OutboxID = outboxID\<rparr>"
  using NewJobProcessTask_total [of jobID outboxID] Parse_New [OF assms] by fastforce

theorem task_roundtrip_witness:
  "\<exists>task. NewJobProcessTask ''a\"b'' ''7'' = Some task \<and>
    ParseJobProcessPayload task = Some \<lparr>jpp_JobID = ''a\"b'', jpp_OutboxID = ''7''\<rparr>"
  using task_roundtrip [of "''a\"b''" "''7''"] by (auto simp: utf8_ok_ascii)

end
