(* ===== verification/Spec2Isabelle.thy ===== *)
theory Spec2Isabelle
  imports System_Witnesses Interleaving Stuck Handler_Responses Startup_Props Poller_Stop Idempotency_Props
begin

text \<open>
  A verification library for an asynchronous job service written in Go: an HTTP API accepts jobs, a
  worker polls an outbox table, queues a task per event in Redis (Asynq), and POSTs the payload of
  each job to the webhook its owner has named.

  \<^bold>\<open>The program and its model.\<close> One theory models one part; the definitions keep the names of the Go
  code, and each of them is a branch by branch translation of the function it is named after.

    \<^item> \<open>World\<close>: the state all parts share. \<open>tables\<close> holds the rows of the four tables of \<^verbatim>\<open>migrations/\<close> as the
      records of \<^verbatim>\<open>db/store.go\<close>; \<open>world\<close> adds the task queue (\<open>redis\<close>, its tasks with the number of retries
      they were enqueued with), the log of webhook requests
      (\<open>posts\<close>) and \<open>tick\<close>, the number of interactions with the outside. An \<open>env\<close> answers the interaction at
      each tick: the outcome of a database round trip, a drawn UUID, a clock, a random number, a
      webhook reply, the order in which a query meets the rows. A theorem about every \<open>env\<close> is a theorem
      about every schedule of failures.
    \<^item> \<open>Store\<close>: \<^verbatim>\<open>db/store.go\<close>. Each SQL statement is a function on \<open>tables\<close> (\<open>sql_...\<close>), with the constraints
      of the schema as errors; each method runs its statements in auto-commit (\<open>auto_stmt\<close>) or in a
      transaction (\<open>BeginTx\<close>, \<open>tx_stmt\<close>, \<open>Commit\<close>). \<open>CreateJobWithIdempotency\<close> is written as its two halves.
      The order of rows that \<^verbatim>\<open>ORDER BY\<close> leaves tied is open in each execution (\<open>scanned\<close>).
    \<^item> \<open>Idempotency\<close>: \<^verbatim>\<open>service/idempotency.go\<close> and \<^verbatim>\<open>service/job_payload.go\<close>; \<open>Sha256\<close> is the hash itself.
    \<^item> \<open>Task\<close>: \<^verbatim>\<open>service/task.go\<close>. \<open>Processor\<close>: \<^verbatim>\<open>service/processor.go\<close>. \<open>Outbox_Poller\<close>:
      \<^verbatim>\<open>service/outbox_poller.go\<close>, with the option \<^verbatim>\<open>asynq.MaxRetry(0)\<close> of the tasks it enqueues.
    \<^item> \<open>Token\<close>: \<^verbatim>\<open>service/token.go\<close> and \<^verbatim>\<open>service/auth.go\<close>. \<open>Http\<close>: requests, responses, and
      \<^verbatim>\<open>middleware/\<close>. \<open>Handlers\<close>: \<^verbatim>\<open>handler/routes.go\<close>, every handler and the route table (\<open>serve\<close>).
    \<^item> \<open>Startup\<close>: \<^verbatim>\<open>db/open.go\<close>, \<^verbatim>\<open>db/migrate.go\<close>, \<^verbatim>\<open>cmd/main.go\<close>, \<^verbatim>\<open>cmd/worker/main.go\<close> and
      the answer of \<^verbatim>\<open>cmd/webhook/main.go\<close>.
    \<^item> \<open>Api_Docs\<close>: \<^verbatim>\<open>docs/docs.go\<close>, the OpenAPI document the program carries, as a JSON tree.
    \<^item> \<open>Base\<close>, \<open>Go_Strings\<close>, \<open>Json_String\<close>, \<open>Json\<close>, \<open>Go_Values\<close>, \<open>Go_Decode\<close>: the prelude and what the program
      uses of Go's standard library: 64-bit integers, \<^verbatim>\<open>strconv\<close>, \<^verbatim>\<open>strings\<close>, and \<^verbatim>\<open>encoding/json\<close>, as a
      printer, a parser and the decoding into structs. Strings are bytes.

  \<^bold>\<open>How the parts interact.\<close> The handlers and the poller call the store, the processor calls the store
  and the webhook, the poller and the processor meet in the queue; everything else goes through
  \<open>tables\<close>. \<open>System\<close> puts requests, polls, deliveries, and processes that stop half-way into one step
  relation.

  \<^bold>\<open>Specifications and lemmas.\<close>

    \<^item> \<open>Db_Steps\<close> is the abstract specification of the database: \<open>db_step\<close> has one rule per unit of work the
      program commits. \<open>db_invariant\<close> is the interface of an invariant of these steps; it is interpreted
      for the schema (\<open>schema_ok\<close>), for the links between tables (\<open>db_ok\<close>, \<open>Db_Links\<close>) and for the form of
      identifiers (\<open>ids_ok\<close>). \<open>row_table\<close> (\<open>Base\<close>) is the interface of a table, interpreted for the tables of
      the store; \<open>text_code\<close> (\<open>Json\<close>) is that of a text format, interpreted for JSON strings and values.
    \<^item> \<open>Store_Facts\<close>, \<open>Refinement\<close>, \<open>Worker_Runs\<close>, \<open>Poller_Runs\<close>, \<open>Handler_Runs\<close>: the outcomes of each operation under
      every schedule of failures, as elimination rules (\<open>..._run\<close>), and that each operation refines the
      specification (\<open>..._steps\<close>).
    \<^item> \<open>Store_Props\<close>, \<open>Worker_Props\<close>, \<open>Poller_Props\<close>, \<open>Poller_Stop\<close>, \<open>Handler_Props\<close>, \<open>Handler_Flows\<close>,
      \<open>Handler_Responses\<close>, \<open>Api_Docs_Props\<close>, \<open>Idempotency_Props\<close>, \<open>Startup_Props\<close>, \<open>Token\<close>: the properties of the components.
    \<^item> \<open>System\<close>, \<open>Interleaving\<close>, \<open>End_To_End\<close>, \<open>Give_Up\<close> and \<open>Stuck\<close>: those that span them. \<open>system_step\<close> has one step per operation,
      \<open>part_step\<close> one per transaction, with the work that is half done in a multiset; everything reachable
      keeps the invariants. \<open>End_To_End\<close> follows one job from its request to its result, \<open>Give_Up\<close>
      one whose webhook always refuses through its rounds of polls and deliveries to its failure, \<open>Stuck\<close> one
      whose result cannot be stored and that stays \<open>running\<close>.
    \<^item> \<open>Demo\<close>, \<open>Demo_Libs\<close>, \<open>Demo_Http\<close>: a concrete environment, database, JWT and bcrypt library and requests, on
      which \<open>Handler_Witnesses\<close>, \<open>System_Witnesses\<close> and the last sections of the other theories apply the
      properties.

  \<^bold>\<open>Hypotheses.\<close> \<open>env_ok\<close>: drawn UUIDs are canonical, stored values read back unchanged, \<^verbatim>\<open>text\<close> takes
  well-formed UTF-8 without zero bytes. \<open>healthy\<close>: no database round trip fails. \<open>live\<close>: no cancellation
  and no simulated failure. \<open>libs_ok\<close>: what the JWT and bcrypt packages document. All are satisfied by the
  demonstration values.

  \<^bold>\<open>Bounds and fuel.\<close> The JSON parser takes fuel: the length of the text and one more, proved enough
  (\<open>pvalue_fuel\<close>), and refuses nesting beyond 10000 levels as Go does. \<open>poller\<close> and \<open>run_pollers\<close> take a number
  or a list of rounds, since the loops end only with their context; \<open>pollers_stop\<close> shows that they then do.

  \<^bold>\<open>Not modelled.\<close> What loggers print, the length of the sleep and of the poll interval, and the timeout
  of the HTTP client have no effect on the state. Of Asynq, \<open>carry_out\<close> in \<open>Give_Up\<close> states what it documents of
  \<^verbatim>\<open>MaxRetry\<close>, and \<open>system_step\<close> allows every number of deliveries. The HTTP server, the router's matching, the rendering
  of the API document and the Swagger UI, the Asynq server and the signal handling are library code;
  the model starts from the route found and the task delivered. A transaction is atomic (\<open>Interleaving\<close>
  mixes whole transactions); that two of them overlap is treated only for two creations of one job, in
  \<open>concurrent_create_fails\<close>. A failed rollback has no effect of its own and is left out.
\<close>

end
